(* ===== verification/Py_Prelude.thy ===== *)
theory Py_Prelude
  imports Main "HOL-Library.AList" "HOL-Library.Char_ord" "HOL-Library.List_Lexorder"
begin

text \<open>
  The Python 2 substrate shared by every component of the development: the exceptions the
  programs raise and catch, results with exceptions, a state-and-exception monad for code
  with side effects, and the parts of the language and of its built-in types that the sources
  use (\<open>str.split\<close>, \<open>str.join\<close>, \<open>int(s)\<close>, \<open>int(s, 0)\<close>, \<open>str(n)\<close>,
  \<open>dict\<close> and \<open>list\<close> indexing). A Python 2 \<open>str\<close> is a string of bytes, so it is
  a \<^typ>\<open>string\<close>; a \<open>dict\<close> is an association list with at most one binding
  per key; Python integers are \<^typ>\<open>int\<close>.
\<close>

named_theorems io_simps "unfolding rules of the state-and-exception monad"
named_theorems py_simps "evaluation rules of the Python built-ins"

section \<open>Exceptions and results\<close>

text \<open>
  The exception classes of \<^verbatim>\<open>runtime_CLI.py\<close> and \<^verbatim>\<open>p4dbg.py\<close>, the Thrift
  exceptions the generated client stubs raise (with their error code), and the built-in
  exceptions that the code can run into. \<open>OutOfFuel\<close> is no exception of the program: a loop
  that may run for ever is given a number of rounds, and this is its outcome when they are used up;
  no handler catches it.
\<close>

datatype py_exn =
    UIn_Error string
  | UIn_ResourceError string string
  | UIn_MatchKeyError string
  | UIn_RuntimeDataError string
  | CLI_FormatExploreError
  | UIn_BadParamError string
  | UIn_BadIPv4Error
  | UIn_BadIPv6Error
  | UIn_BadMacError
  | UIn_Warning string
  | InvalidTableOperation int
  | InvalidCounterOperation int
  | InvalidMeterOperation int
  | InvalidRegisterOperation int
  | InvalidLearnOperation int
  | InvalidSwapOperation int
  | InvalidDevMgrOperation int
  | InvalidCrcOperation int
  | InvalidMcOperation int
  | TransportError
  | TApplicationException int string
  | ValueError
  | TypeError
  | IndexError
  | KeyError
  | UnboundLocalError
  | AttributeError
  | NameError
  | AssertionError
  | StructError
  | IOError
  | EOFError
  | KeyboardInterrupt
  | SystemExit int
  | OutOfFuel

type_synonym 'a res = "py_exn + 'a"

definition res_bind :: "'a res \<Rightarrow> ('a \<Rightarrow> 'b res) \<Rightarrow> 'b res" where
  "res_bind m f = (case m of Inl e \<Rightarrow> Inl e | Inr a \<Rightarrow> f a)"

lemma res_bind_simps [simp]:
  "res_bind (Inl e) f = Inl e"
  "res_bind (Inr a) f = f a"
  by (simp_all add: res_bind_def)

lemma res_bind_Inr_iff:
  "res_bind m f = Inr b \<longleftrightarrow> (\<exists>a. m = Inr a \<and> f a = Inr b)"
  by (cases m) auto

lemma res_bind_Inl_iff:
  "res_bind m f = Inl e \<longleftrightarrow> m = Inl e \<or> (\<exists>a. m = Inr a \<and> f a = Inl e)"
  by (cases m) auto

lemma res_bind_assoc: "res_bind (res_bind m f) g = res_bind m (\<lambda>a. res_bind (f a) g)"
  by (cases m) auto

text \<open>\<open>or_raise e x\<close> is the value of a partial operation that raises \<open>e\<close> where it
  is undefined.\<close>

definition or_raise :: "py_exn \<Rightarrow> 'a option \<Rightarrow> 'a res" where
  "or_raise e x = (case x of None \<Rightarrow> Inl e | Some a \<Rightarrow> Inr a)"

lemma or_raise_simps [simp]:
  "or_raise e None = Inl e"
  "or_raise e (Some a) = Inr a"
  by (simp_all add: or_raise_def)

lemma or_raise_Inr_iff [simp]: "or_raise e x = Inr a \<longleftrightarrow> x = Some a"
  by (cases x) auto

lemma or_raise_Inl_iff [simp]: "or_raise e x = Inl e' \<longleftrightarrow> x = None \<and> e' = e"
  by (cases x) auto

text \<open>A list comprehension whose element expression may raise: left to right, stopping at the
  first exception.\<close>

fun res_map :: "('a \<Rightarrow> 'b res) \<Rightarrow> 'a list \<Rightarrow> 'b list res" where
  "res_map f [] = Inr []"
| "res_map f (x # xs) = res_bind (f x) (\<lambda>y. res_bind (res_map f xs) (\<lambda>ys. Inr (y # ys)))"

lemma res_map_Inr_iff:
  "res_map f xs = Inr ys \<longleftrightarrow> list_all2 (\<lambda>x y. f x = Inr y) xs ys"
  by (induction xs arbitrary: ys) (auto simp: res_bind_Inr_iff list_all2_Cons1)

lemma res_map_Inr_length: "res_map f xs = Inr ys \<Longrightarrow> length ys = length xs"
  by (auto simp: res_map_Inr_iff dest: list_all2_lengthD)

lemma res_map_Inr_map: "(\<And>x. x \<in> set xs \<Longrightarrow> f x = Inr (g x)) \<Longrightarrow> res_map f xs = Inr (map g xs)"
  by (induction xs) auto

lemma res_map_Inl_ex:
  "res_map f xs = Inl e \<Longrightarrow> \<exists>x \<in> set xs. f x = Inl e"
  by (induction xs) (auto simp: res_bind_Inl_iff)

section \<open>State and exceptions\<close>

text \<open>A statement that may change the state and may raise: on an exception the state changes
  made before it stay.\<close>

type_synonym ('w, 'a) io = "'w \<Rightarrow> 'a res \<times> 'w"

definition io_ret :: "'a \<Rightarrow> ('w, 'a) io" where
  "io_ret a = (\<lambda>w. (Inr a, w))"

definition io_raise :: "py_exn \<Rightarrow> ('w, 'a) io" where
  "io_raise e = (\<lambda>w. (Inl e, w))"

definition io_lift :: "'a res \<Rightarrow> ('w, 'a) io" where
  "io_lift r = (\<lambda>w. (r, w))"

definition io_bind :: "('w, 'a) io \<Rightarrow> ('a \<Rightarrow> ('w, 'b) io) \<Rightarrow> ('w, 'b) io" where
  "io_bind m f = (\<lambda>w. case m w of (Inl e, w') \<Rightarrow> (Inl e, w') | (Inr a, w') \<Rightarrow> f a w')"

definition io_then :: "('w, unit) io \<Rightarrow> ('w, 'b) io \<Rightarrow> ('w, 'b) io" where
  "io_then m n = io_bind m (\<lambda>_. n)"

definition io_modify :: "('w \<Rightarrow> 'w) \<Rightarrow> ('w, unit) io" where
  "io_modify f = (\<lambda>w. (Inr (), f w))"

definition io_gets :: "('w \<Rightarrow> 'a) \<Rightarrow> ('w, 'a) io" where
  "io_gets f = (\<lambda>w. (Inr (f w), w))"

text \<open>\<open>try: m  except e: h e\<close>, where \<open>h\<close> re-raises what it does not handle.\<close>

definition io_catch :: "('w, 'a) io \<Rightarrow> (py_exn \<Rightarrow> ('w, 'a) io) \<Rightarrow> ('w, 'a) io" where
  "io_catch m h = (\<lambda>w. case m w of (Inl e, w') \<Rightarrow> h e w' | (Inr a, w') \<Rightarrow> (Inr a, w'))"

text \<open>\<open>for x in xs: f x\<close>\<close>

fun io_for :: "'a list \<Rightarrow> ('a \<Rightarrow> ('w, unit) io) \<Rightarrow> ('w, unit) io" where
  "io_for [] f = io_ret ()"
| "io_for (x # xs) f = io_then (f x) (io_for xs f)"

text \<open>A loop that carries the value of a local variable from one iteration to the next.\<close>

fun io_fold :: "'a list \<Rightarrow> 'b \<Rightarrow> ('a \<Rightarrow> 'b \<Rightarrow> ('w, 'b) io) \<Rightarrow> ('w, 'b) io" where
  "io_fold [] b f = io_ret b"
| "io_fold (x # xs) b f = io_bind (f x b) (\<lambda>b'. io_fold xs b' f)"

lemma io_bind_apply [io_simps]:
  "io_bind m f w = (case m w of (Inl e, w') \<Rightarrow> (Inl e, w') | (Inr a, w') \<Rightarrow> f a w')"
  by (simp add: io_bind_def)

lemma io_then_apply [io_simps]:
  "io_then m n w = (case m w of (Inl e, w') \<Rightarrow> (Inl e, w') | (Inr a, w') \<Rightarrow> n w')"
  by (simp add: io_then_def io_bind_def)

lemma io_atom_apply [io_simps]:
  "io_ret a w = (Inr a, w)"
  "io_raise e w = (Inl e, w)"
  "io_lift r w = (r, w)"
  "io_modify f w = (Inr (), f w)"
  "io_gets g w = (Inr (g w), w)"
  by (simp_all add: io_ret_def io_raise_def io_lift_def io_modify_def io_gets_def)

lemma io_catch_apply [io_simps]:
  "io_catch m h w = (case m w of (Inl e, w') \<Rightarrow> h e w' | (Inr a, w') \<Rightarrow> (Inr a, w'))"
  by (simp add: io_catch_def)

lemma io_bind_Inr_iff:
  "io_bind m f w = (Inr b, w') \<longleftrightarrow> (\<exists>a w1. m w = (Inr a, w1) \<and> f a w1 = (Inr b, w'))"
  by (auto simp: io_bind_def split: prod.split sum.split)

lemma io_then_Inr_iff:
  "io_then m n w = (Inr b, w') \<longleftrightarrow> (\<exists>w1. m w = (Inr (), w1) \<and> n w1 = (Inr b, w'))"
  by (auto simp: io_then_def io_bind_Inr_iff)

lemma io_bind_assoc: "io_bind (io_bind m f) g = io_bind m (\<lambda>a. io_bind (f a) g)"
  by (auto simp: io_simps fun_eq_iff split: prod.split sum.split)

text \<open>A relation between states that is reflexive, transitive and kept by every primitive action
  is kept by every program built from the combinators: the frame rule of the monad.\<close>

definition io_keeps :: "('w \<Rightarrow> 'w \<Rightarrow> bool) \<Rightarrow> ('w, 'a) io \<Rightarrow> bool" where
  "io_keeps R m \<longleftrightarrow> (\<forall>w. R w (snd (m w)))"

lemma io_keepsI: "(\<And>w. R w (snd (m w))) \<Longrightarrow> io_keeps R m"
  by (simp add: io_keeps_def)

lemma io_keepsD: "io_keeps R m \<Longrightarrow> m w = (r, w') \<Longrightarrow> R w w'"
  unfolding io_keeps_def by (metis snd_conv)

locale io_frame =
  fixes R :: "'w \<Rightarrow> 'w \<Rightarrow> bool"
  assumes frame_refl: "R w w"
    and frame_trans: "R u v \<Longrightarrow> R v w \<Longrightarrow> R u w"
begin

lemma keeps_ret: "io_keeps R (io_ret a)"
  by (simp add: io_keeps_def io_simps frame_refl)

lemma keeps_raise: "io_keeps R (io_raise e)"
  by (simp add: io_keeps_def io_simps frame_refl)

lemma keeps_lift: "io_keeps R (io_lift r)"
  by (simp add: io_keeps_def io_simps frame_refl)

lemma keeps_gets: "io_keeps R (io_gets f)"
  by (simp add: io_keeps_def io_simps frame_refl)

lemma keeps_bind:
  assumes "io_keeps R m" and "\<And>a. io_keeps R (f a)"
  shows "io_keeps R (io_bind m f)"
proof (rule io_keepsI)
  fix w
  obtain r w' where m: "m w = (r, w')" by fastforce
  then have 1: "R w w'" using assms(1) by (rule io_keepsD [rotated])
  show "R w (snd (io_bind m f w))"
  proof (cases r)
    case Inl
    then show ?thesis using m 1 by (simp add: io_simps)
  next
    case (Inr a)
    have "R w' (snd (f a w'))" using assms(2) [of a] by (simp add: io_keeps_def)
    then show ?thesis using m Inr 1 by (auto simp: io_simps intro: frame_trans)
  qed
qed

lemma keeps_then: "io_keeps R m \<Longrightarrow> io_keeps R n \<Longrightarrow> io_keeps R (io_then m n)"
  unfolding io_then_def by (rule keeps_bind)

lemma keeps_catch:
  assumes "io_keeps R m" and "\<And>e. io_keeps R (h e)"
  shows "io_keeps R (io_catch m h)"
proof (rule io_keepsI)
  fix w
  obtain r w' where m: "m w = (r, w')" by fastforce
  then have 1: "R w w'" using assms(1) by (rule io_keepsD [rotated])
  show "R w (snd (io_catch m h w))"
  proof (cases r)
    case (Inl e)
    have "R w' (snd (h e w'))" using assms(2) [of e] by (simp add: io_keeps_def)
    then show ?thesis using m Inl 1 by (auto simp: io_simps intro: frame_trans)
  next
    case (Inr a)
    then show ?thesis using m 1 by (simp add: io_simps)
  qed
qed

lemma keeps_for: "(\<And>x. x \<in> set xs \<Longrightarrow> io_keeps R (f x)) \<Longrightarrow> io_keeps R (io_for xs f)"
  by (induction xs) (simp_all add: keeps_ret keeps_then)

lemma keeps_fold: "(\<And>x b. io_keeps R (f x b)) \<Longrightarrow> io_keeps R (io_fold xs b f)"
  by (induction xs arbitrary: b) (simp_all add: keeps_ret keeps_bind)

lemmas keeps_intros = keeps_ret keeps_raise keeps_lift keeps_gets keeps_bind keeps_then
  keeps_catch keeps_for keeps_fold

end

end
