(* ===== verification/Py_Str.thy ===== *)
theory Py_Str
  imports Py_Prelude
begin

text \<open>
  The string operations and number conversions of Python 2 that the sources call, with the
  lemmas the components use: splitting, joining, decimal printing, and the integer literals
  accepted by \<open>int(s)\<close>, \<open>int(s, 16)\<close> and \<open>int(s, 0)\<close>. The accepted literals follow
  CPython's \<open>PyInt_FromString\<close>: surrounding white space, a sign, a base prefix where the base
  allows one, digits; with base 0 a leading \<open>0\<close> means octal, and a literal of at least 63 bits
  that starts with \<open>0\<close> is handed to the long parser, which also takes a final \<open>L\<close>.
\<close>

section \<open>White space, split and join\<close>

definition is_space :: "char \<Rightarrow> bool" where
  "is_space c \<longleftrightarrow> of_char c \<in> {9::nat, 10, 11, 12, 13, 32}"

lemma is_space_space [simp]: "is_space (CHR '' '')"
  by (simp add: is_space_def)

definition no_space :: "string \<Rightarrow> bool" where
  "no_space s \<longleftrightarrow> (\<forall>c \<in> set s. \<not> is_space c)"

text \<open>\<open>s.split()\<close>: \<open>cur\<close> is the token being read, in reverse.\<close>

fun split_from :: "string \<Rightarrow> string \<Rightarrow> string list" where
  "split_from cur [] = (if cur = [] then [] else [rev cur])"
| "split_from cur (c # cs) =
     (if is_space c then (if cur = [] then [] else [rev cur]) @ split_from [] cs
      else split_from (c # cur) cs)"

definition py_split :: "string \<Rightarrow> string list" where
  "py_split s = split_from [] s"

lemma split_from_append_space:
  "is_space c \<Longrightarrow> split_from cur (s @ c # t) = split_from cur s @ split_from [] t"
  by (induction cur s rule: split_from.induct) auto

lemma py_split_Nil [simp]: "py_split [] = []"
  by (simp add: py_split_def)

lemma py_split_space: "py_split (s @ CHR '' '' # t) = py_split s @ py_split t"
  by (simp add: py_split_def split_from_append_space)

lemma split_from_no_space:
  "no_space s \<Longrightarrow> split_from cur s = (if cur = [] \<and> s = [] then [] else [rev cur @ s])"
  by (induction cur s rule: split_from.induct) (auto simp: no_space_def)

lemma py_split_token [simp]: "no_space s \<Longrightarrow> s \<noteq> [] \<Longrightarrow> py_split s = [s]"
  by (simp add: py_split_def split_from_no_space)

lemma py_split_token_space:
  "no_space s \<Longrightarrow> s \<noteq> [] \<Longrightarrow> py_split (s @ CHR '' '' # t) = s # py_split t"
  by (simp add: py_split_space)

lemma split_from_tokens:
  "no_space cur \<Longrightarrow> \<forall>t \<in> set (split_from cur s). t \<noteq> [] \<and> no_space t"
proof (induction s arbitrary: cur)
  case Nil
  then show ?case by (simp add: no_space_def)
next
  case (Cons c cs)
  show ?case
  proof (cases "is_space c")
    case True
    have "\<forall>t \<in> set (split_from [] cs). t \<noteq> [] \<and> no_space t"
      by (rule Cons.IH) (simp add: no_space_def)
    moreover have "no_space (rev cur)" using Cons.prems by (simp add: no_space_def)
    ultimately show ?thesis using True by auto
  next
    case False
    then have "no_space (c # cur)" using Cons.prems by (simp add: no_space_def)
    with False show ?thesis using Cons.IH [of "c # cur"] by simp
  qed
qed

lemma py_split_tokens: "t \<in> set (py_split s) \<Longrightarrow> t \<noteq> [] \<and> no_space t"
  using split_from_tokens [of "[]" s] by (simp add: py_split_def no_space_def)

text \<open>\<open>sep.join(xs)\<close>\<close>

fun py_join :: "string \<Rightarrow> string list \<Rightarrow> string" where
  "py_join sep [] = []"
| "py_join sep [x] = x"
| "py_join sep (x # y # ys) = x @ sep @ py_join sep (y # ys)"

lemma py_split_join:
  "\<forall>t \<in> set ts. t \<noteq> [] \<and> no_space t \<Longrightarrow> py_split (py_join '' '' ts) = ts"
  by (induction "'' ''" ts rule: py_join.induct) (auto simp: py_split_token_space)

text \<open>\<open>s.split(sep)\<close> for a non-empty separator: the pieces between the non-overlapping
  occurrences of \<open>sep\<close>, found from the left.\<close>

fun starts_with :: "string \<Rightarrow> string \<Rightarrow> bool" where
  "starts_with [] s = True"
| "starts_with (p # ps) [] = False"
| "starts_with (p # ps) (c # cs) = (p = c \<and> starts_with ps cs)"

lemma starts_with_iff: "starts_with p s \<longleftrightarrow> (\<exists>t. s = p @ t)"
  by (induction p s rule: starts_with.induct) auto

function split_sep_from :: "string \<Rightarrow> string \<Rightarrow> string \<Rightarrow> string list" where
  "split_sep_from sep cur [] = [rev cur]"
| "split_sep_from sep cur (c # cs) =
     (if sep \<noteq> [] \<and> starts_with sep (c # cs)
      then rev cur # split_sep_from sep [] (drop (length sep) (c # cs))
      else split_sep_from sep (c # cur) cs)"
  by pat_completeness auto
termination
  by (relation "measure (\<lambda>(sep, cur, s). length s)") auto

definition py_split_sep :: "string \<Rightarrow> string \<Rightarrow> string list" where
  "py_split_sep sep s = split_sep_from sep [] s"

lemma split_sep_from_single:
  "d \<notin> set s \<Longrightarrow> split_sep_from [d] cur s = [rev cur @ s]"
  "d \<notin> set s \<Longrightarrow> split_sep_from [d] cur (s @ d # t) = (rev cur @ s) # split_sep_from [d] [] t"
  by (induction s arbitrary: cur) auto

lemma py_split_sep_single_none: "d \<notin> set s \<Longrightarrow> py_split_sep [d] s = [s]"
  by (simp add: py_split_sep_def split_sep_from_single)

lemma py_split_sep_single_cons:
  "d \<notin> set s \<Longrightarrow> py_split_sep [d] (s @ d # t) = s # py_split_sep [d] t"
  by (simp add: py_split_sep_def split_sep_from_single)

lemma py_split_sep_join:
  "xs \<noteq> [] \<Longrightarrow> \<forall>x \<in> set xs. d \<notin> set x \<Longrightarrow> py_split_sep [d] (py_join [d] xs) = xs"
proof (induction "[d]" xs rule: py_join.induct)
  case 1
  then show ?case by simp
next
  case (2 x)
  then show ?case by (simp add: py_split_sep_single_none)
next
  case (3 x y ys)
  then show ?case by (simp add: py_split_sep_single_cons)
qed

text \<open>\<open>a, b = xs\<close>\<close>

definition unpack2 :: "'a list \<Rightarrow> ('a \<times> 'a) res" where
  "unpack2 xs = (case xs of [a, b] \<Rightarrow> Inr (a, b) | _ \<Rightarrow> Inl ValueError)"

lemma unpack2_Inr_iff [simp]: "unpack2 xs = Inr p \<longleftrightarrow> xs = [fst p, snd p]"
  by (cases p) (auto simp: unpack2_def split: list.splits)

text \<open>\<open>xs[i]\<close> for a list and a non-negative index\<close>

definition py_nth :: "'a list \<Rightarrow> nat \<Rightarrow> 'a res" where
  "py_nth xs i = (if i < length xs then Inr (xs ! i) else Inl IndexError)"

text \<open>\<open>s.ljust\<close> as used by \<open>"{0:30}".format(s)\<close>, and centring as in
  \<open>"{:^10}".format(s)\<close> (the extra blank goes to the right).\<close>

definition ljust :: "nat \<Rightarrow> string \<Rightarrow> string" where
  "ljust n s = s @ replicate (n - length s) (CHR '' '')"

definition center :: "nat \<Rightarrow> string \<Rightarrow> string" where
  "center n s =
     (let pad = n - length s; left = pad div 2
      in replicate left (CHR '' '') @ s @ replicate (pad - left) (CHR '' ''))"

section \<open>Digits and numerals\<close>

definition digit_char :: "nat \<Rightarrow> char" where
  "digit_char d = char_of (if d < 10 then 48 + d else 87 + d)"

text \<open>The value of a digit in any base; \<open>37\<close> for a character that is no digit.\<close>

definition digit_val :: "char \<Rightarrow> nat" where
  "digit_val c =
     (let n = of_char c :: nat
      in if 48 \<le> n \<and> n \<le> 57 then n - 48
         else if 97 \<le> n \<and> n \<le> 122 then n - 87
         else if 65 \<le> n \<and> n \<le> 90 then n - 55
         else 37)"

lemma of_char_digit_char: "d < 36 \<Longrightarrow> of_char (digit_char d) = (if d < 10 then 48 + d else 87 + d)"
  by (simp add: digit_char_def of_char_of take_bit_nat_eq_self)

lemma digit_val_digit_char [simp]: "d < 36 \<Longrightarrow> digit_val (digit_char d) = d"
  by (auto simp: digit_val_def of_char_digit_char Let_def)

lemma digit_val_space: "is_space c \<Longrightarrow> digit_val c = 37"
  by (auto simp: is_space_def digit_val_def)

lemma digit_char_no_space [simp]: "d < 36 \<Longrightarrow> \<not> is_space (digit_char d)"
  using digit_val_space [of "digit_char d"] by auto

text \<open>\<open>str(n)\<close> and \<open>"%x"\<close> for a natural number\<close>

fun show_base :: "nat \<Rightarrow> nat \<Rightarrow> string" where
  "show_base b n =
     (if n < b \<or> b < 2 then [digit_char n] else show_base b (n div b) @ [digit_char (n mod b)])"

declare show_base.simps [simp del]

abbreviation show_nat :: "nat \<Rightarrow> string" where
  "show_nat \<equiv> show_base 10"

definition show_int :: "int \<Rightarrow> string" where
  "show_int i = (if i < 0 then CHR ''-'' # show_nat (nat (- i)) else show_nat (nat i))"

text \<open>\<open>"{:02x}".format(ord(c))\<close>\<close>

definition hex2 :: "char \<Rightarrow> string" where
  "hex2 c = [digit_char (of_char c div 16), digit_char (of_char c mod 16)]"

text \<open>\<open>hex(i)\<close>\<close>

definition py_hex :: "int \<Rightarrow> string" where
  "py_hex i = (if i < 0 then ''-0x'' @ show_base 16 (nat (- i)) else ''0x'' @ show_base 16 (nat i))"

text \<open>The digits of a numeral: not empty, each below the base.\<close>

definition nat_literal :: "nat \<Rightarrow> string \<Rightarrow> nat option" where
  "nat_literal b s =
     (if s \<noteq> [] \<and> list_all (\<lambda>c. digit_val c < b) s
      then Some (foldl (\<lambda>n c. n * b + digit_val c) 0 s) else None)"

lemma show_base_not_Nil [simp]: "show_base b n \<noteq> []"
  by (subst show_base.simps) simp

lemma show_base_digits:
  assumes "2 \<le> b" "b \<le> 36"
  shows "\<forall>c \<in> set (show_base b n). \<exists>d < b. c = digit_char d"
  using assms
proof (induction b n rule: show_base.induct)
  case (1 b n)
  then show ?case
    by (cases "n < b") (auto simp: show_base.simps [of b n] intro!: exI [of _ "n mod b"])
qed

lemma show_base_value:
  assumes "2 \<le> b" "b \<le> 36"
  shows "foldl (\<lambda>n c. n * b + digit_val c) 0 (show_base b n) = n"
  using assms
proof (induction b n rule: show_base.induct)
  case (1 b n)
  show ?case
  proof (cases "n < b")
    case True
    then show ?thesis using 1 by (simp add: show_base.simps [of b n])
  next
    case False
    have "n mod b < b" using 1 by simp
    then have "n mod b < 36" using 1 by linarith
    then show ?thesis using 1 False by (simp add: show_base.simps [of b n])
  qed
qed

lemma nat_literal_show_base:
  assumes "2 \<le> b" "b \<le> 36"
  shows "nat_literal b (show_base b n) = Some n"
proof -
  have "list_all (\<lambda>c. digit_val c < b) (show_base b n)"
    using show_base_digits [OF assms, of n] assms by (auto simp: list_all_iff)
  then show ?thesis by (simp add: nat_literal_def show_base_value [OF assms])
qed

lemma show_base_no_space: "2 \<le> b \<Longrightarrow> b \<le> 36 \<Longrightarrow> no_space (show_base b n)"
  using show_base_digits [of b n] by (auto simp: no_space_def)

section \<open>Integer literals\<close>

definition strip :: "string \<Rightarrow> string" where
  "strip s = rev (dropWhile is_space (rev (dropWhile is_space s)))"

definition signed_literal :: "(string \<Rightarrow> nat option) \<Rightarrow> string \<Rightarrow> int option" where
  "signed_literal p s =
     (case s of
        [] \<Rightarrow> None
      | c # cs \<Rightarrow>
          if c = CHR ''-'' then map_option (\<lambda>n. - int n) (p (dropWhile is_space cs))
          else if c = CHR ''+'' then map_option int (p (dropWhile is_space cs))
          else map_option int (p s))"

definition hex_literal :: "string \<Rightarrow> nat option" where
  "hex_literal s =
     (case s of
        z # x # cs \<Rightarrow> if z = CHR ''0'' \<and> x \<in> {CHR ''x'', CHR ''X''} then nat_literal 16 cs
                     else nat_literal 16 s
      | _ \<Rightarrow> nat_literal 16 s)"

definition base0_literal :: "string \<Rightarrow> nat option" where
  "base0_literal s =
     (case s of
        z # x # cs \<Rightarrow>
          if z \<noteq> CHR ''0'' then nat_literal 10 s
          else if x \<in> {CHR ''x'', CHR ''X''} then nat_literal 16 cs
          else if x \<in> {CHR ''o'', CHR ''O''} then nat_literal 8 cs
          else if x \<in> {CHR ''b'', CHR ''B''} then nat_literal 2 cs
          else nat_literal 8 (x # cs)
      | _ \<Rightarrow> nat_literal 10 s)"

text \<open>\<open>int(s)\<close>, \<open>int(s, 16)\<close> and \<open>int(s, 0)\<close>; \<open>None\<close> is a ValueError.\<close>

definition py_int :: "string \<Rightarrow> int option" where
  "py_int s = signed_literal (nat_literal 10) (strip s)"

definition py_int16 :: "string \<Rightarrow> int option" where
  "py_int16 s = signed_literal hex_literal (strip s)"

definition py_int0 :: "string \<Rightarrow> int option" where
  "py_int0 s =
     (let t = strip s
      in if t \<noteq> [] \<and> hd t = CHR ''0'' \<and> last t \<in> {CHR ''l'', CHR ''L''}
         then (case base0_literal (butlast t) of
                 None \<Rightarrow> None
               | Some n \<Rightarrow> if 2 ^ 63 \<le> n then Some (int n) else None)
         else signed_literal base0_literal t)"

lemma dropWhile_no_space: "no_space s \<Longrightarrow> dropWhile is_space s = s"
  by (cases s) (simp_all add: no_space_def)

lemma strip_no_space [simp]: "no_space s \<Longrightarrow> strip s = s"
  using dropWhile_no_space [of s] dropWhile_no_space [of "rev s"]
  by (simp add: strip_def no_space_def)

lemma digit_char_not_sign: "d < 36 \<Longrightarrow> digit_char d \<noteq> CHR ''-'' \<and> digit_char d \<noteq> CHR ''+''"
  using digit_val_digit_char [of d] by (auto simp: digit_val_def)

lemma digit_char_0: "digit_char 0 = CHR ''0''"
  by code_simp

lemma digit_char_0_iff: "d < 36 \<Longrightarrow> digit_char d = CHR ''0'' \<longleftrightarrow> d = 0"
  by (metis digit_char_0 digit_val_digit_char zero_less_numeral)

lemma digit_char_10_not_l: "d < 10 \<Longrightarrow> digit_char d \<noteq> CHR ''l'' \<and> digit_char d \<noteq> CHR ''L''"
  using digit_val_digit_char [of d] by (auto simp: digit_val_def)

lemma show_base_last:
  "2 \<le> b \<Longrightarrow> b \<le> 36 \<Longrightarrow> \<exists>d < b. last (show_base b n) = digit_char d"
  using show_base_digits [of b n] by (meson last_in_set show_base_not_Nil)

lemma show_base_hd:
  assumes "2 \<le> b" "b \<le> 36"
  shows "\<exists>d < b. hd (show_base b n) = digit_char d \<and> (d = 0 \<longrightarrow> n = 0)"
  using assms
proof (induction b n rule: show_base.induct)
  case (1 b n)
  show ?case
  proof (cases "n < b")
    case True
    then show ?thesis by (auto simp: show_base.simps [of b n])
  next
    case False
    moreover have "n div b \<noteq> 0" using False 1 by (simp add: div_eq_0_iff)
    ultimately show ?thesis using 1 by (auto simp: show_base.simps [of b n])
  qed
qed

lemma signed_literal_show_int:
  assumes p: "\<And>n. p (show_nat n) = Some n"
  shows "signed_literal p (show_int i) = Some i"
proof -
  have sgn: "\<exists>c cs. show_nat n = c # cs \<and> c \<noteq> CHR ''-'' \<and> c \<noteq> CHR ''+'' \<and> \<not> is_space c" for n
  proof -
    obtain d where "d < 10" "hd (show_nat n) = digit_char d" using show_base_hd [of 10 n] by auto
    moreover obtain c cs where "show_nat n = c # cs" by (cases "show_nat n") auto
    ultimately show ?thesis using digit_char_not_sign [of d] digit_char_no_space [of d] by auto
  qed
  show ?thesis
  proof (cases "i < 0")
    case True
    obtain c cs where *: "show_nat (nat (- i)) = c # cs" "\<not> is_space c" using sgn by blast
    then have "p (c # cs) = Some (nat (- i))" using p by metis
    then show ?thesis using True * by (simp add: show_int_def signed_literal_def)
  next
    case False
    obtain c cs where *: "show_nat (nat i) = c # cs" "c \<noteq> CHR ''-''" "c \<noteq> CHR ''+''"
      using sgn by blast
    then have "p (c # cs) = Some (nat i)" using p by metis
    then show ?thesis using False * by (simp add: show_int_def signed_literal_def)
  qed
qed

lemma show_int_no_space [simp]: "no_space (show_int i)"
  using show_base_no_space [of 10] by (auto simp: show_int_def no_space_def is_space_def)

lemma show_int_not_Nil [simp]: "show_int i \<noteq> []"
  by (simp add: show_int_def)

lemma base0_literal_no_zero:
  assumes "hd s \<noteq> CHR ''0''"
  shows "base0_literal s = nat_literal 10 s"
proof (cases s)
  case Nil
  then show ?thesis by (simp add: base0_literal_def)
next
  case (Cons c cs)
  then show ?thesis using assms by (cases cs) (simp_all add: base0_literal_def)
qed

lemma base0_literal_show_nat: "base0_literal (show_nat n) = Some n"
proof (cases "n = 0")
  case True
  then have "show_nat n = [digit_char 0]" by (simp add: show_base.simps)
  then show ?thesis
    by (simp add: base0_literal_def nat_literal_def True)
next
  case False
  obtain d where "d < 10" "hd (show_nat n) = digit_char d" "d = 0 \<longrightarrow> n = 0"
    using show_base_hd [of 10 n] by auto
  then have "hd (show_nat n) \<noteq> CHR ''0''" using False digit_char_0_iff [of d] by auto
  then show ?thesis by (simp add: base0_literal_no_zero nat_literal_show_base)
qed

lemma py_int_show_int [simp]: "py_int (show_int i) = Some i"
  by (simp add: py_int_def signed_literal_show_int nat_literal_show_base)

lemma py_int0_show_int [simp]: "py_int0 (show_int i) = Some i"
proof -
  have "last (show_int i) \<notin> {CHR ''l'', CHR ''L''}"
  proof -
    have "\<exists>d < 10. last (show_nat n) = digit_char d" for n by (rule show_base_last) simp_all
    then have "last (show_nat n) \<notin> {CHR ''l'', CHR ''L''}" for n
      using digit_char_10_not_l by (metis insertE singletonD)
    then show ?thesis by (simp add: show_int_def)
  qed
  then show ?thesis
    by (simp add: py_int0_def Let_def signed_literal_show_int base0_literal_show_nat)
qed

text \<open>Evaluation of literals by rewriting.\<close>

lemmas literal_defs [py_simps] = py_int_def py_int0_def py_int16_def signed_literal_def
  base0_literal_def hex_literal_def nat_literal_def digit_val_def strip_def is_space_def Let_def

end
