(* ===== verification/Param_Codec.thy ===== *)
theory Param_Codec
  imports Py_Str
begin

text \<open>
  The parameter codecs of \<^verbatim>\<open>tools/runtime_CLI.py\<close>: how the text a user types becomes the
  byte strings of a table entry, and how the CRC parameters become signed Thrift integers.
  The first part holds the definitions in the order of the source, the second what they compute:
  \<open>int_to_bytes\<close> is the big-endian encoding, \<open>parse_param\<close> always produces the byte length
  of the field, and the 16 and 32 bit conversions are inverse to each other.
\<close>

unbundle bit_operations_syntax

section \<open>Definitions\<close>

text \<open>\<open>struct.pack('B' * n, *byte_array)\<close>\<close>

definition bytes_to_string :: "int list \<Rightarrow> string res" where
  "bytes_to_string byte_array =
     (if list_all (\<lambda>b. 0 \<le> b \<and> b \<le> 255) byte_array
      then Inr (map (\<lambda>b. char_of (nat b)) byte_array) else Inl StructError)"

definition ipv4Addr_to_bytes :: "string \<Rightarrow> int list res" where
  "ipv4Addr_to_bytes addr =
     (if CHR ''.'' \<notin> set addr then Inl CLI_FormatExploreError
      else let s = py_split_sep ''.'' addr
           in if length s \<noteq> 4 then Inl UIn_BadIPv4Error
              else res_map (\<lambda>b. or_raise UIn_BadIPv4Error (py_int b)) s)"

definition macAddr_to_bytes :: "string \<Rightarrow> int list res" where
  "macAddr_to_bytes addr =
     (if CHR '':'' \<notin> set addr then Inl CLI_FormatExploreError
      else let s = py_split_sep '':'' addr
           in if length s \<noteq> 6 then Inl UIn_BadMacError
              else res_map (\<lambda>b. or_raise UIn_BadMacError (py_int16 b)) s)"

text \<open>\<open>ip6 addr\<close> is \<open>IPv6Address(addr).packed\<close> of the third-party package
  \<^verbatim>\<open>ipaddr\<close>, \<open>None\<close> where the constructor raises.\<close>

type_synonym ip6_lib = "string \<Rightarrow> string option"

definition ipv6Addr_to_bytes :: "ip6_lib \<Rightarrow> string \<Rightarrow> int list res" where
  "ipv6Addr_to_bytes ip6 addr =
     (if CHR '':'' \<notin> set addr then Inl CLI_FormatExploreError
      else case ip6 addr of
             None \<Rightarrow> Inl UIn_BadIPv6Error
           | Some packed \<Rightarrow> Inr (map of_char packed))"

text \<open>The first loop of \<open>int_to_bytes\<close>: the base 256 digits of \<open>i\<close>, least significant
  first, counting \<open>num\<close> down.\<close>

function int_to_bytes_loop :: "int \<Rightarrow> int \<Rightarrow> int list \<Rightarrow> int \<times> int list" where
  "int_to_bytes_loop i num byte_array =
     (if 0 < i then int_to_bytes_loop (i div 256) (num - 1) (byte_array @ [i mod 256])
      else (num, byte_array))"
  by pat_completeness auto
termination
  by (relation "measure (\<lambda>(i, num, byte_array). nat i)") auto

declare int_to_bytes_loop.simps [simp del]

definition int_to_bytes :: "int \<Rightarrow> int \<Rightarrow> int list res" where
  "int_to_bytes i num =
     (let (num', byte_array) = int_to_bytes_loop i num []
      in if num' < 0 then Inl (UIn_BadParamError ''Parameter is too large'')
         else Inr (rev (byte_array @ replicate (nat num') 0)))"

text \<open>\<open>try: return f(input_str)  except CLI_FormatExploreError: pass
  except bad: raise UIn_BadParamError(msg)\<close>; \<open>None\<close> is falling through.\<close>

definition try_address :: "py_exn \<Rightarrow> string \<Rightarrow> int list res \<Rightarrow> int list res option" where
  "try_address bad msg r =
     (case r of
        Inr bs \<Rightarrow> Some (Inr bs)
      | Inl e \<Rightarrow> if e = CLI_FormatExploreError then None
                 else if e = bad then Some (Inl (UIn_BadParamError msg))
                 else Some (Inl e))"

definition parse_param :: "ip6_lib \<Rightarrow> string \<Rightarrow> int \<Rightarrow> int list res" where
  "parse_param ip6 input_str bitwidth =
     (case (if bitwidth = 32 then
              try_address UIn_BadIPv4Error ''Invalid IPv4 address'' (ipv4Addr_to_bytes input_str)
            else if bitwidth = 48 then
              try_address UIn_BadMacError ''Invalid MAC address'' (macAddr_to_bytes input_str)
            else if bitwidth = 128 then
              try_address UIn_BadIPv6Error ''Invalid IPv6 address'' (ipv6Addr_to_bytes ip6 input_str)
            else None) of
        Some r \<Rightarrow> r
      | None \<Rightarrow>
          (case py_int0 input_str of
             None \<Rightarrow> Inl (UIn_BadParamError
               ''Invalid input, could not cast to integer, try in hex with 0x prefix'')
           | Some input_ \<Rightarrow> int_to_bytes input_ ((bitwidth + 7) div 8)))"

definition printable_byte_str :: "string \<Rightarrow> string" where
  "printable_byte_str s = py_join '':'' (map hex2 s)"

definition hex_to_i16 :: "string \<Rightarrow> int res" where
  "hex_to_i16 h = res_bind (or_raise ValueError (py_int0 h)) (\<lambda>x.
     if 0xFFFF < x then Inl (UIn_Error ''Integer cannot fit within 16 bits'')
     else if 0x7FFF < x then Inr (x - 0x10000) else Inr x)"

definition i16_to_hex :: "int \<Rightarrow> int" where
  "i16_to_hex x = (if x AND 0x8000 \<noteq> 0 then x + 0x10000 else x)"

definition hex_to_i32 :: "string \<Rightarrow> int res" where
  "hex_to_i32 h = res_bind (or_raise ValueError (py_int0 h)) (\<lambda>x.
     if 0xFFFFFFFF < x then Inl (UIn_Error ''Integer cannot fit within 32 bits'')
     else if 0x7FFFFFFF < x then Inr (x - 0x100000000) else Inr x)"

definition i32_to_hex :: "int \<Rightarrow> int" where
  "i32_to_hex x = (if x AND 0x80000000 \<noteq> 0 then x + 0x100000000 else x)"

definition parse_bool :: "string \<Rightarrow> bool res" where
  "parse_bool s =
     (if s = ''true'' \<or> s = ''True'' then Inr True
      else if s = ''false'' \<or> s = ''False'' then Inr False
      else case py_int0 s of
             Some n \<Rightarrow> Inr (n \<noteq> 0)
           | None \<Rightarrow> Inl (UIn_Error ''Invalid bool parameter''))"

section \<open>The big-endian reference encoding\<close>

definition be_bytes :: "nat \<Rightarrow> int \<Rightarrow> int list" where
  "be_bytes n v = map (\<lambda>k. v div 256 ^ k mod 256) (rev [0..<n])"

definition be_value :: "int list \<Rightarrow> int" where
  "be_value bs = foldl (\<lambda>v b. v * 256 + b) 0 bs"

lemma length_be_bytes [simp]: "length (be_bytes n v) = n"
  by (simp add: be_bytes_def)

lemma be_bytes_Suc: "be_bytes (Suc n) v = be_bytes n (v div 256) @ [v mod 256]"
proof -
  have "rev [0..<Suc n] = map Suc (rev [0..<n]) @ [0]"
    by (simp add: upt_conv_Cons rev_map map_Suc_upt [symmetric] del: upt_Suc)
  then show ?thesis
    by (simp add: be_bytes_def comp_def zdiv_zmult2_eq del: upt_Suc)
qed

lemma be_bytes_0 [simp]: "be_bytes n 0 = replicate n 0"
  by (simp add: be_bytes_def map_replicate_const)

lemma be_bytes_range: "b \<in> set (be_bytes n v) \<Longrightarrow> 0 \<le> b \<and> b \<le> 255"
proof -
  assume "b \<in> set (be_bytes n v)"
  then obtain x where "b = x mod 256" by (auto simp: be_bytes_def)
  then show ?thesis using pos_mod_bound [of 256 x] pos_mod_sign [of 256 x] by simp
qed

lemma be_bytes_pad:
  assumes "0 \<le> v" "v < 256 ^ k" "k \<le> n"
  shows "be_bytes n v = replicate (n - k) 0 @ be_bytes k v"
proof -
  have "rev [0..<n] = rev [k..<n] @ rev [0..<k]"
    using assms(3) by (metis le_add_diff_inverse rev_append upt_add_eq_append zero_le)
  moreover have "v div 256 ^ j mod 256 = 0" if "j \<in> set [k..<n]" for j
  proof -
    have "(256::int) ^ k \<le> 256 ^ j" using that by (intro power_increasing) auto
    then have "v < 256 ^ j" using assms(2) by linarith
    then show ?thesis using assms(1) by (simp add: div_pos_pos_trivial)
  qed
  ultimately show ?thesis
    by (auto simp: be_bytes_def intro!: replicate_eqI)
qed

lemma be_value_be_bytes: "0 \<le> v \<Longrightarrow> v < 256 ^ n \<Longrightarrow> be_value (be_bytes n v) = v"
proof (induction n arbitrary: v)
  case 0
  then show ?case by (simp add: be_bytes_def be_value_def)
next
  case (Suc n)
  have "v div 256 < 256 ^ n" using Suc.prems by simp
  then have "be_value (be_bytes n (v div 256)) = v div 256"
    using Suc.prems by (intro Suc.IH) (auto simp: pos_imp_zdiv_nonneg_iff)
  then show ?case by (simp add: be_bytes_Suc be_value_def)
qed

section \<open>\<open>int_to_bytes\<close>\<close>

lemma int_to_bytes_loop_digits:
  assumes "0 \<le> i"
  shows "\<exists>k. int_to_bytes_loop i num acc = (num - int k, acc @ rev (be_bytes k i)) \<and>
             i < 256 ^ k \<and> (\<forall>m < k. 256 ^ m \<le> i)"
  using assms
proof (induction i num acc rule: int_to_bytes_loop.induct)
  case (1 i num acc)
  show ?case
  proof (cases "0 < i")
    case False
    then have "i = 0" using 1 by simp
    then show ?thesis
      by (intro exI [of _ 0]) (simp add: int_to_bytes_loop.simps [of 0] be_bytes_def)
  next
    case True
    have "0 \<le> i div 256" using True by (simp add: pos_imp_zdiv_nonneg_iff)
    from 1(1) [OF True this] obtain k where
      k: "int_to_bytes_loop (i div 256) (num - 1) (acc @ [i mod 256]) =
            (num - 1 - int k, (acc @ [i mod 256]) @ rev (be_bytes k (i div 256)))"
         "i div 256 < 256 ^ k" "\<forall>m < k. 256 ^ m \<le> i div 256" by blast
    have "i < 256 ^ Suc k" using k(2) by simp
    moreover have "256 ^ m \<le> i" if "m < Suc k" for m
    proof (cases m)
      case 0
      then show ?thesis using True by simp
    next
      case (Suc m')
      then have "256 ^ m' \<le> i div 256" using k(3) that by simp
      then show ?thesis using Suc by simp
    qed
    ultimately show ?thesis using True k(1)
      by (intro exI [of _ "Suc k"]) (simp add: int_to_bytes_loop.simps [of i] be_bytes_Suc)
  qed
qed

lemma int_to_bytes_nonneg:
  assumes "0 \<le> i"
  shows "int_to_bytes i (int n) =
           (if i < 256 ^ n then Inr (be_bytes n i)
            else Inl (UIn_BadParamError ''Parameter is too large''))"
proof -
  obtain k where k: "int_to_bytes_loop i (int n) [] = (int n - int k, rev (be_bytes k i))"
    "i < 256 ^ k" "\<forall>m < k. 256 ^ m \<le> i"
    using int_to_bytes_loop_digits [OF assms, of "int n" "[]"] by auto
  show ?thesis
  proof (cases "k \<le> n")
    case True
    then have "(256::int) ^ k \<le> 256 ^ n" by (intro power_increasing) auto
    then have "i < 256 ^ n" using k(2) by linarith
    then show ?thesis
      using True k(1) be_bytes_pad [OF assms k(2) True] by (simp add: int_to_bytes_def nat_diff_distrib)
  next
    case False
    then have "256 ^ n \<le> i" using k(3) by simp
    then show ?thesis using False k(1) by (simp add: int_to_bytes_def)
  qed
qed

lemma int_to_bytes_neg: "i < 0 \<Longrightarrow> int_to_bytes i (int n) = Inr (replicate n 0)"
  by (simp add: int_to_bytes_def int_to_bytes_loop.simps [of i])

lemma int_to_bytes_Inr_length:
  "0 \<le> num \<Longrightarrow> int_to_bytes i num = Inr bs \<Longrightarrow> int (length bs) = num"
  using int_to_bytes_nonneg [of i "nat num"] int_to_bytes_neg [of i "nat num"]
  by (cases "0 \<le> i") (auto split: if_splits)

text \<open>
  C11. \<open>int_to_bytes i n\<close> is exactly the \<open>n\<close>-byte big-endian encoding of a non-negative \<open>i\<close>
  that fits, raises "Parameter is too large" for every \<open>i\<close> that needs more than \<open>n\<close> bytes,
  and turns every negative \<open>i\<close> into \<open>n\<close> zero bytes.
\<close>

theorem int_to_bytes_spec:
  "int_to_bytes i (int n) =
     (if i < 0 then Inr (replicate n 0)
      else if i < 256 ^ n then Inr (be_bytes n i)
      else Inl (UIn_BadParamError ''Parameter is too large''))"
  by (simp add: int_to_bytes_nonneg int_to_bytes_neg)

lemma of_char_char_of_byte: "0 \<le> b \<Longrightarrow> b \<le> 255 \<Longrightarrow> of_char (char_of (nat b)) = b" for b :: int
proof -
  assume b: "0 \<le> b" "b \<le> 255"
  have "(of_char (char_of (nat b)) :: int) = int (of_char (char_of (nat b)))"
    by (simp only: of_nat_of_char)
  also have "\<dots> = int (nat b mod 256)" by simp
  also have "\<dots> = b" using b by (simp add: nat_less_iff)
  finally show ?thesis .
qed

text \<open>
  C12. Every number that fits is recovered from its bytes: reading the bytes of
  \<open>int_to_bytes i n\<close> in big-endian order gives \<open>i\<close> back, there are \<open>n\<close> of them, and
  packing them with \<open>bytes_to_string\<close> succeeds.
\<close>

theorem int_to_bytes_roundtrip:
  assumes "0 \<le> i" and "i < 256 ^ n"
  shows "\<exists>bs s. int_to_bytes i (int n) = Inr bs \<and> length bs = n \<and> be_value bs = i \<and>
           bytes_to_string bs = Inr s \<and> map of_char s = bs"
proof -
  have "map (of_char \<circ> (\<lambda>b. char_of (nat b))) (be_bytes n i) = map (\<lambda>b. b) (be_bytes n i)"
    using be_bytes_range by (intro map_cong) (auto simp del: of_char_of simp: of_char_char_of_byte)
  moreover have "list_all (\<lambda>b. 0 \<le> b \<and> b \<le> 255) (be_bytes n i)"
    using be_bytes_range by (auto simp: list_all_iff)
  ultimately show ?thesis
    using assms by (auto simp: int_to_bytes_nonneg be_value_be_bytes bytes_to_string_def)
qed

theorem int_to_bytes_roundtrip_witness:
  "(0::int) \<le> 4660 \<and> (4660::int) < 256 ^ 3 \<and>
   (\<exists>bs s. int_to_bytes 4660 3 = Inr bs \<and> length bs = 3 \<and> be_value bs = 4660 \<and>
           bytes_to_string bs = Inr s \<and> map of_char s = bs)"
  using int_to_bytes_roundtrip [of 4660 3] by simp

section \<open>\<open>parse_param\<close>\<close>

lemma res_map_length_eq: "res_map f xs = Inr bs \<Longrightarrow> length xs = n \<Longrightarrow> length bs = n"
  by (simp add: res_map_Inr_length)

lemma address_lengths:
  "ipv4Addr_to_bytes s = Inr bs \<Longrightarrow> length bs = 4"
  "macAddr_to_bytes s = Inr bs \<Longrightarrow> length bs = 6"
  by (auto simp: ipv4Addr_to_bytes_def macAddr_to_bytes_def Let_def res_map_length_eq
      split: if_splits)

lemma try_address_cases:
  "try_address bad msg r = Some (Inr bs) \<longleftrightarrow> r = Inr bs"
  "try_address bad msg r = None \<longleftrightarrow> r = Inl CLI_FormatExploreError"
  by (auto simp: try_address_def split: sum.splits if_splits)

lemma parse_param_bytes:
  assumes "parse_param ip6 s bw = Inr bs" and "0 \<le> bw"
    and ip6_packs_16: "\<And>a p. ip6 a = Some p \<Longrightarrow> length p = 16"
  shows "int (length bs) = (bw + 7) div 8"
proof -
  have "length bs = 16" if "ipv6Addr_to_bytes ip6 s = Inr bs"
    using that ip6_packs_16 by (auto simp: ipv6Addr_to_bytes_def split: if_splits option.splits)
  moreover have "int (length bs) = (bw + 7) div 8"
    if "(case py_int0 s of None \<Rightarrow> Inl e | Some i \<Rightarrow> int_to_bytes i ((bw + 7) div 8)) = Inr bs" for e
    using that assms(2)
    by (auto split: option.splits intro!: int_to_bytes_Inr_length simp: pos_imp_zdiv_nonneg_iff)
  ultimately show ?thesis
    using assms(1)
    by (auto simp: parse_param_def try_address_cases address_lengths
        split: if_splits option.splits)
qed

text \<open>
  C13. Whatever the user types, a successful \<open>parse_param\<close> gives exactly as many bytes as the
  field has: \<open>ceil(bitwidth / 8)\<close>, also on the address paths. The IPv6 path relies on the
  library packing an address into 16 bytes.
\<close>

theorem parse_param_length:
  assumes "parse_param ip6 s bw = Inr bs" and "0 \<le> bw"
    and ip6_packs_16: "\<And>a p. ip6 a = Some p \<Longrightarrow> length p = 16"
  shows "int (length bs) = (bw + 7) div 8"
  using assms by (rule parse_param_bytes)

theorem parse_param_length_witness:
  "int (length [10, 0, 0, 1::int]) = (32 + 7) div 8"
proof (rule parse_param_length [of "\<lambda>_. None" "''10.0.0.1''" 32])
  show "parse_param (\<lambda>_. None) ''10.0.0.1'' 32 = Inr [10, 0, 0, 1]"
    by code_simp
qed simp_all

lemma show_int_chars:
  assumes "c \<in> set (show_int i)"
  shows "c \<noteq> CHR ''.'' \<and> c \<noteq> CHR '':''"
proof -
  have "c = CHR ''-'' \<or> (\<exists>d < 10. c = digit_char d)"
    using assms show_base_digits [of 10] by (auto simp: show_int_def split: if_splits)
  then have "c = CHR ''-'' \<or> digit_val c < 10" by fastforce
  then show ?thesis by (auto simp: digit_val_def)
qed

lemma parse_param_show_int:
  "parse_param ip6 (show_int i) bw = int_to_bytes i ((bw + 7) div 8)"
proof -
  have "CHR ''.'' \<notin> set (show_int i)" "CHR '':'' \<notin> set (show_int i)"
    using show_int_chars by blast+
  then show ?thesis
    by (simp add: parse_param_def try_address_def ipv4Addr_to_bytes_def macAddr_to_bytes_def
        ipv6Addr_to_bytes_def)
qed

text \<open>
  C14. Printing a number in decimal and parsing it as a parameter of any width gives the
  big-endian encoding of that number: the numbers the SAI server formats into command lines reach
  the switch unchanged when they fit the field's bytes.
\<close>

theorem parse_param_decimal:
  assumes "0 \<le> i" and "i < 256 ^ n" and "(bw + 7) div 8 = int n"
  shows "parse_param ip6 (show_int i) bw = Inr (be_bytes n i)"
  using assms by (simp add: parse_param_show_int int_to_bytes_nonneg)

theorem parse_param_decimal_witness:
  "parse_param (\<lambda>_. None) (show_int 515) 16 = Inr (be_bytes 2 515)"
  by (rule parse_param_decimal) simp_all

text \<open>Dotted quads.\<close>

definition dotted_quad :: "int \<Rightarrow> int \<Rightarrow> int \<Rightarrow> int \<Rightarrow> string" where
  "dotted_quad a b c d = py_join ''.'' (map show_int [a, b, c, d])"

text \<open>
  A dotted quad is parsed octet by octet into a 32-bit field. There is no check of the octets
  here: a quad with an octet outside 0..255 is only refused when it is packed.
\<close>

theorem parse_param_ipv4:
  "parse_param ip6 (dotted_quad a b c d) 32 = Inr [a, b, c, d] \<and>
   (bytes_to_string [a, b, c, d] = Inl StructError \<longleftrightarrow> \<not> {a, b, c, d} \<subseteq> {0..255})"
proof -
  let ?xs = "map show_int [a, b, c, d]"
  have "\<forall>x \<in> set ?xs. CHR ''.'' \<notin> set x" using show_int_chars by auto
  then have "py_split_sep ''.'' (py_join ''.'' ?xs) = ?xs"
    by (intro py_split_sep_join) simp_all
  moreover have "CHR ''.'' \<in> set (py_join ''.'' ?xs)" by simp
  ultimately have "ipv4Addr_to_bytes (dotted_quad a b c d) = Inr [a, b, c, d]"
    by (simp add: ipv4Addr_to_bytes_def dotted_quad_def)
  then show ?thesis
    by (auto simp: parse_param_def try_address_def bytes_to_string_def)
qed

section \<open>Signed 16 and 32 bit parameters\<close>

lemma and_two_power_iff: "x AND 2 ^ k \<noteq> 0 \<longleftrightarrow> odd (x div 2 ^ k)" for x :: int
  by (metis and_exp_eq_0_iff_not_bit bit_iff_odd)

lemma sign_bit_range:
  fixes x :: int
  assumes "- (2 ^ k) \<le> x" "x < 2 ^ k"
  shows "x AND 2 ^ k \<noteq> 0 \<longleftrightarrow> x < 0"
proof (cases "x < 0")
  case True
  then have "x div 2 ^ k = -1" using assms by (intro int_div_pos_eq [where r = "x + 2 ^ k"]) auto
  then show ?thesis using True by (simp add: and_two_power_iff)
next
  case False
  then have "x div 2 ^ k = 0" using assms by (intro div_pos_pos_trivial) auto
  then show ?thesis using False by (simp add: and_two_power_iff)
qed

text \<open>
  A CRC parameter written as an unsigned 16 or 32 bit number becomes a signed Thrift integer
  of that width, and the conversion back is its inverse; larger numbers are refused.
\<close>

theorem hex_to_signed_roundtrip:
  assumes "py_int0 h = Some v" and "0 \<le> v"
  shows "(v \<le> 0xFFFF \<longrightarrow>
            (\<exists>x. hex_to_i16 h = Inr x \<and> - 0x8000 \<le> x \<and> x < 0x8000 \<and> i16_to_hex x = v)) \<and>
         (v > 0xFFFF \<longrightarrow> hex_to_i16 h = Inl (UIn_Error ''Integer cannot fit within 16 bits'')) \<and>
         (v \<le> 0xFFFFFFFF \<longrightarrow>
            (\<exists>x. hex_to_i32 h = Inr x \<and> - 0x80000000 \<le> x \<and> x < 0x80000000 \<and> i32_to_hex x = v)) \<and>
         (v > 0xFFFFFFFF \<longrightarrow> hex_to_i32 h = Inl (UIn_Error ''Integer cannot fit within 32 bits''))"
proof -
  have 16: "x AND 0x8000 \<noteq> 0 \<longleftrightarrow> x < 0" if "- 0x8000 \<le> x" "x < 0x8000" for x :: int
    using sign_bit_range [of 15 x] that by simp
  have 32: "x AND 0x80000000 \<noteq> 0 \<longleftrightarrow> x < 0" if "- 0x80000000 \<le> x" "x < 0x80000000" for x :: int
    using sign_bit_range [of 31 x] that by simp
  have a: "\<exists>x. hex_to_i16 h = Inr x \<and> - 0x8000 \<le> x \<and> x < 0x8000 \<and> i16_to_hex x = v"
    if "v \<le> 0xFFFF"
  proof (rule exI [of _ "if 0x7FFF < v then v - 0x10000 else v"])
    show "hex_to_i16 h = Inr (if 0x7FFF < v then v - 0x10000 else v) \<and>
      - 0x8000 \<le> (if 0x7FFF < v then v - 0x10000 else v) \<and>
      (if 0x7FFF < v then v - 0x10000 else v) < 0x8000 \<and>
      i16_to_hex (if 0x7FFF < v then v - 0x10000 else v) = v"
      using that assms 16 [of v] 16 [of "v - 0x10000"]
      by (auto simp: hex_to_i16_def i16_to_hex_def)
  qed
  have b: "\<exists>x. hex_to_i32 h = Inr x \<and> - 0x80000000 \<le> x \<and> x < 0x80000000 \<and> i32_to_hex x = v"
    if "v \<le> 0xFFFFFFFF"
  proof (rule exI [of _ "if 0x7FFFFFFF < v then v - 0x100000000 else v"])
    show "hex_to_i32 h = Inr (if 0x7FFFFFFF < v then v - 0x100000000 else v) \<and>
      - 0x80000000 \<le> (if 0x7FFFFFFF < v then v - 0x100000000 else v) \<and>
      (if 0x7FFFFFFF < v then v - 0x100000000 else v) < 0x80000000 \<and>
      i32_to_hex (if 0x7FFFFFFF < v then v - 0x100000000 else v) = v"
      using that assms 32 [of v] 32 [of "v - 0x100000000"]
      by (auto simp: hex_to_i32_def i32_to_hex_def)
  qed
  show ?thesis using a b assms by (simp add: hex_to_i16_def hex_to_i32_def)
qed

theorem hex_to_signed_roundtrip_witness:
  "\<exists>x. hex_to_i16 ''0x8005'' = Inr x \<and> - 0x8000 \<le> x \<and> x < 0x8000 \<and> i16_to_hex x = 0x8005"
proof -
  have "py_int0 ''0x8005'' = Some 0x8005" by (simp add: py_simps)
  from hex_to_signed_roundtrip [OF this] show ?thesis by simp
qed

end
