(* ===== verification/Cli_Config.thy ===== *)
theory Cli_Config
  imports Param_Codec
begin

text \<open>
  The global configuration of \<^verbatim>\<open>tools/runtime_CLI.py\<close>: the enumerations, the classes
  \<open>Table\<close>, \<open>Action\<close>, \<open>MeterArray\<close>, \<open>CounterArray\<close> and \<open>RegisterArray\<close>, the
  dictionaries they register themselves in, and \<open>load_json_str\<close>, which fills them from the
  JSON description of a P4 program. JSON values are a datatype; reading a field raises KeyError
  or TypeError as the Python does. A field whose JSON type is not the one the code uses it at
  is a TypeError at the point where it is read.
\<close>

section \<open>Enumerations\<close>

text \<open>\<open>enum(type_name, *sequential)\<close> numbers the names; \<open>to_str\<close> and \<open>from_str\<close> read
  the two dictionaries.\<close>

definition enum :: "string list \<Rightarrow> (string \<times> int) list" where
  "enum sequential = zip sequential (map int [0..<length sequential])"

definition enum_to_str :: "(string \<times> int) list \<Rightarrow> int \<Rightarrow> string res" where
  "enum_to_str enums x = or_raise KeyError (map_of (map (\<lambda>(k, v). (v, k)) enums) x)"

definition enum_from_str :: "(string \<times> int) list \<Rightarrow> string \<Rightarrow> int res" where
  "enum_from_str enums x = or_raise KeyError (map_of enums x)"

definition PreType :: "(string \<times> int) list" where
  "PreType = enum [''None'', ''SimplePre'', ''SimplePreLAG'']"

datatype pre_type = PreType_None | PreType_SimplePre | PreType_SimplePreLAG

datatype meter_type = Meter_packets | Meter_bytes

fun MeterType_to_str :: "meter_type \<Rightarrow> string" where
  "MeterType_to_str Meter_packets = ''packets''"
| "MeterType_to_str Meter_bytes = ''bytes''"

definition MeterType_from_str :: "string \<Rightarrow> meter_type res" where
  "MeterType_from_str x =
     (if x = ''packets'' then Inr Meter_packets else if x = ''bytes'' then Inr Meter_bytes
      else Inl KeyError)"

datatype table_type = Table_simple | Table_indirect | Table_indirect_ws

definition TableType_from_str :: "string \<Rightarrow> table_type res" where
  "TableType_from_str x =
     (if x = ''simple'' then Inr Table_simple
      else if x = ''indirect'' then Inr Table_indirect
      else if x = ''indirect_ws'' then Inr Table_indirect_ws
      else Inl KeyError)"

datatype match_type = EXACT | LPM | TERNARY | VALID | RANGE

fun MatchType_to_str :: "match_type \<Rightarrow> string" where
  "MatchType_to_str EXACT = ''exact''"
| "MatchType_to_str LPM = ''lpm''"
| "MatchType_to_str TERNARY = ''ternary''"
| "MatchType_to_str VALID = ''valid''"
| "MatchType_to_str RANGE = ''range''"

definition MatchType_from_str :: "string \<Rightarrow> match_type res" where
  "MatchType_from_str x =
     (if x = ''exact'' then Inr EXACT else if x = ''lpm'' then Inr LPM
      else if x = ''ternary'' then Inr TERNARY else if x = ''valid'' then Inr VALID
      else if x = ''range'' then Inr RANGE else Inl KeyError)"

section \<open>Tables, actions and arrays\<close>

record action =
  a_name :: string
  a_id :: int
  runtime_data :: "(string \<times> int) list"

text \<open>\<open>match_type\<close> and \<open>type_\<close> are set by \<open>load_json_str\<close> after the constructor;
  \<open>None\<close> is a table on which the assignment has not run.\<close>

record table =
  t_name :: string
  t_id :: int
  t_match_type :: "match_type option"
  t_actions :: "(string \<times> action) list"
  t_key :: "(string \<times> match_type \<times> int) list"
  t_type :: "table_type option"
  support_timeout :: bool

record meter_array =
  m_name :: string
  m_id :: int
  m_type :: "meter_type option"
  m_is_direct :: "bool option"
  m_size :: "int option"
  m_binding :: "string option"
  rate_count :: "int option"

record counter_array =
  c_name :: string
  c_id :: int
  c_is_direct :: "bool option"
  c_size :: "int option"
  c_binding :: "string option"

record register_array =
  r_name :: string
  r_id :: int
  r_width :: "int option"
  r_size :: "int option"

record config =
  TABLES :: "(string \<times> table) list"
  ACTIONS :: "(string \<times> action) list"
  METER_ARRAYS :: "(string \<times> meter_array) list"
  COUNTER_ARRAYS :: "(string \<times> counter_array) list"
  REGISTER_ARRAYS :: "(string \<times> register_array) list"
  CUSTOM_CRC_CALCS :: "(string \<times> int) list"

definition empty_config :: config where
  "empty_config = \<lparr>TABLES = [], ACTIONS = [], METER_ARRAYS = [], COUNTER_ARRAYS = [],
     REGISTER_ARRAYS = [], CUSTOM_CRC_CALCS = []\<rparr>"

definition new_table :: "string \<Rightarrow> int \<Rightarrow> config \<Rightarrow> config" where
  "new_table name ident c = c\<lparr>TABLES := AList.update name
     \<lparr>t_name = name, t_id = ident, t_match_type = None, t_actions = [], t_key = [], t_type = None,
      support_timeout = False\<rparr> (TABLES c)\<rparr>"

definition new_action :: "string \<Rightarrow> int \<Rightarrow> config \<Rightarrow> config" where
  "new_action name ident c = c\<lparr>ACTIONS := AList.update name
     \<lparr>a_name = name, a_id = ident, runtime_data = []\<rparr> (ACTIONS c)\<rparr>"

definition new_meter_array :: "string \<Rightarrow> int \<Rightarrow> config \<Rightarrow> config" where
  "new_meter_array name ident c = c\<lparr>METER_ARRAYS := AList.update name
     \<lparr>m_name = name, m_id = ident, m_type = None, m_is_direct = None, m_size = None,
      m_binding = None, rate_count = None\<rparr> (METER_ARRAYS c)\<rparr>"

definition new_counter_array :: "string \<Rightarrow> int \<Rightarrow> config \<Rightarrow> config" where
  "new_counter_array name ident c = c\<lparr>COUNTER_ARRAYS := AList.update name
     \<lparr>c_name = name, c_id = ident, c_is_direct = None, c_size = None, c_binding = None\<rparr>
     (COUNTER_ARRAYS c)\<rparr>"

definition new_register_array :: "string \<Rightarrow> int \<Rightarrow> config \<Rightarrow> config" where
  "new_register_array name ident c = c\<lparr>REGISTER_ARRAYS := AList.update name
     \<lparr>r_name = name, r_id = ident, r_width = None, r_size = None\<rparr> (REGISTER_ARRAYS c)\<rparr>"

definition num_key_fields :: "table \<Rightarrow> nat" where
  "num_key_fields t = length (t_key t)"

definition key_str :: "table \<Rightarrow> string" where
  "key_str t = py_join ('','' @ [CHR 9])
     (map (\<lambda>(name, mt, bw). name @ ''('' @ MatchType_to_str mt @ '', '' @ show_int bw @ '')'') (t_key t))"

definition table_str :: "table \<Rightarrow> string" where
  "table_str t = ljust 30 (t_name t) @ '' ['' @ key_str t @ '']''"

definition num_params :: "action \<Rightarrow> nat" where
  "num_params a = length (runtime_data a)"

definition runtime_data_str :: "action \<Rightarrow> string" where
  "runtime_data_str a = py_join ('','' @ [CHR 9])
     (map (\<lambda>(name, bw). name @ ''('' @ show_int bw @ '')'') (runtime_data a))"

definition action_str :: "action \<Rightarrow> string" where
  "action_str a = ljust 30 (a_name a) @ '' ['' @ runtime_data_str a @ '']''"

definition str_opt_int :: "int option \<Rightarrow> string" where
  "str_opt_int x = (case x of None \<Rightarrow> ''None'' | Some i \<Rightarrow> show_int i)"

definition meter_str :: "meter_array \<Rightarrow> string res" where
  "meter_str m = res_bind (or_raise KeyError (m_type m)) (\<lambda>ty.
     Inr (ljust 30 (m_name m) @ '' ['' @ str_opt_int (m_size m) @ '', '' @ MeterType_to_str ty @ '']''))"

definition counter_str :: "counter_array \<Rightarrow> string" where
  "counter_str c = ljust 30 (c_name c) @ '' ['' @ str_opt_int (c_size c) @ '']''"

definition register_str :: "register_array \<Rightarrow> string" where
  "register_str r = ljust 30 (r_name r) @ '' ['' @ str_opt_int (r_size r) @ '']''"

definition reset_config :: "(config, unit) io" where
  "reset_config = io_modify (\<lambda>_. empty_config)"

section \<open>JSON values\<close>

datatype json =
    JNull
  | JBool bool
  | JInt int
  | JStr string
  | JList "json list"
  | JObj "(string \<times> json) list"

text \<open>\<open>j[k]\<close> with a string key, \<open>j[i]\<close> with an index, \<open>k in j\<close>, iteration and truth
  value.\<close>

definition jget :: "string \<Rightarrow> json \<Rightarrow> json res" where
  "jget k j = (case j of JObj kvs \<Rightarrow> or_raise KeyError (map_of kvs k) | _ \<Rightarrow> Inl TypeError)"

definition jidx :: "nat \<Rightarrow> json \<Rightarrow> json res" where
  "jidx i j =
     (case j of
        JList xs \<Rightarrow> py_nth xs i
      | JStr s \<Rightarrow> res_bind (py_nth s i) (\<lambda>c. Inr (JStr [c]))
      | JObj _ \<Rightarrow> Inl KeyError
      | _ \<Rightarrow> Inl TypeError)"

definition jhas :: "string \<Rightarrow> json \<Rightarrow> bool res" where
  "jhas k j =
     (case j of
        JObj kvs \<Rightarrow> Inr (k \<in> fst ` set kvs)
      | JList xs \<Rightarrow> Inr (JStr k \<in> set xs)
      | JStr s \<Rightarrow> Inr (\<exists>n \<le> length s. starts_with k (drop n s))
      | _ \<Rightarrow> Inl TypeError)"

definition jiter :: "json \<Rightarrow> json list res" where
  "jiter j =
     (case j of
        JList xs \<Rightarrow> Inr xs
      | JObj kvs \<Rightarrow> Inr (map (\<lambda>(k, _). JStr k) kvs)
      | JStr s \<Rightarrow> Inr (map (\<lambda>c. JStr [c]) s)
      | _ \<Rightarrow> Inl TypeError)"

fun jtruth :: "json \<Rightarrow> bool" where
  "jtruth JNull = False"
| "jtruth (JBool b) = b"
| "jtruth (JInt i) = (i \<noteq> 0)"
| "jtruth (JStr s) = (s \<noteq> [])"
| "jtruth (JList xs) = (xs \<noteq> [])"
| "jtruth (JObj kvs) = (kvs \<noteq> [])"

fun jstr :: "json \<Rightarrow> string res" where
  "jstr (JStr s) = Inr s"
| "jstr _ = Inl TypeError"

fun jint :: "json \<Rightarrow> int res" where
  "jint (JInt i) = Inr i"
| "jint _ = Inl TypeError"

definition jget_str :: "string \<Rightarrow> json \<Rightarrow> string res" where
  "jget_str k j = res_bind (jget k j) jstr"

definition jget_int :: "string \<Rightarrow> json \<Rightarrow> int res" where
  "jget_int k j = res_bind (jget k j) jint"

definition jget_list :: "string \<Rightarrow> json \<Rightarrow> json list res" where
  "jget_list k j = res_bind (jget k j) jiter"

section \<open>Loading a configuration\<close>

text \<open>The two local helpers of \<open>load_json_str\<close>; \<open>assert(0)\<close> when nothing is found.\<close>

fun get_header_type :: "json \<Rightarrow> json list \<Rightarrow> json res" where
  "get_header_type header_name [] = Inl AssertionError"
| "get_header_type header_name (h # hs) = res_bind (jget ''name'' h) (\<lambda>n.
     if n = header_name then jget ''header_type'' h else get_header_type header_name hs)"

fun find_field :: "json \<Rightarrow> json list \<Rightarrow> json option res" where
  "find_field field_name [] = Inr None"
| "find_field field_name (t # ts) = res_bind (jidx 0 t) (\<lambda>f. res_bind (jidx 1 t) (\<lambda>bw.
     if f = field_name then Inr (Some bw) else find_field field_name ts))"

fun get_field_bitwidth :: "json \<Rightarrow> json \<Rightarrow> json list \<Rightarrow> json res" where
  "get_field_bitwidth header_type field_name [] = Inl AssertionError"
| "get_field_bitwidth header_type field_name (h # hs) = res_bind (jget ''name'' h) (\<lambda>n.
     if n \<noteq> header_type then get_field_bitwidth header_type field_name hs
     else res_bind (jget_list ''fields'' h) (\<lambda>fs. res_bind (find_field field_name fs) (\<lambda>r.
       case r of Some bw \<Rightarrow> Inr bw | None \<Rightarrow> get_field_bitwidth header_type field_name hs)))"

definition upd_action :: "string \<Rightarrow> (action \<Rightarrow> action) \<Rightarrow> config \<Rightarrow> config" where
  "upd_action name f c = c\<lparr>ACTIONS := AList.map_entry name f (ACTIONS c)\<rparr>"

definition upd_table :: "string \<Rightarrow> (table \<Rightarrow> table) \<Rightarrow> config \<Rightarrow> config" where
  "upd_table name f c = c\<lparr>TABLES := AList.map_entry name f (TABLES c)\<rparr>"

definition upd_meter :: "string \<Rightarrow> (meter_array \<Rightarrow> meter_array) \<Rightarrow> config \<Rightarrow> config" where
  "upd_meter name f c = c\<lparr>METER_ARRAYS := AList.map_entry name f (METER_ARRAYS c)\<rparr>"

definition upd_counter :: "string \<Rightarrow> (counter_array \<Rightarrow> counter_array) \<Rightarrow> config \<Rightarrow> config" where
  "upd_counter name f c = c\<lparr>COUNTER_ARRAYS := AList.map_entry name f (COUNTER_ARRAYS c)\<rparr>"

definition upd_register :: "string \<Rightarrow> (register_array \<Rightarrow> register_array) \<Rightarrow> config \<Rightarrow> config" where
  "upd_register name f c = c\<lparr>REGISTER_ARRAYS := AList.map_entry name f (REGISTER_ARRAYS c)\<rparr>"

definition load_action :: "json \<Rightarrow> (config, unit) io" where
  "load_action j_action =
     io_bind (io_lift (jget_str ''name'' j_action)) (\<lambda>name.
     io_bind (io_lift (jget_int ''id'' j_action)) (\<lambda>ident.
     io_then (io_modify (new_action name ident)) (
     io_bind (io_lift (jget_list ''runtime_data'' j_action)) (\<lambda>ps. io_for ps (\<lambda>j_param.
       io_bind (io_lift (jget_str ''name'' j_param)) (\<lambda>n.
       io_bind (io_lift (jget_int ''bitwidth'' j_param)) (\<lambda>bw.
       io_modify (upd_action name (\<lambda>a. a\<lparr>runtime_data := runtime_data a @ [(n, bw)]\<rparr>)))))))))"

definition load_key :: "json \<Rightarrow> json \<Rightarrow> (string \<times> match_type \<times> int) res" where
  "load_key j j_key =
     res_bind (jget ''target'' j_key) (\<lambda>target.
     res_bind (res_bind (jget_str ''match_type'' j_key) MatchType_from_str) (\<lambda>mt.
     if mt = VALID then
       res_bind (jstr target) (\<lambda>t. Inr (t @ ''_valid'', mt, 1))
     else res_bind (jidx 1 target) (\<lambda>t1.
     if t1 = JStr ''$valid$'' then
       res_bind (res_bind (jidx 0 target) jstr) (\<lambda>t0. Inr (t0 @ ''_valid'', mt, 1))
     else
       res_bind (res_bind (jiter target) (res_map jstr)) (\<lambda>parts.
       res_bind (jidx 0 target) (\<lambda>t0.
       res_bind (res_bind (jget_list ''headers'' j) (get_header_type t0)) (\<lambda>header_type.
       res_bind (res_bind (jget_list ''header_types'' j) (get_field_bitwidth header_type t1)) (\<lambda>bw.
       res_bind (jint bw) (\<lambda>bitwidth.
       Inr (py_join ''.'' parts, mt, bitwidth)))))))))"

definition load_table :: "json \<Rightarrow> json \<Rightarrow> (config, unit) io" where
  "load_table j j_table =
     io_bind (io_lift (jget_str ''name'' j_table)) (\<lambda>name.
     io_bind (io_lift (jget_int ''id'' j_table)) (\<lambda>ident.
     io_then (io_modify (new_table name ident)) (
     io_bind (io_lift (res_bind (jget_str ''match_type'' j_table) MatchType_from_str)) (\<lambda>mt.
     io_then (io_modify (upd_table name (\<lambda>t. t\<lparr>t_match_type := Some mt\<rparr>))) (
     io_bind (io_lift (res_bind (jget_str ''type'' j_table) TableType_from_str)) (\<lambda>ty.
     io_then (io_modify (upd_table name (\<lambda>t. t\<lparr>t_type := Some ty\<rparr>))) (
     io_bind (io_lift (jget ''support_timeout'' j_table)) (\<lambda>st.
     io_then (io_modify (upd_table name (\<lambda>t. t\<lparr>support_timeout := jtruth st\<rparr>))) (
     io_bind (io_lift (jget_list ''actions'' j_table)) (\<lambda>acts.
     io_then (io_for acts (\<lambda>j_act.
       io_bind (io_lift (jstr j_act)) (\<lambda>act.
       io_bind (io_gets ACTIONS) (\<lambda>actions.
       io_bind (io_lift (or_raise KeyError (map_of actions act))) (\<lambda>a.
       io_modify (upd_table name (\<lambda>t. t\<lparr>t_actions := AList.update act a (t_actions t)\<rparr>))))))) (
     io_bind (io_lift (jget_list ''key'' j_table)) (\<lambda>keys.
     io_for keys (\<lambda>j_key.
       io_bind (io_lift (load_key j j_key)) (\<lambda>k.
       io_modify (upd_table name (\<lambda>t. t\<lparr>t_key := t_key t @ [k]\<rparr>))))))))))))))))"

definition load_meter :: "json \<Rightarrow> (config, unit) io" where
  "load_meter j_meter =
     io_bind (io_lift (jget_str ''name'' j_meter)) (\<lambda>name.
     io_bind (io_lift (jget_int ''id'' j_meter)) (\<lambda>ident.
     io_then (io_modify (new_meter_array name ident)) (
     io_bind (io_lift (res_bind (jhas ''is_direct'' j_meter) (\<lambda>h.
       if h then res_bind (jget ''is_direct'' j_meter) (\<lambda>v. Inr (jtruth v)) else Inr False))) (\<lambda>direct.
     io_then (if direct then
         io_then (io_modify (upd_meter name (\<lambda>m. m\<lparr>m_is_direct := Some True\<rparr>))) (
         io_bind (io_lift (jget_str ''binding'' j_meter)) (\<lambda>b.
         io_modify (upd_meter name (\<lambda>m. m\<lparr>m_binding := Some b\<rparr>))))
       else
         io_then (io_modify (upd_meter name (\<lambda>m. m\<lparr>m_is_direct := Some False\<rparr>))) (
         io_bind (io_lift (jget_int ''size'' j_meter)) (\<lambda>s.
         io_modify (upd_meter name (\<lambda>m. m\<lparr>m_size := Some s\<rparr>))))) (
     io_bind (io_lift (res_bind (jget_str ''type'' j_meter) MeterType_from_str)) (\<lambda>ty.
     io_then (io_modify (upd_meter name (\<lambda>m. m\<lparr>m_type := Some ty\<rparr>))) (
     io_bind (io_lift (jget_int ''rate_count'' j_meter)) (\<lambda>rc.
     io_modify (upd_meter name (\<lambda>m. m\<lparr>rate_count := Some rc\<rparr>))))))))))"

definition load_counter :: "json \<Rightarrow> (config, unit) io" where
  "load_counter j_counter =
     io_bind (io_lift (jget_str ''name'' j_counter)) (\<lambda>name.
     io_bind (io_lift (jget_int ''id'' j_counter)) (\<lambda>ident.
     io_then (io_modify (new_counter_array name ident)) (
     io_bind (io_lift (jget ''is_direct'' j_counter)) (\<lambda>d.
     io_then (io_modify (upd_counter name (\<lambda>c. c\<lparr>c_is_direct := Some (jtruth d)\<rparr>))) (
     if jtruth d then
       io_bind (io_lift (jget_str ''binding'' j_counter)) (\<lambda>b.
       io_modify (upd_counter name (\<lambda>c. c\<lparr>c_binding := Some b\<rparr>)))
     else
       io_bind (io_lift (jget_int ''size'' j_counter)) (\<lambda>s.
       io_modify (upd_counter name (\<lambda>c. c\<lparr>c_size := Some s\<rparr>))))))))"

definition load_register :: "json \<Rightarrow> (config, unit) io" where
  "load_register j_register =
     io_bind (io_lift (jget_str ''name'' j_register)) (\<lambda>name.
     io_bind (io_lift (jget_int ''id'' j_register)) (\<lambda>ident.
     io_then (io_modify (new_register_array name ident)) (
     io_bind (io_lift (jget_int ''size'' j_register)) (\<lambda>s.
     io_then (io_modify (upd_register name (\<lambda>r. r\<lparr>r_size := Some s\<rparr>))) (
     io_bind (io_lift (jget_int ''bitwidth'' j_register)) (\<lambda>bw.
     io_modify (upd_register name (\<lambda>r. r\<lparr>r_width := Some bw\<rparr>))))))))"

definition load_calc :: "json \<Rightarrow> (config, unit) io" where
  "load_calc j_calc =
     io_bind (io_lift (jget_str ''name'' j_calc)) (\<lambda>name.
     io_bind (io_lift (jget ''algo'' j_calc)) (\<lambda>algo.
     if algo = JStr ''crc16_custom'' then
       io_modify (\<lambda>c. c\<lparr>CUSTOM_CRC_CALCS := AList.update name 16 (CUSTOM_CRC_CALCS c)\<rparr>)
     else if algo = JStr ''crc32_custom'' then
       io_modify (\<lambda>c. c\<lparr>CUSTOM_CRC_CALCS := AList.update name 32 (CUSTOM_CRC_CALCS c)\<rparr>)
     else io_ret ()))"

definition load_optional :: "string \<Rightarrow> json \<Rightarrow> (json \<Rightarrow> (config, unit) io) \<Rightarrow> (config, unit) io" where
  "load_optional k j f =
     io_bind (io_lift (jhas k j)) (\<lambda>h.
     if h then io_bind (io_lift (jget_list k j)) (\<lambda>xs. io_for xs f) else io_ret ())"

text \<open>\<open>loads\<close> is \<open>json.loads\<close>, \<open>None\<close> a ValueError.\<close>

type_synonym json_lib = "string \<Rightarrow> json option"

definition load_json_str :: "json_lib \<Rightarrow> string \<Rightarrow> (config, unit) io" where
  "load_json_str loads json_str =
     io_then reset_config (
     io_bind (io_lift (or_raise ValueError (loads json_str))) (\<lambda>j.
     io_bind (io_lift (jget_list ''actions'' j)) (\<lambda>actions.
     io_then (io_for actions load_action) (
     io_bind (io_lift (jget_list ''pipelines'' j)) (\<lambda>pipelines.
     io_then (io_for pipelines (\<lambda>j_pipeline.
       io_bind (io_lift (jget_list ''tables'' j_pipeline)) (\<lambda>tables.
       io_for tables (load_table j)))) (
     io_then (load_optional ''meter_arrays'' j load_meter) (
     io_then (load_optional ''counter_arrays'' j load_counter) (
     io_then (load_optional ''register_arrays'' j load_register) (
     load_optional ''calculations'' j load_calc)))))))))"

section \<open>What a loaded configuration guarantees\<close>

text \<open>Every dictionary has distinct keys, every table is stored under its own name, and every
  action a table lists is an entry of \<open>ACTIONS\<close>.\<close>

definition table_ok :: "string set \<Rightarrow> string \<times> table \<Rightarrow> bool" where
  "table_ok acts p \<longleftrightarrow> t_name (snd p) = fst p \<and> fst ` set (t_actions (snd p)) \<subseteq> acts"

definition config_ok :: "config \<Rightarrow> bool" where
  "config_ok c \<longleftrightarrow>
     distinct (map fst (TABLES c)) \<and> distinct (map fst (ACTIONS c)) \<and>
     (\<forall>p \<in> set (TABLES c). table_ok (fst ` set (ACTIONS c)) p)"

lemma table_ok_mono: "table_ok A p \<Longrightarrow> A \<subseteq> B \<Longrightarrow> table_ok B p"
  by (auto simp: table_ok_def)

definition config_ok_step :: "config \<Rightarrow> config \<Rightarrow> bool" where
  "config_ok_step c c' \<longleftrightarrow> (config_ok c \<longrightarrow> config_ok c')"

interpretation cfg: io_frame config_ok_step
  by unfold_locales (auto simp: config_ok_step_def)

lemma keeps_config_ok_modify:
  "(\<And>c. config_ok c \<Longrightarrow> config_ok (f c)) \<Longrightarrow> io_keeps config_ok_step (io_modify f)"
  by (simp add: io_keeps_def io_simps config_ok_step_def)

lemma set_map_entryD:
  "(k, v) \<in> set (AList.map_entry n f al) \<Longrightarrow> \<exists>v'. (k, v') \<in> set al \<and> (v = v' \<or> v = f v')"
  by (induction al) (auto split: if_splits)

lemma fst_set_map_entry [simp]: "map fst (AList.map_entry n f al) = map fst al"
  by (induction al) auto

lemma fst_image_map_entry [simp]: "fst ` set (AList.map_entry n f al) = fst ` set al"
  by (metis fst_set_map_entry list.set_map)

lemma fst_image_update [simp]: "fst ` set (AList.update k v al) = insert k (fst ` set al)"
  by (induction al) auto

lemma set_updateD: "p \<in> set (AList.update k v al) \<Longrightarrow> p = (k, v) \<or> p \<in> set al"
  by (induction al) (auto split: if_splits)

lemma config_ok_new_table:
  assumes "config_ok c"
  shows "config_ok (new_table name i c)"
proof -
  have "table_ok (fst ` set (ACTIONS c)) p" if "p \<in> set (TABLES (new_table name i c))" for p
  proof (cases "p \<in> set (TABLES c)")
    case True
    then show ?thesis using assms by (simp add: config_ok_def)
  next
    case False
    then show ?thesis
      using that by (auto simp: new_table_def table_ok_def dest!: set_updateD)
  qed
  then show ?thesis using assms by (simp add: config_ok_def new_table_def distinct_update)
qed

lemma config_ok_new_action: "config_ok c \<Longrightarrow> config_ok (new_action name i c)"
  by (auto simp: config_ok_def new_action_def distinct_update intro: table_ok_mono)

lemma config_ok_upd_action: "config_ok c \<Longrightarrow> config_ok (upd_action name f c)"
  by (simp add: config_ok_def upd_action_def)

lemma config_ok_upd_table:
  assumes "config_ok c" "\<And>t. t_name (f t) = t_name t"
    and "\<And>t. fst ` set (t_actions (f t)) \<subseteq> fst ` set (t_actions t) \<union> fst ` set (ACTIONS c)"
  shows "config_ok (upd_table name f c)"
proof -
  have "table_ok (fst ` set (ACTIONS c)) (n, t)"
    if nt: "(n, t) \<in> set (AList.map_entry name f (TABLES c))" for n t
  proof -
    obtain t' where t': "(n, t') \<in> set (TABLES c)" "t = t' \<or> t = f t'"
      using set_map_entryD [OF nt] by blast
    then have "table_ok (fst ` set (ACTIONS c)) (n, t')"
      using assms(1) by (auto simp: config_ok_def)
    then show ?thesis using t'(2) assms(2) [of t'] assms(3) [of t'] by (auto simp: table_ok_def)
  qed
  then show ?thesis using assms(1) by (auto simp: config_ok_def upd_table_def)
qed

lemma config_ok_frame:
  "TABLES (f c) = TABLES c \<Longrightarrow> ACTIONS (f c) = ACTIONS c \<Longrightarrow> config_ok (f c) = config_ok c"
  by (simp add: config_ok_def)

lemmas array_defs = new_meter_array_def new_counter_array_def new_register_array_def
  upd_meter_def upd_counter_def upd_register_def

lemma keeps_config_ok_arrays:
  "io_keeps config_ok_step (io_modify (new_meter_array n i))"
  "io_keeps config_ok_step (io_modify (new_counter_array n i))"
  "io_keeps config_ok_step (io_modify (new_register_array n i))"
  "io_keeps config_ok_step (io_modify (upd_meter n fm))"
  "io_keeps config_ok_step (io_modify (upd_counter n fc))"
  "io_keeps config_ok_step (io_modify (upd_register n fr))"
  "io_keeps config_ok_step (io_modify (\<lambda>c. c\<lparr>CUSTOM_CRC_CALCS := g c\<rparr>))"
  by (rule keeps_config_ok_modify, simp add: array_defs config_ok_def)+

lemma keeps_config_ok_tables:
  "io_keeps config_ok_step (io_modify (new_table n i))"
  "io_keeps config_ok_step (io_modify (new_action n i))"
  "io_keeps config_ok_step (io_modify (upd_action n fa))"
  "io_keeps config_ok_step (io_modify (upd_table n (\<lambda>t. t\<lparr>t_match_type := mt\<rparr>)))"
  "io_keeps config_ok_step (io_modify (upd_table n (\<lambda>t. t\<lparr>t_type := ty\<rparr>)))"
  "io_keeps config_ok_step (io_modify (upd_table n (\<lambda>t. t\<lparr>support_timeout := st\<rparr>)))"
  "io_keeps config_ok_step (io_modify (upd_table n (\<lambda>t. t\<lparr>t_key := t_key t @ ks\<rparr>)))"
  by (rule keeps_config_ok_modify,
      auto intro: config_ok_new_table config_ok_new_action config_ok_upd_action
        intro!: config_ok_upd_table)+

lemma keeps_config_ok_link_action:
  "io_keeps config_ok_step (io_bind (io_gets ACTIONS) (\<lambda>actions.
     io_bind (io_lift (or_raise KeyError (map_of actions act))) (\<lambda>a.
     io_modify (upd_table name (\<lambda>t. t\<lparr>t_actions := AList.update act a (t_actions t)\<rparr>)))))"
  (is "io_keeps _ ?m")
proof (rule io_keepsI)
  fix c
  show "config_ok_step c (snd (?m c))"
  proof (cases "map_of (ACTIONS c) act")
    case None
    then show ?thesis by (simp add: io_simps config_ok_step_def)
  next
    case (Some a)
    then have "act \<in> fst ` set (ACTIONS c)" by (metis domI dom_map_of_conv_image_fst)
    then have "config_ok (upd_table name (\<lambda>t. t\<lparr>t_actions := AList.update act a (t_actions t)\<rparr>) c)"
      if "config_ok c" using that by (intro config_ok_upd_table) auto
    then show ?thesis using Some by (simp add: io_simps config_ok_step_def)
  qed
qed

lemmas keeps_config_ok_intros = cfg.keeps_intros keeps_config_ok_arrays keeps_config_ok_tables
  keeps_config_ok_link_action

lemma keeps_config_ok_loaders:
  "io_keeps config_ok_step (load_action j)"
  "io_keeps config_ok_step (load_meter j)"
  "io_keeps config_ok_step (load_counter j)"
  "io_keeps config_ok_step (load_register j)"
  "io_keeps config_ok_step (load_calc j)"
  unfolding load_action_def load_meter_def load_counter_def load_register_def load_calc_def
  by (auto intro!: keeps_config_ok_intros)

lemma keeps_config_ok_load_table: "io_keeps config_ok_step (load_table j jt)"
  unfolding load_table_def
  by (intro keeps_config_ok_link_action cfg.keeps_intros keeps_config_ok_tables)

lemma keeps_config_ok_optional:
  "(\<And>x. io_keeps config_ok_step (f x)) \<Longrightarrow> io_keeps config_ok_step (load_optional k j f)"
  unfolding load_optional_def by (auto intro!: cfg.keeps_intros)

lemma config_ok_empty: "config_ok empty_config"
  by (simp add: config_ok_def empty_config_def)

lemma config_ok_load_json_str: "config_ok (snd (load_json_str loads s c))"
proof -
  have "io_keeps config_ok_step
     (io_bind (io_lift (or_raise ValueError (loads s))) (\<lambda>j.
     io_bind (io_lift (jget_list ''actions'' j)) (\<lambda>actions.
     io_then (io_for actions load_action) (
     io_bind (io_lift (jget_list ''pipelines'' j)) (\<lambda>pipelines.
     io_then (io_for pipelines (\<lambda>j_pipeline.
       io_bind (io_lift (jget_list ''tables'' j_pipeline)) (\<lambda>tables.
       io_for tables (load_table j)))) (
     io_then (load_optional ''meter_arrays'' j load_meter) (
     io_then (load_optional ''counter_arrays'' j load_counter) (
     io_then (load_optional ''register_arrays'' j load_register) (
     load_optional ''calculations'' j load_calc)))))))))" (is "io_keeps _ ?body")
    by (intro cfg.keeps_intros keeps_config_ok_loaders keeps_config_ok_load_table
        keeps_config_ok_optional)
  then have "config_ok_step empty_config (snd (?body empty_config))"
    by (simp add: io_keeps_def)
  moreover have "load_json_str loads s c = ?body empty_config"
    by (simp add: load_json_str_def reset_config_def io_then_apply io_atom_apply)
  ultimately show ?thesis by (simp add: config_ok_step_def config_ok_empty)
qed

text \<open>
  C16. Whatever configuration was loaded before, and whether or not the new JSON document is
  complete, after \<open>load_json_str\<close> every action a table lists has an entry in \<open>ACTIONS\<close>
  and every table is found under its own name: the comment "guaranteed to exist" in the table
  commands is right.
\<close>

theorem load_json_str_config_ok: "config_ok (snd (load_json_str loads s c))"
  by (rule config_ok_load_json_str)

end
