(* ===== verification/Match_Key.thy ===== *)
theory Match_Key
  imports Cli_Config
begin

text \<open>
  Match keys and action data of \<^verbatim>\<open>tools/runtime_CLI.py\<close>: \<open>parse_runtime_data\<close>,
  \<open>parse_match_key\<close> and the printing of match parameters. The Thrift struct
  \<open>BmMatchParam\<close> (\<^verbatim>\<open>thrift_src/standard.thrift\<close>) has a type and the one optional
  member that the type names; it is a datatype with one constructor per type.
\<close>

section \<open>Definitions\<close>

datatype bm_match_param =
    BmMatchParamExact string
  | BmMatchParamLPM string int
  | BmMatchParamTernary string string
  | BmMatchParamValid bool
  | BmMatchParamRange string string

fun param_type :: "bm_match_param \<Rightarrow> match_type" where
  "param_type (BmMatchParamExact _) = EXACT"
| "param_type (BmMatchParamLPM _ _) = LPM"
| "param_type (BmMatchParamTernary _ _) = TERNARY"
| "param_type (BmMatchParamValid _) = VALID"
| "param_type (BmMatchParamRange _ _) = RANGE"

text \<open>The local \<open>parse_param_\<close> of both parsers: a \<open>UIn_BadParamError\<close> is re-raised
  as the exception class \<open>exn\<close> with the field in the message.\<close>

definition wrap_bad_param :: "(string \<Rightarrow> py_exn) \<Rightarrow> string \<Rightarrow> 'a res \<Rightarrow> 'a res" where
  "wrap_bad_param exn field r =
     (case r of
        Inl (UIn_BadParamError info) \<Rightarrow>
          Inl (exn (''Error while parsing '' @ field @ '' - '' @ info))
      | _ \<Rightarrow> r)"

text \<open>The bytes of one parameter: \<open>bytes_to_string(parse_param_(field, bw))\<close>.\<close>

definition param_bytes :: "(string \<Rightarrow> py_exn) \<Rightarrow> ip6_lib \<Rightarrow> string \<Rightarrow> int \<Rightarrow> string res" where
  "param_bytes exn ip6 field bw =
     res_bind (wrap_bad_param exn field (parse_param ip6 field bw)) bytes_to_string"

definition parse_runtime_data :: "ip6_lib \<Rightarrow> action \<Rightarrow> string list \<Rightarrow> string list res" where
  "parse_runtime_data ip6 action params =
     (let bitwidths = map snd (runtime_data action)
      in res_map (\<lambda>(input_str, bitwidth). param_bytes UIn_RuntimeDataError ip6 input_str bitwidth)
           (zip params bitwidths))"

definition parse_match_field :: "ip6_lib \<Rightarrow> match_type \<Rightarrow> int \<Rightarrow> string \<Rightarrow> bm_match_param res" where
  "parse_match_field ip6 mt bw field =
     (let bytes = (\<lambda>f. param_bytes UIn_MatchKeyError ip6 f bw)
      in case mt of
        EXACT \<Rightarrow> res_bind (bytes field) (\<lambda>key. Inr (BmMatchParamExact key))
      | LPM \<Rightarrow>
          res_bind (unpack2 (py_split_sep ''/'' field)) (\<lambda>(prefix, length).
          res_bind (bytes prefix) (\<lambda>key.
          res_bind (or_raise ValueError (py_int length)) (\<lambda>n. Inr (BmMatchParamLPM key n))))
      | TERNARY \<Rightarrow>
          res_bind (unpack2 (py_split_sep ''&&&'' field)) (\<lambda>(k, m).
          res_bind (bytes k) (\<lambda>key.
          res_bind (bytes m) (\<lambda>msk.
          if length msk \<noteq> length key then
            Inl (UIn_MatchKeyError (''Key and mask have different lengths in expression '' @ field))
          else Inr (BmMatchParamTernary key msk))))
      | VALID \<Rightarrow>
          res_bind (or_raise ValueError (py_int field)) (\<lambda>n. Inr (BmMatchParamValid (n \<noteq> 0)))
      | RANGE \<Rightarrow>
          res_bind (unpack2 (py_split_sep ''->'' field)) (\<lambda>(s, e).
          res_bind (bytes s) (\<lambda>start.
          res_bind (bytes e) (\<lambda>stop.
          if length start \<noteq> length stop then
            Inl (UIn_MatchKeyError (''start and end have different lengths in expression '' @ field))
          else if start > stop then
            Inl (UIn_MatchKeyError (''start is less than end in expression '' @ field))
          else Inr (BmMatchParamRange start stop)))))"

text \<open>The loop over \<open>enumerate(key_fields)\<close>: \<open>match_types[idx]\<close> raises IndexError when
  there are more fields than keys.\<close>

fun parse_match_fields ::
  "ip6_lib \<Rightarrow> (string \<times> match_type \<times> int) list \<Rightarrow> string list \<Rightarrow> bm_match_param list res" where
  "parse_match_fields ip6 ks [] = Inr []"
| "parse_match_fields ip6 [] (f # fs) = Inl IndexError"
| "parse_match_fields ip6 ((name, mt, bw) # ks) (f # fs) =
     res_bind (parse_match_field ip6 mt bw f) (\<lambda>p.
     res_bind (parse_match_fields ip6 ks fs) (\<lambda>ps. Inr (p # ps)))"

definition parse_match_key :: "ip6_lib \<Rightarrow> table \<Rightarrow> string list \<Rightarrow> bm_match_param list res" where
  "parse_match_key ip6 table key_fields = parse_match_fields ip6 (t_key table) key_fields"

fun BmMatchParam_body_str :: "bm_match_param \<Rightarrow> string" where
  "BmMatchParam_body_str (BmMatchParamExact key) = printable_byte_str key"
| "BmMatchParam_body_str (BmMatchParamLPM key n) = printable_byte_str key @ ''/'' @ show_int n"
| "BmMatchParam_body_str (BmMatchParamTernary key msk) =
     printable_byte_str key @ '' &&& '' @ printable_byte_str msk"
| "BmMatchParam_body_str (BmMatchParamValid _) = ''''"
| "BmMatchParam_body_str (BmMatchParamRange s e) =
     printable_byte_str s @ '' -> '' @ printable_byte_str e"

fun match_type_name :: "match_type \<Rightarrow> string" where
  "match_type_name EXACT = ''EXACT''"
| "match_type_name LPM = ''LPM''"
| "match_type_name TERNARY = ''TERNARY''"
| "match_type_name VALID = ''VALID''"
| "match_type_name RANGE = ''RANGE''"

definition BmMatchParam_to_str :: "bm_match_param \<Rightarrow> string" where
  "BmMatchParam_to_str p = match_type_name (param_type p) @ ''-'' @ BmMatchParam_body_str p"

section \<open>What the parsers return\<close>

text \<open>A parameter fits a key field: it has the type of the field, and every byte string in it is
  as long as the field is wide.\<close>

definition field_bytes :: "int \<Rightarrow> nat" where
  "field_bytes bw = nat ((bw + 7) div 8)"

fun param_fits :: "int \<Rightarrow> bm_match_param \<Rightarrow> bool" where
  "param_fits bw (BmMatchParamExact key) = (length key = field_bytes bw)"
| "param_fits bw (BmMatchParamLPM key n) = (length key = field_bytes bw)"
| "param_fits bw (BmMatchParamTernary key msk) =
     (length key = field_bytes bw \<and> length msk = field_bytes bw)"
| "param_fits bw (BmMatchParamValid b) = True"
| "param_fits bw (BmMatchParamRange s e) =
     (length s = field_bytes bw \<and> length e = field_bytes bw \<and> s \<le> e)"

definition key_field_fits :: "string \<times> match_type \<times> int \<Rightarrow> bm_match_param \<Rightarrow> bool" where
  "key_field_fits k p \<longleftrightarrow> param_type p = fst (snd k) \<and> param_fits (snd (snd k)) p"

text \<open>What is known of the IPv6 library: an address packs into 16 bytes.\<close>

definition packs_16 :: "ip6_lib \<Rightarrow> bool" where
  "packs_16 ip6 \<longleftrightarrow> (\<forall>a p. ip6 a = Some p \<longrightarrow> length p = 16)"

lemma wrap_bad_param_Inr [simp]: "wrap_bad_param exn f r = Inr x \<longleftrightarrow> r = Inr x"
  by (auto simp: wrap_bad_param_def split: sum.splits py_exn.splits)

lemma bytes_to_string_length: "bytes_to_string bs = Inr s \<Longrightarrow> length s = length bs"
  by (auto simp: bytes_to_string_def split: if_splits)

lemma parse_param_length_int:
  assumes "parse_param ip6 s bw = Inr bs" "0 \<le> bw" "packs_16 ip6"
  shows "length bs = field_bytes bw"
proof -
  have "int (length bs) = (bw + 7) div 8"
    using assms(3) by (intro parse_param_bytes [OF assms(1,2)]) (simp add: packs_16_def)
  then show ?thesis by (simp add: field_bytes_def)
qed

lemma int_to_bytes_Inl: "int_to_bytes i n = Inl e \<Longrightarrow> \<exists>info. e = UIn_BadParamError info"
  by (auto simp: int_to_bytes_def split: prod.splits if_splits)

lemma address_Inl:
  "ipv4Addr_to_bytes s = Inl e \<Longrightarrow> e = CLI_FormatExploreError \<or> e = UIn_BadIPv4Error"
  "macAddr_to_bytes s = Inl e \<Longrightarrow> e = CLI_FormatExploreError \<or> e = UIn_BadMacError"
  "ipv6Addr_to_bytes ip6 s = Inl e \<Longrightarrow> e = CLI_FormatExploreError \<or> e = UIn_BadIPv6Error"
  by (auto simp: ipv4Addr_to_bytes_def macAddr_to_bytes_def ipv6Addr_to_bytes_def Let_def
      dest!: res_map_Inl_ex split: if_splits option.splits)

lemma try_address_Inl:
  assumes "try_address bad msg r = Some (Inl e)" "\<And>e. r = Inl e \<Longrightarrow> e = CLI_FormatExploreError \<or> e = bad"
  shows "e = UIn_BadParamError msg"
  using assms by (auto simp: try_address_def split: sum.splits if_splits)

lemma parse_param_Inl:
  assumes "parse_param ip6 s bw = Inl e"
  shows "\<exists>info. e = UIn_BadParamError info"
proof -
  let ?int = "case py_int0 s of
      None \<Rightarrow> Inl (UIn_BadParamError
        ''Invalid input, could not cast to integer, try in hex with 0x prefix'')
    | Some i \<Rightarrow> int_to_bytes i ((bw + 7) div 8)"
  consider (int) "?int = Inl e"
    | (v4) "try_address UIn_BadIPv4Error ''Invalid IPv4 address'' (ipv4Addr_to_bytes s) = Some (Inl e)"
    | (mac) "try_address UIn_BadMacError ''Invalid MAC address'' (macAddr_to_bytes s) = Some (Inl e)"
    | (v6) "try_address UIn_BadIPv6Error ''Invalid IPv6 address'' (ipv6Addr_to_bytes ip6 s) = Some (Inl e)"
    using assms unfolding parse_param_def by (auto split: if_splits option.splits)
  then show ?thesis
  proof cases
    case int
    then show ?thesis by (auto split: option.splits dest: int_to_bytes_Inl)
  next
    case v4
    then show ?thesis using address_Inl(1) by (blast dest: try_address_Inl)
  next
    case mac
    then show ?thesis using address_Inl(2) by (blast dest: try_address_Inl)
  next
    case v6
    then show ?thesis using address_Inl(3) by (blast dest: try_address_Inl)
  qed
qed

lemma param_bytes_Inl:
  assumes "param_bytes exn ip6 f bw = Inl e"
  shows "e = StructError \<or> (\<exists>m. e = exn (''Error while parsing '' @ m))"
proof (cases "parse_param ip6 f bw")
  case (Inl e')
  then obtain info where "e' = UIn_BadParamError info" using parse_param_Inl by blast
  then show ?thesis using assms Inl by (auto simp: param_bytes_def wrap_bad_param_def)
next
  case (Inr bs)
  then show ?thesis
    using assms by (auto simp: param_bytes_def wrap_bad_param_def bytes_to_string_def split: if_splits)
qed

lemma param_bytes_length:
  assumes "param_bytes exn ip6 f bw = Inr s" "0 \<le> bw" "packs_16 ip6"
  shows "length s = field_bytes bw"
proof -
  obtain bs where "parse_param ip6 f bw = Inr bs" "bytes_to_string bs = Inr s"
    using assms(1) by (auto simp: param_bytes_def res_bind_Inr_iff)
  then show ?thesis
    using bytes_to_string_length [of bs s] parse_param_length_int [of ip6 f bw bs] assms(2,3) by simp
qed

lemma parse_match_field_fits:
  assumes "parse_match_field ip6 mt bw f = Inr p" "0 \<le> bw" "packs_16 ip6"
  shows "param_type p = mt \<and> param_fits bw p"
proof -
  have l: "param_bytes UIn_MatchKeyError ip6 x bw = Inr s \<Longrightarrow> length s = field_bytes bw" for x s
    using param_bytes_length assms(2,3) by blast
  from assms(1) show ?thesis
    by (cases mt; auto simp: parse_match_field_def res_bind_Inr_iff Let_def dest!: l split: if_splits)
qed

lemma parse_match_fields_fits:
  assumes "packs_16 ip6" "\<forall>k \<in> set ks. 0 \<le> snd (snd k)"
  shows "parse_match_fields ip6 ks fs = Inr ps \<Longrightarrow>
    length fs \<le> length ks \<and> list_all2 key_field_fits (take (length fs) ks) ps"
  using assms
proof (induction ip6 ks fs arbitrary: ps rule: parse_match_fields.induct)
  case (3 ip6 name mt bw ks f fs)
  from 3(2) obtain p ps' where *: "parse_match_field ip6 mt bw f = Inr p"
    "parse_match_fields ip6 ks fs = Inr ps'" "ps = p # ps'"
    by (auto simp: res_bind_Inr_iff)
  then have "key_field_fits (name, mt, bw) p"
    using 3 parse_match_field_fits by (simp add: key_field_fits_def)
  with * 3 show ?case by simp
qed (auto)

text \<open>
  C15. A match key that parses has one parameter per typed field, never more than the table has
  key fields, each of the type and the byte width of its key field; masks are as long as keys and
  ranges are ordered.
\<close>

theorem parse_match_key_shape:
  assumes "parse_match_key ip6 table fs = Inr ps"
    and "packs_16 ip6" and "\<forall>k \<in> set (t_key table). 0 \<le> snd (snd k)"
  shows "length fs \<le> num_key_fields table \<and> length ps = length fs \<and>
         list_all2 key_field_fits (take (length fs) (t_key table)) ps"
proof -
  have "length fs \<le> length (t_key table) \<and> list_all2 key_field_fits (take (length fs) (t_key table)) ps"
    using parse_match_fields_fits [OF assms(2,3)] assms(1) by (simp add: parse_match_key_def)
  then show ?thesis using list_all2_lengthD by (fastforce simp: num_key_fields_def)
qed

text \<open>A table of the kind the SAI program has: an exact 16 bit field and a ternary 8 bit field.\<close>

definition example_table :: table where
  "example_table = \<lparr>t_name = ''table_fdb'', t_id = 1, t_match_type = Some TERNARY,
     t_actions = [(''_nop'', \<lparr>a_name = ''_nop'', a_id = 0, runtime_data = []\<rparr>)],
     t_key = [(''ethernet.vid'', EXACT, 16), (''meta.flags'', TERNARY, 8)],
     t_type = Some Table_simple, support_timeout = False\<rparr>"

theorem parse_match_key_shape_witness:
  "length [''515'', ''3&&&0xff''] \<le> num_key_fields example_table \<and>
   length [BmMatchParamExact [CHR 0x02, CHR 0x03], BmMatchParamTernary [CHR 0x03] [CHR 0xff]] =
     length [''515'', ''3&&&0xff''] \<and>
   list_all2 key_field_fits (take (length [''515'', ''3&&&0xff'']) (t_key example_table))
     [BmMatchParamExact [CHR 0x02, CHR 0x03], BmMatchParamTernary [CHR 0x03] [CHR 0xff]]"
proof (rule parse_match_key_shape [of "\<lambda>_. None"])
  show "parse_match_key (\<lambda>_. None) example_table [''515'', ''3&&&0xff''] =
    Inr [BmMatchParamExact [CHR 0x02, CHR 0x03], BmMatchParamTernary [CHR 0x03] [CHR 0xff]]"
    by code_simp
qed (simp_all add: packs_16_def example_table_def)

text \<open>
  The two length checks of \<open>parse_match_key\<close> can never fire: key and mask, and the two ends
  of a range, are parsed at the same bit width and so always have the same number of bytes. Every
  \<open>UIn_MatchKeyError\<close> is either a parameter error or a range whose start is greater than its end.
\<close>

theorem parse_match_field_length_checks_dead:
  assumes "packs_16 ip6" and "0 \<le> bw"
  shows "parse_match_field ip6 mt bw f \<noteq>
           Inl (UIn_MatchKeyError (''Key and mask have different lengths in expression '' @ f)) \<and>
         parse_match_field ip6 mt bw f \<noteq>
           Inl (UIn_MatchKeyError (''start and end have different lengths in expression '' @ f))"
proof -
  have e: "param_bytes UIn_MatchKeyError ip6 x bw = Inl (UIn_MatchKeyError m) \<Longrightarrow>
      \<exists>t. m = ''Error while parsing '' @ t" for x m
    by (drule param_bytes_Inl) auto
  have l: "param_bytes UIn_MatchKeyError ip6 x bw = Inr s \<Longrightarrow> length s = field_bytes bw" for x s
    using param_bytes_length assms by blast
  show ?thesis
    by (cases mt; auto simp: parse_match_field_def Let_def res_bind_Inl_iff unpack2_def
        dest!: e l split: if_splits list.splits)
qed

theorem parse_match_field_length_checks_dead_witness:
  "parse_match_field (\<lambda>_. None) TERNARY 8 ''1&&&0xff'' \<noteq>
     Inl (UIn_MatchKeyError (''Key and mask have different lengths in expression '' @ ''1&&&0xff'')) \<and>
   parse_match_field (\<lambda>_. None) TERNARY 8 ''1&&&0xff'' \<noteq>
     Inl (UIn_MatchKeyError (''start and end have different lengths in expression '' @ ''1&&&0xff''))"
  by (rule parse_match_field_length_checks_dead) (simp_all add: packs_16_def)

end
