(* ===== verification/Cli_World.thy ===== *)
theory Cli_World
  imports Match_Key
begin

text \<open>
  The environment a command of the runtime CLI runs in: the Thrift services of the switch as the
  generated client stubs present them (\<^verbatim>\<open>thrift_src/standard.thrift\<close>,
  \<^verbatim>\<open>simple_pre.thrift\<close>, \<^verbatim>\<open>simple_pre_lag.thrift\<close>), the output, and the
  decorator \<open>handle_bad_input\<close> that every command has.

  The switch itself is a parameter: a function from a call and the switch's state to a result,
  which may be an exception, and a new state. The trace \<open>events\<close> records what a command does
  in order: the lines it prints, the calls it issues, the files it writes and the messages it sends
  on a socket.
\<close>

section \<open>Thrift calls and values\<close>

text \<open>A decimal floating point literal \<open>(-1)^neg * mantissa * 10^exponent\<close>, before rounding to a
  double, or one of the special values.\<close>

datatype py_float = PDec bool nat int | PInf bool | PNan

type_synonym meter_rate = "py_float \<times> int"

datatype bm_action_entry =
    BmActionEntry_NONE
  | BmActionEntry_ACTION_DATA string "string list"
  | BmActionEntry_MBR_HANDLE int
  | BmActionEntry_GRP_HANDLE int

record bm_mt_entry =
  e_match_key :: "bm_match_param list"
  e_priority :: "int option"
  entry_handle :: int
  action_entry :: bm_action_entry
  e_life :: "(int \<times> int) option"

record bm_member =
  mbr_handle :: int
  mbr_action_name :: string
  mbr_action_data :: "string list"

record bm_group =
  grp_handle :: int
  mbr_handles :: "int list"

record port_info =
  port_num :: int
  iface_name :: string
  is_up :: bool
  port_extra :: "(string \<times> string) list"

record crc_config =
  polynomial :: int
  initial_remainder :: int
  final_xor_value :: int
  data_reflected :: bool
  remainder_reflected :: bool

text \<open>A call of a client stub: the method and its positional arguments, whose Python types are not
  checked before the stub serialises them.\<close>

datatype py_arg =
    AInt int
  | AStr string
  | AKey "bm_match_param list"
  | AData "string list"
  | AOptions int
  | ARates "meter_rate list"
  | ACrc crc_config
  | ANone

datatype thrift_call = Call string "py_arg list"

text \<open>A value that may be \<open>None\<close> as an argument and as a printed value.\<close>

definition opt_arg :: "string option \<Rightarrow> py_arg" where
  "opt_arg v = (case v of None \<Rightarrow> ANone | Some s \<Rightarrow> AStr s)"

definition opt_str :: "string option \<Rightarrow> string" where
  "opt_str v = (case v of None \<Rightarrow> ''None'' | Some s \<Rightarrow> s)"

datatype std_val =
    VUnit
  | VInt int
  | VStr string
  | VCounter int int
  | VRates "meter_rate list"
  | VEntry bm_mt_entry
  | VEntries "bm_mt_entry list"
  | VMember bm_member
  | VMembers "bm_member list"
  | VGroup bm_group
  | VGroups "bm_group list"
  | VActionEntry bm_action_entry
  | VPorts "port_info list"
  | VInfo "(string \<times> string) list"

section \<open>The world of a command\<close>

datatype event =
    Out string
  | OutPart string
  | Std thrift_call
  | Mc thrift_call
  | Sw thrift_call
  | Wrote string string
  | Sent string

record 's world =
  cfg :: config
  switch :: 's
  events :: "event list"

text \<open>Libraries and system services the commands use: the IPv6 parser, \<open>json.loads\<close>, reading a
  file (\<open>None\<close>: not a regular file), whether a file can be opened for writing, running a shell
  command, the MD5 digest, and the printed form of Thrift values, floats and JSON containers.\<close>

record py_lib =
  ip6 :: ip6_lib
  json_loads :: json_lib
  read_file :: "string \<Rightarrow> string option"
  can_write :: "string \<Rightarrow> bool"
  popen_read :: "string \<Rightarrow> string"
  md5_digest :: "string \<Rightarrow> string"
  repr_val :: "std_val \<Rightarrow> string"
  show_float :: "py_float \<Rightarrow> string"
  repr_json :: "json \<Rightarrow> string"

text \<open>Libraries that fail on everything, for concrete examples.\<close>

definition no_lib :: py_lib where
  "no_lib = \<lparr>ip6 = (\<lambda>_. None), json_loads = (\<lambda>_. None), read_file = (\<lambda>_. None),
     can_write = (\<lambda>_. False), popen_read = (\<lambda>_. []), md5_digest = (\<lambda>_. []), repr_val = (\<lambda>_. []),
     show_float = (\<lambda>_. []), repr_json = (\<lambda>_. [])\<rparr>"

record 's api =
  client :: "thrift_call \<Rightarrow> 's \<Rightarrow> std_val res \<times> 's"
  mc_client :: "(thrift_call \<Rightarrow> 's \<Rightarrow> std_val res \<times> 's) option"
  api_pre_type :: pre_type
  lib :: py_lib

type_synonym ('s, 'z, 'a) cli = "(('s, 'z) world_scheme, 'a) io"

definition emit :: "event \<Rightarrow> ('s, 'z, unit) cli" where
  "emit e = io_modify (\<lambda>w. w\<lparr>events := events w @ [e]\<rparr>)"

text \<open>\<open>print a, b, c\<close> writes the values separated by blanks.\<close>

definition pr :: "string list \<Rightarrow> ('s, 'z, unit) cli" where
  "pr parts = emit (Out (py_join '' '' parts))"

definition std :: "'s api \<Rightarrow> thrift_call \<Rightarrow> ('s, 'z, std_val) cli" where
  "std api c = (\<lambda>w. case client api c (switch w) of
     (r, s) \<Rightarrow> (r, w\<lparr>switch := s, events := events w @ [Std c]\<rparr>))"

text \<open>A method call on \<open>self.mc_client\<close>; on \<open>None\<close> it is an AttributeError.\<close>

definition mc :: "'s api \<Rightarrow> thrift_call \<Rightarrow> ('s, 'z, std_val) cli" where
  "mc api c =
     (case mc_client api of
        None \<Rightarrow> io_raise AttributeError
      | Some cl \<Rightarrow> (\<lambda>w. case cl c (switch w) of
          (r, s) \<Rightarrow> (r, w\<lparr>switch := s, events := events w @ [Mc c]\<rparr>)))"

text \<open>A function of the configuration module, which works on the module's global dictionaries.\<close>

definition with_cfg :: "(config, 'a) io \<Rightarrow> ('s, 'z, 'a) cli" where
  "with_cfg m = (\<lambda>w. case m (cfg w) of (r, c) \<Rightarrow> (r, w\<lparr>cfg := c\<rparr>))"

text \<open>Reading the result at the declared type; a value of another type is a protocol error.\<close>

definition as_unit :: "std_val \<Rightarrow> unit res" where
  "as_unit v = (case v of VUnit \<Rightarrow> Inr () | _ \<Rightarrow> Inl TransportError)"

definition as_int :: "std_val \<Rightarrow> int res" where
  "as_int v = (case v of VInt i \<Rightarrow> Inr i | _ \<Rightarrow> Inl TransportError)"

definition as_str :: "std_val \<Rightarrow> string res" where
  "as_str v = (case v of VStr s \<Rightarrow> Inr s | _ \<Rightarrow> Inl TransportError)"

definition as_entry :: "std_val \<Rightarrow> bm_mt_entry res" where
  "as_entry v = (case v of VEntry e \<Rightarrow> Inr e | _ \<Rightarrow> Inl TransportError)"

definition as_rates :: "std_val \<Rightarrow> meter_rate list res" where
  "as_rates v = (case v of VRates rs \<Rightarrow> Inr rs | _ \<Rightarrow> Inl TransportError)"

definition as_entries :: "std_val \<Rightarrow> bm_mt_entry list res" where
  "as_entries v = (case v of VEntries es \<Rightarrow> Inr es | _ \<Rightarrow> Inl TransportError)"

definition as_member :: "std_val \<Rightarrow> bm_member res" where
  "as_member v = (case v of VMember m \<Rightarrow> Inr m | _ \<Rightarrow> Inl TransportError)"

definition as_members :: "std_val \<Rightarrow> bm_member list res" where
  "as_members v = (case v of VMembers ms \<Rightarrow> Inr ms | _ \<Rightarrow> Inl TransportError)"

definition as_group :: "std_val \<Rightarrow> bm_group res" where
  "as_group v = (case v of VGroup g \<Rightarrow> Inr g | _ \<Rightarrow> Inl TransportError)"

definition as_groups :: "std_val \<Rightarrow> bm_group list res" where
  "as_groups v = (case v of VGroups gs \<Rightarrow> Inr gs | _ \<Rightarrow> Inl TransportError)"

definition as_action_entry :: "std_val \<Rightarrow> bm_action_entry res" where
  "as_action_entry v = (case v of VActionEntry a \<Rightarrow> Inr a | _ \<Rightarrow> Inl TransportError)"

definition as_ports :: "std_val \<Rightarrow> port_info list res" where
  "as_ports v = (case v of VPorts ps \<Rightarrow> Inr ps | _ \<Rightarrow> Inl TransportError)"

definition as_info :: "std_val \<Rightarrow> (string \<times> string) list res" where
  "as_info v = (case v of VInfo kvs \<Rightarrow> Inr kvs | _ \<Rightarrow> Inl TransportError)"

definition expect :: "(std_val \<Rightarrow> 'a res) \<Rightarrow> ('s, 'z, std_val) cli \<Rightarrow> ('s, 'z, 'a) cli" where
  "expect f m = io_bind m (\<lambda>v. io_lift (f v))"

lemma cli_atom_apply [io_simps]:
  "emit e w = (Inr (), w\<lparr>events := events w @ [e]\<rparr>)"
  "pr parts w = (Inr (), w\<lparr>events := events w @ [Out (py_join '' '' parts)]\<rparr>)"
  by (simp_all add: emit_def pr_def io_simps)

lemma std_apply [io_simps]:
  "std api c w = (fst (client api c (switch w)),
     w\<lparr>switch := snd (client api c (switch w)), events := events w @ [Std c]\<rparr>)"
  by (simp add: std_def split: prod.split)

section \<open>Error codes and the decorator\<close>

text \<open>\<open>XErrorCode._VALUES_TO_NAMES[code]\<close> for the enumerations of
  \<^verbatim>\<open>standard.thrift\<close>, which all start at 1.\<close>

definition error_name :: "string list \<Rightarrow> int \<Rightarrow> string res" where
  "error_name names code =
     (if 1 \<le> code \<and> code \<le> int (length names) then Inr (names ! nat (code - 1)) else Inl KeyError)"

definition TableOperationErrorCode :: "string list" where
  "TableOperationErrorCode =
     [''TABLE_FULL'', ''INVALID_HANDLE'', ''EXPIRED_HANDLE'', ''COUNTERS_DISABLED'',
      ''METERS_DISABLED'', ''AGEING_DISABLED'', ''INVALID_TABLE_NAME'', ''INVALID_ACTION_NAME'',
      ''WRONG_TABLE_TYPE'', ''INVALID_MBR_HANDLE'', ''MBR_STILL_USED'', ''MBR_ALREADY_IN_GRP'',
      ''MBR_NOT_IN_GRP'', ''INVALID_GRP_HANDLE'', ''GRP_STILL_USED'', ''EMPTY_GRP'',
      ''DUPLICATE_ENTRY'', ''BAD_MATCH_KEY'', ''INVALID_METER_OPERATION'',
      ''DEFAULT_ACTION_IS_CONST'', ''DEFAULT_ENTRY_IS_CONST'', ''NO_DEFAULT_ENTRY'', ''ERROR'']"

definition CounterOperationErrorCode :: "string list" where
  "CounterOperationErrorCode = [''INVALID_COUNTER_NAME'', ''INVALID_INDEX'', ''ERROR'']"

definition MeterOperationErrorCode :: "string list" where
  "MeterOperationErrorCode =
     [''INVALID_METER_NAME'', ''INVALID_INDEX'', ''BAD_RATES_LIST'', ''INVALID_INFO_RATE_VALUE'',
      ''INVALID_BURST_SIZE_VALUE'', ''ERROR'']"

definition RegisterOperationErrorCode :: "string list" where
  "RegisterOperationErrorCode = [''INVALID_REGISTER_NAME'', ''INVALID_INDEX'', ''ERROR'']"

definition LearnOperationErrorCode :: "string list" where
  "LearnOperationErrorCode = [''INVALID_LIST_ID'', ''ERROR'']"

definition SwapOperationErrorCode :: "string list" where
  "SwapOperationErrorCode = [''CONFIG_SWAP_DISABLED'', ''ONGOING_SWAP'', ''NO_ONGOING_SWAP'']"

definition DevMgrErrorCode :: "string list" where
  "DevMgrErrorCode = [''ERROR'']"

definition CrcErrorCode :: "string list" where
  "CrcErrorCode = [''INVALID_CALCULATION_NAME'', ''WRONG_TYPE_CALCULATION'', ''INVALID_CONFIG'']"

definition op_line :: "string \<Rightarrow> string list \<Rightarrow> int \<Rightarrow> string res" where
  "op_line what names code = res_bind (error_name names code) (\<lambda>n.
     Inr (''Invalid '' @ what @ '' operation ('' @ n @ '')''))"

text \<open>What \<open>handle_bad_input\<close> prints for an exception, in the order of its except clauses;
  \<open>None\<close> is an exception it lets through. The address errors have no \<open>info\<close> attribute, so
  printing one raises AttributeError.\<close>

definition bad_input_line :: "py_exn \<Rightarrow> string res option" where
  "bad_input_line e =
     (case e of
        UIn_MatchKeyError info \<Rightarrow> Some (Inr (''Invalid match key: '' @ info))
      | UIn_RuntimeDataError info \<Rightarrow> Some (Inr (''Invalid runtime data: '' @ info))
      | UIn_Error info \<Rightarrow> Some (Inr (''Error: '' @ info))
      | UIn_ResourceError res_type name \<Rightarrow>
          Some (Inr (''Error: Invalid '' @ res_type @ '' name ('' @ name @ '')''))
      | UIn_BadParamError info \<Rightarrow> Some (Inr (''Error: '' @ info))
      | UIn_BadIPv4Error \<Rightarrow> Some (Inl AttributeError)
      | UIn_BadIPv6Error \<Rightarrow> Some (Inl AttributeError)
      | UIn_BadMacError \<Rightarrow> Some (Inl AttributeError)
      | InvalidTableOperation code \<Rightarrow> Some (op_line ''table'' TableOperationErrorCode code)
      | InvalidCounterOperation code \<Rightarrow> Some (op_line ''counter'' CounterOperationErrorCode code)
      | InvalidMeterOperation code \<Rightarrow> Some (op_line ''meter'' MeterOperationErrorCode code)
      | InvalidRegisterOperation code \<Rightarrow> Some (op_line ''register'' RegisterOperationErrorCode code)
      | InvalidLearnOperation code \<Rightarrow> Some (op_line ''learn'' LearnOperationErrorCode code)
      | InvalidSwapOperation code \<Rightarrow> Some (op_line ''swap'' SwapOperationErrorCode code)
      | InvalidDevMgrOperation code \<Rightarrow> Some (op_line ''device manager'' DevMgrErrorCode code)
      | InvalidCrcOperation code \<Rightarrow> Some (op_line ''crc'' CrcErrorCode code)
      | _ \<Rightarrow> None)"

definition handle_bad_input :: "('s, 'z, unit) cli \<Rightarrow> ('s, 'z, unit) cli" where
  "handle_bad_input f =
     io_catch f (\<lambda>e. case bad_input_line e of
        None \<Rightarrow> io_raise e
      | Some r \<Rightarrow> io_bind (io_lift r) (\<lambda>line. pr [line]))"

section \<open>Argument checks\<close>

definition get_res :: "string \<Rightarrow> string \<Rightarrow> (config \<Rightarrow> (string \<times> 'a) list) \<Rightarrow> ('s, 'z, 'a) cli" where
  "get_res type_name name array =
     io_bind (io_gets (\<lambda>w. map_of (array (cfg w)) name)) (\<lambda>r.
     io_lift (or_raise (UIn_ResourceError type_name name) r))"

definition at_least_n_args :: "string list \<Rightarrow> nat \<Rightarrow> ('s, 'z, unit) cli" where
  "at_least_n_args args n =
     (if length args < n then io_raise (UIn_Error ''Insufficient number of args'') else io_ret ())"

definition wrong_n_args :: "nat \<Rightarrow> nat \<Rightarrow> string" where
  "wrong_n_args n m =
     ''Wrong number of args, expected '' @ show_nat n @ '' but got '' @ show_nat m"

definition exactly_n_args :: "string list \<Rightarrow> nat \<Rightarrow> ('s, 'z, unit) cli" where
  "exactly_n_args args n =
     (if length args \<noteq> n then io_raise (UIn_Error (wrong_n_args n (length args))) else io_ret ())"

text \<open>\<open>try: int(s)  except: raise UIn_Error(msg)\<close>\<close>

definition int_arg :: "string \<Rightarrow> string \<Rightarrow> ('s, 'z, int) cli" where
  "int_arg msg s = io_lift (or_raise (UIn_Error msg) (py_int s))"

lemma get_res_apply [io_simps]:
  "get_res ty name array w = (or_raise (UIn_ResourceError ty name) (map_of (array (cfg w)) name), w)"
  by (simp add: get_res_def io_simps)

lemma args_apply [io_simps]:
  "at_least_n_args args n w =
     (if length args < n then Inl (UIn_Error ''Insufficient number of args'') else Inr (), w)"
  "exactly_n_args args n w =
     (if length args \<noteq> n then Inl (UIn_Error (wrong_n_args n (length args))) else Inr (), w)"
  "int_arg msg s w = (or_raise (UIn_Error msg) (py_int s), w)"
  by (simp_all add: at_least_n_args_def exactly_n_args_def int_arg_def io_simps)

end
