(* ===== verification/Cli_Safety.thy ===== *)
theory Cli_Safety
  imports Cli_World
begin

text \<open>
  A calculus for what a command may send to the switch. \<open>issues c P m\<close> says that \<open>m\<close>, started
  in any world whose configuration is \<open>c\<close>, leaves the configuration alone, only appends to the
  trace, and issues only calls that satisfy \<open>P\<close>, on every path, exceptions included. The rules
  follow the combinators, and those for the argument checks hand the checked fact to the rest of the
  command; \<open>quiet\<close> is the special case of a command that issues no call at all.
\<close>

section \<open>Calls in a trace\<close>

definition rpcs :: "event list \<Rightarrow> thrift_call list" where
  "rpcs es = List.map_filter (\<lambda>e. case e of Std c \<Rightarrow> Some c | Mc c \<Rightarrow> Some c | Sw c \<Rightarrow> Some c | _ \<Rightarrow> None) es"

lemma rpcs_simps [simp]:
  "rpcs [] = []"
  "rpcs (Out s # es) = rpcs es"
  "rpcs (OutPart s # es) = rpcs es"
  "rpcs (Wrote f s # es) = rpcs es"
  "rpcs (Sent s # es) = rpcs es"
  "rpcs (Std c # es) = c # rpcs es"
  "rpcs (Mc c # es) = c # rpcs es"
  "rpcs (Sw c # es) = c # rpcs es"
  by (simp_all add: rpcs_def List.map_filter_simps)

lemma rpcs_append [simp]: "rpcs (es @ fs) = rpcs es @ rpcs fs"
  by (induction es) (auto simp: rpcs_def List.map_filter_simps split: event.split)

section \<open>Calls a command may issue\<close>

definition issues :: "config \<Rightarrow> (thrift_call \<Rightarrow> bool) \<Rightarrow> ('s, 'z, 'a) cli \<Rightarrow> bool" where
  "issues c P m \<longleftrightarrow> (\<forall>w. cfg w = c \<longrightarrow>
     cfg (snd (m w)) = c \<and> (\<exists>es. events (snd (m w)) = events w @ es \<and> list_all P (rpcs es)))"

lemma issuesI:
  "(\<And>w. cfg w = c \<Longrightarrow> cfg (snd (m w)) = c \<and>
     (\<exists>es. events (snd (m w)) = events w @ es \<and> list_all P (rpcs es))) \<Longrightarrow> issues c P m"
  by (simp add: issues_def)

lemma issuesD:
  assumes "issues c P m" "cfg w = c" "m w = (r, w')"
  shows "cfg w' = c" "\<exists>es. events w' = events w @ es \<and> list_all P (rpcs es)"
  using assms unfolding issues_def by (metis snd_conv)+

named_theorems issues_rules "rules for the calls a command may issue"

lemma issues_atoms [issues_rules]:
  "issues c P (io_ret a)"
  "issues c P (io_raise e)"
  "issues c P (io_lift r)"
  "issues c P (io_gets f)"
  "issues c P (pr parts)"
  "issues c P (get_res ty name array)"
  "issues c P (at_least_n_args args n)"
  "issues c P (exactly_n_args args n)"
  "issues c P (int_arg msg s)"
  by (auto simp: issues_def io_simps)

lemma issues_emit [issues_rules]: "rpcs [e] = [] \<Longrightarrow> issues c P (emit e)"
  by (auto simp: issues_def io_simps)

lemma issues_std [issues_rules]: "P call \<Longrightarrow> issues c P (std api call)"
  by (auto simp: issues_def io_simps)

lemma issues_mc [issues_rules]: "P call \<Longrightarrow> issues c P (mc api call)"
  by (auto simp: issues_def mc_def io_simps split: option.split prod.split)

lemma issues_bind_general:
  assumes "issues c P m" and "\<And>a w w'. cfg w = c \<Longrightarrow> m w = (Inr a, w') \<Longrightarrow> issues c P (f a)"
  shows "issues c P (io_bind m f)"
proof (rule issuesI)
  fix w :: "('a, 'b) world_scheme"
  assume w: "cfg w = c"
  obtain r w' where m: "m w = (r, w')" by fastforce
  from issuesD [OF assms(1) w m] obtain es where
    1: "cfg w' = c" "events w' = events w @ es" "list_all P (rpcs es)" by blast
  show "cfg (snd (io_bind m f w)) = c \<and>
    (\<exists>es. events (snd (io_bind m f w)) = events w @ es \<and> list_all P (rpcs es))"
  proof (cases r)
    case Inl
    then show ?thesis using m 1 by (auto simp: io_simps)
  next
    case (Inr a)
    obtain r' w'' where f: "f a w' = (r', w'')" by fastforce
    have "issues c P (f a)" using assms(2) w m Inr by blast
    from issuesD [OF this 1(1) f] obtain es' where
      "cfg w'' = c" "events w'' = events w' @ es'" "list_all P (rpcs es')" by blast
    then show ?thesis using m Inr 1 f by (auto simp: io_simps)
  qed
qed

lemma issues_bind [issues_rules]:
  "issues c P m \<Longrightarrow> (\<And>a. issues c P (f a)) \<Longrightarrow> issues c P (io_bind m f)"
  by (rule issues_bind_general)

lemma issues_then [issues_rules]: "issues c P m \<Longrightarrow> issues c P n \<Longrightarrow> issues c P (io_then m n)"
  unfolding io_then_def by (rule issues_bind_general)

lemma issues_catch [issues_rules]:
  assumes "issues c P m" and "\<And>e. issues c P (h e)"
  shows "issues c P (io_catch m h)"
proof (rule issuesI)
  fix w :: "('a, 'b) world_scheme"
  assume w: "cfg w = c"
  obtain r w' where m: "m w = (r, w')" by fastforce
  from issuesD [OF assms(1) w m] obtain es where
    1: "cfg w' = c" "events w' = events w @ es" "list_all P (rpcs es)" by blast
  show "cfg (snd (io_catch m h w)) = c \<and>
    (\<exists>es. events (snd (io_catch m h w)) = events w @ es \<and> list_all P (rpcs es))"
  proof (cases r)
    case (Inl e)
    obtain r' w'' where h: "h e w' = (r', w'')" by fastforce
    from issuesD [OF assms(2) 1(1) h] obtain es' where
      "cfg w'' = c" "events w'' = events w' @ es'" "list_all P (rpcs es')" by blast
    then show ?thesis using m Inl 1 h by (auto simp: io_simps)
  next
    case Inr
    then show ?thesis using m 1 by (auto simp: io_simps)
  qed
qed

lemma issues_for [issues_rules]:
  "(\<And>x. x \<in> set xs \<Longrightarrow> issues c P (f x)) \<Longrightarrow> issues c P (io_for xs f)"
  by (induction xs) (auto intro!: issues_rules)

lemma issues_fold [issues_rules]:
  "(\<And>x b. issues c P (f x b)) \<Longrightarrow> issues c P (io_fold xs b f)"
  by (induction xs arbitrary: b) (auto intro!: issues_rules)

lemma issues_expect [issues_rules]: "issues c P m \<Longrightarrow> issues c P (expect f m)"
  unfolding expect_def by (intro issues_bind issues_atoms)

lemma issues_if [issues_rules]:
  "(b \<Longrightarrow> issues c P m) \<Longrightarrow> (\<not> b \<Longrightarrow> issues c P n) \<Longrightarrow> issues c P (if b then m else n)"
  by simp

lemma issues_handle [issues_rules]: "issues c P m \<Longrightarrow> issues c P (handle_bad_input m)"
  unfolding handle_bad_input_def
  by (intro issues_catch) (auto intro!: issues_rules split: option.split)

text \<open>Rules that pass on what a check has established.\<close>

lemma issues_get_res:
  "(\<And>x. map_of (array c) name = Some x \<Longrightarrow> issues c P (f x)) \<Longrightarrow>
   issues c P (io_bind (get_res ty name array) f)"
  by (rule issues_bind_general [OF issues_atoms(6)]) (auto simp: io_simps)

lemma issues_lift:
  "(\<And>x. r = Inr x \<Longrightarrow> issues c P (f x)) \<Longrightarrow> issues c P (io_bind (io_lift r) f)"
  by (rule issues_bind_general [OF issues_atoms(3)]) (auto simp: io_simps)

lemma issues_lift_prod:
  "(\<And>x y. r = Inr (x, y) \<Longrightarrow> issues c P (f x y)) \<Longrightarrow>
   issues c P (io_bind (io_lift r) (\<lambda>(x, y). f x y))"
  by (rule issues_lift) auto

lemma issues_check:
  "(\<not> b \<Longrightarrow> issues c P m) \<Longrightarrow> issues c P (io_then (if b then io_raise e else io_ret ()) m)"
  by (cases b) (auto simp: issues_def io_simps)

lemma issues_exactly_n_args:
  "(length args = n \<Longrightarrow> issues c P m) \<Longrightarrow> issues c P (io_then (exactly_n_args args n) m)"
  unfolding exactly_n_args_def by (rule issues_check) simp

lemma issues_at_least_n_args:
  "(n \<le> length args \<Longrightarrow> issues c P m) \<Longrightarrow> issues c P (io_then (at_least_n_args args n) m)"
  unfolding at_least_n_args_def by (rule issues_check) simp

section \<open>What a call needs of the configuration\<close>

text \<open>
  The contract between the CLI and the switch: which Thrift methods the commands use, and what the
  program loaded into the CLI must contain for the first name argument of each. \<open>Anything\<close> is a
  method without such an argument, or one that the CLI calls with an unchecked name.
\<close>

datatype requirement =
    Anything
  | OnTable
  | OnIndirect
  | OnSelector
  | OnMeter
  | OnCounter
  | OnRegister
  | OnMeterBinding
  | OnCounterBinding
  | OnCrc int

definition access :: "(string \<times> requirement) list" where
  "access =
    [(''bm_mt_set_default_action'', OnTable), (''bm_mt_get_num_entries'', OnTable),
     (''bm_mt_add_entry'', OnTable), (''bm_mt_set_entry_ttl'', OnTable),
     (''bm_mt_modify_entry'', OnTable), (''bm_mt_delete_entry'', OnTable),
     (''bm_mt_get_entry'', OnTable), (''bm_mt_get_entries'', OnTable),
     (''bm_mt_get_entry_from_key'', OnTable), (''bm_mt_get_default_entry'', OnTable),
     (''bm_mt_indirect_get_member'', OnTable), (''bm_mt_indirect_ws_get_group'', OnTable),
     (''bm_mt_indirect_add_member'', OnIndirect), (''bm_mt_indirect_delete_member'', OnIndirect),
     (''bm_mt_indirect_modify_member'', OnIndirect), (''bm_mt_indirect_add_entry'', OnIndirect),
     (''bm_mt_indirect_delete_entry'', OnIndirect), (''bm_mt_indirect_set_default_member'', OnIndirect),
     (''bm_mt_indirect_get_members'', OnIndirect),
     (''bm_mt_indirect_ws_add_entry'', OnSelector), (''bm_mt_indirect_ws_set_default_group'', OnSelector),
     (''bm_mt_indirect_ws_create_group'', OnSelector), (''bm_mt_indirect_ws_delete_group'', OnSelector),
     (''bm_mt_indirect_ws_add_member_to_group'', OnSelector),
     (''bm_mt_indirect_ws_remove_member_from_group'', OnSelector),
     (''bm_mt_indirect_ws_get_groups'', OnSelector),
     (''bm_meter_array_set_rates'', OnMeter), (''bm_meter_set_rates'', OnMeter),
     (''bm_meter_get_rates'', OnMeter), (''bm_mt_set_meter_rates'', OnMeterBinding),
     (''bm_mt_get_meter_rates'', OnMeterBinding),
     (''bm_counter_read'', OnCounter), (''bm_counter_reset_all'', OnCounter),
     (''bm_mt_read_counter'', OnCounterBinding), (''bm_mt_reset_counters'', OnCounterBinding),
     (''bm_register_read'', OnRegister), (''bm_register_write'', OnRegister),
     (''bm_register_reset'', Anything),
     (''bm_set_crc16_custom_parameters'', OnCrc 16), (''bm_set_crc32_custom_parameters'', OnCrc 32),
     (''bm_dev_mgr_add_port'', Anything), (''bm_dev_mgr_remove_port'', Anything),
     (''bm_dev_mgr_show_ports'', Anything), (''bm_mgmt_get_info'', Anything),
     (''bm_reset_state'', Anything), (''bm_get_config'', Anything),
     (''bm_serialize_state'', Anything), (''bm_load_new_config'', Anything),
     (''bm_swap_configs'', Anything),
     (''bm_mc_mgrp_create'', Anything), (''bm_mc_mgrp_destroy'', Anything),
     (''bm_mc_node_create'', Anything), (''bm_mc_node_update'', Anything),
     (''bm_mc_node_associate'', Anything), (''bm_mc_node_dissociate'', Anything),
     (''bm_mc_node_destroy'', Anything), (''bm_mc_set_lag_membership'', Anything),
     (''bm_mc_get_entries'', Anything)]"

definition table_of_type :: "config \<Rightarrow> table_type set \<Rightarrow> py_arg \<Rightarrow> bool" where
  "table_of_type c tys a \<longleftrightarrow>
     (\<exists>name table. a = AStr name \<and> map_of (TABLES c) name = Some table \<and> t_type table \<in> Some ` tys)"

fun meets :: "config \<Rightarrow> requirement \<Rightarrow> py_arg \<Rightarrow> bool" where
  "meets c Anything a = True"
| "meets c OnTable a = (\<exists>name. a = AStr name \<and> map_of (TABLES c) name \<noteq> None)"
| "meets c OnIndirect a = table_of_type c {Table_indirect, Table_indirect_ws} a"
| "meets c OnSelector a = table_of_type c {Table_indirect_ws} a"
| "meets c OnMeter a = (\<exists>name. a = AStr name \<and> map_of (METER_ARRAYS c) name \<noteq> None)"
| "meets c OnCounter a = (\<exists>name. a = AStr name \<and> map_of (COUNTER_ARRAYS c) name \<noteq> None)"
| "meets c OnRegister a = (\<exists>name. a = AStr name \<and> map_of (REGISTER_ARRAYS c) name \<noteq> None)"
| "meets c OnMeterBinding a = (\<exists>name m. map_of (METER_ARRAYS c) name = Some m \<and>
     m_is_direct m = Some True \<and> a = opt_arg (m_binding m))"
| "meets c OnCounterBinding a = (\<exists>name m. map_of (COUNTER_ARRAYS c) name = Some m \<and>
     c_is_direct m = Some True \<and> a = opt_arg (c_binding m))"
| "meets c (OnCrc width) a = (\<exists>name. a = AStr name \<and> map_of (CUSTOM_CRC_CALCS c) name = Some width)"

text \<open>The name is the second argument, after the context id.\<close>

fun call_ok :: "config \<Rightarrow> thrift_call \<Rightarrow> bool" where
  "call_ok c (Call method args) \<longleftrightarrow>
     (\<exists>(m, req) \<in> set access. m = method \<and>
        (req = Anything \<or> (\<exists>a rest. args = AInt 0 # a # rest \<and> meets c req a)))"

declare call_ok.simps [simp del]

lemma call_ok_any: "(m, Anything) \<in> set access \<Longrightarrow> call_ok c (Call m args)"
  by (fastforce simp: call_ok.simps)

lemma call_ok_on: "(m, req) \<in> set access \<Longrightarrow> meets c req a \<Longrightarrow> call_ok c (Call m (AInt 0 # a # rest))"
  by (fastforce simp: call_ok.simps)

lemma access_names:
  "(''bm_mt_set_default_action'', OnTable) \<in> set access"
  "(''bm_mt_get_num_entries'', OnTable) \<in> set access"
  "(''bm_mt_add_entry'', OnTable) \<in> set access"
  "(''bm_mt_set_entry_ttl'', OnTable) \<in> set access"
  "(''bm_mt_modify_entry'', OnTable) \<in> set access"
  "(''bm_mt_delete_entry'', OnTable) \<in> set access"
  "(''bm_mt_get_entry'', OnTable) \<in> set access"
  "(''bm_mt_get_entries'', OnTable) \<in> set access"
  "(''bm_mt_get_entry_from_key'', OnTable) \<in> set access"
  "(''bm_mt_get_default_entry'', OnTable) \<in> set access"
  "(''bm_mt_indirect_get_member'', OnTable) \<in> set access"
  "(''bm_mt_indirect_ws_get_group'', OnTable) \<in> set access"
  "(''bm_mt_indirect_add_member'', OnIndirect) \<in> set access"
  "(''bm_mt_indirect_delete_member'', OnIndirect) \<in> set access"
  "(''bm_mt_indirect_modify_member'', OnIndirect) \<in> set access"
  "(''bm_mt_indirect_add_entry'', OnIndirect) \<in> set access"
  "(''bm_mt_indirect_delete_entry'', OnIndirect) \<in> set access"
  "(''bm_mt_indirect_set_default_member'', OnIndirect) \<in> set access"
  "(''bm_mt_indirect_get_members'', OnIndirect) \<in> set access"
  "(''bm_mt_indirect_ws_add_entry'', OnSelector) \<in> set access"
  "(''bm_mt_indirect_ws_set_default_group'', OnSelector) \<in> set access"
  "(''bm_mt_indirect_ws_create_group'', OnSelector) \<in> set access"
  "(''bm_mt_indirect_ws_delete_group'', OnSelector) \<in> set access"
  "(''bm_mt_indirect_ws_add_member_to_group'', OnSelector) \<in> set access"
  "(''bm_mt_indirect_ws_remove_member_from_group'', OnSelector) \<in> set access"
  "(''bm_mt_indirect_ws_get_groups'', OnSelector) \<in> set access"
  "(''bm_meter_array_set_rates'', OnMeter) \<in> set access"
  "(''bm_meter_set_rates'', OnMeter) \<in> set access"
  "(''bm_meter_get_rates'', OnMeter) \<in> set access"
  "(''bm_mt_set_meter_rates'', OnMeterBinding) \<in> set access"
  "(''bm_mt_get_meter_rates'', OnMeterBinding) \<in> set access"
  "(''bm_counter_read'', OnCounter) \<in> set access"
  "(''bm_counter_reset_all'', OnCounter) \<in> set access"
  "(''bm_mt_read_counter'', OnCounterBinding) \<in> set access"
  "(''bm_mt_reset_counters'', OnCounterBinding) \<in> set access"
  "(''bm_register_read'', OnRegister) \<in> set access"
  "(''bm_register_write'', OnRegister) \<in> set access"
  "(''bm_set_crc16_custom_parameters'', OnCrc 16) \<in> set access"
  "(''bm_set_crc32_custom_parameters'', OnCrc 32) \<in> set access"
  unfolding access_def list.set by (rule insertI1 | rule insertI2)+

lemma access_anything:
  "(''bm_register_reset'', Anything) \<in> set access"
  "(''bm_dev_mgr_add_port'', Anything) \<in> set access"
  "(''bm_dev_mgr_remove_port'', Anything) \<in> set access"
  "(''bm_dev_mgr_show_ports'', Anything) \<in> set access"
  "(''bm_mgmt_get_info'', Anything) \<in> set access"
  "(''bm_reset_state'', Anything) \<in> set access"
  "(''bm_get_config'', Anything) \<in> set access"
  "(''bm_serialize_state'', Anything) \<in> set access"
  "(''bm_load_new_config'', Anything) \<in> set access"
  "(''bm_swap_configs'', Anything) \<in> set access"
  "(''bm_mc_mgrp_create'', Anything) \<in> set access"
  "(''bm_mc_mgrp_destroy'', Anything) \<in> set access"
  "(''bm_mc_node_create'', Anything) \<in> set access"
  "(''bm_mc_node_update'', Anything) \<in> set access"
  "(''bm_mc_node_associate'', Anything) \<in> set access"
  "(''bm_mc_node_dissociate'', Anything) \<in> set access"
  "(''bm_mc_node_destroy'', Anything) \<in> set access"
  "(''bm_mc_set_lag_membership'', Anything) \<in> set access"
  "(''bm_mc_get_entries'', Anything) \<in> set access"
  unfolding access_def list.set by (rule insertI1 | rule insertI2)+

lemmas call_ok_intros = access_names [THEN call_ok_on] access_anything [THEN call_ok_any]

text \<open>A helper that returns a value is unfolded into its caller.\<close>

lemma io_bind_then: "io_bind (io_then m n) f = io_then m (io_bind n f)"
  by (simp add: io_then_def io_bind_assoc)

lemma io_bind_ret: "io_bind (io_ret a) f = f a"
  by (simp add: io_bind_def io_ret_def)

lemma io_bind_case_prod: "io_bind (case p of (x, y) \<Rightarrow> g x y) f = (case p of (x, y) \<Rightarrow> io_bind (g x y) f)"
  by (cases p) simp

lemmas io_flatten = io_bind_assoc io_bind_then io_bind_ret io_bind_case_prod

lemma issues_case_prod: "(\<And>x y. issues c P (f x y)) \<Longrightarrow> issues c P (case p of (x, y) \<Rightarrow> f x y)"
  by (cases p) simp

lemma issues_case_option:
  "issues c P m \<Longrightarrow> (\<And>x. issues c P (f x)) \<Longrightarrow> issues c P (case p of None \<Rightarrow> m | Some x \<Rightarrow> f x)"
  by (cases p) simp_all

text \<open>The rules in the order in which they apply to a command.\<close>

lemmas issues_flow = issues_handle issues_at_least_n_args issues_exactly_n_args issues_get_res
  issues_lift_prod issues_lift issues_check issues_then issues_bind issues_expect issues_if
  issues_for issues_fold issues_atoms issues_std issues_mc

section \<open>The decorator\<close>

text \<open>The exceptions that stop at the decorator: the user-input errors and the switch's own
  operation errors. All of them are turned into one line of output.\<close>

fun handled :: "py_exn \<Rightarrow> bool" where
  "handled (UIn_Error _) = True"
| "handled (UIn_ResourceError _ _) = True"
| "handled (UIn_MatchKeyError _) = True"
| "handled (UIn_RuntimeDataError _) = True"
| "handled (UIn_BadParamError _) = True"
| "handled (InvalidTableOperation code) = (1 \<le> code \<and> code \<le> 23)"
| "handled (InvalidCounterOperation code) = (1 \<le> code \<and> code \<le> 3)"
| "handled (InvalidMeterOperation code) = (1 \<le> code \<and> code \<le> 6)"
| "handled (InvalidRegisterOperation code) = (1 \<le> code \<and> code \<le> 3)"
| "handled (InvalidLearnOperation code) = (1 \<le> code \<and> code \<le> 2)"
| "handled (InvalidSwapOperation code) = (1 \<le> code \<and> code \<le> 3)"
| "handled (InvalidDevMgrOperation code) = (code = 1)"
| "handled (InvalidCrcOperation code) = (1 \<le> code \<and> code \<le> 3)"
| "handled _ = False"

lemma bad_input_line_handled: "handled e \<Longrightarrow> \<exists>line. bad_input_line e = Some (Inr line)"
  by (cases e) (auto simp: bad_input_line_def op_line_def error_name_def
      TableOperationErrorCode_def CounterOperationErrorCode_def MeterOperationErrorCode_def
      RegisterOperationErrorCode_def LearnOperationErrorCode_def SwapOperationErrorCode_def
      DevMgrErrorCode_def CrcErrorCode_def)

lemma handle_bad_input_apply:
  "handle_bad_input m w =
     (case m w of
        (Inr a, w') \<Rightarrow> (Inr a, w')
      | (Inl e, w') \<Rightarrow>
          (case bad_input_line e of
             None \<Rightarrow> (Inl e, w')
           | Some (Inl e') \<Rightarrow> (Inl e', w')
           | Some (Inr line) \<Rightarrow> (Inr (), w'\<lparr>events := events w' @ [Out line]\<rparr>)))"
  by (auto simp: handle_bad_input_def io_simps split: prod.split sum.split option.split)

lemma bad_input_line_None:
  "bad_input_line ValueError = None" "bad_input_line KeyError = None"
  "bad_input_line IndexError = None" "bad_input_line TypeError = None"
  "bad_input_line StructError = None" "bad_input_line UnboundLocalError = None"
  "bad_input_line AttributeError = None" "bad_input_line AssertionError = None"
  "bad_input_line (InvalidMcOperation code) = None"
  by (simp_all add: bad_input_line_def)



end
