(* ===== verification/Cli_Tables.thy ===== *)
theory Cli_Tables
  imports Cli_Safety
begin

text \<open>
  The commands of \<open>RuntimeAPI\<close> (\<^verbatim>\<open>tools/runtime_CLI.py\<close>) on match tables: listing,
  completion, default actions, and adding, modifying, ageing and deleting entries. Each \<open>do_X\<close>
  is the whole method, decorator included, as a program over the CLI's world.
\<close>

section \<open>Definitions\<close>

definition std_void :: "'s api \<Rightarrow> thrift_call \<Rightarrow> ('s, 'z, unit) cli" where
  "std_void api c = io_bind (std api c) (\<lambda>_. io_ret ())"

definition get_thrift_services :: "pre_type \<Rightarrow> string option list" where
  "get_thrift_services pre_type =
     [Some ''standard''] @
     (if pre_type = PreType_SimplePre then [Some ''simple_pre'']
      else if pre_type = PreType_SimplePreLAG then [Some ''simple_pre_lag'']
      else [None])"

definition do_greet :: "string \<Rightarrow> ('s, 'z, unit) cli" where
  "do_greet line = pr [''hello'']"

definition do_EOF :: "string \<Rightarrow> ('s, 'z, bool) cli" where
  "do_EOF line = io_then (pr []) (io_ret True)"

definition do_shell :: "'s api \<Rightarrow> string \<Rightarrow> ('s, 'z, unit) cli" where
  "do_shell api line = pr [popen_read (lib api) line]"

definition complete_res :: "(string \<times> 'a) list \<Rightarrow> string \<Rightarrow> string list" where
  "complete_res array text =
     (let res = sort (map fst array) in if text = [] then res else filter (starts_with text) res)"

definition ACTIONS_at :: "string \<Rightarrow> ('s, 'z, action) cli" where
  "ACTIONS_at name = io_bind (io_gets (\<lambda>w. map_of (ACTIONS (cfg w)) name)) (\<lambda>r.
     io_lift (or_raise KeyError r))"

definition TABLES_at :: "string \<Rightarrow> ('s, 'z, table) cli" where
  "TABLES_at name = io_bind (io_gets (\<lambda>w. map_of (TABLES (cfg w)) name)) (\<lambda>r.
     io_lift (or_raise KeyError r))"

definition do_show_tables :: "string \<Rightarrow> ('s, 'z, unit) cli" where
  "do_show_tables line = handle_bad_input (
     io_then (exactly_n_args (py_split line) 0) (
     io_bind (io_gets (\<lambda>w. sort (map fst (TABLES (cfg w))))) (\<lambda>names.
     io_for names (\<lambda>table_name. io_bind (TABLES_at table_name) (\<lambda>t. pr [table_str t])))))"

definition do_show_actions :: "string \<Rightarrow> ('s, 'z, unit) cli" where
  "do_show_actions line = handle_bad_input (
     io_then (exactly_n_args (py_split line) 0) (
     io_bind (io_gets (\<lambda>w. sort (map fst (ACTIONS (cfg w))))) (\<lambda>names.
     io_for names (\<lambda>action_name. io_bind (ACTIONS_at action_name) (\<lambda>a. pr [action_str a])))))"

definition complete_tables :: "config \<Rightarrow> string \<Rightarrow> string list" where
  "complete_tables c text = complete_res (TABLES c) text"

definition print_table_actions :: "table \<Rightarrow> ('s, 'z, unit) cli" where
  "print_table_actions table =
     io_for (sort (map fst (t_actions table))) (\<lambda>action_name.
     io_bind (ACTIONS_at action_name) (\<lambda>a. pr [action_str a]))"

definition do_table_show_actions :: "string \<Rightarrow> ('s, 'z, unit) cli" where
  "do_table_show_actions line = handle_bad_input (
     io_then (exactly_n_args (py_split line) 1) (
     io_bind (TABLES_at line) (\<lambda>table. print_table_actions table)))"

text \<open>The completer calls \<open>self._complete_tables(self, text)\<close>: one argument too many.\<close>

definition complete_table_show_actions :: "config \<Rightarrow> string \<Rightarrow> string list res" where
  "complete_table_show_actions c text = Inl TypeError"

definition do_table_info :: "string \<Rightarrow> ('s, 'z, unit) cli" where
  "do_table_info line = handle_bad_input (
     io_then (exactly_n_args (py_split line) 1) (
     io_bind (TABLES_at line) (\<lambda>table.
     io_then (pr [table_str table]) (
     io_then (pr [replicate 80 (CHR ''*'')]) (
     print_table_actions table)))))"

text \<open>The first branch only assigns \<open>actions\<close>, which the line after the \<open>if\<close> overwrites with
  \<open>TABLES[table_name]\<close>.\<close>

definition complete_actions :: "config \<Rightarrow> string \<Rightarrow> string option \<Rightarrow> string list res" where
  "complete_actions c text table_name =
     (if table_name \<noteq> None \<and> table_name \<noteq> Some [] \<and> the table_name \<notin> fst ` set (TABLES c) then Inr []
      else res_bind (or_raise KeyError (Option.bind table_name (map_of (TABLES c)))) (\<lambda>t.
        let actions = sort (map fst (t_actions t))
        in Inr (if text = [] then actions else filter (starts_with text) actions)))"

definition complete_table_and_action :: "config \<Rightarrow> string \<Rightarrow> string \<Rightarrow> string list res" where
  "complete_table_and_action c text line =
     (let args = py_split line; args_cnt = length args
      in if args_cnt = 1 \<and> text = [] then Inr (complete_tables c text)
         else if args_cnt = 2 \<and> text \<noteq> [] then Inr (complete_tables c text)
         else res_bind (py_nth args 1) (\<lambda>table_name.
           if args_cnt = 2 \<and> text = [] then complete_actions c text (Some table_name)
           else if args_cnt = 3 \<and> text \<noteq> [] then complete_actions c text (Some table_name)
           else Inr []))"

definition tab_join :: "string list \<Rightarrow> string" where
  "tab_join xs = py_join [CHR 9] xs"

definition print_set_default :: "string \<Rightarrow> string \<Rightarrow> string list \<Rightarrow> ('s, 'z, unit) cli" where
  "print_set_default table_name action_name data =
     io_then (pr [''Setting default action of'', table_name]) (
     io_then (pr [ljust 20 ''action:'', action_name]) (
     pr [ljust 20 ''runtime data:'', tab_join (map printable_byte_str data)]))"

definition no_action :: "string \<Rightarrow> string \<Rightarrow> py_exn" where
  "no_action table_name action_name =
     UIn_Error (''Table '' @ table_name @ '' has no action '' @ action_name)"

definition needs_params :: "string \<Rightarrow> nat \<Rightarrow> py_exn" where
  "needs_params action_name n =
     UIn_Error (''Action '' @ action_name @ '' needs '' @ show_nat n @ '' parameters'')"

definition check_action :: "table \<Rightarrow> string \<Rightarrow> string \<Rightarrow> ('s, 'z, unit) cli" where
  "check_action table table_name action_name =
     (if action_name \<notin> fst ` set (t_actions table) then io_raise (no_action table_name action_name)
      else io_ret ())"

definition do_table_set_default :: "'s api \<Rightarrow> string \<Rightarrow> ('s, 'z, unit) cli" where
  "do_table_set_default api line = handle_bad_input (
     let args = py_split line in
     io_then (at_least_n_args args 2) (
     let table_name = args ! 0; action_name = args ! 1 in
     io_bind (get_res ''table'' table_name TABLES) (\<lambda>table.
     io_then (check_action table table_name action_name) (
     io_bind (ACTIONS_at action_name) (\<lambda>action.
     io_then (if length (drop 2 args) \<noteq> num_params action
              then io_raise (needs_params action_name (num_params action)) else io_ret ()) (
     io_bind (io_lift (parse_runtime_data (ip6 (lib api)) action (drop 2 args))) (\<lambda>data.
     io_then (print_set_default table_name action_name data) (
     std_void api (Call ''bm_mt_set_default_action''
       [AInt 0, AStr table_name, AStr action_name, AData data])))))))))"

definition api_parse_runtime_data :: "'s api \<Rightarrow> action \<Rightarrow> string list \<Rightarrow> string list res" where
  "api_parse_runtime_data api action action_params =
     (if length action_params \<noteq> num_params action then Inl (needs_params (a_name action) (num_params action))
      else parse_runtime_data (ip6 (lib api)) action action_params)"

definition print_table_add :: "bm_match_param list \<Rightarrow> string \<Rightarrow> string list \<Rightarrow> ('s, 'z, unit) cli" where
  "print_table_add match_key action_name data =
     io_then (pr [ljust 20 ''match key:'', tab_join (map BmMatchParam_to_str match_key)]) (
     io_then (pr [ljust 20 ''action:'', action_name]) (
     pr [ljust 20 ''runtime data:'', tab_join (map printable_byte_str data)]))"

definition do_table_num_entries :: "'s api \<Rightarrow> string \<Rightarrow> ('s, 'z, unit) cli" where
  "do_table_num_entries api line = handle_bad_input (
     let args = py_split line in
     io_then (exactly_n_args args 1) (
     let table_name = args ! 0 in
     io_bind (get_res ''table'' table_name TABLES) (\<lambda>table.
     io_bind (expect as_int (std api (Call ''bm_mt_get_num_entries'' [AInt 0, AStr table_name]))) (\<lambda>n.
     pr [show_int n]))))"

text \<open>Tables that match on ternary or range fields take a priority as their last argument.\<close>

definition priority_error :: py_exn where
  "priority_error = UIn_Error ''Table is ternary, but could not extract a valid priority from args''"

definition pop_priority :: "table \<Rightarrow> string list \<Rightarrow> (int \<times> string list) res" where
  "pop_priority table args =
     res_bind (or_raise AttributeError (t_match_type table)) (\<lambda>mt.
     if mt = TERNARY \<or> mt = RANGE then
       (if args = [] then Inl priority_error
        else res_bind (or_raise priority_error (py_int (last args))) (\<lambda>p. Inr (p, butlast args)))
     else Inr (0, args))"

text \<open>\<open>for idx, input_ in enumerate(xs): if input_ == "=>": break\<close>: the value of \<open>idx\<close> after
  the loop, which is unbound when \<open>xs\<close> is empty and the last index when there is no arrow.\<close>

definition arrow_idx :: "string list \<Rightarrow> nat res" where
  "arrow_idx xs =
     (if xs = [] then Inl UnboundLocalError
      else Inr (if ''=>'' \<in> set xs then length (takeWhile (\<lambda>x. x \<noteq> ''=>'') xs) else length xs - 1))"

definition needs_keys :: "string \<Rightarrow> table \<Rightarrow> py_exn" where
  "needs_keys table_name table =
     UIn_Error (''Table '' @ table_name @ '' needs '' @ show_nat (num_key_fields table) @ '' key fields'')"

definition match_type_str :: "table \<Rightarrow> string res" where
  "match_type_str table = res_bind (or_raise AttributeError (t_match_type table)) (\<lambda>mt.
     Inr (MatchType_to_str mt))"

definition do_table_add :: "'s api \<Rightarrow> string \<Rightarrow> ('s, 'z, unit) cli" where
  "do_table_add api line = handle_bad_input (
     let args0 = py_split line in
     io_then (at_least_n_args args0 3) (
     let table_name = args0 ! 0; action_name = args0 ! 1 in
     io_bind (get_res ''table'' table_name TABLES) (\<lambda>table.
     io_then (check_action table table_name action_name) (
     io_bind (io_lift (pop_priority table args0)) (\<lambda>(priority, args).
     io_bind (ACTIONS_at action_name) (\<lambda>action.
     io_bind (io_lift (arrow_idx (drop 2 args))) (\<lambda>i.
     let idx = i + 2; key_strs = take (idx - 2) (drop 2 args); action_params = drop (idx + 1) args in
     io_then (if length key_strs \<noteq> num_key_fields table
              then io_raise (needs_keys table_name table) else io_ret ()) (
     io_bind (io_lift (api_parse_runtime_data api action action_params)) (\<lambda>data.
     io_bind (io_lift (parse_match_key (ip6 (lib api)) table key_strs)) (\<lambda>match_key.
     io_bind (io_lift (match_type_str table)) (\<lambda>mt.
     io_then (pr [''Adding entry to'', mt, ''match table'', table_name]) (
     io_then (print_table_add match_key action_name data) (
     io_bind (expect as_int (std api (Call ''bm_mt_add_entry''
       [AInt 0, AStr table_name, AKey match_key, AStr action_name, AData data, AOptions priority]))) (\<lambda>h.
     pr [''Entry has been added with handle'', show_int h]))))))))))))))"

definition do_table_set_timeout :: "'s api \<Rightarrow> string \<Rightarrow> ('s, 'z, unit) cli" where
  "do_table_set_timeout api line = handle_bad_input (
     let args = py_split line in
     io_then (exactly_n_args args 3) (
     let table_name = args ! 0 in
     io_bind (get_res ''table'' table_name TABLES) (\<lambda>table.
     io_then (if \<not> support_timeout table
              then io_raise (UIn_Error (''Table '' @ table_name @ '' does not support entry timeouts''))
              else io_ret ()) (
     io_bind (int_arg ''Bad format for entry handle'' (args ! 1)) (\<lambda>handle.
     io_bind (int_arg ''Bad format for timeout'' (args ! 2)) (\<lambda>timeout_ms.
     io_then (pr [''Setting a'', show_int timeout_ms, ''ms timeout for entry'', show_int handle]) (
     std_void api (Call ''bm_mt_set_entry_ttl''
       [AInt 0, AStr table_name, AInt handle, AInt timeout_ms]))))))))"

text \<open>\<open>action_params = args[3:]; if args[3] == "=>": action_params = args[4:]\<close>\<close>

definition tolerant_params :: "string list \<Rightarrow> string list res" where
  "tolerant_params args = res_bind (py_nth args 3) (\<lambda>a.
     Inr (if a = ''=>'' then drop 4 args else drop 3 args))"

definition do_table_modify :: "'s api \<Rightarrow> string \<Rightarrow> ('s, 'z, unit) cli" where
  "do_table_modify api line = handle_bad_input (
     let args = py_split line in
     io_then (at_least_n_args args 3) (
     let table_name = args ! 0; action_name = args ! 1 in
     io_bind (get_res ''table'' table_name TABLES) (\<lambda>table.
     io_then (check_action table table_name action_name) (
     io_bind (ACTIONS_at action_name) (\<lambda>action.
     io_bind (int_arg ''Bad format for entry handle'' (args ! 2)) (\<lambda>handle.
     io_bind (io_lift (tolerant_params args)) (\<lambda>action_params.
     io_bind (io_lift (api_parse_runtime_data api action action_params)) (\<lambda>data.
     io_bind (io_lift (match_type_str table)) (\<lambda>mt.
     io_then (pr [''Modifying entry'', show_int handle, ''for'', mt, ''match table'', table_name]) (
     std_void api (Call ''bm_mt_modify_entry''
       [AInt 0, AStr table_name, AInt handle, AStr action_name, AData data])))))))))))"

definition do_table_delete :: "'s api \<Rightarrow> string \<Rightarrow> ('s, 'z, unit) cli" where
  "do_table_delete api line = handle_bad_input (
     let args = py_split line in
     io_then (exactly_n_args args 2) (
     let table_name = args ! 0 in
     io_bind (get_res ''table'' table_name TABLES) (\<lambda>table.
     io_bind (int_arg ''Bad format for entry handle'' (args ! 1)) (\<lambda>handle.
     io_then (pr [''Deleting entry'', show_int handle, ''from'', table_name]) (
     std_void api (Call ''bm_mt_delete_entry'' [AInt 0, AStr table_name, AInt handle]))))))"

section \<open>Which calls a table command can issue\<close>

text \<open>An entry call the configuration allows: the table exists, the action is one of its actions,
  there is one key parameter per key field, each of the field's type and width, and one datum per
  parameter of the action.\<close>

definition add_call_ok :: "config \<Rightarrow> thrift_call \<Rightarrow> bool" where
  "add_call_ok c call \<longleftrightarrow>
     (\<exists>table_name action_name key data priority table action.
        call = Call ''bm_mt_add_entry''
          [AInt 0, AStr table_name, AKey key, AStr action_name, AData data, AOptions priority] \<and>
        map_of (TABLES c) table_name = Some table \<and>
        action_name \<in> fst ` set (t_actions table) \<and>
        map_of (ACTIONS c) action_name = Some action \<and>
        list_all2 key_field_fits (t_key table) key \<and>
        list_all2 (\<lambda>(_, bw) d. length d = field_bytes bw) (runtime_data action) data)"

text \<open>Bit widths of a P4 program are not negative.\<close>

definition widths_ok :: "config \<Rightarrow> bool" where
  "widths_ok c \<longleftrightarrow>
     (\<forall>(_, t) \<in> set (TABLES c). \<forall>k \<in> set (t_key t). 0 \<le> snd (snd k)) \<and>
     (\<forall>(_, a) \<in> set (ACTIONS c). \<forall>p \<in> set (runtime_data a). 0 \<le> snd p)"

lemma widths_okD:
  "widths_ok c \<Longrightarrow> map_of (TABLES c) n = Some t \<Longrightarrow> \<forall>k \<in> set (t_key t). 0 \<le> snd (snd k)"
  "widths_ok c \<Longrightarrow> map_of (ACTIONS c) n' = Some a \<Longrightarrow> \<forall>p \<in> set (runtime_data a). 0 \<le> snd p"
  by (auto simp: widths_ok_def dest!: map_of_SomeD)

lemma parse_runtime_data_fits:
  assumes "api_parse_runtime_data api action params = Inr data" "packs_16 (ip6 (lib api))"
    and "\<forall>p \<in> set (runtime_data action). 0 \<le> snd p"
  shows "list_all2 (\<lambda>(_, bw) d. length d = field_bytes bw) (runtime_data action) data"
proof -
  let ?f = "\<lambda>(s, bw). param_bytes UIn_RuntimeDataError (ip6 (lib api)) s bw"
  have len: "length params = length (runtime_data action)"
    and "res_map ?f (zip params (map snd (runtime_data action))) = Inr data"
    using assms(1)
    by (auto simp: api_parse_runtime_data_def parse_runtime_data_def num_params_def Let_def
        split: if_splits)
  then have "list_all2 (\<lambda>x y. ?f x = Inr y) (zip params (map snd (runtime_data action))) data"
    by (simp add: res_map_Inr_iff)
  then have data: "length data = length (runtime_data action)"
    "\<And>i. i < length data \<Longrightarrow> param_bytes UIn_RuntimeDataError (ip6 (lib api)) (params ! i)
       (snd (runtime_data action ! i)) = Inr (data ! i)"
    using len by (auto simp: list_all2_conv_all_nth)
  have "length (data ! i) = field_bytes (snd (runtime_data action ! i))"
    if "i < length (runtime_data action)" for i
    using that data(1) data(2) [of i] assms(2,3) param_bytes_length by auto
  then show ?thesis using data(1) by (auto simp: list_all2_conv_all_nth case_prod_beta)
qed

lemma issues_ACTIONS_at:
  "(\<And>a. map_of (ACTIONS c) name = Some a \<Longrightarrow> issues c P (f a)) \<Longrightarrow>
   issues c P (io_bind (ACTIONS_at name) f)"
  by (rule issues_bind_general) (auto simp: ACTIONS_at_def issues_def io_simps)

lemma issues_check_action:
  "(action_name \<in> fst ` set (t_actions table) \<Longrightarrow> issues c P m) \<Longrightarrow>
   issues c P (io_then (check_action table table_name action_name) m)"
  unfolding check_action_def by (rule issues_check) simp

lemma issues_prints [issues_rules]:
  "issues c P (print_set_default t a d)"
  "issues c P (print_table_add k a d)"
  unfolding print_set_default_def print_table_add_def by (intro issues_rules)+

lemma issues_std_void [issues_rules]: "P call \<Longrightarrow> issues c P (std_void api call)"
  unfolding std_void_def by (intro issues_rules)

lemma issues_do_table_add:
  assumes "packs_16 (ip6 (lib api))" "widths_ok c"
  shows "issues c (add_call_ok c) (do_table_add api line)"
proof -
  have call: "add_call_ok c (Call ''bm_mt_add_entry''
      [AInt 0, AStr tn, AKey key, AStr an, AData data, AOptions p])"
    if "map_of (TABLES c) tn = Some table" "an \<in> fst ` set (t_actions table)"
       "map_of (ACTIONS c) an = Some action" "\<not> length ks \<noteq> num_key_fields table"
       "api_parse_runtime_data api action params = Inr data"
       "parse_match_key (ip6 (lib api)) table ks = Inr key"
    for tn table an action ks params data key p
    using that assms parse_runtime_data_fits [of api action params data] widths_okD [of c]
      parse_match_fields_fits [of "ip6 (lib api)" "t_key table" ks key]
    by (auto simp: add_call_ok_def parse_match_key_def num_key_fields_def)
  show ?thesis
    unfolding do_table_add_def Let_def
    by (intro issues_handle issues_at_least_n_args issues_get_res issues_check_action
        issues_lift_prod issues_lift issues_ACTIONS_at issues_check issues_then issues_bind
        issues_expect issues_std issues_atoms issues_prints call)
qed

text \<open>
  C2. Whatever the user types, \<open>table_add\<close> issues only entry calls that fit the loaded program:
  an existing table, one of its actions, a key with one parameter per key field of the field's type
  and byte width, and action data of the declared byte widths. Malformed input is never sent to the
  switch, and the configuration does not change.
\<close>

theorem do_table_add_safe:
  assumes "packs_16 (ip6 (lib api))" and "widths_ok (cfg w)"
    and "do_table_add api line w = (r, w')"
  shows "cfg w' = cfg w \<and>
    (\<exists>es. events w' = events w @ es \<and> list_all (add_call_ok (cfg w)) (rpcs es))"
  using issuesD [OF issues_do_table_add [OF assms(1,2)] refl assms(3)] by blast

section \<open>A well-formed entry is added\<close>

lemma takeWhile_not_arrow: "''=>'' \<notin> set ks \<Longrightarrow> takeWhile (\<lambda>x. x \<noteq> ''=>'') (ks @ ''=>'' # ps) = ks"
  by (induction ks) auto

lemma arrow_idx_found: "''=>'' \<notin> set ks \<Longrightarrow> arrow_idx (ks @ ''=>'' # ps) = Inr (length ks)"
  by (simp add: arrow_idx_def takeWhile_not_arrow)

text \<open>What the user types after the parameters: the priority, for a table that needs one.\<close>

definition priority_args :: "match_type \<Rightarrow> int \<Rightarrow> string list" where
  "priority_args mt p = (if mt = TERNARY \<or> mt = RANGE then [show_int p] else [])"

lemma pop_priority_args:
  "t_match_type table = Some mt \<Longrightarrow> mt \<noteq> TERNARY \<and> mt \<noteq> RANGE \<longrightarrow> p = 0 \<Longrightarrow>
   pop_priority table (xs @ priority_args mt p) = Inr (p, xs)"
  by (auto simp: pop_priority_def priority_args_def)

definition table_add_report ::
  "string \<Rightarrow> string \<Rightarrow> match_type \<Rightarrow> bm_match_param list \<Rightarrow> string list \<Rightarrow> int \<Rightarrow> int \<Rightarrow> event list" where
  "table_add_report table_name action_name mt key data priority h =
     [Out (''Adding entry to '' @ MatchType_to_str mt @ '' match table '' @ table_name),
      Out (ljust 20 ''match key:'' @ '' '' @ tab_join (map BmMatchParam_to_str key)),
      Out (ljust 20 ''action:'' @ '' '' @ action_name),
      Out (ljust 20 ''runtime data:'' @ '' '' @ tab_join (map printable_byte_str data)),
      Std (Call ''bm_mt_add_entry''
        [AInt 0, AStr table_name, AKey key, AStr action_name, AData data, AOptions priority]),
      Out (''Entry has been added with handle '' @ show_int h)]"

lemma do_table_add_ok:
  assumes "py_split line = [table_name, action_name] @ keys @ ''=>'' # params @ priority_args mt priority"
    and "''=>'' \<notin> set keys" and "mt \<noteq> TERNARY \<and> mt \<noteq> RANGE \<longrightarrow> priority = 0"
    and "map_of (TABLES (cfg w)) table_name = Some table" and "t_match_type table = Some mt"
    and "action_name \<in> fst ` set (t_actions table)"
    and "map_of (ACTIONS (cfg w)) action_name = Some action"
    and "length keys = num_key_fields table" and "length params = num_params action"
    and "parse_match_key (ip6 (lib api)) table keys = Inr key"
    and "parse_runtime_data (ip6 (lib api)) action params = Inr data"
    and "client api (Call ''bm_mt_add_entry''
           [AInt 0, AStr table_name, AKey key, AStr action_name, AData data, AOptions priority])
           (switch w) = (Inr (VInt h), s')"
  shows "do_table_add api line w =
    (Inr (), w\<lparr>switch := s',
       events := events w @ table_add_report table_name action_name mt key data priority h\<rparr>)"
proof -
  have pop: "pop_priority table (py_split line) =
      Inr (priority, table_name # action_name # keys @ ''=>'' # params)"
    using pop_priority_args [of table mt priority "table_name # action_name # keys @ ''=>'' # params"]
      assms(1,3,5) by simp
  have hd: "\<not> length (py_split line) < 3" "py_split line ! 0 = table_name"
    "py_split line ! 1 = action_name" using assms(1) by simp_all
  have mt: "match_type_str table = Inr (MatchType_to_str mt)"
    using assms(5) by (simp add: match_type_str_def)
  have data: "api_parse_runtime_data api action params = Inr data"
    using assms(9,11) by (simp add: api_parse_runtime_data_def)
  show ?thesis
    using assms(4,6-8,10,12) hd mt data
    by (simp add: do_table_add_def handle_bad_input_apply Let_def io_simps pop arrow_idx_found assms(2)
        ACTIONS_at_def check_action_def expect_def as_int_def print_table_add_def table_add_report_def
        num_key_fields_def)
qed

text \<open>
  C3. A well-formed \<open>table_add\<close> line (table, one of its actions, one string per key field, the
  arrow, one string per action parameter and, for ternary and range tables only, a decimal
  priority), all of whose fields parse, sends exactly one \<open>bm_mt_add_entry\<close> call with the parsed
  key, the parsed data and that priority, reports it and prints the handle the switch returned.
\<close>

theorem do_table_add_success:
  assumes "py_split line = [table_name, action_name] @ keys @ ''=>'' # params @ priority_args mt priority"
    and "''=>'' \<notin> set keys" and "mt \<noteq> TERNARY \<and> mt \<noteq> RANGE \<longrightarrow> priority = 0"
    and "map_of (TABLES (cfg w)) table_name = Some table" and "t_match_type table = Some mt"
    and "action_name \<in> fst ` set (t_actions table)"
    and "map_of (ACTIONS (cfg w)) action_name = Some action"
    and "length keys = num_key_fields table" and "length params = num_params action"
    and "parse_match_key (ip6 (lib api)) table keys = Inr key"
    and "parse_runtime_data (ip6 (lib api)) action params = Inr data"
    and "client api (Call ''bm_mt_add_entry''
           [AInt 0, AStr table_name, AKey key, AStr action_name, AData data, AOptions priority])
           (switch w) = (Inr (VInt h), s')"
  shows "do_table_add api line w =
    (Inr (), w\<lparr>switch := s',
       events := events w @ table_add_report table_name action_name mt key data priority h\<rparr>)"
  by (rule do_table_add_ok [OF assms])

text \<open>A fragment of the switch program: the LAG hash table, with a switch that hands out
  increasing entry handles.\<close>

definition lag_action :: action where
  "lag_action = \<lparr>a_name = ''action_set_lag_hash_size'', a_id = 3, runtime_data = [(''size'', 8)]\<rparr>"

definition lag_table :: table where
  "lag_table = \<lparr>t_name = ''table_lag_hash'', t_id = 7, t_match_type = Some EXACT,
     t_actions = [(''action_set_lag_hash_size'', lag_action)], t_key = [(''egress.out_if'', EXACT, 8)],
     t_type = Some Table_simple, support_timeout = False\<rparr>"

definition lag_config :: config where
  "lag_config = empty_config\<lparr>TABLES := [(''table_lag_hash'', lag_table)],
     ACTIONS := [(''action_set_lag_hash_size'', lag_action)]\<rparr>"

fun counting_switch :: "thrift_call \<Rightarrow> int \<Rightarrow> std_val res \<times> int" where
  "counting_switch (Call name args) n =
     (if name = ''bm_mt_add_entry'' then (Inr (VInt n), n + 1) else (Inr VUnit, n))"

definition counting_api :: "int api" where
  "counting_api = \<lparr>client = counting_switch, mc_client = None, api_pre_type = PreType_None, lib = no_lib\<rparr>"

definition lag_world :: "int world" where
  "lag_world = \<lparr>cfg = lag_config, switch = 4, events = []\<rparr>"

lemmas lag_defs = lag_world_def lag_config_def lag_table_def lag_action_def empty_config_def
  counting_api_def no_lib_def

lemma lag_ok: "packs_16 (ip6 (lib counting_api))" "widths_ok (cfg lag_world)"
  by (simp_all add: lag_defs packs_16_def widths_ok_def)

lemma parse_param_byte:
  "parse_param (\<lambda>_. None) ''2'' 8 = Inr [2]" "parse_param (\<lambda>_. None) ''5'' 8 = Inr [5]"
  by code_simp+

lemma lag_add_parses:
  "py_split ''table_lag_hash action_set_lag_hash_size 5 => 2'' =
     [''table_lag_hash'', ''action_set_lag_hash_size''] @ [''5''] @ ''=>'' # [''2''] @ priority_args EXACT 0"
  "parse_match_key (ip6 (lib counting_api)) lag_table [''5''] = Inr [BmMatchParamExact [CHR 0x05]]"
  "parse_runtime_data (ip6 (lib counting_api)) lag_action [''2''] = Inr [[CHR 0x02]]"
  by code_simp+

theorem do_table_add_success_witness:
  "do_table_add counting_api ''table_lag_hash action_set_lag_hash_size 5 => 2'' lag_world =
    (Inr (), lag_world\<lparr>switch := 5, events := events lag_world @
       table_add_report ''table_lag_hash'' ''action_set_lag_hash_size'' EXACT
         [BmMatchParamExact [CHR 0x05]] [[CHR 0x02]] 0 4\<rparr>)"
  by (rule do_table_add_success [where keys = "[''5'']" and params = "[''2'']" and table = lag_table
        and action = lag_action and mt = EXACT, OF lag_add_parses(1)])
     (simp_all add: lag_add_parses, simp_all add: lag_defs num_key_fields_def num_params_def)

theorem do_table_add_safe_witness:
  "cfg (snd (do_table_add counting_api ''table_lag_hash x'' lag_world)) = lag_config \<and>
   (\<exists>es. events (snd (do_table_add counting_api ''table_lag_hash x'' lag_world)) = events lag_world @ es \<and>
      list_all (add_call_ok lag_config) (rpcs es))"
  using do_table_add_safe [OF lag_ok, of "''table_lag_hash x''"
      "fst (do_table_add counting_api ''table_lag_hash x'' lag_world)"
      "snd (do_table_add counting_api ''table_lag_hash x'' lag_world)"]
  by (simp add: lag_world_def)

text \<open>
  \<open>table_modify\<close> with a table, one of its actions and a handle, and nothing else, passes every
  check and then raises IndexError on \<open>args[3]\<close>, even for an action without parameters. The
  exception escapes the decorator, and nothing is sent to the switch.
\<close>

theorem do_table_modify_three_args:
  assumes "py_split line = [table_name, action_name, handle]"
    and "map_of (TABLES (cfg w)) table_name = Some table"
    and "action_name \<in> fst ` set (t_actions table)"
    and "map_of (ACTIONS (cfg w)) action_name = Some action"
    and "py_int handle = Some h"
  shows "do_table_modify api line w = (Inl IndexError, w)"
  using assms
  by (simp add: do_table_modify_def handle_bad_input_apply Let_def io_simps ACTIONS_at_def
      check_action_def tolerant_params_def py_nth_def bad_input_line_None)

theorem do_table_modify_three_args_witness:
  "do_table_modify counting_api ''table_lag_hash action_set_lag_hash_size 4'' lag_world =
     (Inl IndexError, lag_world)"
proof (rule do_table_modify_three_args [where table = lag_table and action = lag_action])
  show "py_split ''table_lag_hash action_set_lag_hash_size 4'' =
      [''table_lag_hash'', ''action_set_lag_hash_size'', ''4'']" by code_simp
  show "py_int ''4'' = Some 4" by code_simp
qed (simp_all add: lag_defs)

section \<open>The table commands keep the contract\<close>

lemma issues_plain_commands:
  "issues c (call_ok c) (do_greet line)"
  "issues c (call_ok c) (do_EOF line)"
  "issues c (call_ok c) (do_shell api line)"
  unfolding do_greet_def do_EOF_def do_shell_def by (intro issues_flow)+

lemma issues_table_commands:
  "issues c (call_ok c) (do_show_tables line)"
  "issues c (call_ok c) (do_show_actions line)"
  "issues c (call_ok c) (do_table_show_actions line)"
  "issues c (call_ok c) (do_table_info line)"
  "issues c (call_ok c) (do_table_set_default api line)"
  "issues c (call_ok c) (do_table_num_entries api line)"
  "issues c (call_ok c) (do_table_add api line)"
  "issues c (call_ok c) (do_table_set_timeout api line)"
  "issues c (call_ok c) (do_table_modify api line)"
  "issues c (call_ok c) (do_table_delete api line)"
  unfolding do_show_tables_def do_show_actions_def do_table_show_actions_def do_table_info_def do_table_set_default_def
    do_table_num_entries_def do_table_add_def do_table_set_timeout_def do_table_modify_def do_table_delete_def print_table_actions_def
    TABLES_at_def ACTIONS_at_def check_action_def std_void_def Let_def
  by (intro issues_flow issues_prints call_ok_intros; simp add: table_of_type_def)+

end
