(* ===== verification/Cli_Indirect.thy ===== *)
theory Cli_Indirect
  imports Cli_Tables
begin

text \<open>
  The commands of \<open>RuntimeAPI\<close> on indirect match tables: action profile members, groups of
  members for tables with a selector, entries that point to a member or a group, and the default
  member or group.
\<close>

section \<open>Definitions\<close>

definition check_indirect :: "table \<Rightarrow> ('s, 'z, unit) cli" where
  "check_indirect table =
     (if t_type table \<notin> {Some Table_indirect, Some Table_indirect_ws}
      then io_raise (UIn_Error ''Cannot run this command on non-indirect table'') else io_ret ())"

definition check_indirect_ws :: "table \<Rightarrow> ('s, 'z, unit) cli" where
  "check_indirect_ws table =
     (if t_type table \<noteq> Some Table_indirect_ws
      then io_raise (UIn_Error (''Cannot run this command on non-indirect table,'' @
                                '' or on indirect table with no selector''))
      else io_ret ())"

definition do_table_indirect_create_member :: "'s api \<Rightarrow> string \<Rightarrow> ('s, 'z, unit) cli" where
  "do_table_indirect_create_member api line = handle_bad_input (
     let args = py_split line in
     io_then (at_least_n_args args 2) (
     let table_name = args ! 0; action_name = args ! 1 in
     io_bind (get_res ''table'' table_name TABLES) (\<lambda>table.
     io_then (check_indirect table) (
     io_then (check_action table table_name action_name) (
     io_bind (ACTIONS_at action_name) (\<lambda>action.
     io_bind (io_lift (api_parse_runtime_data api action (drop 2 args))) (\<lambda>data.
     io_bind (expect as_int (std api (Call ''bm_mt_indirect_add_member''
       [AInt 0, AStr table_name, AStr action_name, AData data]))) (\<lambda>mbr.
     pr [''Member has been created with handle'', show_int mbr]))))))))"

definition do_table_indirect_delete_member :: "'s api \<Rightarrow> string \<Rightarrow> ('s, 'z, unit) cli" where
  "do_table_indirect_delete_member api line = handle_bad_input (
     let args = py_split line in
     io_then (exactly_n_args args 2) (
     let table_name = args ! 0 in
     io_bind (get_res ''table'' table_name TABLES) (\<lambda>table.
     io_then (check_indirect table) (
     io_bind (int_arg ''Bad format for member handle'' (args ! 1)) (\<lambda>mbr.
     std_void api (Call ''bm_mt_indirect_delete_member'' [AInt 0, AStr table_name, AInt mbr]))))))"

text \<open>The action name and the member handle are passed in this order; the Thrift method takes the
  handle first.\<close>

definition do_table_indirect_modify_member :: "'s api \<Rightarrow> string \<Rightarrow> ('s, 'z, unit) cli" where
  "do_table_indirect_modify_member api line = handle_bad_input (
     let args = py_split line in
     io_then (at_least_n_args args 3) (
     let table_name = args ! 0; action_name = args ! 1 in
     io_bind (get_res ''table'' table_name TABLES) (\<lambda>table.
     io_then (check_indirect table) (
     io_then (check_action table table_name action_name) (
     io_bind (ACTIONS_at action_name) (\<lambda>action.
     io_bind (int_arg ''Bad format for member handle'' (args ! 2)) (\<lambda>mbr.
     io_bind (io_lift (tolerant_params args)) (\<lambda>action_params.
     io_bind (io_lift (api_parse_runtime_data api action action_params)) (\<lambda>data.
     std_void api (Call ''bm_mt_indirect_modify_member''
       [AInt 0, AStr table_name, AStr action_name, AInt mbr, AData data]))))))))))"

definition indirect_add_common ::
  "'s api \<Rightarrow> string \<Rightarrow> bool \<Rightarrow> ('s, 'z, string \<times> bm_match_param list \<times> int \<times> int) cli" where
  "indirect_add_common api line ws = (
     let args0 = py_split line in
     io_then (at_least_n_args args0 2) (
     let table_name = args0 ! 0 in
     io_bind (get_res ''table'' table_name TABLES) (\<lambda>table.
     io_then (if ws then check_indirect_ws table else check_indirect table) (
     io_bind (io_lift (pop_priority table args0)) (\<lambda>(priority, args).
     io_bind (io_lift (arrow_idx (drop 1 args))) (\<lambda>i.
     let idx = i + 1; key_strs = take (idx - 1) (drop 1 args) in
     io_then (if length args \<noteq> idx + 2
              then io_raise (UIn_Error ''Invalid arguments, could not find handle'') else io_ret ()) (
     io_bind (int_arg ''Bad format for handle'' (args ! (idx + 1))) (\<lambda>handle.
     io_bind (io_lift (parse_match_key (ip6 (lib api)) table key_strs)) (\<lambda>match_key.
     io_then (pr [''Adding entry to indirect match table'', table_name]) (
     io_ret (table_name, match_key, handle, priority)))))))))))"

definition do_table_indirect_add :: "'s api \<Rightarrow> string \<Rightarrow> ('s, 'z, unit) cli" where
  "do_table_indirect_add api line = handle_bad_input (
     io_bind (indirect_add_common api line False) (\<lambda>(table_name, match_key, handle, priority).
     io_bind (expect as_int (std api (Call ''bm_mt_indirect_add_entry''
       [AInt 0, AStr table_name, AKey match_key, AInt handle, AOptions priority]))) (\<lambda>h.
     pr [''Entry has been added with handle'', show_int h])))"

definition do_table_indirect_add_with_group :: "'s api \<Rightarrow> string \<Rightarrow> ('s, 'z, unit) cli" where
  "do_table_indirect_add_with_group api line = handle_bad_input (
     io_bind (indirect_add_common api line True) (\<lambda>(table_name, match_key, handle, priority).
     io_bind (expect as_int (std api (Call ''bm_mt_indirect_ws_add_entry''
       [AInt 0, AStr table_name, AKey match_key, AInt handle, AOptions priority]))) (\<lambda>h.
     pr [''Entry has been added with handle'', show_int h])))"

definition do_table_indirect_delete :: "'s api \<Rightarrow> string \<Rightarrow> ('s, 'z, unit) cli" where
  "do_table_indirect_delete api line = handle_bad_input (
     let args = py_split line in
     io_then (exactly_n_args args 2) (
     let table_name = args ! 0 in
     io_bind (get_res ''table'' table_name TABLES) (\<lambda>table.
     io_then (check_indirect table) (
     io_bind (int_arg ''Bad format for entry handle'' (args ! 1)) (\<lambda>handle.
     io_then (pr [''Deleting entry'', show_int handle, ''from'', table_name]) (
     std_void api (Call ''bm_mt_indirect_delete_entry'' [AInt 0, AStr table_name, AInt handle])))))))"

definition indirect_set_default_common :: "string \<Rightarrow> bool \<Rightarrow> ('s, 'z, string \<times> int) cli" where
  "indirect_set_default_common line ws = (
     let args = py_split line in
     io_then (exactly_n_args args 2) (
     let table_name = args ! 0 in
     io_bind (get_res ''table'' table_name TABLES) (\<lambda>table.
     io_then (if ws then check_indirect_ws table else check_indirect table) (
     io_bind (int_arg ''Bad format for handle'' (args ! 1)) (\<lambda>handle.
     io_ret (table_name, handle))))))"

definition do_table_indirect_set_default :: "'s api \<Rightarrow> string \<Rightarrow> ('s, 'z, unit) cli" where
  "do_table_indirect_set_default api line = handle_bad_input (
     io_bind (indirect_set_default_common line False) (\<lambda>(table_name, handle).
     std_void api (Call ''bm_mt_indirect_set_default_member'' [AInt 0, AStr table_name, AInt handle])))"

definition do_table_indirect_set_default_with_group :: "'s api \<Rightarrow> string \<Rightarrow> ('s, 'z, unit) cli" where
  "do_table_indirect_set_default_with_group api line = handle_bad_input (
     io_bind (indirect_set_default_common line True) (\<lambda>(table_name, handle).
     std_void api (Call ''bm_mt_indirect_ws_set_default_group'' [AInt 0, AStr table_name, AInt handle])))"

definition do_table_indirect_create_group :: "'s api \<Rightarrow> string \<Rightarrow> ('s, 'z, unit) cli" where
  "do_table_indirect_create_group api line = handle_bad_input (
     let args = py_split line in
     io_then (exactly_n_args args 1) (
     let table_name = args ! 0 in
     io_bind (get_res ''table'' table_name TABLES) (\<lambda>table.
     io_then (check_indirect_ws table) (
     io_bind (expect as_int (std api (Call ''bm_mt_indirect_ws_create_group''
       [AInt 0, AStr table_name]))) (\<lambda>grp.
     pr [''Group has been created with handle'', show_int grp])))))"

definition do_table_indirect_delete_group :: "'s api \<Rightarrow> string \<Rightarrow> ('s, 'z, unit) cli" where
  "do_table_indirect_delete_group api line = handle_bad_input (
     let args = py_split line in
     io_then (exactly_n_args args 2) (
     let table_name = args ! 0 in
     io_bind (get_res ''table'' table_name TABLES) (\<lambda>table.
     io_then (check_indirect_ws table) (
     io_bind (int_arg ''Bad format for group handle'' (args ! 1)) (\<lambda>grp.
     std_void api (Call ''bm_mt_indirect_ws_delete_group'' [AInt 0, AStr table_name, AInt grp]))))))"

definition member_group_command :: "'s api \<Rightarrow> string \<Rightarrow> string \<Rightarrow> ('s, 'z, unit) cli" where
  "member_group_command api thrift_method line = handle_bad_input (
     let args = py_split line in
     io_then (exactly_n_args args 3) (
     let table_name = args ! 0 in
     io_bind (get_res ''table'' table_name TABLES) (\<lambda>table.
     io_then (check_indirect_ws table) (
     io_bind (int_arg ''Bad format for member handle'' (args ! 1)) (\<lambda>mbr.
     io_bind (int_arg ''Bad format for group handle'' (args ! 2)) (\<lambda>grp.
     std_void api (Call thrift_method [AInt 0, AStr table_name, AInt mbr, AInt grp])))))))"

definition do_table_indirect_add_member_to_group :: "'s api \<Rightarrow> string \<Rightarrow> ('s, 'z, unit) cli" where
  "do_table_indirect_add_member_to_group api line =
     member_group_command api ''bm_mt_indirect_ws_add_member_to_group'' line"

definition do_table_indirect_remove_member_from_group :: "'s api \<Rightarrow> string \<Rightarrow> ('s, 'z, unit) cli" where
  "do_table_indirect_remove_member_from_group api line =
     member_group_command api ''bm_mt_indirect_ws_remove_member_from_group'' line"

section \<open>The indirect table commands keep the contract\<close>

lemma issues_check_indirect:
  "(t_type table \<in> Some ` {Table_indirect, Table_indirect_ws} \<Longrightarrow> issues c P m) \<Longrightarrow>
   issues c P (io_then (check_indirect table) m)"
  "(t_type table = Some Table_indirect_ws \<Longrightarrow> issues c P m) \<Longrightarrow>
   issues c P (io_then (check_indirect_ws table) m)"
  unfolding check_indirect_def check_indirect_ws_def by (rule issues_check, simp)+

lemma issues_check_ws:
  "(t_type table \<in> Some ` (if ws then {Table_indirect_ws} else {Table_indirect, Table_indirect_ws}) \<Longrightarrow>
    issues c P m) \<Longrightarrow>
   issues c P (io_then (if ws then check_indirect_ws table else check_indirect table) m)"
  by (cases ws) (auto intro!: issues_check_indirect)

text \<open>Both helpers return the name of a table of the right type.\<close>

lemma issues_indirect_add_common:
  assumes "\<And>tn key h p. table_of_type c (if ws then {Table_indirect_ws} else {Table_indirect, Table_indirect_ws})
      (AStr tn) \<Longrightarrow> issues c P (f (tn, key, h, p))"
  shows "issues c P (io_bind (indirect_add_common api line ws) f)"
  unfolding indirect_add_common_def Let_def io_flatten
  by (intro issues_check_ws issues_flow assms; auto simp: table_of_type_def)

lemma issues_indirect_set_default_common:
  assumes "\<And>tn h. table_of_type c (if ws then {Table_indirect_ws} else {Table_indirect, Table_indirect_ws})
      (AStr tn) \<Longrightarrow> issues c P (f (tn, h))"
  shows "issues c P (io_bind (indirect_set_default_common line ws) f)"
  unfolding indirect_set_default_common_def Let_def io_flatten
  by (intro issues_check_ws issues_flow assms; auto simp: table_of_type_def)

lemma issues_indirect_commands:
  "issues c (call_ok c) (do_table_indirect_create_member api line)"
  "issues c (call_ok c) (do_table_indirect_delete_member api line)"
  "issues c (call_ok c) (do_table_indirect_modify_member api line)"
  "issues c (call_ok c) (do_table_indirect_delete api line)"
  "issues c (call_ok c) (do_table_indirect_create_group api line)"
  "issues c (call_ok c) (do_table_indirect_delete_group api line)"
  "issues c (call_ok c) (do_table_indirect_add_member_to_group api line)"
  "issues c (call_ok c) (do_table_indirect_remove_member_from_group api line)"
  unfolding do_table_indirect_create_member_def do_table_indirect_delete_member_def
    do_table_indirect_modify_member_def do_table_indirect_delete_def do_table_indirect_create_group_def
    do_table_indirect_delete_group_def do_table_indirect_add_member_to_group_def
    do_table_indirect_remove_member_from_group_def member_group_command_def
    ACTIONS_at_def check_action_def std_void_def Let_def
  by (intro issues_check_indirect issues_flow call_ok_intros; auto simp: table_of_type_def)+

lemma issues_indirect_entry_commands:
  "issues c (call_ok c) (do_table_indirect_add api line)"
  "issues c (call_ok c) (do_table_indirect_add_with_group api line)"
  "issues c (call_ok c) (do_table_indirect_set_default api line)"
  "issues c (call_ok c) (do_table_indirect_set_default_with_group api line)"
  unfolding do_table_indirect_add_def do_table_indirect_add_with_group_def do_table_indirect_set_default_def
    do_table_indirect_set_default_with_group_def std_void_def
  by (rule issues_handle, (rule issues_indirect_add_common issues_indirect_set_default_common), simp only: prod.case,
      intro issues_flow call_ok_intros; simp)+

end
