(* ===== verification/Cli_Multicast.thy ===== *)
theory Cli_Multicast
  imports Cli_Tables
begin

text \<open>
  The packet replication engine commands of \<open>RuntimeAPI\<close>: multicast groups, nodes with a port
  map and, for \<open>SimplePreLAG\<close>, a LAG map, LAG membership, and the dump of the engine's state.
\<close>

section \<open>Definitions\<close>

definition check_has_pre :: "'s api \<Rightarrow> ('s, 'z, unit) cli" where
  "check_has_pre api =
     (if api_pre_type api = PreType_None
      then io_raise (UIn_Error ''Cannot execute this command without packet replication engine'')
      else io_ret ())"

definition get_mgrp :: "string \<Rightarrow> ('s, 'z, int) cli" where
  "get_mgrp s = int_arg ''Bad format for multicast group id'' s"

definition mc_void :: "'s api \<Rightarrow> thrift_call \<Rightarrow> ('s, 'z, unit) cli" where
  "mc_void api c = io_bind (mc api c) (\<lambda>_. io_ret ())"

definition do_mc_mgrp_create :: "'s api \<Rightarrow> string \<Rightarrow> ('s, 'z, unit) cli" where
  "do_mc_mgrp_create api line = handle_bad_input (
     io_then (check_has_pre api) (
     let args = py_split line in
     io_then (exactly_n_args args 1) (
     io_bind (get_mgrp (args ! 0)) (\<lambda>mgrp.
     io_then (pr [''Creating multicast group'', show_int mgrp]) (
     io_bind (expect as_int (mc api (Call ''bm_mc_mgrp_create'' [AInt 0, AInt mgrp]))) (\<lambda>mgrp_hdl.
     if mgrp = mgrp_hdl then io_ret () else io_raise AssertionError))))))"

definition do_mc_mgrp_destroy :: "'s api \<Rightarrow> string \<Rightarrow> ('s, 'z, unit) cli" where
  "do_mc_mgrp_destroy api line = handle_bad_input (
     io_then (check_has_pre api) (
     let args = py_split line in
     io_then (exactly_n_args args 1) (
     io_bind (get_mgrp (args ! 0)) (\<lambda>mgrp.
     io_then (pr [''Destroying multicast group'', show_int mgrp]) (
     mc_void api (Call ''bm_mc_mgrp_destroy'' [AInt 0, AInt mgrp]))))))"

text \<open>\<open>"0" * n\<close> is empty for a negative \<open>n\<close>.\<close>

fun port_map_loop :: "int \<Rightarrow> string \<Rightarrow> int list \<Rightarrow> string" where
  "port_map_loop last_port_num s [] = s"
| "port_map_loop last_port_num s (p # ps) =
     port_map_loop (p + 1) (s @ replicate (nat (p - last_port_num)) (CHR ''0'') @ ''1'') ps"

definition port_number :: "string \<Rightarrow> int res" where
  "port_number s =
     or_raise (UIn_Error ([CHR 39] @ s @ [CHR 39] @ '' is not a valid port number'')) (py_int s)"

definition ports_to_port_map_str :: "string list \<Rightarrow> string res" where
  "ports_to_port_map_str ports =
     res_bind (res_map port_number ports) (\<lambda>ports_int.
     Inr (rev (port_map_loop 0 [] (sort ports_int))))"

definition parse_ports_and_lags :: "'s api \<Rightarrow> string list \<Rightarrow> (string \<times> string option) res" where
  "parse_ports_and_lags api args =
     (let ports = takeWhile (\<lambda>a. a \<noteq> ''|'') (drop 1 args); i = 1 + length ports in
      res_bind (ports_to_port_map_str ports) (\<lambda>port_map_str.
      if api_pre_type api = PreType_SimplePreLAG
      then (let lags = if i + 1 = length args then [] else drop (i + 1) args in
            res_bind (ports_to_port_map_str lags) (\<lambda>lag_map_str.
            Inr (port_map_str, Some lag_map_str)))
      else Inr (port_map_str, None)))"

definition do_mc_node_create :: "'s api \<Rightarrow> string \<Rightarrow> ('s, 'z, unit) cli" where
  "do_mc_node_create api line = handle_bad_input (
     io_then (check_has_pre api) (
     let args = py_split line in
     io_then (at_least_n_args args 1) (
     io_bind (int_arg ''Bad format for rid'' (args ! 0)) (\<lambda>rid.
     io_bind (io_lift (parse_ports_and_lags api args)) (\<lambda>(port_map_str, lag_map_str).
     io_bind
       (if api_pre_type api = PreType_SimplePre
        then io_then (pr [''Creating node with rid'', show_int rid, ''and with port map'', port_map_str]) (
             expect as_int (mc api (Call ''bm_mc_node_create'' [AInt 0, AInt rid, AStr port_map_str])))
        else io_then (pr [''Creating node with rid'', show_int rid, '', port map'', port_map_str,
                          ''and lag map'', opt_str lag_map_str]) (
             expect as_int (mc api (Call ''bm_mc_node_create''
               [AInt 0, AInt rid, AStr port_map_str, opt_arg lag_map_str])))) (\<lambda>l1_hdl.
     pr [''node was created with handle'', show_int l1_hdl]))))))"

definition get_node_handle :: "string \<Rightarrow> ('s, 'z, int) cli" where
  "get_node_handle s = int_arg ''Bad format for node handle'' s"

definition do_mc_node_update :: "'s api \<Rightarrow> string \<Rightarrow> ('s, 'z, unit) cli" where
  "do_mc_node_update api line = handle_bad_input (
     io_then (check_has_pre api) (
     let args = py_split line in
     io_then (at_least_n_args args 2) (
     io_bind (get_node_handle (args ! 0)) (\<lambda>l1_hdl.
     io_bind (io_lift (parse_ports_and_lags api args)) (\<lambda>(port_map_str, lag_map_str).
     if api_pre_type api = PreType_SimplePre
     then io_then (pr [''Updating node'', show_int l1_hdl, ''with port map'', port_map_str]) (
          mc_void api (Call ''bm_mc_node_update'' [AInt 0, AInt l1_hdl, AStr port_map_str]))
     else io_then (pr [''Updating node'', show_int l1_hdl, ''with port map'', port_map_str,
                       ''and lag map'', opt_str lag_map_str]) (
          mc_void api (Call ''bm_mc_node_update''
            [AInt 0, AInt l1_hdl, AStr port_map_str, opt_arg lag_map_str])))))))"

definition do_mc_node_associate :: "'s api \<Rightarrow> string \<Rightarrow> ('s, 'z, unit) cli" where
  "do_mc_node_associate api line = handle_bad_input (
     io_then (check_has_pre api) (
     let args = py_split line in
     io_then (exactly_n_args args 2) (
     io_bind (get_mgrp (args ! 0)) (\<lambda>mgrp.
     io_bind (get_node_handle (args ! 1)) (\<lambda>l1_hdl.
     io_then (pr [''Associating node'', show_int l1_hdl, ''to multicast group'', show_int mgrp]) (
     mc_void api (Call ''bm_mc_node_associate'' [AInt 0, AInt mgrp, AInt l1_hdl])))))))"

definition do_mc_node_dissociate :: "'s api \<Rightarrow> string \<Rightarrow> ('s, 'z, unit) cli" where
  "do_mc_node_dissociate api line = handle_bad_input (
     io_then (check_has_pre api) (
     let args = py_split line in
     io_then (exactly_n_args args 2) (
     io_bind (get_mgrp (args ! 0)) (\<lambda>mgrp.
     io_bind (get_node_handle (args ! 1)) (\<lambda>l1_hdl.
     io_then (pr [''Dissociating node'', show_int l1_hdl, ''from multicast group'', show_int mgrp]) (
     mc_void api (Call ''bm_mc_node_dissociate'' [AInt 0, AInt mgrp, AInt l1_hdl])))))))"

text \<open>Here \<open>int\<close> is not guarded by a \<open>try\<close>.\<close>

definition do_mc_node_destroy :: "'s api \<Rightarrow> string \<Rightarrow> ('s, 'z, unit) cli" where
  "do_mc_node_destroy api line = handle_bad_input (
     io_then (check_has_pre api) (
     let args = py_split line in
     io_then (exactly_n_args args 1) (
     io_bind (io_lift (or_raise ValueError (py_int (args ! 0)))) (\<lambda>l1_hdl.
     io_then (pr [''Destroying node'', show_int l1_hdl]) (
     mc_void api (Call ''bm_mc_node_destroy'' [AInt 0, AInt l1_hdl]))))))"

definition do_mc_set_lag_membership :: "'s api \<Rightarrow> string \<Rightarrow> ('s, 'z, unit) cli" where
  "do_mc_set_lag_membership api line = handle_bad_input (
     io_then (check_has_pre api) (
     io_then (if api_pre_type api \<noteq> PreType_SimplePreLAG
              then io_raise (UIn_Error (''Cannot execute this command with this type of PRE,'' @
                                        '' SimplePreLAG is required''))
              else io_ret ()) (
     let args = py_split line in
     io_then (at_least_n_args args 2) (
     io_bind (int_arg ''Bad format for lag index'' (args ! 0)) (\<lambda>lag_index.
     io_bind (io_lift (ports_to_port_map_str (drop 1 args))) (\<lambda>port_map_str.
     io_then (pr [''Setting lag membership:'', show_int lag_index, ''<-'', port_map_str]) (
     mc_void api (Call ''bm_mc_set_lag_membership'' [AInt 0, AInt lag_index, AStr port_map_str]))))))))"

text \<open>\<open>str(v)\<close> of a JSON value, and its use as a dictionary key: booleans are the integers 0 and 1,
  lists and dictionaries are not hashable.\<close>

fun json_fmt :: "py_lib \<Rightarrow> json \<Rightarrow> string" where
  "json_fmt l (JInt i) = show_int i"
| "json_fmt l (JStr s) = s"
| "json_fmt l JNull = ''None''"
| "json_fmt l (JBool b) = (if b then ''True'' else ''False'')"
| "json_fmt l j = repr_json l j"

fun json_key :: "json \<Rightarrow> json res" where
  "json_key (JList _) = Inl TypeError"
| "json_key (JObj _) = Inl TypeError"
| "json_key (JBool b) = Inr (JInt (if b then 1 else 0))"
| "json_key j = Inr j"

text \<open>\<open>for h in j[k]: d[h["handle"]] = (h[a], h[b])\<close>\<close>

definition handle_pair :: "string \<Rightarrow> string \<Rightarrow> json \<Rightarrow> (json \<times> json \<times> json) res" where
  "handle_pair a b h =
     res_bind (jget a h) (\<lambda>x. res_bind (jget b h) (\<lambda>y.
     res_bind (jget ''handle'' h) (\<lambda>i. res_bind (json_key i) (\<lambda>k. Inr (k, x, y)))))"

definition handle_dict :: "json \<Rightarrow> string \<Rightarrow> string \<Rightarrow> string \<Rightarrow> (json \<rightharpoonup> json \<times> json) res" where
  "handle_dict j k a b = res_bind (jget_list k j) (\<lambda>hs.
     res_bind (res_map (handle_pair a b) hs) (\<lambda>kvs. Inr (map_of (rev kvs))))"

definition dict_at :: "(json \<rightharpoonup> 'a) \<Rightarrow> json \<Rightarrow> 'a res" where
  "dict_at d j = res_bind (json_key j) (\<lambda>k. or_raise KeyError (d k))"

definition join_json :: "py_lib \<Rightarrow> json \<Rightarrow> string res" where
  "join_json l j = res_bind (jiter j) (\<lambda>xs. Inr (py_join '', '' (map (json_fmt l) xs)))"

text \<open>One \<open>L1h\<close> of a group; the result is the local variable \<open>ports\<close>.\<close>

definition dump_l1 :: "'s api \<Rightarrow> (json \<rightharpoonup> json \<times> json) \<Rightarrow> (json \<rightharpoonup> json \<times> json) \<Rightarrow> json \<Rightarrow> ('s, 'z, json) cli" where
  "dump_l1 api l1_handles l2_handles L1h =
     io_bind (io_lift (dict_at l1_handles L1h)) (\<lambda>(rid, L2h).
     io_then (emit (OutPart (''  -> (L1h='' @ json_fmt (lib api) L1h @ '', rid='' @
                             json_fmt (lib api) rid @ '')''))) (
     io_bind (io_lift (dict_at l2_handles L2h)) (\<lambda>(ports, lags).
     io_bind (io_lift (join_json (lib api) ports)) (\<lambda>ps.
     io_bind (io_lift (join_json (lib api) lags)) (\<lambda>ls.
     io_then (pr [''-> (ports=['' @ ps @ ''], lags=['' @ ls @ ''])'']) (io_ret ports))))))"

definition dump_mgrp ::
  "'s api \<Rightarrow> (json \<rightharpoonup> json \<times> json) \<Rightarrow> (json \<rightharpoonup> json \<times> json) \<Rightarrow> json \<Rightarrow> json option \<Rightarrow> ('s, 'z, json option) cli" where
  "dump_mgrp api l1_handles l2_handles mgrp ports =
     io_then (pr [''**********'']) (
     io_bind (io_lift (jget ''id'' mgrp)) (\<lambda>mgid.
     io_then (pr [''mgrp('' @ json_fmt (lib api) mgid @ '')'']) (
     io_bind (io_lift (jget_list ''l1_handles'' mgrp)) (\<lambda>hs.
     io_fold hs ports (\<lambda>L1h _.
       io_bind (dump_l1 api l1_handles l2_handles L1h) (\<lambda>p. io_ret (Some p)))))))"

text \<open>The LAG loop prints \<open>ports\<close>, the variable the loop over the groups has left behind.\<close>

definition dump_lag :: "'s api \<Rightarrow> json option \<Rightarrow> json \<Rightarrow> ('s, 'z, unit) cli" where
  "dump_lag api ports lag =
     io_bind (io_lift (jget ''id'' lag)) (\<lambda>i.
     io_then (emit (OutPart (''lag('' @ json_fmt (lib api) i @ '')''))) (
     io_bind (io_lift (or_raise UnboundLocalError ports)) (\<lambda>p.
     io_bind (io_lift (join_json (lib api) p)) (\<lambda>ps.
     pr [''-> ports=['' @ ps @ '']'']))))"

definition do_mc_dump :: "'s api \<Rightarrow> string \<Rightarrow> ('s, 'z, unit) cli" where
  "do_mc_dump api line = handle_bad_input (
     io_then (check_has_pre api) (
     io_bind (expect as_str (mc api (Call ''bm_mc_get_entries'' [AInt 0]))) (\<lambda>json_dump.
     case json_loads (lib api) json_dump of
       None \<Rightarrow> pr [''Exception when retrieving MC entries'']
     | Some mc_json \<Rightarrow>
         io_bind (io_lift (handle_dict mc_json ''l1_handles'' ''rid'' ''l2_handle'')) (\<lambda>l1_handles.
         io_bind (io_lift (handle_dict mc_json ''l2_handles'' ''ports'' ''lags'')) (\<lambda>l2_handles.
         io_then (pr [''=========='']) (
         io_then (pr [''MC ENTRIES'']) (
         io_bind (io_lift (jget_list ''mgrps'' mc_json)) (\<lambda>mgrps.
         io_bind (io_fold mgrps None (dump_mgrp api l1_handles l2_handles)) (\<lambda>ports.
         io_then (pr [''=========='']) (
         io_then (pr [''LAGS'']) (
         io_bind (io_lift (jget_list ''lags'' mc_json)) (\<lambda>lags.
         io_then (io_for lags (dump_lag api ports)) (
         pr [''==========''])))))))))))))"

section \<open>Port maps\<close>

text \<open>Bit \<open>i\<close> of a port map string, counted from the right as the switch reads it.\<close>

definition map_bit :: "string \<Rightarrow> nat \<Rightarrow> bool" where
  "map_bit m i \<longleftrightarrow> i < length m \<and> rev m ! i = CHR ''1''"

lemma port_map_loop_bits:
  assumes "sorted ps" "distinct ps" "\<forall>p \<in> set ps. n \<le> p" "0 \<le> n" "length s = nat n"
    and "set s \<subseteq> {CHR ''0'', CHR ''1''}"
  shows "set (port_map_loop n s ps) \<subseteq> {CHR ''0'', CHR ''1''} \<and>
    (ps \<noteq> [] \<longrightarrow> port_map_loop n s ps \<noteq> [] \<and> last (port_map_loop n s ps) = CHR ''1'') \<and>
    (\<forall>i. (i < length (port_map_loop n s ps) \<and> port_map_loop n s ps ! i = CHR ''1'') \<longleftrightarrow>
      (i < length s \<and> s ! i = CHR ''1'') \<or> int i \<in> set ps)"
  using assms
proof (induction n s ps rule: port_map_loop.induct)
  case (2 n s p ps)
  let ?s = "s @ replicate (nat (p - n)) (CHR ''0'') @ ''1''"
  have "\<forall>q \<in> set ps. p + 1 \<le> q" using 2(2,3) by (auto simp: add1_zle_eq less_le)
  moreover have len: "length ?s = nat (p + 1)" using 2(4-6) by auto
  ultimately have IH: "set (port_map_loop (p + 1) ?s ps) \<subseteq> {CHR ''0'', CHR ''1''}"
    "ps \<noteq> [] \<longrightarrow> port_map_loop (p + 1) ?s ps \<noteq> [] \<and> last (port_map_loop (p + 1) ?s ps) = CHR ''1''"
    "\<And>i. (i < length (port_map_loop (p + 1) ?s ps) \<and> port_map_loop (p + 1) ?s ps ! i = CHR ''1'') \<longleftrightarrow>
      (i < length ?s \<and> ?s ! i = CHR ''1'') \<or> int i \<in> set ps"
    using 2 by (auto simp: set_replicate_conv_if)
  have "(i < length ?s \<and> ?s ! i = CHR ''1'') \<longleftrightarrow> (i < length s \<and> s ! i = CHR ''1'') \<or> int i = p" for i
    using 2(4-6) by (auto simp: nth_append nth_Cons' split: if_splits)
  then show ?case using IH by (cases ps) auto
qed auto

lemma port_map_loop_ones:
  "count_list (port_map_loop n s ps) (CHR ''1'') = count_list s (CHR ''1'') + length ps"
  by (induction n s ps rule: port_map_loop.induct) (auto simp: count_list_0_iff)

lemma port_numbers_shown: "res_map port_number (map show_int ps) = Inr ps"
  by (induction ps) (auto simp: port_number_def)

text \<open>
  C18. For distinct non-negative port numbers, in any order, the port map is a string of the
  characters 0 and 1 without a leading 0, whose bit \<open>i\<close>, counted from the right, is 1 exactly when
  \<open>i\<close> is one of the ports.
\<close>

theorem ports_to_port_map_str_bits:
  assumes "distinct ports" and "\<forall>p \<in> set ports. 0 \<le> p"
  shows "\<exists>m. ports_to_port_map_str (map show_int ports) = Inr m \<and>
    set m \<subseteq> {CHR ''0'', CHR ''1''} \<and> (ports \<noteq> [] \<longrightarrow> m \<noteq> [] \<and> hd m = CHR ''1'') \<and>
    (\<forall>i. map_bit m i \<longleftrightarrow> int i \<in> set ports)"
proof -
  let ?r = "port_map_loop 0 [] (sort ports)"
  have "set ?r \<subseteq> {CHR ''0'', CHR ''1''} \<and> (sort ports \<noteq> [] \<longrightarrow> ?r \<noteq> [] \<and> last ?r = CHR ''1'') \<and>
    (\<forall>i. (i < length ?r \<and> ?r ! i = CHR ''1'') \<longleftrightarrow>
      (i < length ([]::string) \<and> [] ! i = CHR ''1'') \<or> int i \<in> set (sort ports))"
    by (rule port_map_loop_bits) (use assms in auto)
  moreover have "sort ports = [] \<longleftrightarrow> ports = []" by (metis set_empty set_sort)
  ultimately show ?thesis
    by (simp add: ports_to_port_map_str_def port_numbers_shown map_bit_def hd_rev)
qed

theorem ports_to_port_map_str_bits_witness:
  "\<exists>m. ports_to_port_map_str (map show_int [4, 1, 2]) = Inr m \<and>
    set m \<subseteq> {CHR ''0'', CHR ''1''} \<and> ([4, 1, 2 :: int] \<noteq> [] \<longrightarrow> m \<noteq> [] \<and> hd m = CHR ''1'') \<and>
    (\<forall>i. map_bit m i \<longleftrightarrow> int i \<in> set [4, 1, 2])"
  by (rule ports_to_port_map_str_bits) auto

text \<open>
  A port map has exactly as many ones as there are arguments, whatever the arguments are: a
  port given twice, or a negative one, sets the bit of a port that was not named.
\<close>

theorem ports_to_port_map_str_ones:
  "\<exists>m. ports_to_port_map_str (map show_int ports) = Inr m \<and> count_list m (CHR ''1'') = length ports"
  by (simp add: ports_to_port_map_str_def port_numbers_shown port_map_loop_ones)

section \<open>The multicast commands keep the contract\<close>

lemma issues_mc_prints:
  "issues c P (dump_l1 api d1 d2 h)"
  "issues c P (dump_mgrp api d1 d2 g ports)"
  "issues c P (dump_lag api ports j)"
  unfolding dump_mgrp_def dump_l1_def dump_lag_def
  by (intro issues_flow issues_emit; simp)+

lemma issues_mc_commands:
  "issues c (call_ok c) (do_mc_mgrp_create api line)"
  "issues c (call_ok c) (do_mc_mgrp_destroy api line)"
  "issues c (call_ok c) (do_mc_node_create api line)"
  "issues c (call_ok c) (do_mc_node_update api line)"
  "issues c (call_ok c) (do_mc_node_associate api line)"
  "issues c (call_ok c) (do_mc_node_dissociate api line)"
  "issues c (call_ok c) (do_mc_node_destroy api line)"
  "issues c (call_ok c) (do_mc_set_lag_membership api line)"
  unfolding do_mc_mgrp_create_def do_mc_mgrp_destroy_def do_mc_node_create_def do_mc_node_update_def
    do_mc_node_associate_def do_mc_node_dissociate_def do_mc_node_destroy_def do_mc_set_lag_membership_def
    check_has_pre_def get_mgrp_def get_node_handle_def mc_void_def Let_def
  by (intro issues_flow call_ok_intros; simp add: table_of_type_def)+

lemma issues_do_mc_dump: "issues c (call_ok c) (do_mc_dump api line)"
  unfolding do_mc_dump_def check_has_pre_def
  by (intro issues_flow call_ok_intros) (auto split: option.split intro!: issues_flow issues_mc_prints)

end
