(* ===== verification/Cli_Arrays.thy ===== *)
theory Cli_Arrays
  imports Cli_Tables
begin

text \<open>
  The commands of \<open>RuntimeAPI\<close> on meter, counter and register arrays, on custom CRC
  calculations, on the ports of the switch, and on its configuration and state as a whole.
\<close>

section \<open>Floating point literals\<close>

definition py_lower :: "char \<Rightarrow> char" where
  "py_lower c = (let n = of_char c :: nat in if 65 \<le> n \<and> n \<le> 90 then char_of (n + 32) else c)"

definition is_digit :: "char \<Rightarrow> bool" where
  "is_digit c \<longleftrightarrow> digit_val c < 10"

definition exp_literal :: "string \<Rightarrow> int option" where
  "exp_literal s =
     (case s of
        [] \<Rightarrow> None
      | c # cs \<Rightarrow>
          if c = CHR ''-'' then map_option (\<lambda>n. - int n) (nat_literal 10 cs)
          else if c = CHR ''+'' then map_option int (nat_literal 10 cs)
          else map_option int (nat_literal 10 s))"

definition unsigned_float :: "bool \<Rightarrow> string \<Rightarrow> py_float option" where
  "unsigned_float neg s0 =
     (let s = map py_lower s0 in
      if s = ''inf'' \<or> s = ''infinity'' then Some (PInf neg)
      else if s = ''nan'' then Some PNan
      else let ip = takeWhile is_digit s; r = dropWhile is_digit s;
               frac = r \<noteq> [] \<and> hd r = CHR ''.'';
               fp = (if frac then takeWhile is_digit (tl r) else []);
               e = (if frac then dropWhile is_digit (tl r) else r)
           in Option.bind (nat_literal 10 (ip @ fp)) (\<lambda>m.
              if e = [] then Some (PDec neg m (- int (length fp)))
              else if hd e = CHR ''e'' then
                map_option (\<lambda>x. PDec neg m (x - int (length fp))) (exp_literal (tl e))
              else None))"

text \<open>\<open>float(s)\<close>; \<open>None\<close> is a ValueError.\<close>

definition py_float_of :: "string \<Rightarrow> py_float option" where
  "py_float_of s0 =
     (let s = strip s0 in
      if s \<noteq> [] \<and> hd s = CHR ''-'' then unsigned_float True (tl s)
      else if s \<noteq> [] \<and> hd s = CHR ''+'' then unsigned_float False (tl s)
      else unsigned_float False s)"

section \<open>Meters\<close>

text \<open>One \<open>rate:burst\<close> argument; any exception in the \<open>try\<close> block is the same UIn_Error.\<close>

definition parse_rate :: "string \<Rightarrow> meter_rate res" where
  "parse_rate rate =
     (case py_split_sep '':'' rate of
        [r, b] \<Rightarrow> (case (py_float_of r, py_int b) of
                    (Some r', Some b') \<Rightarrow> Inr (r', b')
                  | _ \<Rightarrow> Inl (UIn_Error ''Error while parsing rates''))
      | _ \<Rightarrow> Inl (UIn_Error ''Error while parsing rates''))"

text \<open>\<open>"%d" % None\<close> is a TypeError.\<close>

definition check_rate_count :: "meter_array \<Rightarrow> string list \<Rightarrow> unit res" where
  "check_rate_count meter rates =
     (case rate_count meter of
        None \<Rightarrow> Inl TypeError
      | Some n \<Rightarrow> if int (length rates) \<noteq> n
                 then Inl (UIn_Error (''Invalid number of rates, expected '' @ show_int n @ '' but got '' @
                                      show_nat (length rates)))
                 else Inr ())"

definition do_meter_array_set_rates :: "'s api \<Rightarrow> string \<Rightarrow> ('s, 'z, unit) cli" where
  "do_meter_array_set_rates api line = handle_bad_input (
     let args = py_split line in
     io_then (at_least_n_args args 1) (
     let meter_name = args ! 0 in
     io_bind (get_res ''meter'' meter_name METER_ARRAYS) (\<lambda>meter.
     let rates = drop 1 args in
     io_then (io_lift (check_rate_count meter rates)) (
     io_bind (io_lift (res_map parse_rate rates)) (\<lambda>new_rates.
     std_void api (Call ''bm_meter_array_set_rates'' [AInt 0, AStr meter_name, ARates new_rates]))))))"

definition do_meter_set_rates :: "'s api \<Rightarrow> string \<Rightarrow> ('s, 'z, unit) cli" where
  "do_meter_set_rates api line = handle_bad_input (
     let args = py_split line in
     io_then (at_least_n_args args 2) (
     let meter_name = args ! 0 in
     io_bind (get_res ''meter'' meter_name METER_ARRAYS) (\<lambda>meter.
     io_bind (int_arg ''Bad format for index'' (args ! 1)) (\<lambda>index.
     let rates = drop 2 args in
     io_then (io_lift (check_rate_count meter rates)) (
     io_bind (io_lift (res_map parse_rate rates)) (\<lambda>new_rates.
     if m_is_direct meter = Some True
     then std_void api (Call ''bm_mt_set_meter_rates''
            [AInt 0, opt_arg (m_binding meter), AInt index, ARates new_rates])
     else std_void api (Call ''bm_meter_set_rates''
            [AInt 0, AStr meter_name, AInt index, ARates new_rates])))))))"

definition rate_line :: "'s api \<Rightarrow> nat \<times> meter_rate \<Rightarrow> ('s, 'z, unit) cli" where
  "rate_line api ir = (case ir of (i, rate, burst) \<Rightarrow>
     pr [show_nat i @ '': info rate = '' @ show_float (lib api) rate @ '', burst size = '' @ show_int burst])"

definition do_meter_get_rates :: "'s api \<Rightarrow> string \<Rightarrow> ('s, 'z, unit) cli" where
  "do_meter_get_rates api line = handle_bad_input (
     let args = py_split line in
     io_then (exactly_n_args args 2) (
     let meter_name = args ! 0 in
     io_bind (get_res ''meter'' meter_name METER_ARRAYS) (\<lambda>meter.
     io_bind (int_arg ''Bad format for index'' (args ! 1)) (\<lambda>index.
     io_bind (expect as_rates (
       if m_is_direct meter = Some True
       then std api (Call ''bm_mt_get_meter_rates'' [AInt 0, opt_arg (m_binding meter), AInt index])
       else std api (Call ''bm_meter_get_rates'' [AInt 0, AStr meter_name, AInt index]))) (\<lambda>rates.
     io_then (if Some (int (length rates)) \<noteq> rate_count meter
              then io_then (emit (OutPart (''WARNING: expected '' @ str_opt_int (rate_count meter) @ '' rates''))) (
                   pr [''but only received'', show_nat (length rates)])
              else io_ret ()) (
     io_for (enumerate 0 rates) (rate_line api)))))))"

definition complete_meters :: "config \<Rightarrow> string \<Rightarrow> string list" where
  "complete_meters c text = complete_res (METER_ARRAYS c) text"

section \<open>Counters\<close>

definition do_counter_read :: "'s api \<Rightarrow> string \<Rightarrow> ('s, 'z, unit) cli" where
  "do_counter_read api line = handle_bad_input (
     let args = py_split line in
     io_then (exactly_n_args args 2) (
     let counter_name = args ! 0 in
     io_bind (get_res ''counter'' counter_name COUNTER_ARRAYS) (\<lambda>counter.
     io_bind (int_arg ''Bad format for index'' (args ! 1)) (\<lambda>index.
     io_bind
       (if c_is_direct counter = Some True
        then io_then (pr [''this is the direct counter for table'', opt_str (c_binding counter)]) (
             std api (Call ''bm_mt_read_counter'' [AInt 0, opt_arg (c_binding counter), AInt index]))
        else std api (Call ''bm_counter_read'' [AInt 0, AStr counter_name, AInt index])) (\<lambda>value.
     pr [counter_name @ ''['' @ show_int index @ '']= '', repr_val (lib api) value])))))"

definition do_counter_reset :: "'s api \<Rightarrow> string \<Rightarrow> ('s, 'z, unit) cli" where
  "do_counter_reset api line = handle_bad_input (
     let args = py_split line in
     io_then (exactly_n_args args 1) (
     let counter_name = args ! 0 in
     io_bind (get_res ''counter'' counter_name COUNTER_ARRAYS) (\<lambda>counter.
     if c_is_direct counter = Some True
     then io_then (pr [''this is the direct counter for table'', opt_str (c_binding counter)]) (
          std_void api (Call ''bm_mt_reset_counters'' [AInt 0, opt_arg (c_binding counter)]))
     else std_void api (Call ''bm_counter_reset_all'' [AInt 0, AStr counter_name]))))"

definition complete_counters :: "config \<Rightarrow> string \<Rightarrow> string list" where
  "complete_counters c text = complete_res (COUNTER_ARRAYS c) text"

section \<open>Registers\<close>

definition do_register_read :: "'s api \<Rightarrow> string \<Rightarrow> ('s, 'z, unit) cli" where
  "do_register_read api line = handle_bad_input (
     let args = py_split line in
     io_then (exactly_n_args args 2) (
     let register_name = args ! 0 in
     io_bind (get_res ''register'' register_name REGISTER_ARRAYS) (\<lambda>register.
     io_bind (int_arg ''Bad format for index'' (args ! 1)) (\<lambda>index.
     io_bind (std api (Call ''bm_register_read'' [AInt 0, AStr register_name, AInt index])) (\<lambda>value.
     pr [register_name @ ''['' @ show_int index @ '']= '', repr_val (lib api) value])))))"

definition do_register_write :: "'s api \<Rightarrow> string \<Rightarrow> ('s, 'z, unit) cli" where
  "do_register_write api line = handle_bad_input (
     let args = py_split line in
     io_then (exactly_n_args args 3) (
     let register_name = args ! 0 in
     io_bind (get_res ''register'' register_name REGISTER_ARRAYS) (\<lambda>register.
     io_bind (int_arg ''Bad format for index'' (args ! 1)) (\<lambda>index.
     io_bind (int_arg ''Bad format for value, must be an integer'' (args ! 2)) (\<lambda>value.
     std_void api (Call ''bm_register_write'' [AInt 0, AStr register_name, AInt index, AInt value]))))))"

text \<open>The name is not looked up in \<open>REGISTER_ARRAYS\<close>.\<close>

definition do_register_reset :: "'s api \<Rightarrow> string \<Rightarrow> ('s, 'z, unit) cli" where
  "do_register_reset api line = handle_bad_input (
     let args = py_split line in
     io_then (exactly_n_args args 1) (
     std_void api (Call ''bm_register_reset'' [AInt 0, AStr (args ! 0)])))"

definition complete_registers :: "config \<Rightarrow> string \<Rightarrow> string list" where
  "complete_registers c text = complete_res (REGISTER_ARRAYS c) text"

section \<open>Ports and switch information\<close>

definition do_port_add :: "'s api \<Rightarrow> string \<Rightarrow> ('s, 'z, unit) cli" where
  "do_port_add api line = handle_bad_input (
     let args = py_split line in
     io_then (at_least_n_args args 2) (
     let iface = args ! 0 in
     io_bind (int_arg ''Bad format for port_num, must be an integer'' (args ! 1)) (\<lambda>num.
     let pcap_path = (if length args > 2 then args ! 2 else []) in
     std_void api (Call ''bm_dev_mgr_add_port'' [AStr iface, AInt num, AStr pcap_path]))))"

definition do_port_remove :: "'s api \<Rightarrow> string \<Rightarrow> ('s, 'z, unit) cli" where
  "do_port_remove api line = handle_bad_input (
     let args = py_split line in
     io_then (exactly_n_args args 1) (
     io_bind (int_arg ''Bad format for port_num, must be an integer'' (args ! 0)) (\<lambda>num.
     std_void api (Call ''bm_dev_mgr_remove_port'' [AInt num]))))"

definition port_line :: "port_info \<Rightarrow> ('s, 'z, unit) cli" where
  "port_line p =
     (let status = (if is_up p then ''UP'' else ''DOWN'');
          extra_info = py_join ''; '' (map (\<lambda>(k, v). k @ ''='' @ v) (port_extra p)) in
      pr [center 10 (show_int (port_num p)) @ center 20 (iface_name p) @ center 10 status @ extra_info])"

definition do_show_ports :: "'s api \<Rightarrow> string \<Rightarrow> ('s, 'z, unit) cli" where
  "do_show_ports api line = handle_bad_input (
     io_then (exactly_n_args (py_split line) 0) (
     io_bind (expect as_ports (std api (Call ''bm_dev_mgr_show_ports'' []))) (\<lambda>ports.
     io_then (pr [center 10 ''port #'' @ center 20 ''iface name'' @ center 10 ''status'' @ ''extra info'']) (
     io_then (pr [replicate 50 (CHR ''='')]) (
     io_for ports port_line)))))"

text \<open>\<open>max\<close> of an empty sequence is a ValueError.\<close>

definition do_switch_info :: "'s api \<Rightarrow> string \<Rightarrow> ('s, 'z, unit) cli" where
  "do_switch_info api line = handle_bad_input (
     io_then (exactly_n_args (py_split line) 0) (
     io_bind (expect as_info (std api (Call ''bm_mgmt_get_info'' []))) (\<lambda>info.
     if info = [] then io_raise ValueError
     else let out_attr_w = 5 + Max (set (map (\<lambda>(a, _). length a) info)) in
          io_for info (\<lambda>(a, v). pr [ljust out_attr_w a @ '': '' @ v]))))"

definition do_reset_state :: "'s api \<Rightarrow> string \<Rightarrow> ('s, 'z, unit) cli" where
  "do_reset_state api line = handle_bad_input (
     io_then (exactly_n_args (py_split line) 0) (
     std_void api (Call ''bm_reset_state'' [])))"

text \<open>\<open>with open(filename, 'w') as f: f.write(s)\<close>\<close>

definition write_file :: "'s api \<Rightarrow> string \<Rightarrow> string \<Rightarrow> ('s, 'z, unit) cli" where
  "write_file api filename s =
     (if can_write (lib api) filename then emit (Wrote filename s) else io_raise IOError)"

definition do_write_config_to_file :: "'s api \<Rightarrow> string \<Rightarrow> ('s, 'z, unit) cli" where
  "do_write_config_to_file api line = handle_bad_input (
     let args = py_split line in
     io_then (exactly_n_args args 1) (
     io_bind (expect as_str (std api (Call ''bm_get_config'' []))) (\<lambda>json_cfg.
     write_file api (args ! 0) json_cfg)))"

definition do_serialize_state :: "'s api \<Rightarrow> string \<Rightarrow> ('s, 'z, unit) cli" where
  "do_serialize_state api line = handle_bad_input (
     let args = py_split line in
     io_then (exactly_n_args args 1) (
     io_bind (expect as_str (std api (Call ''bm_serialize_state'' []))) (\<lambda>state.
     write_file api (args ! 0) state)))"

definition do_load_new_config_file :: "'s api \<Rightarrow> string \<Rightarrow> ('s, 'z, unit) cli" where
  "do_load_new_config_file api line = handle_bad_input (
     let args = py_split line in
     io_then (exactly_n_args args 1) (
     case read_file (lib api) (args ! 0) of
       None \<Rightarrow> io_raise (UIn_Error ''Not a valid filename'')
     | Some json_str \<Rightarrow>
         io_then (pr [''Loading new Json config'']) (
         io_then (if json_loads (lib api) json_str = None
                  then io_raise (UIn_Error ''Not a valid JSON file'') else io_ret ()) (
         io_then (std_void api (Call ''bm_load_new_config'' [AStr json_str])) (
         with_cfg (load_json_str (json_loads (lib api)) json_str))))))"

definition do_swap_configs :: "'s api \<Rightarrow> string \<Rightarrow> ('s, 'z, unit) cli" where
  "do_swap_configs api line = handle_bad_input (
     io_then (pr [''Swapping configs'']) (
     std_void api (Call ''bm_swap_configs'' [])))"

section \<open>Custom CRC parameters\<close>

text \<open>\<open>crc_width\<close> is 16 or 32 at both call sites.\<close>

definition set_crc_parameters_common :: "'s api \<Rightarrow> string \<Rightarrow> int \<Rightarrow> ('s, 'z, unit) cli" where
  "set_crc_parameters_common api line crc_width = (
     let conversion_fn = (if crc_width = 16 then hex_to_i16 else hex_to_i32);
         thrift_fn = (if crc_width = 16 then ''bm_set_crc16_custom_parameters''
                      else ''bm_set_crc32_custom_parameters'');
         args = py_split line in
     io_then (exactly_n_args args 6) (
     let name = args ! 0 in
     io_bind (io_gets (\<lambda>w. map_of (CUSTOM_CRC_CALCS (cfg w)) name)) (\<lambda>width.
     io_then (if width \<noteq> Some crc_width
              then io_raise (UIn_ResourceError (''crc'' @ show_int crc_width @ ''_custom'') name)
              else io_ret ()) (
     io_bind (io_lift (conversion_fn (args ! 1))) (\<lambda>poly.
     io_bind (io_lift (conversion_fn (args ! 2))) (\<lambda>initial.
     io_bind (io_lift (conversion_fn (args ! 3))) (\<lambda>final_xor.
     io_bind (io_lift (parse_bool (args ! 4))) (\<lambda>data_refl.
     io_bind (io_lift (parse_bool (args ! 5))) (\<lambda>rem_refl.
     std_void api (Call thrift_fn [AInt 0, AStr name,
       ACrc \<lparr>polynomial = poly, initial_remainder = initial, final_xor_value = final_xor,
             data_reflected = data_refl, remainder_reflected = rem_refl\<rparr>]))))))))))"

definition complete_crc :: "config \<Rightarrow> string \<Rightarrow> int \<Rightarrow> string list" where
  "complete_crc c text crc_width =
     (let crcs = sort (map fst (filter (\<lambda>(_, w). w = crc_width) (CUSTOM_CRC_CALCS c)))
      in if text = [] then crcs else filter (starts_with text) crcs)"

definition do_set_crc16_parameters :: "'s api \<Rightarrow> string \<Rightarrow> ('s, 'z, unit) cli" where
  "do_set_crc16_parameters api line = handle_bad_input (set_crc_parameters_common api line 16)"

definition do_set_crc32_parameters :: "'s api \<Rightarrow> string \<Rightarrow> ('s, 'z, unit) cli" where
  "do_set_crc32_parameters api line = handle_bad_input (set_crc_parameters_common api line 32)"

section \<open>The array and switch commands keep the contract\<close>

lemma issues_array_commands:
  "issues c (call_ok c) (do_meter_array_set_rates api line)"
  "issues c (call_ok c) (do_meter_set_rates api line)"
  "issues c (call_ok c) (do_meter_get_rates api line)"
  "issues c (call_ok c) (do_counter_read api line)"
  "issues c (call_ok c) (do_counter_reset api line)"
  "issues c (call_ok c) (do_register_read api line)"
  "issues c (call_ok c) (do_register_write api line)"
  "issues c (call_ok c) (do_register_reset api line)"
  unfolding do_meter_array_set_rates_def do_meter_set_rates_def do_meter_get_rates_def do_counter_read_def
    do_counter_reset_def do_register_read_def do_register_write_def do_register_reset_def
    std_void_def rate_line_def case_prod_beta Let_def
  by (intro issues_flow issues_emit call_ok_intros; auto simp: table_of_type_def)+

lemma issues_switch_commands:
  "issues c (call_ok c) (do_port_add api line)"
  "issues c (call_ok c) (do_port_remove api line)"
  "issues c (call_ok c) (do_show_ports api line)"
  "issues c (call_ok c) (do_switch_info api line)"
  "issues c (call_ok c) (do_reset_state api line)"
  "issues c (call_ok c) (do_write_config_to_file api line)"
  "issues c (call_ok c) (do_serialize_state api line)"
  "issues c (call_ok c) (do_swap_configs api line)"
  unfolding do_port_add_def do_port_remove_def do_show_ports_def do_switch_info_def do_reset_state_def
    do_write_config_to_file_def do_serialize_state_def do_swap_configs_def
    std_void_def write_file_def port_line_def case_prod_beta Let_def
  by (intro issues_flow issues_emit call_ok_intros; simp add: table_of_type_def)+

lemma issues_gets:
  "(\<And>w. cfg w = c \<Longrightarrow> issues c P (f (g w))) \<Longrightarrow> issues c P (io_bind (io_gets g) f)"
  by (rule issues_bind_general) (auto simp: issues_def io_simps)

lemma crc_call_ok:
  assumes "map_of (CUSTOM_CRC_CALCS c) name = Some width" "width = 16 \<or> width = 32"
  shows "call_ok c (Call (if width = 16 then ''bm_set_crc16_custom_parameters''
    else ''bm_set_crc32_custom_parameters'') (AInt 0 # AStr name # rest))"
  using assms by (auto intro!: call_ok_intros)

lemma issues_set_crc_parameters_common:
  "width = 16 \<or> width = 32 \<Longrightarrow> issues c (call_ok c) (set_crc_parameters_common api line width)"
  unfolding set_crc_parameters_common_def std_void_def Let_def
  by (intro issues_gets issues_flow crc_call_ok; simp)

lemma issues_crc_commands:
  "issues c (call_ok c) (do_set_crc16_parameters api line)"
  "issues c (call_ok c) (do_set_crc32_parameters api line)"
  unfolding do_set_crc16_parameters_def do_set_crc32_parameters_def
  by (intro issues_handle issues_set_crc_parameters_common; simp)+

end
