(* ===== verification/Cli_Dump.thy ===== *)
theory Cli_Dump
  imports Cli_Indirect
begin

text \<open>
  The commands of \<open>RuntimeAPI\<close> that read a table back from the switch and print it, and those
  that find an entry by its match key.
\<close>

section \<open>Definitions\<close>

definition hexstr :: "string \<Rightarrow> string" where
  "hexstr v = concat (map hex2 v)"

definition dump_action_and_data :: "string \<Rightarrow> string list \<Rightarrow> ('s, 'z, unit) cli" where
  "dump_action_and_data action_name action_data =
     pr [''Action entry: '' @ action_name @ '' - '' @ py_join '', '' (map hexstr action_data)]"

fun dump_action_entry :: "bm_action_entry \<Rightarrow> ('s, 'z, unit) cli" where
  "dump_action_entry BmActionEntry_NONE = pr [''EMPTY'']"
| "dump_action_entry (BmActionEntry_ACTION_DATA name data) = dump_action_and_data name data"
| "dump_action_entry (BmActionEntry_MBR_HANDLE h) = pr [''Index: member('' @ show_int h @ '')'']"
| "dump_action_entry (BmActionEntry_GRP_HANDLE h) = pr [''Index: group('' @ show_int h @ '')'']"

definition dump_one_member :: "bm_member \<Rightarrow> ('s, 'z, unit) cli" where
  "dump_one_member member =
     io_then (pr [''Dumping member '' @ show_int (mbr_handle member)]) (
     dump_action_and_data (mbr_action_name member) (mbr_action_data member))"

definition dump_members :: "bm_member list \<Rightarrow> ('s, 'z, unit) cli" where
  "dump_members members = io_for members (\<lambda>m. io_then (pr [''**********'']) (dump_one_member m))"

definition dump_one_group :: "bm_group \<Rightarrow> ('s, 'z, unit) cli" where
  "dump_one_group grp =
     io_then (pr [''Dumping group '' @ show_int (grp_handle grp)]) (
     pr [''Members: ['' @ py_join '', '' (map show_int (mbr_handles grp)) @ '']''])"

definition dump_groups :: "bm_group list \<Rightarrow> ('s, 'z, unit) cli" where
  "dump_groups groups = io_for groups (\<lambda>g. io_then (pr [''**********'']) (dump_one_group g))"

fun pdumper :: "bm_match_param \<Rightarrow> string" where
  "pdumper (BmMatchParamExact key) = hexstr key"
| "pdumper (BmMatchParamLPM key prefix_length) = hexstr key @ ''/'' @ show_int prefix_length"
| "pdumper (BmMatchParamTernary key mask') = hexstr key @ '' &&& '' @ hexstr mask'"
| "pdumper (BmMatchParamValid key) = (if key then ''01'' else ''00'')"
| "pdumper (BmMatchParamRange start end') = hexstr start @ '' -> '' @ hexstr end'"

definition py_upper :: "string \<Rightarrow> string" where
  "py_upper s = map (\<lambda>c. let n = of_char c :: nat in
     if 97 \<le> n \<and> n \<le> 122 then char_of (n - 32) else c) s"

text \<open>One line of the match key; \<open>assert(k[1] == p.type)\<close> comes first.\<close>

definition dump_key_field :: "nat \<Rightarrow> bm_match_param \<times> string \<times> match_type \<times> int \<Rightarrow> ('s, 'z, unit) cli" where
  "dump_key_field out_name_w pk =
     (case pk of (p, name, mt, bw) \<Rightarrow>
        if mt \<noteq> param_type p then io_raise AssertionError
        else pr [''* '' @ ljust out_name_w name @ '': '' @
                 ljust 10 (py_upper (MatchType_to_str (param_type p))) @ pdumper p])"

definition dump_one_entry :: "table \<Rightarrow> bm_mt_entry \<Rightarrow> ('s, 'z, unit) cli" where
  "dump_one_entry table entry =
     (let out_name_w = foldr max (map (\<lambda>t. length (fst t)) (t_key table)) 20 in
      io_then (pr [''Dumping entry '' @ py_hex (entry_handle entry)]) (
      io_then (pr [''Match key:'']) (
      io_then (io_for (zip (e_match_key entry) (t_key table)) (dump_key_field out_name_w)) (
      io_then (case e_priority entry of
                 Some p \<Rightarrow> if 0 \<le> p then pr [''Priority: '' @ show_int p] else io_ret ()
               | None \<Rightarrow> io_ret ()) (
      io_then (dump_action_entry (action_entry entry)) (
      case e_life entry of
        None \<Rightarrow> io_ret ()
      | Some (since_hit, timeout) \<Rightarrow>
          pr [''Life: '' @ show_int since_hit @ ''ms since hit, timeout is '' @ show_int timeout @ ''ms'']))))))"

definition do_table_dump_entry :: "'s api \<Rightarrow> string \<Rightarrow> ('s, 'z, unit) cli" where
  "do_table_dump_entry api line = handle_bad_input (
     let args = py_split line in
     io_then (exactly_n_args args 2) (
     let table_name = args ! 0 in
     io_bind (get_res ''table'' table_name TABLES) (\<lambda>table.
     io_bind (int_arg ''Bad format for entry handle'' (args ! 1)) (\<lambda>handle.
     io_bind (expect as_entry (std api (Call ''bm_mt_get_entry'' [AInt 0, AStr table_name, AInt handle]))) (\<lambda>entry.
     dump_one_entry table entry)))))"

definition do_table_dump_member :: "'s api \<Rightarrow> string \<Rightarrow> ('s, 'z, unit) cli" where
  "do_table_dump_member api line = handle_bad_input (
     let args = py_split line in
     io_then (exactly_n_args args 2) (
     let table_name = args ! 0 in
     io_bind (get_res ''table'' table_name TABLES) (\<lambda>table.
     io_bind (int_arg ''Bad format for member handle'' (args ! 1)) (\<lambda>mbr.
     io_bind (expect as_member (std api (Call ''bm_mt_indirect_get_member''
       [AInt 0, AStr table_name, AInt mbr]))) (\<lambda>member.
     dump_one_member member)))))"

definition do_table_dump_group :: "'s api \<Rightarrow> string \<Rightarrow> ('s, 'z, unit) cli" where
  "do_table_dump_group api line = handle_bad_input (
     let args = py_split line in
     io_then (exactly_n_args args 2) (
     let table_name = args ! 0 in
     io_bind (get_res ''table'' table_name TABLES) (\<lambda>table.
     io_bind (int_arg ''Bad format for group handle'' (args ! 1)) (\<lambda>grp.
     io_bind (expect as_group (std api (Call ''bm_mt_indirect_ws_get_group''
       [AInt 0, AStr table_name, AInt grp]))) (\<lambda>g.
     dump_one_group g)))))"

definition do_table_dump :: "'s api \<Rightarrow> string \<Rightarrow> ('s, 'z, unit) cli" where
  "do_table_dump api line = handle_bad_input (
     let args = py_split line in
     io_then (exactly_n_args args 1) (
     let table_name = args ! 0 in
     io_bind (get_res ''table'' table_name TABLES) (\<lambda>table.
     io_bind (expect as_entries (std api (Call ''bm_mt_get_entries'' [AInt 0, AStr table_name]))) (\<lambda>entries.
     io_then (pr [''=========='']) (
     io_then (pr [''TABLE ENTRIES'']) (
     io_then (io_for entries (\<lambda>e. io_then (pr [''**********'']) (dump_one_entry table e))) (
     io_then (if t_type table = Some Table_indirect \<or> t_type table = Some Table_indirect_ws
              then io_bind (expect as_members (std api (Call ''bm_mt_indirect_get_members''
                     [AInt 0, AStr table_name]))) (\<lambda>members.
                   io_then (pr [''=========='']) (io_then (pr [''MEMBERS'']) (dump_members members)))
              else io_ret ()) (
     io_then (if t_type table = Some Table_indirect_ws
              then io_bind (expect as_groups (std api (Call ''bm_mt_indirect_ws_get_groups''
                     [AInt 0, AStr table_name]))) (\<lambda>groups.
                   io_then (pr [''=========='']) (io_then (pr [''GROUPS'']) (dump_groups groups)))
              else io_ret ()) (
     io_bind (expect as_action_entry (std api (Call ''bm_mt_get_default_entry''
       [AInt 0, AStr table_name]))) (\<lambda>default_entry.
     io_then (pr [''=========='']) (
     io_then (pr [''Dumping default entry'']) (
     io_then (dump_action_entry default_entry) (
     pr [''==========''])))))))))))))"

definition do_table_dump_2 :: "'s api \<Rightarrow> string \<Rightarrow> ('s, 'z, unit) cli" where
  "do_table_dump_2 api line = handle_bad_input (do_table_dump api line)"

text \<open>The common start of the two commands that look an entry up by its key: the table name, the
  table and the entry the switch returns for the parsed key.\<close>

definition entry_from_key :: "'s api \<Rightarrow> string \<Rightarrow> ('s, 'z, string \<times> table \<times> bm_mt_entry) cli" where
  "entry_from_key api line = (
     let args0 = py_split line in
     io_then (at_least_n_args args0 1) (
     let table_name = args0 ! 0 in
     io_bind (get_res ''table'' table_name TABLES) (\<lambda>table.
     io_bind (io_lift (pop_priority table args0)) (\<lambda>(priority, args).
     io_then (if length (drop 1 args) \<noteq> num_key_fields table
              then io_raise (needs_keys table_name table) else io_ret ()) (
     io_bind (io_lift (parse_match_key (ip6 (lib api)) table (drop 1 args))) (\<lambda>match_key.
     io_bind (expect as_entry (std api (Call ''bm_mt_get_entry_from_key''
       [AInt 0, AStr table_name, AKey match_key, AOptions priority]))) (\<lambda>entry.
     io_ret (table_name, table, entry))))))))"

definition do_table_dump_entry_from_key :: "'s api \<Rightarrow> string \<Rightarrow> ('s, 'z, unit) cli" where
  "do_table_dump_entry_from_key api line = handle_bad_input (
     io_bind (entry_from_key api line) (\<lambda>(table_name, table, entry). dump_one_entry table entry))"

definition do_table_delete_entry_from_key :: "'s api \<Rightarrow> string \<Rightarrow> ('s, 'z, unit) cli" where
  "do_table_delete_entry_from_key api line = handle_bad_input (
     io_bind (entry_from_key api line) (\<lambda>(table_name, table, entry).
     std_void api (Call ''bm_mt_delete_entry'' [AInt 0, AStr table_name, AInt (entry_handle entry)])))"

section \<open>The dump commands keep the contract\<close>

lemma issues_dump_action_entry: "issues c P (dump_action_entry a)"
  by (cases a) (auto simp: dump_action_and_data_def intro!: issues_flow)

lemma issues_dump_prints:
  "issues c P (dump_action_and_data name data)"
  "issues c P (dump_one_member m)"
  "issues c P (dump_one_group g)"
  "issues c P (dump_key_field n pk)"
  unfolding dump_action_and_data_def dump_one_member_def dump_one_group_def dump_key_field_def case_prod_beta
  by (intro issues_flow)+

lemma issues_dump_lists:
  "issues c P (dump_members ms)"
  "issues c P (dump_groups gs)"
  "issues c P (dump_one_entry t e)"
  unfolding dump_members_def dump_groups_def dump_one_entry_def Let_def
  by (intro issues_flow issues_dump_action_entry issues_dump_prints; auto split: option.split intro!: issues_flow)+

lemma issues_entry_from_key:
  assumes "\<And>tn table e. map_of (TABLES c) tn = Some table \<Longrightarrow> issues c (call_ok c) (f (tn, table, e))"
  shows "issues c (call_ok c) (io_bind (entry_from_key api line) f)"
  unfolding entry_from_key_def Let_def io_flatten
  by (intro issues_flow assms call_ok_intros; simp add: table_of_type_def)

lemma issues_dump_commands:
  "issues c (call_ok c) (do_table_dump_entry api line)"
  "issues c (call_ok c) (do_table_dump_member api line)"
  "issues c (call_ok c) (do_table_dump_group api line)"
  "issues c (call_ok c) (do_table_dump api line)"
  "issues c (call_ok c) (do_table_dump_2 api line)"
  unfolding do_table_dump_entry_def do_table_dump_member_def do_table_dump_group_def do_table_dump_def
    do_table_dump_2_def Let_def
  by (intro issues_flow issues_dump_action_entry issues_dump_prints issues_dump_lists call_ok_intros; auto simp: table_of_type_def)+

lemma issues_from_key_commands:
  "issues c (call_ok c) (do_table_dump_entry_from_key api line)"
  "issues c (call_ok c) (do_table_delete_entry_from_key api line)"
  unfolding do_table_dump_entry_from_key_def do_table_delete_entry_from_key_def std_void_def
  by (rule issues_handle, rule issues_entry_from_key, simp only: prod.case,
      intro issues_flow issues_dump_lists call_ok_intros; simp add: table_of_type_def)+

end
