(* ===== verification/Bmpy_Utils.thy ===== *)
theory Bmpy_Utils
  imports Cli_Safety
begin

text \<open>
  \<^verbatim>\<open>tools/bmpy_utils.py\<close>: connecting to the Thrift services and obtaining the JSON
  description of the P4 program, from a file that is checked against the switch's MD5 sum, or from
  the switch itself. The socket is a parameter: whether \<open>transport.open()\<close> succeeds.
\<close>

section \<open>Definitions\<close>

definition my_print :: "string \<Rightarrow> ('s, 'z, unit) cli" where
  "my_print s = emit (Wrote ''<stdout>'' s)"

definition newline :: string where
  "newline = [CHR 10]"

text \<open>\<open>with open(path, 'r') as f: ... f.read()\<close>\<close>

definition open_read :: "'s api \<Rightarrow> string \<Rightarrow> ('s, 'z, string) cli" where
  "open_read api path = io_lift (or_raise IOError (read_file (lib api) path))"

definition md5_hex :: "string \<Rightarrow> string" where
  "md5_hex s = concat (map hex2 s)"

definition md5_warning :: "string \<Rightarrow> string \<Rightarrow> string list" where
  "md5_warning bm_md5sum md5sum =
     [''**********'' @ newline,
      ''WARNING: the JSON files loaded into the switch and the one '',
      ''you just provided to this CLI don'' @ [CHR 39] @ ''t have the same md5 sum. '',
      ''Are you sure they describe the same program?'' @ newline,
      ljust 15 ''switch md5'' @ '': '' @ md5_hex bm_md5sum @ newline,
      ljust 15 ''CLI input md5'' @ '': '' @ md5_hex md5sum @ newline,
      ''**********'' @ newline]"

definition check_JSON_md5 :: "'s api \<Rightarrow> string \<Rightarrow> ('s, 'z, unit) cli" where
  "check_JSON_md5 api json_src =
     io_bind (open_read api json_src) (\<lambda>contents.
     let md5sum = md5_digest (lib api) contents in
     io_bind (io_catch (expect as_str (std api (Call ''bm_get_config_md5'' []))) (\<lambda>_.
       io_then (my_print (''Error when requesting config md5 sum from switch'' @ newline)) (
       io_raise (SystemExit 1)))) (\<lambda>bm_md5sum.
     if md5sum \<noteq> bm_md5sum then io_for (md5_warning bm_md5sum md5sum) my_print else io_ret ()))"

text \<open>\<open>have_client\<close> is \<open>standard_client is not None\<close>.\<close>

definition get_json_config :: "'s api \<Rightarrow> bool \<Rightarrow> string option \<Rightarrow> ('s, 'z, string) cli" where
  "get_json_config api have_client json_path =
     (case json_path of
        Some (ch # path) \<Rightarrow>
          io_then (if have_client then check_JSON_md5 api (ch # path) else io_ret ()) (
          open_read api (ch # path))
      | _ \<Rightarrow>
          if \<not> have_client then io_raise AssertionError
          else io_catch
            (io_then (my_print (''Obtaining JSON from switch...'' @ newline)) (
             io_bind (expect as_str (std api (Call ''bm_get_config'' []))) (\<lambda>json_cfg.
             io_then (my_print (''Done'' @ newline)) (io_ret json_cfg))))
            (\<lambda>_. io_then (my_print (''Error when requesting JSON config from switch'' @ newline)) (
                 io_raise (SystemExit 1))))"

text \<open>The clients that \<open>thrift_connect\<close> returns, one per service, \<open>None\<close> for a service without
  a name.\<close>

definition thrift_connect :: "bool \<Rightarrow> int \<Rightarrow> string option list \<Rightarrow> ('s, 'z, string option list) cli" where
  "thrift_connect transport_opens thrift_port services =
     (if transport_opens then io_ret services
      else io_then (my_print (''Could not connect to thrift client on port '' @ show_int thrift_port @ newline)) (
           io_then (my_print ''Make sure the switch is running '') (
           io_then (my_print (''and that you have the right port'' @ newline)) (
           io_raise (SystemExit 1)))))"

definition thrift_connect_standard :: "bool \<Rightarrow> int \<Rightarrow> ('s, 'z, string option) cli" where
  "thrift_connect_standard transport_opens thrift_port =
     io_bind (thrift_connect transport_opens thrift_port [Some ''standard'']) (\<lambda>clients. io_ret (clients ! 0))"

section \<open>Where the configuration comes from\<close>

lemma io_for_my_print:
  "io_for ss my_print w = (Inr (), w\<lparr>events := events w @ map (Wrote ''<stdout>'') ss\<rparr>)"
  by (induction ss arbitrary: w) (simp_all add: io_simps my_print_def)

lemma my_print_apply: "my_print s w = (Inr (), w\<lparr>events := events w @ [Wrote ''<stdout>'' s]\<rparr>)"
  by (simp add: my_print_def io_simps)

text \<open>
  With a JSON file, the configuration is the contents of that file, whether or not its MD5 sum
  is the switch's: the switch is asked for its sum and for nothing else, and a difference is only
  reported, with both sums. A switch that does not answer ends the program with status 1.
\<close>

theorem get_json_config_from_file:
  assumes "read_file (lib api) path = Some contents" and "path \<noteq> []"
    and "client api (Call ''bm_get_config_md5'' []) (switch w) = (answer, s)"
  shows "get_json_config api True (Some path) w =
    (case answer of
       Inr (VStr md5) \<Rightarrow>
         (Inr contents, w\<lparr>switch := s, events := events w @ Std (Call ''bm_get_config_md5'' []) #
            (if md5 = md5_digest (lib api) contents then []
             else map (Wrote ''<stdout>'') (md5_warning md5 (md5_digest (lib api) contents)))\<rparr>)
     | _ \<Rightarrow>
         (Inl (SystemExit 1), w\<lparr>switch := s, events := events w @ [Std (Call ''bm_get_config_md5'' []),
            Wrote ''<stdout>'' (''Error when requesting config md5 sum from switch'' @ newline)]\<rparr>))"
  using assms
  by (cases path; cases answer)
     (auto simp: get_json_config_def check_JSON_md5_def open_read_def io_simps expect_def as_str_def
        my_print_apply io_for_my_print Let_def split: std_val.split)

text \<open>A switch whose program has the digest of the file.\<close>

definition file_api :: "unit api" where
  "file_api = \<lparr>client = (\<lambda>_ s. (Inr (VStr [CHR 7]), s)), mc_client = None, api_pre_type = PreType_None,
     lib = no_lib\<lparr>read_file := (\<lambda>_. Some ''{}''), md5_digest := (\<lambda>_. [CHR 7])\<rparr>\<rparr>"

theorem get_json_config_from_file_witness:
  "get_json_config file_api True (Some ''sai.json'') \<lparr>cfg = empty_config, switch = (), events = []\<rparr> =
    (Inr ''{}'', \<lparr>cfg = empty_config, switch = (), events = [Std (Call ''bm_get_config_md5'' [])]\<rparr>)"
  using get_json_config_from_file [of file_api "''sai.json''" "''{}''"
      "\<lparr>cfg = empty_config, switch = (), events = []\<rparr>" "Inr (VStr [CHR 7])" "()"]
  by (simp add: file_api_def)

end
