(* ===== verification/Cli_Shell.thy ===== *)
theory Cli_Shell
  imports Cli_Indirect Cli_Multicast Cli_Arrays Cli_Dump Bmpy_Utils
begin

text \<open>
  The command loop: how \<open>cmd.Cmd\<close> of the standard library takes a line apart and calls the
  \<open>do_\<close> method it names, the tab completers, and \<open>main\<close>. The commands are collected in one
  table, over which the contract with the switch is proved for every line a user can type and every
  script of lines.
\<close>

section \<open>Definitions\<close>

text \<open>All \<open>do_\<close> methods of \<open>RuntimeAPI\<close> that return \<open>None\<close>, except
  \<open>do_load_new_config_file\<close>.\<close>

definition commands :: "'s api \<Rightarrow> (string \<times> (string \<Rightarrow> ('s, 'z, unit) cli)) list" where
  "commands api =
    [(''greet'', do_greet), (''shell'', do_shell api), (''show_tables'', do_show_tables),
     (''show_actions'', do_show_actions), (''table_show_actions'', do_table_show_actions),
     (''table_info'', do_table_info), (''table_set_default'', do_table_set_default api),
     (''table_num_entries'', do_table_num_entries api), (''table_add'', do_table_add api),
     (''table_set_timeout'', do_table_set_timeout api), (''table_modify'', do_table_modify api),
     (''table_delete'', do_table_delete api),
     (''table_indirect_create_member'', do_table_indirect_create_member api),
     (''table_indirect_delete_member'', do_table_indirect_delete_member api),
     (''table_indirect_modify_member'', do_table_indirect_modify_member api),
     (''table_indirect_add'', do_table_indirect_add api),
     (''table_indirect_add_with_group'', do_table_indirect_add_with_group api),
     (''table_indirect_delete'', do_table_indirect_delete api),
     (''table_indirect_set_default'', do_table_indirect_set_default api),
     (''table_indirect_set_default_with_group'', do_table_indirect_set_default_with_group api),
     (''table_indirect_create_group'', do_table_indirect_create_group api),
     (''table_indirect_delete_group'', do_table_indirect_delete_group api),
     (''table_indirect_add_member_to_group'', do_table_indirect_add_member_to_group api),
     (''table_indirect_remove_member_from_group'', do_table_indirect_remove_member_from_group api),
     (''mc_mgrp_create'', do_mc_mgrp_create api), (''mc_mgrp_destroy'', do_mc_mgrp_destroy api),
     (''mc_node_create'', do_mc_node_create api), (''mc_node_update'', do_mc_node_update api),
     (''mc_node_associate'', do_mc_node_associate api), (''mc_node_dissociate'', do_mc_node_dissociate api),
     (''mc_node_destroy'', do_mc_node_destroy api),
     (''mc_set_lag_membership'', do_mc_set_lag_membership api), (''mc_dump'', do_mc_dump api),
     (''swap_configs'', do_swap_configs api),
     (''meter_array_set_rates'', do_meter_array_set_rates api),
     (''meter_set_rates'', do_meter_set_rates api), (''meter_get_rates'', do_meter_get_rates api),
     (''counter_read'', do_counter_read api), (''counter_reset'', do_counter_reset api),
     (''register_read'', do_register_read api), (''register_write'', do_register_write api),
     (''register_reset'', do_register_reset api),
     (''table_dump_entry'', do_table_dump_entry api), (''table_dump_member'', do_table_dump_member api),
     (''table_dump_group'', do_table_dump_group api), (''table_dump'', do_table_dump api),
     (''table_dump_2'', do_table_dump_2 api),
     (''table_dump_entry_from_key'', do_table_dump_entry_from_key api),
     (''table_delete_entry_from_key'', do_table_delete_entry_from_key api),
     (''port_add'', do_port_add api), (''port_remove'', do_port_remove api),
     (''show_ports'', do_show_ports api), (''switch_info'', do_switch_info api),
     (''reset_state'', do_reset_state api),
     (''write_config_to_file'', do_write_config_to_file api),
     (''serialize_state'', do_serialize_state api),
     (''set_crc16_parameters'', do_set_crc16_parameters api),
     (''set_crc32_parameters'', do_set_crc32_parameters api)]"

text \<open>\<open>Cmd.parseline\<close> on a line that is not blank: the command, its argument and the line.\<close>

definition ident_char :: "char \<Rightarrow> bool" where
  "ident_char c \<longleftrightarrow> digit_val c < 36 \<or> c = CHR ''_''"

definition parseline :: "string \<Rightarrow> string \<times> string \<times> string" where
  "parseline line0 =
     (let line1 = strip line0;
          line = (if hd line1 = CHR ''?'' then ''help '' @ tl line1
                  else if hd line1 = CHR ''!'' then ''shell '' @ tl line1 else line1)
      in (takeWhile ident_char line, strip (dropWhile ident_char line), line))"

text \<open>One line that is not blank. \<open>help_text\<close> stands for the output of \<open>Cmd.do_help\<close>; the result is
  whether the loop stops.\<close>

definition run_line :: "'s api \<Rightarrow> (string \<Rightarrow> string) \<Rightarrow> string \<Rightarrow> ('s, 'z, bool) cli" where
  "run_line api help_text line0 =
     (case parseline line0 of (cmd, arg, line) \<Rightarrow>
        if cmd = ''EOF'' then do_EOF arg
        else if cmd = ''help'' then io_then (pr [help_text arg]) (io_ret False)
        else if cmd = ''load_new_config_file'' then io_then (do_load_new_config_file api arg) (io_ret False)
        else case map_of (commands api) cmd of
               Some f \<Rightarrow> io_then (f arg) (io_ret False)
             | None \<Rightarrow> io_then (pr [''*** Unknown syntax: '' @ line]) (io_ret False))"

definition new_lastcmd :: "string \<Rightarrow> string" where
  "new_lastcmd line0 = (let line = snd (snd (parseline line0)) in if line = ''EOF'' then [] else line)"

text \<open>\<open>Cmd.onecmd\<close>: a blank line repeats the last command, if there is one. The state it returns
  is \<open>lastcmd\<close>; \<open>run\<close> carries out a line that is not blank.\<close>

definition onecmd_by :: "(string \<Rightarrow> ('s, 'z, bool) cli) \<Rightarrow> string \<Rightarrow> string \<Rightarrow> ('s, 'z, bool \<times> string) cli" where
  "onecmd_by run lastcmd line =
     (if strip line = [] then
        (if lastcmd = [] then io_ret (False, lastcmd)
         else io_bind (run lastcmd) (\<lambda>stop. io_ret (stop, new_lastcmd lastcmd)))
      else io_bind (run line) (\<lambda>stop. io_ret (stop, new_lastcmd line)))"

text \<open>\<open>Cmd.cmdloop\<close> reading the given lines and then the end of the input.\<close>

fun cmdloop_by :: "(string \<Rightarrow> ('s, 'z, bool) cli) \<Rightarrow> string \<Rightarrow> string list \<Rightarrow> ('s, 'z, unit) cli" where
  "cmdloop_by run lastcmd [] = io_bind (onecmd_by run lastcmd ''EOF'') (\<lambda>_. io_ret ())"
| "cmdloop_by run lastcmd (line # lines) =
     io_bind (onecmd_by run lastcmd line) (\<lambda>(stop, lastcmd').
     if stop then io_ret () else cmdloop_by run lastcmd' lines)"

definition onecmd :: "'s api \<Rightarrow> (string \<Rightarrow> string) \<Rightarrow> string \<Rightarrow> string \<Rightarrow> ('s, 'z, bool \<times> string) cli" where
  "onecmd api help_text = onecmd_by (run_line api help_text)"

definition cmdloop :: "'s api \<Rightarrow> (string \<Rightarrow> string) \<Rightarrow> string \<Rightarrow> string list \<Rightarrow> ('s, 'z, unit) cli" where
  "cmdloop api help_text = cmdloop_by (run_line api help_text)"

definition load_json_config :: "'s api \<Rightarrow> bool \<Rightarrow> string option \<Rightarrow> ('s, 'z, unit) cli" where
  "load_json_config api have_client json_path =
     io_bind (get_json_config api have_client json_path) (\<lambda>json_str.
     with_cfg (load_json_str (json_loads (lib api)) json_str))"

text \<open>\<open>main\<close> after the arguments have been parsed: \<open>json\<close> and \<open>thrift_port\<close> are the options,
  \<open>api_pre_type api\<close> is \<open>--pre\<close>.\<close>

definition runtime_CLI_main ::
  "'s api \<Rightarrow> bool \<Rightarrow> int \<Rightarrow> string option \<Rightarrow> (string \<Rightarrow> string) \<Rightarrow> string list \<Rightarrow> ('s, 'z, unit) cli" where
  "runtime_CLI_main api transport_opens thrift_port json help_text lines =
     io_bind (thrift_connect transport_opens thrift_port (get_thrift_services (api_pre_type api))) (\<lambda>clients.
     io_then (load_json_config api True json) (
     io_then (pr [''Control utility for runtime P4 table manipulation'']) (
     cmdloop (api\<lparr>mc_client := if clients ! 1 = None then None else mc_client api\<rparr>) help_text [] lines)))"

text \<open>Tab completion by command.\<close>

definition complete_command :: "config \<Rightarrow> string \<Rightarrow> string \<Rightarrow> string \<Rightarrow> string list res" where
  "complete_command c cmd text line =
     (if cmd = ''table_show_actions'' then complete_table_show_actions c text
      else if cmd \<in> {''table_set_default'', ''table_add'', ''table_modify'',
                     ''table_indirect_create_member'', ''table_indirect_modify_member''}
      then complete_table_and_action c text line
      else if cmd \<in> {''table_info'', ''table_num_entries'', ''table_set_timeout'', ''table_delete'',
                     ''table_indirect_delete_member'', ''table_indirect_add'', ''table_indirect_add_with_group'',
                     ''table_indirect_delete'', ''table_indirect_set_default'',
                     ''table_indirect_set_default_with_group'', ''table_indirect_create_group'',
                     ''table_indirect_delete_group'', ''table_indirect_add_member_to_group'',
                     ''table_indirect_remove_member_from_group'', ''table_dump_entry'', ''table_dump_member'',
                     ''table_dump_group'', ''table_dump'', ''table_dump_2'', ''table_dump_entry_from_key''}
      then Inr (complete_tables c text)
      else if cmd \<in> {''meter_array_set_rates'', ''meter_set_rates'', ''meter_get_rates''}
      then Inr (complete_meters c text)
      else if cmd \<in> {''counter_read'', ''counter_reset''} then Inr (complete_counters c text)
      else if cmd \<in> {''register_read'', ''register_write'', ''register_reset''}
      then Inr (complete_registers c text)
      else if cmd = ''set_crc16_parameters'' then Inr (complete_crc c text 16)
      else if cmd = ''set_crc32_parameters'' then Inr (complete_crc c text 32)
      else Inr [])"

section \<open>The contract with the switch\<close>

lemmas issues_all_commands = issues_plain_commands issues_table_commands issues_indirect_commands
  issues_indirect_entry_commands issues_mc_commands issues_do_mc_dump issues_array_commands
  issues_switch_commands issues_crc_commands issues_dump_commands issues_from_key_commands

lemma issues_commands: "(name, f) \<in> set (commands api) \<Longrightarrow> issues c (call_ok c) (f arg)"
  unfolding commands_def by (auto intro!: issues_all_commands)

lemma run_line_other:
  assumes "fst (parseline line) \<noteq> ''load_new_config_file''"
  shows "issues c (call_ok c) (run_line api help_text line)"
proof -
  obtain cmd arg l where p: "parseline line = (cmd, arg, l)" by (cases "parseline line")
  show ?thesis
    using assms p
    by (auto simp: run_line_def split: option.split
        intro!: issues_flow issues_plain_commands issues_commands dest: map_of_SomeD)
qed

text \<open>What one line may do to the world: append to the trace, issue calls that satisfy \<open>P\<close>, and
  keep the configuration well formed. As a frame of the monad it covers the one command that changes
  the configuration.\<close>

definition line_step :: "(thrift_call \<Rightarrow> bool) \<Rightarrow> ('s, 'z) world_scheme \<Rightarrow> ('s, 'z) world_scheme \<Rightarrow> bool" where
  "line_step P w w' \<longleftrightarrow>
     (\<exists>es. events w' = events w @ es \<and> list_all P (rpcs es)) \<and> (config_ok (cfg w) \<longrightarrow> config_ok (cfg w'))"

interpretation line: io_frame "line_step P" for P
proof
  show "line_step P w w" for w :: "('a, 'b) world_scheme"
    by (auto simp: line_step_def)
  show "line_step P u w" if "line_step P u v" "line_step P v w" for u v w :: "('a, 'b) world_scheme"
    using that by (fastforce simp: line_step_def)
qed

lemma line_step_issues: "issues (cfg w) P m \<Longrightarrow> line_step P w (snd (m w))"
  by (auto simp: issues_def line_step_def)

lemma keeps_issues: "(\<And>c. issues c P m) \<Longrightarrow> io_keeps (line_step P) m"
  by (rule io_keepsI) (blast intro: line_step_issues)

lemma keeps_load_json_str: "io_keeps (line_step P) (with_cfg (load_json_str loads s))"
  using config_ok_load_json_str [of loads s]
  by (auto simp: io_keeps_def with_cfg_def line_step_def case_prod_beta)

lemma keeps_do_load_new_config_file: "io_keeps (line_step (call_ok c)) (do_load_new_config_file api arg)"
proof -
  have call: "io_keeps (line_step (call_ok c)) (std_void api (Call ''bm_load_new_config'' args))" for args
    unfolding std_void_def by (intro keeps_issues issues_flow call_ok_intros)
  have atoms: "io_keeps (line_step (call_ok c)) (pr [s])" "io_keeps (line_step (call_ok c)) (exactly_n_args as n)"
    for s as n by (intro keeps_issues issues_flow)+
  show ?thesis
    unfolding do_load_new_config_file_def handle_bad_input_def Let_def
    by (intro line.keeps_intros atoms) (auto split: option.split intro!: line.keeps_intros atoms call keeps_load_json_str)
qed

lemma run_line_step: "line_step (call_ok (cfg w)) w (snd (run_line api help_text line w))"
proof (cases "fst (parseline line) = ''load_new_config_file''")
  case True
  let ?load = "io_then (do_load_new_config_file api (fst (snd (parseline line)))) (io_ret False)"
  have "run_line api help_text line w = ?load w" using True by (simp add: run_line_def case_prod_beta)
  moreover have "line_step (call_ok (cfg w)) w (snd (?load w))"
    by (rule io_keepsD [OF _ surjective_pairing], intro line.keeps_intros keeps_do_load_new_config_file)
  ultimately show ?thesis by simp
next
  case False
  then show ?thesis by (intro line_step_issues run_line_other)
qed

lemma snd_bind_ret: "snd (io_bind m (\<lambda>a. io_ret (f a)) w) = snd (m w)"
  by (simp add: io_simps split: prod.split sum.split)

lemma onecmd_step: "line_step (call_ok (cfg w)) w (snd (onecmd api help_text lastcmd line w))"
  by (simp add: onecmd_def onecmd_by_def snd_bind_ret run_line_step io_atom_apply line.frame_refl)

lemma run_line_config:
  "fst (parseline line) \<noteq> ''load_new_config_file'' \<Longrightarrow> cfg (snd (run_line api help_text line w)) = cfg w"
  by (rule issuesD(1) [OF run_line_other refl surjective_pairing])

lemma onecmd_config:
  "fst (parseline line) \<noteq> ''load_new_config_file'' \<Longrightarrow> fst (parseline lastcmd) \<noteq> ''load_new_config_file'' \<Longrightarrow>
   cfg (snd (onecmd api help_text lastcmd line w)) = cfg w"
  by (simp add: onecmd_def onecmd_by_def snd_bind_ret io_atom_apply run_line_config)



section \<open>Sessions\<close>

definition config_frame :: "('s, 'z) world_scheme \<Rightarrow> ('s, 'z) world_scheme \<Rightarrow> bool" where
  "config_frame w w' \<longleftrightarrow> (config_ok (cfg w) \<longrightarrow> config_ok (cfg w'))"

interpretation session: io_frame config_frame
  by unfold_locales (auto simp: config_frame_def)

lemma keeps_onecmd: "io_keeps config_frame (onecmd api help_text lastcmd line)"
proof (rule io_keepsI)
  show "config_frame w (snd (onecmd api help_text lastcmd line w))" for w
    using onecmd_step [of w api help_text lastcmd line] by (simp add: config_frame_def line_step_def)
qed

lemma keeps_session_load: "io_keeps config_frame (with_cfg (load_json_str loads s))"
  using config_ok_load_json_str [of loads s]
  by (auto simp: io_keeps_def with_cfg_def config_frame_def case_prod_beta)

lemma keeps_cmdloop: "io_keeps config_frame (cmdloop api help_text lastcmd lines)"
  unfolding cmdloop_def
  by (induction lines arbitrary: lastcmd)
     (auto intro!: session.keeps_intros keeps_onecmd [unfolded onecmd_def] split: prod.split)

lemma keeps_session_issues: "(\<And>c. issues c (\<lambda>_. True) m) \<Longrightarrow> io_keeps config_frame m"
  by (auto simp: io_keeps_def config_frame_def issues_def)

lemma issues_thrift_connect: "issues c P (thrift_connect opens port services)"
  unfolding thrift_connect_def my_print_def by (intro issues_flow issues_emit; simp)

lemma issues_get_json_config: "issues c (\<lambda>_. True) (get_json_config api have_client json)"
proof -
  have "issues c (\<lambda>_. True) (check_JSON_md5 api path)" for path
    unfolding check_JSON_md5_def open_read_def my_print_def Let_def
    by (intro issues_flow issues_catch issues_emit; simp)
  then show ?thesis
    unfolding get_json_config_def open_read_def my_print_def
    by (cases json; cases "the json") (auto intro!: issues_flow issues_catch issues_emit)
qed

lemma keeps_main: "io_keeps config_frame (runtime_CLI_main api opens port json help_text lines)"
  unfolding runtime_CLI_main_def load_json_config_def
  by (intro session.keeps_bind session.keeps_then keeps_session_load keeps_cmdloop keeps_session_issues
      issues_thrift_connect issues_get_json_config issues_atoms)

text \<open>
  C17. The program as a whole, started with no configuration and fed any script of lines, ends,
  however it ends, with a well-formed configuration: every action a table lists is in
  \<open>ACTIONS\<close>, and every table is found under its own name.
\<close>

theorem runtime_CLI_main_config_ok:
  assumes "cfg w = empty_config"
  shows "config_ok (cfg (snd (runtime_CLI_main api opens port json help_text lines w)))"
proof -
  have "config_frame w (snd (runtime_CLI_main api opens port json help_text lines w))"
    by (rule io_keepsD [OF keeps_main surjective_pairing])
  then show ?thesis using assms config_ok_empty by (simp add: config_frame_def)
qed

theorem runtime_CLI_main_config_ok_witness:
  "config_ok (cfg (snd (runtime_CLI_main file_api True 9090 (Some ''sai.json'') (\<lambda>_. []) [''show_tables'']
     \<lparr>cfg = empty_config, switch = (), events = []\<rparr>)))"
  by (rule runtime_CLI_main_config_ok) simp

end
