(* ===== verification/Sswitch_CLI.thy ===== *)
theory Sswitch_CLI
  imports Cli_Shell
begin

text \<open>
  \<^verbatim>\<open>targets/P4-SAI/sswitch_CLI.py\<close>: the CLI of the SAI switch, which adds the commands of
  the \<open>SimpleSwitch\<close> Thrift service to \<open>RuntimeAPI\<close>. None of them has the decorator
  \<open>handle_bad_input\<close>, so a missing or malformed argument ends the command loop.
\<close>

section \<open>Definitions\<close>

type_synonym 's sw_client = "thrift_call \<Rightarrow> 's \<Rightarrow> std_val res \<times> 's"

definition sswitch_services :: "string option list" where
  "sswitch_services = [Some ''simple_switch'']"

text \<open>A call on \<open>self.sswitch_client\<close>.\<close>

definition sw :: "'s sw_client \<Rightarrow> thrift_call \<Rightarrow> ('s, 'z, std_val) cli" where
  "sw cl c = (\<lambda>w. case cl c (switch w) of
     (r, s) \<Rightarrow> (r, w\<lparr>switch := s, events := events w @ [Sw c]\<rparr>))"

definition sw_void :: "'s sw_client \<Rightarrow> thrift_call \<Rightarrow> ('s, 'z, unit) cli" where
  "sw_void cl c = io_bind (sw cl c) (\<lambda>_. io_ret ())"

text \<open>\<open>int(args[i])\<close>\<close>

definition int_at :: "string list \<Rightarrow> nat \<Rightarrow> int res" where
  "int_at args i = res_bind (py_nth args i) (\<lambda>a. or_raise ValueError (py_int a))"

definition queue_command :: "'s sw_client \<Rightarrow> string \<Rightarrow> string \<Rightarrow> string \<Rightarrow> ('s, 'z, unit) cli" where
  "queue_command cl one all line = (
     let args = py_split line in
     io_bind (io_lift (int_at args 0)) (\<lambda>value.
     if length args > 1
     then io_bind (io_lift (int_at args 1)) (\<lambda>port. sw_void cl (Call one [AInt port, AInt value]))
     else sw_void cl (Call all [AInt value])))"

definition do_set_queue_depth :: "'s sw_client \<Rightarrow> string \<Rightarrow> ('s, 'z, unit) cli" where
  "do_set_queue_depth cl line =
     queue_command cl ''set_egress_queue_depth'' ''set_all_egress_queue_depths'' line"

definition do_set_queue_rate :: "'s sw_client \<Rightarrow> string \<Rightarrow> ('s, 'z, unit) cli" where
  "do_set_queue_rate cl line =
     queue_command cl ''set_egress_queue_rate'' ''set_all_egress_queue_rates'' line"

definition do_mirroring_add :: "'s sw_client \<Rightarrow> string \<Rightarrow> ('s, 'z, unit) cli" where
  "do_mirroring_add cl line = (
     let args = py_split line in
     io_bind (io_lift (int_at args 0)) (\<lambda>mirror_id.
     io_bind (io_lift (int_at args 1)) (\<lambda>egress_port.
     sw_void cl (Call ''mirroring_mapping_add'' [AInt mirror_id, AInt egress_port]))))"

definition do_mirroring_delete :: "'s sw_client \<Rightarrow> string \<Rightarrow> ('s, 'z, unit) cli" where
  "do_mirroring_delete cl line =
     io_bind (io_lift (or_raise ValueError (py_int line))) (\<lambda>mirror_id.
     sw_void cl (Call ''mirroring_mapping_delete'' [AInt mirror_id]))"

definition do_get_time_elapsed :: "'s sw_client \<Rightarrow> string \<Rightarrow> ('s, 'z, unit) cli" where
  "do_get_time_elapsed cl line =
     io_bind (expect as_int (sw cl (Call ''get_time_elapsed_us'' []))) (\<lambda>t. pr [show_int t])"

definition do_get_time_since_epoch :: "'s sw_client \<Rightarrow> string \<Rightarrow> ('s, 'z, unit) cli" where
  "do_get_time_since_epoch cl line =
     io_bind (expect as_int (sw cl (Call ''get_time_since_epoch_us'' []))) (\<lambda>t. pr [show_int t])"

text \<open>\<open>SimpleSwitchAPI\<close> is a \<open>RuntimeAPI\<close> with these commands added.\<close>

definition sswitch_commands :: "'s sw_client \<Rightarrow> (string \<times> (string \<Rightarrow> ('s, 'z, unit) cli)) list" where
  "sswitch_commands cl =
    [(''set_queue_depth'', do_set_queue_depth cl), (''set_queue_rate'', do_set_queue_rate cl),
     (''mirroring_add'', do_mirroring_add cl), (''mirroring_delete'', do_mirroring_delete cl),
     (''get_time_elapsed'', do_get_time_elapsed cl), (''get_time_since_epoch'', do_get_time_since_epoch cl)]"

definition sswitch_run_line :: "'s api \<Rightarrow> 's sw_client \<Rightarrow> (string \<Rightarrow> string) \<Rightarrow> string \<Rightarrow> ('s, 'z, bool) cli" where
  "sswitch_run_line api cl help_text line =
     (case parseline line of (cmd, arg, _) \<Rightarrow>
        case map_of (sswitch_commands cl) cmd of
          Some f \<Rightarrow> io_then (f arg) (io_ret False)
        | None \<Rightarrow> run_line api help_text line)"

text \<open>\<open>main\<close>: the multicast engine is always \<open>SimplePreLAG\<close>, and all clients share one
  connection.\<close>

definition sswitch_main ::
  "'s api \<Rightarrow> 's sw_client \<Rightarrow> bool \<Rightarrow> int \<Rightarrow> string option \<Rightarrow> (string \<Rightarrow> string) \<Rightarrow> string list \<Rightarrow> ('s, 'z, unit) cli" where
  "sswitch_main api0 cl transport_opens thrift_port json help_text lines = (
     let api = api0\<lparr>api_pre_type := PreType_SimplePreLAG\<rparr>;
         services = get_thrift_services (api_pre_type api) @ sswitch_services in
     io_bind (thrift_connect transport_opens thrift_port services) (\<lambda>clients.
     io_then (load_json_config api True json) (
     io_then (pr [''Control utility for runtime P4 table manipulation'']) (
     cmdloop_by (sswitch_run_line api cl help_text) [] lines))))"

section \<open>Queue commands\<close>

lemma sw_apply [io_simps]:
  "sw cl c w = (fst (cl c (switch w)), w\<lparr>switch := snd (cl c (switch w)), events := events w @ [Sw c]\<rparr>)"
  by (simp add: sw_def split: prod.split)

text \<open>
  \<open>set_queue_depth\<close> with a value and a port configures that port with that value and no other
  queue, with a value alone it configures all queues, and it sends exactly one call; without a value
  it raises IndexError and sends nothing.
\<close>

theorem do_set_queue_depth_calls:
  assumes "py_split line = map show_int xs"
  shows "rpcs (drop (length (events w)) (events (snd (do_set_queue_depth cl line w)))) =
    (case xs of
       [] \<Rightarrow> []
     | [depth] \<Rightarrow> [Call ''set_all_egress_queue_depths'' [AInt depth]]
     | depth # port # _ \<Rightarrow> [Call ''set_egress_queue_depth'' [AInt port, AInt depth]]) \<and>
    (xs = [] \<longrightarrow> do_set_queue_depth cl line w = (Inl IndexError, w))"
  using assms
  by (auto simp: do_set_queue_depth_def queue_command_def sw_void_def int_at_def py_nth_def io_simps Let_def
      split: list.split sum.split)

theorem do_set_queue_depth_calls_witness:
  "rpcs (drop (length (events lag_world)) (events (snd (do_set_queue_depth
     (\<lambda>c s. (Inr VUnit, s + 1)) (show_int 64 @ '' '' @ show_int 3) lag_world)))) =
   [Call ''set_egress_queue_depth'' [AInt 3, AInt 64]]"
  using do_set_queue_depth_calls [of "show_int 64 @ '' '' @ show_int 3" "[64, 3]" lag_world
      "\<lambda>c s. (Inr VUnit, s + 1)"] py_split_join [of "[show_int 64, show_int 3]"]
  by simp

end
