(* ===== verification/Struct_Codec.thy ===== *)
theory Struct_Codec
  imports Param_Codec
begin

text \<open>
  The module \<open>struct\<close> of the Python library, for the formats the debugger and the event logger
  client use: \<open>"i"\<close> (a signed 32 bit integer), \<open>"Q"\<close> (an unsigned 64 bit integer) and
  \<open>">ns"\<close> (a string of n bytes). Native byte order is little endian, the order of the hosts the
  switch and its tools run on; the formats are used one field at a time or with \<open>"<"\<close>, so there is
  no padding. The laws of the codec are stated as a locale, from which the round trips of whole
  records of fields follow.
\<close>

section \<open>Definitions\<close>

datatype struct_fmt = Fmt_i | Fmt_Q | Fmt_s int

text \<open>A value of a packed field; \<open>FNone\<close> is \<open>None\<close>, which attributes of a message can be.\<close>

datatype fval = FInt int | FStr string | FNone

fun le_chars :: "nat \<Rightarrow> int \<Rightarrow> string" where
  "le_chars 0 v = []"
| "le_chars (Suc n) v = char_of (nat (v mod 256)) # le_chars n (v div 256)"

fun le_value :: "string \<Rightarrow> int" where
  "le_value [] = 0"
| "le_value (c # cs) = of_char c + 256 * le_value cs"

fun calcsize :: "struct_fmt \<Rightarrow> nat" where
  "calcsize Fmt_i = 4"
| "calcsize Fmt_Q = 8"
| "calcsize (Fmt_s n) = nat n"

text \<open>\<open>struct.pack(f, v)\<close>: integers out of range and values of another type are a
  \<open>struct.error\<close>; a string is cut or padded with zero bytes to the size. A negative size makes the
  format invalid.\<close>

fun pack :: "struct_fmt \<Rightarrow> fval \<Rightarrow> string res" where
  "pack Fmt_i (FInt v) = (if - (2 ^ 31) \<le> v \<and> v < 2 ^ 31 then Inr (le_chars 4 v) else Inl StructError)"
| "pack Fmt_Q (FInt v) = (if 0 \<le> v \<and> v < 2 ^ 64 then Inr (le_chars 8 v) else Inl StructError)"
| "pack (Fmt_s n) (FStr s) =
     (if 0 \<le> n then Inr (take (nat n) (s @ replicate (nat n - length s) (CHR 0x00))) else Inl StructError)"
| "pack _ _ = Inl StructError"

text \<open>The value of exactly the bytes of one field.\<close>

fun decode :: "struct_fmt \<Rightarrow> string \<Rightarrow> fval" where
  "decode Fmt_i bs = FInt (signed_take_bit 31 (le_value bs))"
| "decode Fmt_Q bs = FInt (le_value bs)"
| "decode (Fmt_s n) bs = FStr bs"

definition valid_fmt :: "struct_fmt \<Rightarrow> bool" where
  "valid_fmt f = (case f of Fmt_s n \<Rightarrow> 0 \<le> n | _ \<Rightarrow> True)"

text \<open>\<open>v, = struct.unpack_from(f, buf, off)\<close>\<close>

definition unpack_from :: "struct_fmt \<Rightarrow> string \<Rightarrow> nat \<Rightarrow> fval res" where
  "unpack_from f buf off =
     (if valid_fmt f \<and> off + calcsize f \<le> length buf
      then Inr (decode f (take (calcsize f) (drop off buf))) else Inl StructError)"

text \<open>A format of several fields without padding, as \<open>Struct.unpack_from\<close> reads it from the start
  of a buffer, and \<open>Struct.unpack\<close>, which wants a buffer of exactly the size.\<close>

fun unpack_fields :: "struct_fmt list \<Rightarrow> string \<Rightarrow> nat \<Rightarrow> fval list res" where
  "unpack_fields [] buf off = Inr []"
| "unpack_fields (f # fs) buf off = res_bind (unpack_from f buf off) (\<lambda>v.
     res_bind (unpack_fields fs buf (off + calcsize f)) (\<lambda>vs. Inr (v # vs)))"

definition fmt_size :: "struct_fmt list \<Rightarrow> nat" where
  "fmt_size fs = sum_list (map calcsize fs)"

definition unpack :: "struct_fmt list \<Rightarrow> string \<Rightarrow> fval list res" where
  "unpack fs buf = (if length buf = fmt_size fs then unpack_fields fs buf 0 else Inl StructError)"

fun pack_fields :: "struct_fmt list \<Rightarrow> fval list \<Rightarrow> string res" where
  "pack_fields [] [] = Inr []"
| "pack_fields (f # fs) (v # vs) = res_bind (pack f v) (\<lambda>s.
     res_bind (pack_fields fs vs) (\<lambda>t. Inr (s @ t)))"
| "pack_fields _ _ = Inl StructError"

section \<open>Little endian numbers\<close>

lemma length_le_chars [simp]: "length (le_chars n v) = n"
  by (induction n arbitrary: v) auto

lemma of_char_le: "of_char (char_of (nat (v mod 256)) :: char) = (v mod 256 :: int)"
  by (rule of_char_char_of_byte) simp_all

lemma of_char_range: "0 \<le> (of_char c :: int)" "(of_char c :: int) < 256"
proof -
  have "(of_char c :: int) = int (of_char c)" by (simp only: of_nat_of_char)
  moreover have "(of_char c :: nat) < 256" by (cases c) (simp add: horner_sum_simps)
  ultimately show "0 \<le> (of_char c :: int)" "(of_char c :: int) < 256" by simp_all
qed

lemma le_value_le_chars: "le_value (le_chars n v) = v mod 256 ^ n"
proof (induction n arbitrary: v)
  case (Suc n)
  have "v mod (256 * 256 ^ n) = 256 * (v div 256 mod 256 ^ n) + v mod 256"
    by (simp add: zmod_zmult2_eq)
  then show ?case using Suc by (simp add: of_char_le)
qed simp

lemma le_value_range: "0 \<le> le_value bs \<and> le_value bs < 256 ^ length bs"
proof (induction bs)
  case (Cons c cs)
  then show ?case using of_char_range [of c] by simp
qed simp

lemma le_chars_le_value: "le_chars (length bs) (le_value bs) = bs"
proof (induction bs)
  case (Cons c cs)
  have "(of_char c + 256 * le_value cs) mod 256 = of_char c"
    "(of_char c + 256 * le_value cs) div 256 = le_value cs"
    using of_char_range [of c] by simp_all
  moreover have "char_of (nat (of_char c)) = c"
    by (metis char_of_char nat_int of_nat_of_char)
  ultimately show ?case using Cons by simp
qed simp

lemma le_chars_cong: "u mod 256 ^ n = v mod 256 ^ n \<Longrightarrow> le_chars n u = le_chars n v"
  by (metis le_chars_le_value le_value_le_chars length_le_chars)

lemma signed_bytes:
  assumes "length bs = 4"
  shows "le_chars 4 (signed_take_bit 31 (le_value bs)) = bs"
proof -
  have "take_bit 32 (signed_take_bit 31 (le_value bs)) = take_bit 32 (le_value bs)"
    by (simp add: take_bit_signed_take_bit)
  then have "le_chars 4 (signed_take_bit 31 (le_value bs)) = le_chars 4 (le_value bs)"
    by (intro le_chars_cong) (simp add: take_bit_eq_mod)
  then show ?thesis using le_chars_le_value [of bs] assms by simp
qed

section \<open>The laws of a codec\<close>

text \<open>What the clients rely on: packing gives a known number of bytes, unpacking them from any place
  of a buffer gives a canonical value back, and packing what was unpacked gives the bytes back.\<close>

locale field_codec =
  fixes pk :: "'f \<Rightarrow> 'v \<Rightarrow> string res"
    and un :: "'f \<Rightarrow> string \<Rightarrow> nat \<Rightarrow> 'v res"
    and size_of :: "'f \<Rightarrow> nat"
    and canon :: "'f \<Rightarrow> 'v \<Rightarrow> bool"
  assumes pack_size: "pk f v = Inr s \<Longrightarrow> length s = size_of f"
    and unpack_pack: "pk f v = Inr s \<Longrightarrow> canon f v \<Longrightarrow> un f (pre @ s @ post) (length pre) = Inr v"
    and pack_unpack: "un f buf off = Inr v \<Longrightarrow> pk f v = Inr (take (size_of f) (drop off buf))"
    and unpack_bound: "un f buf off = Inr v \<Longrightarrow> off + size_of f \<le> length buf"
begin

lemma unpack_pack_at:
  assumes "pk f v = Inr s" "canon f v" "length pre = off"
  shows "un f (pre @ s @ post) off = Inr v"
  using unpack_pack [of f v s pre post] assms by simp

lemma unpack_split:
  assumes "un f buf off = Inr v"
  shows "\<exists>s. pk f v = Inr s \<and> length s = size_of f \<and> buf = take off buf @ s @ drop (off + size_of f) buf"
proof (intro exI conjI)
  let ?s = "take (size_of f) (drop off buf)"
  show 1: "pk f v = Inr ?s" using assms by (rule pack_unpack)
  show "length ?s = size_of f" using 1 by (rule pack_size)
  show "buf = take off buf @ ?s @ drop (off + size_of f) buf"
    by (metis add.commute append_take_drop_id drop_drop)
qed

end

text \<open>A string is canonical for its format when it has the size the format says.\<close>

definition canonical :: "struct_fmt \<Rightarrow> fval \<Rightarrow> bool" where
  "canonical f v = (case (f, v) of (Fmt_s n, FStr s) \<Rightarrow> int (length s) = n | _ \<Rightarrow> True)"

lemma length_pack: "pack f v = Inr s \<Longrightarrow> length s = calcsize f"
  by (cases "(f, v)" rule: pack.cases) (auto split: if_splits)

lemma signed_value:
  assumes "- (2 ^ 31) \<le> v" "v < 2 ^ 31"
  shows "signed_take_bit 31 (v mod 256 ^ 4) = (v :: int)"
proof -
  have "signed_take_bit 31 (v mod 256 ^ 4) = signed_take_bit 31 (take_bit 32 v)"
    by (simp add: take_bit_eq_mod)
  also have "\<dots> = signed_take_bit 31 v" by (simp add: signed_take_bit_take_bit)
  finally show ?thesis using assms by (simp add: signed_take_bit_int_eq_self)
qed

lemma decode_pack: "pack f v = Inr s \<Longrightarrow> canonical f v \<Longrightarrow> valid_fmt f \<and> decode f s = v"
  by (cases "(f, v)" rule: pack.cases)
     (use signed_value in \<open>auto simp: canonical_def valid_fmt_def le_value_le_chars split: if_splits\<close>)

lemma pack_decode: "length bs = calcsize f \<Longrightarrow> valid_fmt f \<Longrightarrow> pack f (decode f bs) = Inr bs"
proof (cases f)
  case Fmt_i
  assume "length bs = calcsize f"
  then have "length bs = 4" using Fmt_i by simp
  moreover have "- (2 ^ 31) \<le> signed_take_bit 31 (le_value bs)" "signed_take_bit 31 (le_value bs) < 2 ^ 31"
    using signed_take_bit_int_greater_eq_minus_exp [of 31 "le_value bs"]
      signed_take_bit_int_less_exp [of 31 "le_value bs"] by simp_all
  ultimately show ?thesis using Fmt_i by (simp add: signed_bytes)
next
  case Fmt_Q
  assume "length bs = calcsize f"
  then have "length bs = 8" using Fmt_Q by simp
  then show ?thesis using Fmt_Q le_value_range [of bs] le_chars_le_value [of bs] by simp
next
  case (Fmt_s n)
  assume "length bs = calcsize f" "valid_fmt f"
  then show ?thesis using Fmt_s by (simp add: valid_fmt_def)
qed

interpretation field: field_codec pack unpack_from calcsize canonical
proof
  fix f v s pre post buf off
  show "length s = calcsize f" if "pack f v = Inr s" using that by (rule length_pack)
  show "unpack_from f (pre @ s @ post) (length pre) = Inr v" if "pack f v = Inr s" "canonical f v"
    using decode_pack [OF that] length_pack [OF that(1)] by (simp add: unpack_from_def)
  show "off + calcsize f \<le> length buf" if "unpack_from f buf off = Inr v"
    using that by (simp add: unpack_from_def split: if_splits)
  show "pack f v = Inr (take (calcsize f) (drop off buf))" if "unpack_from f buf off = Inr v"
    using that by (auto simp: unpack_from_def intro!: pack_decode split: if_splits)
qed

lemma unpack_fields_pack_fields:
  assumes "pack_fields fs vs = Inr s" "list_all2 canonical fs vs"
  shows "unpack_fields fs (pre @ s @ post) (length pre) = Inr vs \<and> length s = fmt_size fs"
  using assms
proof (induction fs vs arbitrary: pre s rule: pack_fields.induct)
  case (2 f fs v vs)
  then obtain a b where ab: "pack f v = Inr a" "pack_fields fs vs = Inr b" "s = a @ b"
    by (auto simp: res_bind_Inr_iff)
  have "unpack_from f (pre @ a @ b @ post) (length pre) = Inr v"
    using ab(1) 2 by (intro field.unpack_pack) auto
  moreover have "unpack_fields fs ((pre @ a) @ b @ post) (length (pre @ a)) = Inr vs \<and> length b = fmt_size fs"
    using 2 ab by (intro 2) auto
  ultimately show ?case using ab length_pack [OF ab(1)] by (auto simp: fmt_size_def)
qed (auto simp: fmt_size_def)

end
