(* ===== verification/Thrift_Wire.thy ===== *)
theory Thrift_Wire
  imports Struct_Codec
begin

text \<open>
  The code that the Thrift compiler generates for the structures of a service: every class of
  \<^verbatim>\<open>sswitch_runtime/SimpleSwitch.py\<close>, \<^verbatim>\<open>switch_sai/ttypes.py\<close> and
  \<^verbatim>\<open>switch_sai/switch_sai_rpc.py\<close> has a method \<open>write\<close>, which calls the output protocol
  for every attribute that is not \<open>None\<close>, and a method \<open>read\<close>, a loop that takes fields from the
  input protocol until the stop field. Both are the same for every class up to its field numbers,
  field types and names (its \<open>thrift_spec\<close>), so a class is a value of \<open>tclass\<close> and the methods are
  \<open>write_val\<close> and \<open>read_val\<close>.

  The protocol (\<open>TBinaryProtocol\<close> over a \<open>TBufferedTransport\<close>) belongs to the Thrift library and is
  a parameter, a record of its operations; what the generated code relies on is the locale
  \<open>thrift_protocol\<close>.
\<close>

section \<open>Classes and objects\<close>

datatype ttype =
    T_STOP | T_BOOL | T_BYTE | T_DOUBLE | T_I16 | T_I32 | T_I64 | T_STRING | T_STRUCT | T_MAP | T_SET | T_LIST

datatype tspec = SBool | SByte | SI16 | SI32 | SI64 | SString | SList tspec | SStruct tclass
and tclass = TClass string "(int \<times> string \<times> tspec) list"

text \<open>A Python value that the generated code handles; an object has its class and its attributes, in
  the order of the \<open>thrift_spec\<close>.\<close>

datatype pyobj =
    ONone | OBool bool | OInt int | OStr string | OList "pyobj list" | OObj tclass "pyobj list"

fun ttype_of :: "tspec \<Rightarrow> ttype" where
  "ttype_of SBool = T_BOOL"
| "ttype_of SByte = T_BYTE"
| "ttype_of SI16 = T_I16"
| "ttype_of SI32 = T_I32"
| "ttype_of SI64 = T_I64"
| "ttype_of SString = T_STRING"
| "ttype_of (SList s) = T_LIST"
| "ttype_of (SStruct c) = T_STRUCT"

fun cls_name :: "tclass \<Rightarrow> string" where
  "cls_name (TClass n fs) = n"

fun cls_fields :: "tclass \<Rightarrow> (int \<times> string \<times> tspec) list" where
  "cls_fields (TClass n fs) = fs"

text \<open>The constructor of a class, which takes attributes by keyword and leaves the others \<open>None\<close>, and
  access to an attribute.\<close>

definition new :: "tclass \<Rightarrow> (string \<times> pyobj) list \<Rightarrow> pyobj" where
  "new c kw = OObj c (map (\<lambda>(i, nm, s). case map_of kw nm of Some v \<Rightarrow> v | None \<Rightarrow> ONone) (cls_fields c))"

fun getattr :: "pyobj \<Rightarrow> string \<Rightarrow> pyobj res" where
  "getattr (OObj c vs) nm =
     or_raise AttributeError (map_of (zip (map (\<lambda>(i, n, s). n) (cls_fields c)) vs) nm)"
| "getattr _ nm = Inl AttributeError"

section \<open>The protocol\<close>

datatype mtype = CALL | REPLY | EXCEPTION | ONEWAY

datatype mark = MessageEnd | StructBegin | StructEnd | FieldEnd | ListEnd

datatype wop =
    WMessageBegin string mtype int
  | WStructBegin string
  | WFieldBegin string ttype int
  | WFieldStop
  | WListBegin ttype nat
  | WMark mark
  | WValue ttype pyobj
  | WException int string

text \<open>A write operation gives the bytes it puts into the transport, or raises (\<open>struct.error\<close> for an
  integer that is out of range); a read operation consumes bytes of the transport.\<close>

record 'b protocol =
  p_write :: "wop \<Rightarrow> 'b list res"
  p_readMessageBegin :: "('b list, string \<times> mtype \<times> int) io"
  p_readFieldBegin :: "('b list, ttype \<times> int) io"
  p_readListBegin :: "('b list, ttype \<times> int) io"
  p_readMark :: "mark \<Rightarrow> ('b list, unit) io"
  p_readValue :: "ttype \<Rightarrow> ('b list, pyobj) io"
  p_readException :: "('b list, int \<times> string) io"
  p_skip :: "ttype \<Rightarrow> ('b list, unit) io"

definition put_op :: "'b protocol \<Rightarrow> wop \<Rightarrow> ('b list, unit) io" where
  "put_op pr op = io_bind (io_lift (p_write pr op)) (\<lambda>bs. io_modify (\<lambda>buf. buf @ bs))"

section \<open>Writing\<close>

lemma io_for_cong [fundef_cong]:
  "xs = ys \<Longrightarrow> (\<And>x. x \<in> set ys \<Longrightarrow> f x = g x) \<Longrightarrow> io_for xs f = io_for ys g"
  by (induction ys arbitrary: xs) auto

lemma zip_size [termination_simp]:
  "(a, x) \<in> set (zip as xs) \<Longrightarrow> size a < Suc (size_list size as)"
  using size_list_estimation' [of a as "size a" size] by (auto dest: set_zip_leftD)

text \<open>\<open>write_val\<close> is what the generated code does with an attribute of the declared type \<open>s\<close>: a call of
  \<open>writeI32\<close> and the like, a list with its elements, or the method \<open>write\<close> of the value itself,
  which is that of the class of the value.\<close>

fun write_val :: "'b protocol \<Rightarrow> tspec \<Rightarrow> pyobj \<Rightarrow> ('b list, unit) io" where
  "write_val pr (SStruct c) (OObj (TClass n fs) attrs) =
     io_then (put_op pr (WStructBegin n)) (
     io_then (io_for (zip attrs fs) (\<lambda>(a, i, nm, s).
       if a = ONone then io_ret ()
       else io_then (put_op pr (WFieldBegin nm (ttype_of s) i)) (
            io_then (write_val pr s a) (
            put_op pr (WMark FieldEnd))))) (
     io_then (put_op pr WFieldStop) (
     put_op pr (WMark StructEnd))))"
| "write_val pr (SStruct c) v = io_raise AttributeError"
| "write_val pr (SList s) (OList xs) =
     io_then (put_op pr (WListBegin (ttype_of s) (length xs))) (
     io_then (io_for xs (write_val pr s)) (
     put_op pr (WMark ListEnd)))"
| "write_val pr (SList s) (OStr cs) =
     io_then (put_op pr (WListBegin (ttype_of s) (length cs))) (
     io_then (io_for (map (\<lambda>c. OStr [c]) cs) (write_val pr s)) (
     put_op pr (WMark ListEnd)))"
| "write_val pr (SList s) v = io_raise TypeError"
| "write_val pr s v = put_op pr (WValue (ttype_of s) v)"

section \<open>Reading\<close>

fun io_times :: "nat \<Rightarrow> ('w, 'a) io \<Rightarrow> ('w, 'a list) io" where
  "io_times 0 m = io_ret []"
| "io_times (Suc n) m = io_bind m (\<lambda>x. io_bind (io_times n m) (\<lambda>xs. io_ret (x # xs)))"

text \<open>The chain \<open>if fid == 1: if ftype == TType.I32: self.x = iprot.readI32() else: iprot.skip(ftype) elif\<close>:
  the position of the attribute with that number, and how it is read.\<close>

fun field_reader :: "(int \<times> ttype \<times> ('b list, pyobj) io) list \<Rightarrow> int \<Rightarrow> (nat \<times> ttype \<times> ('b list, pyobj) io) option" where
  "field_reader [] fid = None"
| "field_reader ((i, t, rd) # rs) fid =
     (if fid = i then Some (0, t, rd)
      else map_option (\<lambda>(k, x). (Suc k, x)) (field_reader rs fid))"

definition read_field ::
  "'b protocol \<Rightarrow> (int \<times> ttype \<times> ('b list, pyobj) io) list \<Rightarrow> ttype \<Rightarrow> int \<Rightarrow> pyobj list \<Rightarrow> ('b list, pyobj list) io" where
  "read_field pr rs ftype fid attrs =
     (case field_reader rs fid of
        Some (k, t, rd) \<Rightarrow>
          if ftype = t then io_bind rd (\<lambda>v. io_ret (attrs[k := v]))
          else io_then (p_skip pr ftype) (io_ret attrs)
      | None \<Rightarrow> io_then (p_skip pr ftype) (io_ret attrs))"

text \<open>\<open>while True\<close> over the fields. Every round takes at least one byte (law \<open>field_progress\<close> below), so
  as many rounds as there are bytes are enough.\<close>

fun field_loop ::
  "'b protocol \<Rightarrow> (int \<times> ttype \<times> ('b list, pyobj) io) list \<Rightarrow> nat \<Rightarrow> pyobj list \<Rightarrow> ('b list, pyobj list) io" where
  "field_loop pr rs 0 attrs = io_raise OutOfFuel"
| "field_loop pr rs (Suc n) attrs =
     io_bind (p_readFieldBegin pr) (\<lambda>(ftype, fid).
     if ftype = T_STOP then io_ret attrs
     else
       io_bind (read_field pr rs ftype fid attrs) (\<lambda>attrs'.
       io_then (p_readMark pr FieldEnd) (
       field_loop pr rs n attrs')))"

fun read_val :: "'b protocol \<Rightarrow> tspec \<Rightarrow> ('b list, pyobj) io" where
  "read_val pr (SStruct (TClass n fs)) =
     io_then (p_readMark pr StructBegin) (
     io_bind (io_gets length) (\<lambda>bytes.
     io_bind (field_loop pr (map (\<lambda>(i, nm, s). (i, ttype_of s, read_val pr s)) fs) (Suc bytes)
                (replicate (length fs) ONone)) (\<lambda>attrs.
     io_then (p_readMark pr StructEnd) (
     io_ret (OObj (TClass n fs) attrs)))))"
| "read_val pr (SList s) =
     io_bind (p_readListBegin pr) (\<lambda>(etype, size).
     io_bind (io_times (nat size) (read_val pr s)) (\<lambda>xs.
     io_then (p_readMark pr ListEnd) (
     io_ret (OList xs))))"
| "read_val pr s = p_readValue pr (ttype_of s)"

section \<open>Values that fit a type\<close>

definition int_fits :: "nat \<Rightarrow> int \<Rightarrow> bool" where
  "int_fits b i \<longleftrightarrow> - (2 ^ (b - 1)) \<le> i \<and> i < 2 ^ (b - 1)"

definition len_fits :: "'a list \<Rightarrow> bool" where
  "len_fits xs \<longleftrightarrow> int_fits 32 (int (length xs))"

fun fits :: "tspec \<Rightarrow> pyobj \<Rightarrow> bool" where
  "fits SBool (OBool b) = True"
| "fits SByte (OInt i) = int_fits 8 i"
| "fits SI16 (OInt i) = int_fits 16 i"
| "fits SI32 (OInt i) = int_fits 32 i"
| "fits SI64 (OInt i) = int_fits 64 i"
| "fits SString (OStr s) = len_fits s"
| "fits (SList s) (OList xs) = (len_fits xs \<and> (\<forall>x \<in> set xs. fits s x))"
| "fits (SStruct c) (OObj d attrs) =
     (d = c \<and> length attrs = length (cls_fields c) \<and>
      (\<forall>(a, i, nm, s) \<in> set (zip attrs (cls_fields c)). a = ONone \<or> fits s a))"
| "fits _ _ = False"

text \<open>The field numbers of a class are distinct and have 16 bits, also in the classes of its fields.\<close>

fun wf_spec :: "tspec \<Rightarrow> bool" where
  "wf_spec (SList s) = wf_spec s"
| "wf_spec (SStruct (TClass n fs)) =
     (distinct (map fst fs) \<and> list_all (\<lambda>(i, nm, s). int_fits 16 i \<and> wf_spec s) fs)"
| "wf_spec _ = True"

lemma fields_fit:
  assumes "wf_spec (SStruct (TClass n ds))" "fits (SStruct (TClass n ds)) (OObj d attrs)" "(a, i, nm, s) \<in> set (zip attrs ds)"
  shows "(i, nm, s) \<in> set ds" "int_fits 16 i" "wf_spec s" "a = ONone \<or> fits s a"
  using assms set_zip_rightD [OF assms(3)] by (auto simp: list_all_iff)

section \<open>Transfers\<close>

text \<open>A writer and a reader carry a value when the reader takes exactly the bytes the writer appends, and
  finds the value in them.\<close>

definition writes :: "('b list, unit) io \<Rightarrow> 'b list \<Rightarrow> bool" where
  "writes m bs \<longleftrightarrow> (\<forall>buf. m buf = (Inr (), buf @ bs))"

definition carries :: "('b list, unit) io \<Rightarrow> ('b list, 'a) io \<Rightarrow> 'a \<Rightarrow> bool" where
  "carries m rd v \<longleftrightarrow> (\<exists>bs. writes m bs \<and> (\<forall>rest. rd (bs @ rest) = (Inr v, rest)))"

lemma writes_ret: "writes (io_ret ()) []"
  by (simp add: writes_def io_simps)

lemma writes_then: "writes m as \<Longrightarrow> writes n bs \<Longrightarrow> writes (io_then m n) (as @ bs)"
  by (simp add: writes_def io_simps)

lemma writes_put: "p_write pr op = Inr bs \<Longrightarrow> writes (put_op pr op) bs"
  by (simp add: writes_def put_op_def io_simps)

lemma carriesE:
  assumes "carries m rd v"
  obtains bs where "writes m bs" "\<And>rest. rd (bs @ rest) = (Inr v, rest)"
  using assms unfolding carries_def by blast

lemma carries_bind:
  assumes "carries m rd a" and "carries n (f a) b"
  shows "carries (io_then m n) (io_bind rd f) b"
proof -
  obtain xs ys where "writes m xs" "writes n ys" "\<And>rest. rd (xs @ rest) = (Inr a, rest)"
    "\<And>rest. f a (ys @ rest) = (Inr b, rest)"
    using assms by (meson carriesE)
  then show ?thesis
    unfolding carries_def by (intro exI [of _ "xs @ ys"]) (simp add: writes_then io_simps)
qed

lemma carries_then: "carries m rd () \<Longrightarrow> carries n rd' b \<Longrightarrow> carries (io_then m n) (io_then rd rd') b"
  unfolding io_then_def [of rd] by (rule carries_bind) simp_all

lemma carries_ret: "carries m rd a \<Longrightarrow> f a = b \<Longrightarrow> carries m (io_bind rd (\<lambda>x. io_ret (f x))) b"
  by (auto simp: carries_def io_simps)

lemma carries_ret_then: "carries m rd () \<Longrightarrow> carries m (io_then rd (io_ret b)) b"
  by (auto simp: carries_def io_simps)

lemma carries_for:
  "(\<And>x. x \<in> set xs \<Longrightarrow> carries (m x) rd x) \<Longrightarrow> carries (io_for xs m) (io_times (length xs) rd) xs"
proof (induction xs)
  case Nil
  then show ?case by (auto simp: carries_def writes_def io_simps)
next
  case (Cons x xs)
  then show ?case by (auto intro!: carries_bind carries_ret)
qed

section \<open>Reads that end\<close>

text \<open>A read operation that never runs out of rounds and gives no bytes back.\<close>

definition safe_at :: "('b list, 'a) io \<Rightarrow> 'b list \<Rightarrow> bool" where
  "safe_at m buf = (case m buf of
     (Inl e, _) \<Rightarrow> e \<noteq> OutOfFuel
   | (Inr _, rest) \<Rightarrow> length rest \<le> length buf)"

lemma safe_bind:
  assumes "safe_at m buf"
    and "\<And>a rest. m buf = (Inr a, rest) \<Longrightarrow> length rest \<le> length buf \<Longrightarrow> safe_at (f a) rest"
  shows "safe_at (io_bind m f) buf"
  using assms by (fastforce simp: safe_at_def io_simps split: prod.splits sum.splits)

lemma safe_then:
  "safe_at m buf \<Longrightarrow> (\<And>rest. length rest \<le> length buf \<Longrightarrow> safe_at n rest) \<Longrightarrow> safe_at (io_then m n) buf"
  unfolding io_then_def by (rule safe_bind)

lemma safe_ret: "safe_at (io_ret a) buf" "safe_at (io_gets g) buf"
  by (simp_all add: safe_at_def io_simps)

lemma safe_times: "(\<And>buf. safe_at m buf) \<Longrightarrow> safe_at (io_times n m) buf"
  by (induction n arbitrary: buf) (auto intro!: safe_bind safe_ret)

section \<open>The laws of the protocol\<close>

text \<open>What an operation accepts: \<open>struct.pack\<close> raises for the others.\<close>

fun basic_fits :: "ttype \<Rightarrow> pyobj \<Rightarrow> bool" where
  "basic_fits T_BOOL v = fits SBool v"
| "basic_fits T_BYTE v = fits SByte v"
| "basic_fits T_I16 v = fits SI16 v"
| "basic_fits T_I32 v = fits SI32 v"
| "basic_fits T_I64 v = fits SI64 v"
| "basic_fits T_STRING v = fits SString v"
| "basic_fits _ v = False"

fun op_fits :: "wop \<Rightarrow> bool" where
  "op_fits (WMessageBegin n t i) = (len_fits n \<and> int_fits 32 i)"
| "op_fits (WFieldBegin n t i) = int_fits 16 i"
| "op_fits (WListBegin t n) = int_fits 32 (int n)"
| "op_fits (WValue t v) = basic_fits t v"
| "op_fits (WException i m) = (int_fits 32 i \<and> len_fits m)"
| "op_fits _ = True"

lemma ttype_of_not_stop [simp]: "ttype_of s \<noteq> T_STOP"
  by (cases s) auto

definition write_field :: "'b protocol \<Rightarrow> pyobj \<times> int \<times> string \<times> tspec \<Rightarrow> ('b list, unit) io" where
  "write_field pr = (\<lambda>(a, i, nm, s).
     if a = ONone then io_ret ()
     else io_then (put_op pr (WFieldBegin nm (ttype_of s) i)) (
          io_then (write_val pr s a) (
          put_op pr (WMark FieldEnd))))"

lemma io_then_assoc: "io_then (io_then l m) n = io_then l (io_then m n)"
  unfolding io_then_def by (rule io_bind_assoc)

lemma write_obj:
  "write_val pr (SStruct c) (OObj (TClass n fs) attrs) =
     io_then (put_op pr (WStructBegin n)) (
     io_then (io_then (io_for (zip attrs fs) (write_field pr)) (put_op pr WFieldStop)) (
     put_op pr (WMark StructEnd)))"
  by (simp add: write_field_def io_then_assoc)

definition field_entry :: "'b protocol \<Rightarrow> int \<times> string \<times> tspec \<Rightarrow> int \<times> ttype \<times> ('b list, pyobj) io" where
  "field_entry pr = (\<lambda>(i, nm, s). (i, ttype_of s, read_val pr s))"

fun field_spec :: "(int \<times> string \<times> tspec) list \<Rightarrow> int \<Rightarrow> (nat \<times> tspec) option" where
  "field_spec [] fid = None"
| "field_spec ((i, nm, s) # fs) fid =
     (if fid = i then Some (0, s) else map_option (\<lambda>(k, x). (Suc k, x)) (field_spec fs fid))"

lemma field_reader_entry:
  "field_reader (map (field_entry pr) fs) i =
   map_option (\<lambda>(k, s). (k, ttype_of s, read_val pr s)) (field_spec fs i)"
  by (induction fs i rule: field_spec.induct) (auto simp: field_entry_def option.map_comp comp_def case_prod_unfold)

text \<open>The attributes after a field has been read into an object whose class has the fields \<open>fs\<close>: a
  field with an unknown number or another type than declared changes nothing.\<close>

definition take_field ::
  "(int \<times> string \<times> tspec) list \<Rightarrow> pyobj \<times> int \<times> string \<times> tspec \<Rightarrow> pyobj list \<Rightarrow> pyobj list" where
  "take_field fs = (\<lambda>(a, i, nm, s) attrs.
     if a = ONone then attrs
     else (case field_spec fs i of
             Some (k, s') \<Rightarrow> if ttype_of s = ttype_of s' then attrs[k := a] else attrs
           | None \<Rightarrow> attrs))"

text \<open>Where two classes have a field with the same number and type code, it has the same type.\<close>

definition compatible :: "(int \<times> string \<times> tspec) list \<Rightarrow> int \<Rightarrow> tspec \<Rightarrow> bool" where
  "compatible fs i s = (case field_spec fs i of
     Some (k, s') \<Rightarrow> ttype_of s = ttype_of s' \<longrightarrow> s' = s
   | None \<Rightarrow> True)"

lemma field_spec_at:
  "i \<notin> fst ` set pf \<Longrightarrow> field_spec (pf @ (i, nm, s) # sf) i = Some (length pf, s)"
  by (induction pf) auto

lemma field_spec_set: "field_spec fs i = Some (k, s) \<Longrightarrow> \<exists>nm. (i, nm, s) \<in> set fs"
  by (induction fs i arbitrary: k rule: field_spec.induct) (auto split: if_splits)

lemma compatible_self:
  assumes "distinct (map fst fs)" "(i, nm, s) \<in> set fs"
  shows "compatible fs i s"
  using assms by (auto simp: compatible_def split: option.split dest!: field_spec_set dest: eq_key_imp_eq_value)

lemma take_fields_self:
  assumes "length sa = length sf" "length pa = length pf" "distinct (map fst (pf @ sf))"
  shows "fold (take_field (pf @ sf)) (zip sa sf) (pa @ replicate (length sf) ONone) = pa @ sa"
  using assms
proof (induction sa sf arbitrary: pa pf rule: list_induct2)
  case (Cons a sa f sf)
  obtain i nm s where f: "f = (i, nm, s)" by (cases f) auto
  have "take_field (pf @ f # sf) (a, f) (pa @ ONone # replicate (length sf) ONone) = pa @ a # replicate (length sf) ONone"
    using Cons.prems field_spec_at [of i pf nm s sf] f by (auto simp: take_field_def list_update_append)
  then show ?case using Cons.IH [of "pa @ [a]" "pf @ [f]"] Cons.prems by simp
qed simp

locale thrift_protocol =
  fixes pr :: "'b protocol"
  assumes write_ok: "op_fits op \<Longrightarrow> \<exists>bs. p_write pr op = Inr bs"
    and read_message: "op_fits (WMessageBegin n mt i) \<Longrightarrow> p_write pr (WMessageBegin n mt i) = Inr bs \<Longrightarrow>
      p_readMessageBegin pr (bs @ rest) = (Inr (n, mt, i), rest)"
    and read_mark: "p_write pr (WMark mk) = Inr bs \<Longrightarrow> p_readMark pr mk (bs @ rest) = (Inr (), rest)"
    and read_struct: "p_write pr (WStructBegin n) = Inr bs \<Longrightarrow> p_readMark pr StructBegin (bs @ rest) = (Inr (), rest)"
    and read_field: "t \<noteq> T_STOP \<Longrightarrow> int_fits 16 i \<Longrightarrow> p_write pr (WFieldBegin n t i) = Inr bs \<Longrightarrow>
      p_readFieldBegin pr (bs @ rest) = (Inr (t, i), rest)"
    and read_stop: "p_write pr WFieldStop = Inr bs \<Longrightarrow> \<exists>i. p_readFieldBegin pr (bs @ rest) = (Inr (T_STOP, i), rest)"
    and read_list: "int_fits 32 (int k) \<Longrightarrow> p_write pr (WListBegin t k) = Inr bs \<Longrightarrow>
      p_readListBegin pr (bs @ rest) = (Inr (t, int k), rest)"
    and read_value: "basic_fits t v \<Longrightarrow> p_write pr (WValue t v) = Inr bs \<Longrightarrow>
      p_readValue pr t (bs @ rest) = (Inr v, rest)"
    and read_exception: "op_fits (WException i m) \<Longrightarrow> p_write pr (WException i m) = Inr bs \<Longrightarrow>
      p_readException pr (bs @ rest) = (Inr (i, m), rest)"
    and skip_value: "wf_spec s \<Longrightarrow> fits s v \<Longrightarrow> writes (write_val pr s v) bs \<Longrightarrow>
      p_skip pr (ttype_of s) (bs @ rest) = (Inr (), rest)"
    and at_end: "p_readMessageBegin pr [] = (Inl TransportError, [])"
    and int_overflow: "(t, b) \<in> {(T_BYTE, 8), (T_I16, 16), (T_I32, 32), (T_I64, 64)} \<Longrightarrow> \<not> int_fits b i \<Longrightarrow>
      p_write pr (WValue t (OInt i)) = Inl StructError"
    and field_progress: "p_readFieldBegin pr buf = (Inr x, rest) \<Longrightarrow> length rest < length buf"
    and read_progress: "p_readMark pr mk buf = (Inr (), rest) \<Longrightarrow> length rest \<le> length buf"
      "p_readListBegin pr buf = (Inr y, rest) \<Longrightarrow> length rest \<le> length buf"
      "p_readValue pr t buf = (Inr v, rest) \<Longrightarrow> length rest \<le> length buf"
      "p_skip pr t buf = (Inr (), rest) \<Longrightarrow> length rest \<le> length buf"
    and not_fuel: "p_readFieldBegin pr buf \<noteq> (Inl OutOfFuel, rest)" "p_readMark pr mk buf \<noteq> (Inl OutOfFuel, rest)"
      "p_readListBegin pr buf \<noteq> (Inl OutOfFuel, rest)" "p_readValue pr t buf \<noteq> (Inl OutOfFuel, rest)"
      "p_skip pr t buf \<noteq> (Inl OutOfFuel, rest)"
begin

lemma carries_message:
  "len_fits n \<Longrightarrow> int_fits 32 i \<Longrightarrow> carries (put_op pr (WMessageBegin n t i)) (p_readMessageBegin pr) (n, t, i)"
  using write_ok [of "WMessageBegin n t i"] read_message
  by (auto simp: carries_def intro: writes_put)

lemma carries_mark: "carries (put_op pr (WMark m)) (p_readMark pr m) ()"
  using write_ok [of "WMark m"] read_mark by (auto simp: carries_def intro: writes_put)

lemma carries_struct: "carries (put_op pr (WStructBegin n)) (p_readMark pr StructBegin) ()"
  using write_ok [of "WStructBegin n"] read_struct by (auto simp: carries_def intro: writes_put)

lemma carries_field:
  "t \<noteq> T_STOP \<Longrightarrow> int_fits 16 i \<Longrightarrow> carries (put_op pr (WFieldBegin n t i)) (p_readFieldBegin pr) (t, i)"
  using write_ok [of "WFieldBegin n t i"] read_field by (auto simp: carries_def intro: writes_put)

lemma carries_list:
  "int_fits 32 (int k) \<Longrightarrow> carries (put_op pr (WListBegin t k)) (p_readListBegin pr) (t, int k)"
  using write_ok [of "WListBegin t k"] read_list by (auto simp: carries_def intro: writes_put)

lemma carries_value: "basic_fits t v \<Longrightarrow> carries (put_op pr (WValue t v)) (p_readValue pr t) v"
  using write_ok [of "WValue t v"] read_value by (auto simp: carries_def intro: writes_put)

lemma carries_exception:
  "int_fits 32 i \<Longrightarrow> len_fits m \<Longrightarrow> carries (put_op pr (WException i m)) (p_readException pr) (i, m)"
  using write_ok [of "WException i m"] read_exception by (auto simp: carries_def intro: writes_put)

text \<open>The field loop takes what \<open>write\<close> wrote for the attributes that are not \<open>None\<close>.\<close>

lemma field_bytes:
  assumes "t \<noteq> T_STOP" "int_fits 16 i"
  obtains bs where "writes (put_op pr (WFieldBegin n t i)) bs" "bs \<noteq> []"
    "\<And>rest. p_readFieldBegin pr (bs @ rest) = (Inr (t, i), rest)"
proof -
  obtain bs where bs: "writes (put_op pr (WFieldBegin n t i)) bs"
    "\<And>rest. p_readFieldBegin pr (bs @ rest) = (Inr (t, i), rest)"
    using carries_field [OF assms] unfolding carries_def by blast
  then show thesis using field_progress [of bs "(t, i)" "[]"] bs(2) [of "[]"] by (intro that [of bs]) auto
qed

lemma loop_step:
  assumes "p_readFieldBegin pr (xs @ us) = (Inr (ttype_of s, i), us)" "a \<noteq> ONone"
    "wf_spec s" "fits s a" "writes (write_val pr s a) ys" "us = ys @ vs"
    "read_val pr s us = (Inr a, vs)" "p_readMark pr FieldEnd vs = (Inr (), zs)" "compatible fs i s"
  shows "field_loop pr (map (field_entry pr) fs) (Suc n) attrs (xs @ us) =
    field_loop pr (map (field_entry pr) fs) n (take_field fs (a, i, nm, s) attrs) zs"
proof -
  have skip: "p_skip pr (ttype_of s) us = (Inr (), vs)" using skip_value assms by simp
  show ?thesis
  proof (cases "field_spec fs i")
    case None
    then show ?thesis
      using assms skip by (simp add: io_simps read_field_def field_reader_entry take_field_def)
  next
    case (Some x)
    then show ?thesis
      using assms skip
      by (cases x) (auto simp: io_simps read_field_def field_reader_entry take_field_def compatible_def)
  qed
qed

lemma loop_fields:
  assumes "\<forall>(a, i, nm, s) \<in> set zs. int_fits 16 i \<and> compatible fs i s \<and>
    (a = ONone \<or> wf_spec s \<and> fits s a \<and> carries (write_val pr s a) (read_val pr s) a)"
  shows "\<exists>bs. writes (io_then (io_for zs (write_field pr)) (put_op pr WFieldStop)) bs \<and>
    (\<forall>n attrs rest. length bs < n \<longrightarrow>
      field_loop pr (map (field_entry pr) fs) n attrs (bs @ rest) = (Inr (fold (take_field fs) zs attrs), rest))"
  using assms
proof (induction zs)
  case Nil
  obtain bs where bs: "p_write pr WFieldStop = Inr bs" using write_ok [of WFieldStop] by auto
  have "field_loop pr (map (field_entry pr) fs) n attrs (bs @ rest) = (Inr attrs, rest)"
    if n: "length bs < n" for n attrs rest
    using n read_stop [OF bs, of rest] by (cases n) (auto simp: io_simps)
  then show ?case using writes_then [OF writes_ret writes_put [OF bs]] by (intro exI [of _ bs]) simp
next
  case (Cons z zs)
  obtain a i nm s where z: "z = (a, i, nm, s)" by (cases z) auto
  obtain bs where bs: "writes (io_then (io_for zs (write_field pr)) (put_op pr WFieldStop)) bs"
    "\<And>n attrs rest. length bs < n \<Longrightarrow>
      field_loop pr (map (field_entry pr) fs) n attrs (bs @ rest) = (Inr (fold (take_field fs) zs attrs), rest)"
    using Cons by auto
  show ?case
  proof (cases "a = ONone")
    case True
    then have "writes (io_then (io_for (z # zs) (write_field pr)) (put_op pr WFieldStop)) bs"
      using bs(1) z by (simp add: write_field_def writes_def io_simps)
    then show ?thesis using bs(2) True z by (intro exI [of _ bs]) (simp add: take_field_def)
  next
    case False
    have ok: "int_fits 16 i" "wf_spec s" "fits s a" "carries (write_val pr s a) (read_val pr s) a" "compatible fs i s"
      using Cons.prems z False by auto
    obtain xs where xs: "writes (put_op pr (WFieldBegin nm (ttype_of s) i)) xs" "xs \<noteq> []"
      "\<And>rest. p_readFieldBegin pr (xs @ rest) = (Inr (ttype_of s, i), rest)"
      using field_bytes [OF ttype_of_not_stop ok(1)] by metis
    obtain ys where ys: "writes (write_val pr s a) ys" "\<And>rest. read_val pr s (ys @ rest) = (Inr a, rest)"
      using ok(4) unfolding carries_def by blast
    obtain zs' where zs': "writes (put_op pr (WMark FieldEnd)) zs'" "\<And>rest. p_readMark pr FieldEnd (zs' @ rest) = (Inr (), rest)"
      using carries_mark [of FieldEnd] unfolding carries_def by blast
    have "writes (io_then (io_for (z # zs) (write_field pr)) (put_op pr WFieldStop)) (xs @ ys @ zs' @ bs)"
      using xs(1) ys(1) zs'(1) bs(1) z False by (simp add: write_field_def writes_def io_simps)
    moreover have "field_loop pr (map (field_entry pr) fs) n attrs (xs @ ys @ zs' @ bs @ rest) =
        (Inr (fold (take_field fs) (z # zs) attrs), rest)"
      if n: "length (xs @ ys @ zs' @ bs) < n" for n attrs rest
    proof -
      obtain m where m: "n = Suc m" using n by (cases n) auto
      have "length bs < m" using n xs(2) m by (cases xs) auto
      then show ?thesis
        using loop_step [OF xs(3) False ok(2,3) ys(1) refl ys(2) zs'(2) ok(5), where nm = nm] m bs(2) z
        by (simp del: field_loop.simps)
    qed
    ultimately show ?thesis by (intro exI [of _ "xs @ ys @ zs' @ bs"]) simp
  qed
qed

text \<open>An object that is written as class \<open>d\<close> and read as class \<open>c\<close>.\<close>

lemma carries_struct_as:
  assumes "\<forall>(a, i, nm, s) \<in> set (zip attrs ds). int_fits 16 i \<and> compatible fs i s \<and>
    (a = ONone \<or> wf_spec s \<and> fits s a \<and> carries (write_val pr s a) (read_val pr s) a)"
  shows "carries (write_val pr (SStruct c) (OObj (TClass d ds) attrs)) (read_val pr (SStruct (TClass n fs)))
    (OObj (TClass n fs) (fold (take_field fs) (zip attrs ds) (replicate (length fs) ONone)))"
proof -
  obtain bs where bs: "writes (io_then (io_for (zip attrs ds) (write_field pr)) (put_op pr WFieldStop)) bs"
    "\<And>k as rest. length bs < k \<Longrightarrow>
      field_loop pr (map (field_entry pr) fs) k as (bs @ rest) = (Inr (fold (take_field fs) (zip attrs ds) as), rest)"
    using loop_fields [OF assms] by blast
  obtain xs where xs: "writes (put_op pr (WStructBegin d)) xs" "\<And>rest. p_readMark pr StructBegin (xs @ rest) = (Inr (), rest)"
    using carries_struct [of d] unfolding carries_def by blast
  obtain ys where ys: "writes (put_op pr (WMark StructEnd)) ys" "\<And>rest. p_readMark pr StructEnd (ys @ rest) = (Inr (), rest)"
    using carries_mark [of StructEnd] unfolding carries_def by blast
  have "writes (write_val pr (SStruct c) (OObj (TClass d ds) attrs)) (xs @ bs @ ys)"
    unfolding write_obj by (intro writes_then xs(1) ys(1) bs(1))
  moreover have "read_val pr (SStruct (TClass n fs)) ((xs @ bs @ ys) @ rest) =
      (Inr (OObj (TClass n fs) (fold (take_field fs) (zip attrs ds) (replicate (length fs) ONone))), rest)" for rest
    using xs(2) ys(2) bs(2) by (simp add: io_simps field_entry_def [symmetric] del: field_loop.simps)
  ultimately show ?thesis unfolding carries_def by blast
qed

lemma carries_val:
  "wf_spec s \<Longrightarrow> fits s v \<Longrightarrow> carries (write_val pr s v) (read_val pr s) v"
proof (induction s v rule: fits.induct)
  case (7 s xs)
  then have "carries (write_val pr (SList s) (OList xs))
      (io_bind (p_readListBegin pr) (\<lambda>(etype, size). io_bind (io_times (nat size) (read_val pr s)) (\<lambda>xs.
        io_then (p_readMark pr ListEnd) (io_ret (OList xs))))) (OList xs)"
    by (auto simp: len_fits_def intro!: carries_bind [OF carries_list] carries_bind [OF carries_for]
        carries_ret_then carries_mark)
  then show ?case by simp
next
  case (8 c d attrs)
  obtain n fs where c: "c = TClass n fs" by (cases c) auto
  have len: "length attrs = length fs" and "d = c" using 8 c by auto
  have "int_fits 16 i \<and> compatible fs i s \<and>
      (a = ONone \<or> wf_spec s \<and> fits s a \<and> carries (write_val pr s a) (read_val pr s) a)"
    if z: "(a, i, nm, s) \<in> set (zip attrs fs)" for a i nm s
  proof -
    have wf: "(i, nm, s) \<in> set fs" "int_fits 16 i" "wf_spec s" "a = ONone \<or> fits s a"
      using 8(2,3) c z by (metis fields_fit)+
    have "compatible fs i s" using 8(2) c wf(1) by (auto intro: compatible_self)
    moreover have "fits s a \<Longrightarrow> a \<noteq> ONone \<Longrightarrow> carries (write_val pr s a) (read_val pr s) a"
      using 8(1) z c wf(3) by auto
    ultimately show ?thesis using wf by blast
  qed
  then have "\<forall>(a, i, nm, s) \<in> set (zip attrs fs). int_fits 16 i \<and> compatible fs i s \<and>
      (a = ONone \<or> wf_spec s \<and> fits s a \<and> carries (write_val pr s a) (read_val pr s) a)" by blast
  from carries_struct_as [OF this, of c n n] show ?case
    using take_fields_self [OF len, of "[]" "[]"] 8(2) c \<open>d = c\<close> by simp
qed (simp_all add: carries_value)

text \<open>Reading stops: with as many rounds as there are bytes the loop never runs out of them.\<close>

lemma safe_prims: "safe_at (p_readMark pr mk) buf" "safe_at (p_readListBegin pr) buf" "safe_at (p_readValue pr t) buf"
  "safe_at (p_skip pr t) buf" "safe_at (p_readFieldBegin pr) buf"
  unfolding safe_at_def using not_fuel read_progress field_progress
  by (auto split: prod.split sum.split intro: less_imp_le)

lemma safe_read_field:
  assumes "\<And>i k t rd buf. field_reader rs i = Some (k, t, rd) \<Longrightarrow> safe_at rd buf"
  shows "safe_at (read_field pr rs ftype fid attrs) buf"
  unfolding read_field_def
  by (auto split: option.split intro!: safe_bind safe_then safe_ret safe_prims dest: assms)

lemma safe_loop:
  assumes "\<And>i k t rd buf. field_reader rs i = Some (k, t, rd) \<Longrightarrow> safe_at rd buf"
  shows "length buf < n \<Longrightarrow> safe_at (field_loop pr rs n attrs) buf"
proof (induction n arbitrary: attrs buf)
  case (Suc n)
  show ?case unfolding field_loop.simps
  proof (rule safe_bind [OF safe_prims(5)])
    fix tf rest
    assume rd: "p_readFieldBegin pr buf = (Inr tf, rest)"
    then have "length rest < n" using field_progress Suc.prems by fastforce
    then show "safe_at (case tf of (ftype, fid) \<Rightarrow> if ftype = T_STOP then io_ret attrs
        else io_bind (read_field pr rs ftype fid attrs) (\<lambda>attrs'. io_then (p_readMark pr FieldEnd)
          (field_loop pr rs n attrs'))) rest"
      by (auto intro!: safe_ret safe_bind [OF safe_read_field] safe_then safe_prims Suc.IH dest: assms split: prod.split)
  qed
qed simp

lemma safe_val: "q = pr \<Longrightarrow> safe_at (read_val q s) buf"
proof (induction q s arbitrary: buf rule: read_val.induct)
  case (1 q n fs)
  have entry: "safe_at rd buf" if "field_reader (map (field_entry pr) fs) i = Some (k, t, rd)" for i k t rd buf
    using that 1 by (auto simp: field_reader_entry dest!: field_spec_set)
  have all: "safe_at (read_val pr (SStruct (TClass n fs))) b" for b
    unfolding read_val.simps field_entry_def [symmetric]
  proof (rule safe_then [OF safe_prims(1)], rule safe_bind [OF safe_ret(2)])
    fix b1 b2 :: "'b list" and len
    assume "io_gets length b1 = (Inr len, b2)"
    then have "length b2 < Suc len" by (auto simp: io_simps)
    then show "safe_at (io_bind (field_loop pr (map (field_entry pr) fs) (Suc len) (replicate (length fs) ONone))
        (\<lambda>attrs. io_then (p_readMark pr StructEnd) (io_ret (OObj (TClass n fs) attrs)))) b2"
      by (intro safe_bind [OF safe_loop] safe_then safe_ret safe_prims) (auto dest: entry)
  qed
  show ?case unfolding 1(2) by (rule all)
qed (auto intro!: safe_bind safe_then safe_ret safe_prims safe_times split: prod.split)

end

section \<open>Properties of the generated classes\<close>

text \<open>
  C9. Whatever the class, writing an object whose attributes fit their declared types succeeds, and
  reading the bytes gives the same object back and takes exactly those bytes, so that what follows in
  the stream is left alone.
\<close>

theorem read_write_roundtrip:
  assumes "thrift_protocol pr" and "wf_spec s" and "fits s v"
  shows "\<exists>bs. (\<forall>buf. write_val pr s v buf = (Inr (), buf @ bs)) \<and> (\<forall>rest. read_val pr s (bs @ rest) = (Inr v, rest))"
  using thrift_protocol.carries_val [OF assms] by (simp add: carries_def writes_def)

text \<open>
  C32. A peer whose class has other fields is still understood: of an object written with the fields
  \<open>ds\<close>, a class with the fields \<open>fs\<close> gets exactly the attributes whose number it has too, with the same
  type; fields with unknown numbers or other types are skipped, and missing ones stay \<open>None\<close>.
\<close>

theorem read_other_version:
  assumes "thrift_protocol pr" and "wf_spec (SStruct (TClass m ds))" and "fits (SStruct (TClass m ds)) (OObj (TClass m ds) attrs)"
    and "list_all (\<lambda>(i, nm, s). compatible fs i s) ds"
  shows "\<exists>bs. (\<forall>buf. write_val pr (SStruct (TClass m ds)) (OObj (TClass m ds) attrs) buf = (Inr (), buf @ bs)) \<and>
    (\<forall>rest. read_val pr (SStruct (TClass n fs)) (bs @ rest) =
      (Inr (OObj (TClass n fs) (fold (take_field fs) (zip attrs ds) (replicate (length fs) ONone))), rest))"
proof -
  have "int_fits 16 i \<and> compatible fs i s \<and>
      (a = ONone \<or> wf_spec s \<and> fits s a \<and> carries (write_val pr s a) (read_val pr s) a)"
    if z: "(a, i, nm, s) \<in> set (zip attrs ds)" for a i nm s
    using fields_fit [OF assms(2,3) z] assms(4) thrift_protocol.carries_val [OF assms(1), of s a]
    by (auto simp: list_all_iff)
  then have "\<forall>(a, i, nm, s) \<in> set (zip attrs ds). int_fits 16 i \<and> compatible fs i s \<and>
      (a = ONone \<or> wf_spec s \<and> fits s a \<and> carries (write_val pr s a) (read_val pr s) a)" by blast
  from thrift_protocol.carries_struct_as [OF assms(1) this, of "TClass m ds" m n]
  show ?thesis by (simp only: carries_def writes_def)
qed

text \<open>
  C33. The read loop ends on every input, also on bytes that no writer produced: it returns an object
  or raises, and never goes round without taking a byte.
\<close>

theorem read_val_ends:
  assumes "thrift_protocol pr"
  shows "\<exists>r rest. read_val pr s buf = (r, rest) \<and> r \<noteq> Inl OutOfFuel \<and> (isl r \<or> length rest \<le> length buf)"
  using thrift_protocol.safe_val [OF assms refl, of s buf]
  by (auto simp: safe_at_def split: prod.splits sum.splits)

end
