(* ===== verification/Thrift_Binary.thy ===== *)
theory Thrift_Binary
  imports Thrift_Wire
begin

text \<open>
  The binary protocol of Thrift, as its specification describes it: big endian integers, strings with
  their length, fields with a type byte and a 16 bit number, and a zero byte as the stop field. The
  generated code takes the protocol as a parameter; this instance shows that the laws of
  \<open>thrift_protocol\<close> hold of a protocol on bytes, and it is the one that concrete runs use.
\<close>

section \<open>Definitions\<close>

definition be_chars :: "nat \<Rightarrow> int \<Rightarrow> string" where
  "be_chars n v = rev (le_chars n v)"

definition be_num :: "string \<Rightarrow> int" where
  "be_num bs = le_value (rev bs)"

definition bin_take :: "nat \<Rightarrow> (string, string) io" where
  "bin_take n = (\<lambda>buf. if n \<le> length buf then (Inr (take n buf), drop n buf) else (Inl TransportError, buf))"

definition bin_int :: "nat \<Rightarrow> (string, int) io" where
  "bin_int n = io_bind (bin_take n) (\<lambda>bs. io_ret (signed_take_bit (8 * n - 1) (be_num bs)))"

definition bin_string :: "(string, string) io" where
  "bin_string = io_bind (bin_int 4) (\<lambda>k. if k < 0 then io_raise ValueError else bin_take (nat k))"

fun ttype_code :: "ttype \<Rightarrow> int" where
  "ttype_code T_STOP = 0"
| "ttype_code T_BOOL = 2"
| "ttype_code T_BYTE = 3"
| "ttype_code T_DOUBLE = 4"
| "ttype_code T_I16 = 6"
| "ttype_code T_I32 = 8"
| "ttype_code T_I64 = 10"
| "ttype_code T_STRING = 11"
| "ttype_code T_STRUCT = 12"
| "ttype_code T_MAP = 13"
| "ttype_code T_SET = 14"
| "ttype_code T_LIST = 15"

definition all_ttypes :: "ttype list" where
  "all_ttypes = [T_STOP, T_BOOL, T_BYTE, T_DOUBLE, T_I16, T_I32, T_I64, T_STRING, T_STRUCT, T_MAP, T_SET, T_LIST]"

definition bin_ttype :: "(string, ttype) io" where
  "bin_ttype = io_bind (bin_int 1) (\<lambda>c. io_lift (or_raise ValueError (map_of (map (\<lambda>t. (ttype_code t, t)) all_ttypes) c)))"

fun mtype_code :: "mtype \<Rightarrow> int" where
  "mtype_code CALL = 1"
| "mtype_code REPLY = 2"
| "mtype_code EXCEPTION = 3"
| "mtype_code ONEWAY = 4"

definition bin_mtype :: "(string, mtype) io" where
  "bin_mtype = io_bind (bin_int 4) (\<lambda>c.
     io_lift (or_raise ValueError (map_of (map (\<lambda>t. (mtype_code t - 2147418112, t)) [CALL, REPLY, EXCEPTION, ONEWAY]) c)))"

definition pack_int :: "nat \<Rightarrow> int \<Rightarrow> string res" where
  "pack_int n v = (if int_fits (8 * n) v then Inr (be_chars n v) else Inl StructError)"

definition pack_str :: "string \<Rightarrow> string res" where
  "pack_str s = res_bind (pack_int 4 (int (length s))) (\<lambda>bs. Inr (bs @ s))"

fun bin_value :: "ttype \<Rightarrow> pyobj \<Rightarrow> string res" where
  "bin_value T_BOOL (OBool b) = pack_int 1 (if b then 1 else 0)"
| "bin_value T_BYTE (OInt i) = pack_int 1 i"
| "bin_value T_I16 (OInt i) = pack_int 2 i"
| "bin_value T_I32 (OInt i) = pack_int 4 i"
| "bin_value T_I64 (OInt i) = pack_int 8 i"
| "bin_value T_STRING (OStr s) = pack_str s"
| "bin_value _ _ = Inl TypeError"

fun bin_read_value :: "ttype \<Rightarrow> (string, pyobj) io" where
  "bin_read_value T_BOOL = io_bind (bin_int 1) (\<lambda>i. io_ret (OBool (i \<noteq> 0)))"
| "bin_read_value T_BYTE = io_bind (bin_int 1) (\<lambda>i. io_ret (OInt i))"
| "bin_read_value T_I16 = io_bind (bin_int 2) (\<lambda>i. io_ret (OInt i))"
| "bin_read_value T_I32 = io_bind (bin_int 4) (\<lambda>i. io_ret (OInt i))"
| "bin_read_value T_I64 = io_bind (bin_int 8) (\<lambda>i. io_ret (OInt i))"
| "bin_read_value T_STRING = io_bind bin_string (\<lambda>s. io_ret (OStr s))"
| "bin_read_value _ = io_raise TypeError"

text \<open>A version 1 message starts with the version \<open>0x80010000\<close> and the message type in 32 bits.\<close>

fun bin_write :: "wop \<Rightarrow> string res" where
  "bin_write (WMessageBegin n t i) =
     res_bind (pack_int 4 (mtype_code t - 2147418112)) (\<lambda>v.
     res_bind (pack_str n) (\<lambda>s.
     res_bind (pack_int 4 i) (\<lambda>q. Inr (v @ s @ q))))"
| "bin_write (WFieldBegin n t i) =
     res_bind (pack_int 1 (ttype_code t)) (\<lambda>v. res_bind (pack_int 2 i) (\<lambda>f. Inr (v @ f)))"
| "bin_write WFieldStop = pack_int 1 0"
| "bin_write (WListBegin t n) =
     res_bind (pack_int 1 (ttype_code t)) (\<lambda>v. res_bind (pack_int 4 (int n)) (\<lambda>k. Inr (v @ k)))"
| "bin_write (WValue t v) = bin_value t v"
| "bin_write (WException i m) = res_bind (pack_str m) (\<lambda>s. res_bind (pack_int 4 i) (\<lambda>t. Inr (s @ t)))"
| "bin_write (WStructBegin n) = Inr []"
| "bin_write (WMark m) = Inr []"

definition bin_message :: "(string, string \<times> mtype \<times> int) io" where
  "bin_message = io_bind bin_mtype (\<lambda>t. io_bind bin_string (\<lambda>n. io_bind (bin_int 4) (\<lambda>i. io_ret (n, t, i))))"

definition bin_field :: "(string, ttype \<times> int) io" where
  "bin_field = io_bind bin_ttype (\<lambda>t. if t = T_STOP then io_ret (t, 0) else io_bind (bin_int 2) (\<lambda>i. io_ret (t, i)))"

definition bin_list :: "(string, ttype \<times> int) io" where
  "bin_list = io_bind bin_ttype (\<lambda>t. io_bind (bin_int 4) (\<lambda>k. io_ret (t, k)))"

text \<open>\<open>skip\<close> follows the type codes; the depth of nesting is at most the number of bytes.\<close>

fun bin_skip :: "nat \<Rightarrow> ttype \<Rightarrow> (string, unit) io" and bin_skip_fields :: "nat \<Rightarrow> (string, unit) io" where
  "bin_skip 0 t = io_raise ValueError"
| "bin_skip (Suc k) t =
     (case t of
        T_STOP \<Rightarrow> io_ret ()
      | T_BOOL \<Rightarrow> io_bind (bin_take 1) (\<lambda>_. io_ret ())
      | T_BYTE \<Rightarrow> io_bind (bin_take 1) (\<lambda>_. io_ret ())
      | T_DOUBLE \<Rightarrow> io_bind (bin_take 8) (\<lambda>_. io_ret ())
      | T_I16 \<Rightarrow> io_bind (bin_take 2) (\<lambda>_. io_ret ())
      | T_I32 \<Rightarrow> io_bind (bin_take 4) (\<lambda>_. io_ret ())
      | T_I64 \<Rightarrow> io_bind (bin_take 8) (\<lambda>_. io_ret ())
      | T_STRING \<Rightarrow> io_bind bin_string (\<lambda>_. io_ret ())
      | T_STRUCT \<Rightarrow> bin_skip_fields k
      | T_MAP \<Rightarrow> io_bind bin_ttype (\<lambda>kt. io_bind bin_list (\<lambda>(vt, n).
          io_bind (io_times (nat n) (io_then (bin_skip k kt) (bin_skip k vt))) (\<lambda>_. io_ret ())))
      | T_SET \<Rightarrow> io_bind bin_list (\<lambda>(et, n). io_bind (io_times (nat n) (bin_skip k et)) (\<lambda>_. io_ret ()))
      | T_LIST \<Rightarrow> io_bind bin_list (\<lambda>(et, n). io_bind (io_times (nat n) (bin_skip k et)) (\<lambda>_. io_ret ())))"
| "bin_skip_fields 0 = io_raise ValueError"
| "bin_skip_fields (Suc k) = io_bind bin_field (\<lambda>(t, i).
     if t = T_STOP then io_ret () else io_then (bin_skip k t) (bin_skip_fields k))"

definition bin_protocol :: "char protocol" where
  "bin_protocol = \<lparr>p_write = bin_write, p_readMessageBegin = bin_message, p_readFieldBegin = bin_field,
     p_readListBegin = bin_list, p_readMark = (\<lambda>m. io_ret ()), p_readValue = bin_read_value,
     p_readException = io_bind bin_string (\<lambda>m. io_bind (bin_int 4) (\<lambda>i. io_ret (i, m))),
     p_skip = (\<lambda>t buf. bin_skip (Suc (length buf)) t buf)\<rparr>"

section \<open>Numbers and strings\<close>

lemma be_roundtrip:
  assumes "0 < n" "int_fits (8 * n) v"
  shows "signed_take_bit (8 * n - 1) (be_num (be_chars n v)) = v"
proof -
  have "(256 :: int) ^ n = 2 ^ (8 * n)" by (simp add: power_mult)
  then have "be_num (be_chars n v) = take_bit (8 * n) v"
    by (simp add: be_num_def be_chars_def le_value_le_chars take_bit_eq_mod)
  then have "signed_take_bit (8 * n - 1) (be_num (be_chars n v)) = signed_take_bit (8 * n - 1) v"
    using assms(1) by (auto simp: signed_take_bit_take_bit)
  then show ?thesis using assms by (simp add: int_fits_def signed_take_bit_int_eq_self)
qed

lemma bin_take_append: "bin_take (length bs) (bs @ rest) = (Inr bs, rest)"
  by (simp add: bin_take_def)

lemma length_be_chars [simp]: "length (be_chars n v) = n"
  by (simp add: be_chars_def)

lemma bin_int_append: "0 < n \<Longrightarrow> int_fits (8 * n) v \<Longrightarrow> bin_int n (be_chars n v @ rest) = (Inr v, rest)"
  using bin_take_append [of "be_chars n v" rest] be_roundtrip [of n v] by (simp add: bin_int_def io_simps)

lemma pack_intD: "pack_int n v = Inr bs \<Longrightarrow> int_fits (8 * n) v \<and> bs = be_chars n v"
  by (simp add: pack_int_def split: if_splits)

lemma pack_int_ok: "int_fits (8 * n) v \<Longrightarrow> pack_int n v = Inr (be_chars n v)"
  by (simp add: pack_int_def)

lemma read_pack_int: "pack_int n v = Inr bs \<Longrightarrow> 0 < n \<Longrightarrow> bin_int n (bs @ rest) = (Inr v, rest)"
  using bin_int_append by (auto dest!: pack_intD)

lemma read_pack_str: "pack_str s = Inr bs \<Longrightarrow> bin_string (bs @ rest) = (Inr s, rest)"
  using bin_take_append [of s rest]
  by (auto simp: pack_str_def bin_string_def res_bind_Inr_iff io_simps read_pack_int)

lemma pack_str_ok: "len_fits s \<Longrightarrow> \<exists>bs. pack_str s = Inr bs"
  by (simp add: len_fits_def pack_str_def pack_int_ok)

lemma code_fits: "int_fits 8 (ttype_code t)" "int_fits 32 (mtype_code m - 2147418112)"
  by (cases t; simp add: int_fits_def) (cases m; simp add: int_fits_def)

lemma read_ttype:
  "pack_int 1 (ttype_code t) = Inr bs \<Longrightarrow> bin_ttype (bs @ rest) = (Inr t, rest)"
  by (drule read_pack_int [where rest = rest]) (cases t; simp add: bin_ttype_def io_simps all_ttypes_def)+

lemma read_mtype:
  "pack_int 4 (mtype_code t - 2147418112) = Inr bs \<Longrightarrow> bin_mtype (bs @ rest) = (Inr t, rest)"
  by (drule read_pack_int [where rest = rest]) (cases t; simp add: bin_mtype_def io_simps)+

section \<open>Progress\<close>

lemma safe_bin:
  "safe_at (bin_take n) buf" "safe_at (io_raise ValueError) buf" "safe_at (io_raise TypeError) buf"
  "safe_at (io_lift (or_raise ValueError x)) buf"
  by (auto simp: safe_at_def bin_take_def io_simps or_raise_def split: option.split)

lemma safe_bin_int: "safe_at (bin_int n) buf" "safe_at bin_string buf" "safe_at bin_ttype buf" "safe_at bin_list buf"
  unfolding bin_string_def bin_ttype_def bin_list_def bin_int_def
  by (auto intro!: safe_bind safe_bin safe_ret)

lemma safe_bin_field: "safe_at bin_field buf"
  unfolding bin_field_def by (auto intro!: safe_bind safe_bin_int safe_ret)

lemma safe_bin_skip: "safe_at (bin_skip k t) buf" "safe_at (bin_skip_fields k) buf"
proof (induction k t and k arbitrary: buf and buf rule: bin_skip_bin_skip_fields.induct)
  case (2 k t)
  then show ?case
    by (cases t) (auto intro!: safe_bind safe_then safe_bin safe_bin_int safe_ret safe_times split: prod.split)
next
  case (4 k)
  then show ?case by (auto intro!: safe_bind safe_then safe_bin_field safe_ret split: prod.split)
qed (simp_all add: safe_bin)

lemma safe_bin_value: "safe_at (bin_read_value t) buf"
  by (cases t) (auto intro!: safe_bind safe_bin safe_bin_int safe_ret)

lemma bin_field_progress: "bin_field buf = (Inr x, rest) \<Longrightarrow> length rest < length buf"
proof -
  assume b: "bin_field buf = (Inr x, rest)"
  then obtain t b1 where t: "bin_ttype buf = (Inr t, b1)"
    and r: "(if t = T_STOP then io_ret (t, 0) else io_bind (bin_int 2) (\<lambda>i. io_ret (t, i))) b1 = (Inr x, rest)"
    by (auto simp: bin_field_def io_bind_Inr_iff)
  have "length b1 < length buf"
    using t by (auto simp: bin_ttype_def bin_int_def bin_take_def io_bind_Inr_iff io_simps split: if_splits)
  moreover have "length rest \<le> length b1"
    using r by (auto simp: bin_int_def bin_take_def io_bind_Inr_iff io_simps split: if_splits)
  ultimately show ?thesis by simp
qed

section \<open>Skipping\<close>

definition skips :: "(string, unit) io \<Rightarrow> ttype \<Rightarrow> bool" where
  "skips m t \<longleftrightarrow> (\<exists>bs. writes m bs \<and> (\<forall>n rest. length bs < n \<longrightarrow> bin_skip n t (bs @ rest) = (Inr (), rest)))"

lemma bin_put: "bin_write op = Inr bs \<Longrightarrow> writes (put_op bin_protocol op) bs"
  by (rule writes_put) (simp add: bin_protocol_def)

lemma writes_unique: "writes m as \<Longrightarrow> writes m bs \<Longrightarrow> as = bs"
  by (simp add: writes_def)

lemma skips_put:
  assumes "bin_write op = Inr bs" "\<And>k rest. bin_skip (Suc k) t (bs @ rest) = (Inr (), rest)"
  shows "skips (put_op bin_protocol op) t"
  unfolding skips_def
proof (intro exI conjI allI impI)
  show "writes (put_op bin_protocol op) bs" using assms(1) by (rule bin_put)
  fix n rest
  assume "length bs < n"
  then show "bin_skip n t (bs @ rest) = (Inr (), rest)" using assms(2) by (cases n) auto
qed

lemma basic_cases:
  assumes "basic_fits t v"
  obtains (num) n i g where "0 < n" "int_fits (8 * n) i" "v = g i" "bin_value t v = pack_int n i"
      "bin_read_value t = io_bind (bin_int n) (\<lambda>i. io_ret (g i))"
      "\<And>k. bin_skip (Suc k) t = io_bind (bin_take n) (\<lambda>_. io_ret ())"
    | (str) s where "t = T_STRING" "v = OStr s" "len_fits s"
proof (cases "(t, v)" rule: bin_value.cases)
  case (1 b)
  then show thesis by (intro num [of 1 "if b then 1 else 0" "\<lambda>i. OBool (i \<noteq> 0)"]) (simp_all add: int_fits_def)
next
  case (2 i)
  then show thesis using assms by (intro num [of 1 i OInt]) simp_all
next
  case (3 i)
  then show thesis using assms by (intro num [of 2 i OInt]) simp_all
next
  case (4 i)
  then show thesis using assms by (intro num [of 4 i OInt]) simp_all
next
  case (5 i)
  then show thesis using assms by (intro num [of 8 i OInt]) simp_all
next
  case (6 s)
  then show thesis using assms by (intro str) simp_all
qed (use assms in \<open>auto elim: basic_fits.elims\<close>)

lemma skips_value:
  assumes "basic_fits t v"
  shows "skips (put_op bin_protocol (WValue t v)) t"
  using assms
proof (cases rule: basic_cases)
  case (num n i g)
  then show ?thesis
    using bin_take_append [of "be_chars n i"]
    by (intro skips_put [of _ "be_chars n i"]) (simp_all add: pack_int_ok io_simps)
next
  case (str s)
  then obtain bs where "pack_str s = Inr bs" using pack_str_ok [of s] by auto
  then show ?thesis using str read_pack_str [of s bs] by (intro skips_put [of _ bs]) (simp_all add: io_simps)
qed

lemma skips_fields:
  assumes "\<forall>(a, i, nm, s) \<in> set zs. int_fits 16 i \<and> (a = ONone \<or> skips (write_val bin_protocol s a) (ttype_of s))"
  shows "\<exists>bs. writes (io_then (io_for zs (write_field bin_protocol)) (put_op bin_protocol WFieldStop)) bs \<and>
    (\<forall>n rest. length bs \<le> n \<longrightarrow> bin_skip_fields n (bs @ rest) = (Inr (), rest))"
  using assms
proof (induction zs)
  case Nil
  have stop: "bin_write WFieldStop = Inr (be_chars 1 0)" by (simp add: pack_int_ok int_fits_def)
  have "bin_skip_fields n (be_chars 1 0 @ rest) = (Inr (), rest)" if "1 \<le> n" for n rest
    using that read_ttype [of T_STOP "be_chars 1 0" rest] stop by (cases n) (auto simp: bin_field_def io_simps)
  then show ?case
    using writes_then [OF writes_ret bin_put [OF stop]] by (intro exI [of _ "be_chars 1 0"]) simp
next
  case (Cons z zs)
  obtain a i nm s where z: "z = (a, i, nm, s)" by (cases z) auto
  obtain bs where bs: "writes (io_then (io_for zs (write_field bin_protocol)) (put_op bin_protocol WFieldStop)) bs"
    "\<And>n rest. length bs \<le> n \<Longrightarrow> bin_skip_fields n (bs @ rest) = (Inr (), rest)"
    using Cons by auto
  show ?case
  proof (cases "a = ONone")
    case True
    then have "writes (io_then (io_for (z # zs) (write_field bin_protocol)) (put_op bin_protocol WFieldStop)) bs"
      using bs(1) z by (simp add: write_field_def writes_def io_simps)
    then show ?thesis using bs(2) by blast
  next
    case False
    have i: "int_fits 16 i" and "skips (write_val bin_protocol s a) (ttype_of s)" using Cons.prems z False by auto
    then obtain ys where ys: "writes (write_val bin_protocol s a) ys"
      "\<And>n rest. length ys < n \<Longrightarrow> bin_skip n (ttype_of s) (ys @ rest) = (Inr (), rest)"
      unfolding skips_def by blast
    let ?xs = "be_chars 1 (ttype_code (ttype_of s)) @ be_chars 2 i"
    have xs: "bin_write (WFieldBegin nm (ttype_of s) i) = Inr ?xs"
      using i code_fits(1) [of "ttype_of s"] by (simp add: pack_int_ok)
    have rd: "bin_field (?xs @ rest) = (Inr (ttype_of s, i), rest)" for rest
      using read_ttype [of "ttype_of s" "be_chars 1 (ttype_code (ttype_of s))"] code_fits(1) [of "ttype_of s"]
        bin_int_append [of 2 i] i by (simp add: bin_field_def io_simps pack_int_ok)
    have "writes (put_op bin_protocol (WMark FieldEnd)) []" by (rule bin_put) simp
    then have "writes (io_then (io_for (z # zs) (write_field bin_protocol)) (put_op bin_protocol WFieldStop)) (?xs @ ys @ bs)"
      using bin_put [OF xs] ys(1) bs(1) z False by (simp add: write_field_def writes_def io_simps)
    moreover have "bin_skip_fields n (?xs @ ys @ bs @ rest) = (Inr (), rest)" if n: "length (?xs @ ys @ bs) \<le> n" for n rest
    proof -
      obtain m where "n = Suc m" using n by (cases n) auto
      then show ?thesis using n ys(2) [of m] bs(2) [of m] rd [of "ys @ bs @ rest"] by (simp add: io_simps)
    qed
    ultimately show ?thesis by (intro exI [of _ "?xs @ ys @ bs"]) simp
  qed
qed

lemma skips_times:
  assumes "\<forall>x \<in> set xs. skips (m x) t"
  shows "\<exists>bs. writes (io_for xs m) bs \<and> (\<forall>n rest. length bs < n \<longrightarrow>
    io_times (length xs) (bin_skip n t) (bs @ rest) = (Inr (replicate (length xs) ()), rest))"
  using assms
proof (induction xs)
  case Nil
  then show ?case by (auto simp: writes_def io_simps)
next
  case (Cons x xs)
  then obtain as bs where "writes (m x) as" "\<And>n rest. length as < n \<Longrightarrow> bin_skip n t (as @ rest) = (Inr (), rest)"
    "writes (io_for xs m) bs" "\<And>n rest. length bs < n \<Longrightarrow>
      io_times (length xs) (bin_skip n t) (bs @ rest) = (Inr (replicate (length xs) ()), rest)"
    unfolding skips_def by auto
  then show ?case by (intro exI [of _ "as @ bs"]) (simp add: writes_def io_simps)
qed

lemma skips_val: "wf_spec s \<Longrightarrow> fits s v \<Longrightarrow> skips (write_val bin_protocol s v) (ttype_of s)"
proof (induction s v rule: fits.induct)
  case (7 s xs)
  then have "\<forall>x \<in> set xs. skips (write_val bin_protocol s x) (ttype_of s)" by simp
  then obtain bs where bs: "writes (io_for xs (write_val bin_protocol s)) bs"
    "\<And>n rest. length bs < n \<Longrightarrow>
      io_times (length xs) (bin_skip n (ttype_of s)) (bs @ rest) = (Inr (replicate (length xs) ()), rest)"
    using skips_times by blast
  let ?h = "be_chars 1 (ttype_code (ttype_of s)) @ be_chars 4 (int (length xs))"
  have k: "int_fits 32 (int (length xs))" using 7 by (simp add: len_fits_def)
  have h: "bin_write (WListBegin (ttype_of s) (length xs)) = Inr ?h"
    using k code_fits(1) [of "ttype_of s"] by (simp add: pack_int_ok)
  have rd: "bin_list (?h @ rest) = (Inr (ttype_of s, int (length xs)), rest)" for rest
    using read_ttype [of "ttype_of s" "be_chars 1 (ttype_code (ttype_of s))"] code_fits(1) [of "ttype_of s"]
      bin_int_append [of 4 "int (length xs)"] k by (simp add: bin_list_def io_simps pack_int_ok)
  have "writes (put_op bin_protocol (WMark ListEnd)) []" by (rule bin_put) simp
  from writes_then [OF bin_put [OF h] writes_then [OF bs(1) this]]
  have "writes (write_val bin_protocol (SList s) (OList xs)) (?h @ bs)" by simp
  moreover have "bin_skip n (ttype_of (SList s)) (?h @ bs @ rest) = (Inr (), rest)" if n: "length (?h @ bs) < n" for n rest
  proof -
    obtain m where "n = Suc m" using n by (cases n) auto
    then show ?thesis using n rd [of "bs @ rest"] bs(2) [of m] by (simp add: io_simps)
  qed
  ultimately show ?case unfolding skips_def by (intro exI [of _ "?h @ bs"]) simp
next
  case (8 c d attrs)
  obtain n fs where c: "c = TClass n fs" by (cases c) auto
  have d: "d = c" using 8 by auto
  have "int_fits 16 i \<and> (a = ONone \<or> skips (write_val bin_protocol s a) (ttype_of s))"
    if z: "(a, i, nm, s) \<in> set (zip attrs fs)" for a i nm s
  proof -
    have "int_fits 16 i" "wf_spec s" "a = ONone \<or> fits s a"
      using 8(2,3) c z by (metis fields_fit)+
    then show ?thesis using 8(1) z c by auto
  qed
  then have "\<forall>(a, i, nm, s) \<in> set (zip attrs fs). int_fits 16 i \<and> (a = ONone \<or> skips (write_val bin_protocol s a) (ttype_of s))"
    by blast
  then obtain bs where bs: "writes (io_then (io_for (zip attrs fs) (write_field bin_protocol)) (put_op bin_protocol WFieldStop)) bs"
    "\<And>n rest. length bs \<le> n \<Longrightarrow> bin_skip_fields n (bs @ rest) = (Inr (), rest)"
    using skips_fields by blast
  have e: "writes (put_op bin_protocol (WStructBegin n)) []" "writes (put_op bin_protocol (WMark StructEnd)) []"
    by (rule bin_put, simp)+
  from writes_then [OF e(1) writes_then [OF bs(1) e(2)]]
  have "writes (write_val bin_protocol (SStruct c) (OObj d attrs)) bs" unfolding c d write_obj by simp
  moreover have "bin_skip k (ttype_of (SStruct c)) (bs @ rest) = (Inr (), rest)" if "length bs < k" for k rest
    using that bs(2) by (cases k) auto
  ultimately show ?case unfolding skips_def by blast
qed (simp_all add: skips_value)

section \<open>The laws\<close>

lemma bin_write_ok: "op_fits op \<Longrightarrow> \<exists>bs. bin_write op = Inr bs"
proof (cases op)
  case (WMessageBegin n t i)
  then show "op_fits op \<Longrightarrow> ?thesis" using pack_str_ok [of n] code_fits(2) [of t] by (auto simp: pack_int_ok)
next
  case (WException i m)
  then show "op_fits op \<Longrightarrow> ?thesis" using pack_str_ok [of m] by (auto simp: pack_int_ok)
next
  case (WValue t v)
  assume "op_fits op"
  then have "basic_fits t v" using WValue by simp
  then show ?thesis using WValue pack_str_ok by (cases rule: basic_cases) (auto simp: pack_int_ok)
qed (use code_fits(1) in \<open>auto simp: pack_int_ok int_fits_def\<close>)

lemmas bin_reads = io_simps read_pack_int read_pack_str read_ttype read_mtype res_bind_Inr_iff

lemma bin_read_message: "bin_write (WMessageBegin n mt i) = Inr bs \<Longrightarrow> bin_message (bs @ rest) = (Inr (n, mt, i), rest)"
  by (auto simp: bin_message_def bin_reads)

lemma bin_read_field: "t \<noteq> T_STOP \<Longrightarrow> bin_write (WFieldBegin n t i) = Inr bs \<Longrightarrow> bin_field (bs @ rest) = (Inr (t, i), rest)"
  by (auto simp: bin_field_def bin_reads)

lemma bin_read_stop: "bin_write WFieldStop = Inr bs \<Longrightarrow> bin_field (bs @ rest) = (Inr (T_STOP, 0), rest)"
  using read_ttype [of T_STOP bs rest] by (simp add: bin_field_def io_simps)

lemma bin_read_list: "bin_write (WListBegin t k) = Inr bs \<Longrightarrow> bin_list (bs @ rest) = (Inr (t, int k), rest)"
  by (auto simp: bin_list_def bin_reads)

lemma bin_read_val:
  assumes "basic_fits t v" "bin_write (WValue t v) = Inr bs"
  shows "bin_read_value t (bs @ rest) = (Inr v, rest)"
  using assms(1) by (cases rule: basic_cases) (use assms(2) in \<open>auto simp: bin_reads\<close>)

lemma bin_skip_val:
  assumes "wf_spec s" "fits s v" "writes (write_val bin_protocol s v) bs"
  shows "bin_skip (Suc (length (bs @ rest))) (ttype_of s) (bs @ rest) = (Inr (), rest)"
proof -
  obtain as where as: "writes (write_val bin_protocol s v) as"
    "\<And>n rest. length as < n \<Longrightarrow> bin_skip n (ttype_of s) (as @ rest) = (Inr (), rest)"
    using skips_val [OF assms(1,2)] unfolding skips_def by blast
  show ?thesis using as(2) writes_unique [OF assms(3) as(1)] by (simp del: bin_skip.simps)
qed

lemma bin_read_marks:
  "bin_write (WMark mk) = Inr bs \<Longrightarrow> io_ret () (bs @ rest) = (Inr (), rest)"
  "bin_write (WStructBegin n) = Inr bs \<Longrightarrow> io_ret () (bs @ rest) = (Inr (), rest)"
  "io_ret () buf = (Inr (), rest) \<Longrightarrow> length rest \<le> length buf" "io_ret () buf \<noteq> (Inl e, rest)"
  by (auto simp: io_simps)

lemma bin_read_exception:
  "bin_write (WException i m) = Inr bs \<Longrightarrow>
   io_bind bin_string (\<lambda>m. io_bind (bin_int 4) (\<lambda>i. io_ret (i, m))) (bs @ rest) = (Inr (i, m), rest)"
  by (auto simp: bin_reads)

lemma bin_at_end: "bin_message [] = (Inl TransportError, [])"
  by (simp add: bin_message_def bin_mtype_def bin_int_def bin_take_def io_simps)

lemma bin_overflow:
  "(t, b) \<in> {(T_BYTE, 8), (T_I16, 16), (T_I32, 32), (T_I64, 64)} \<Longrightarrow> \<not> int_fits b i \<Longrightarrow>
   bin_write (WValue t (OInt i)) = Inl StructError"
  by (auto simp: pack_int_def)

lemma safe_atD:
  assumes "safe_at m buf"
  shows "m buf = (Inr x, rest) \<Longrightarrow> length rest \<le> length buf" "m buf \<noteq> (Inl OutOfFuel, rest)"
  using assms by (auto simp: safe_at_def split: prod.splits sum.splits)

lemma bin_protocol_simps [simp]:
  "p_write bin_protocol = bin_write" "p_readMessageBegin bin_protocol = bin_message"
  "p_readFieldBegin bin_protocol = bin_field" "p_readListBegin bin_protocol = bin_list"
  "p_readMark bin_protocol mk = io_ret ()" "p_readValue bin_protocol = bin_read_value"
  "p_skip bin_protocol t buf = bin_skip (Suc (length buf)) t buf"
  "p_readException bin_protocol = io_bind bin_string (\<lambda>m. io_bind (bin_int 4) (\<lambda>i. io_ret (i, m)))"
  by (simp_all add: bin_protocol_def)

interpretation bin: thrift_protocol bin_protocol
  by unfold_locales
     (erule bin_write_ok [folded bin_protocol_simps] |
      simp_all only: bin_protocol_simps bin_read_message bin_read_field bin_read_list bin_read_val bin_skip_val
        bin_read_marks bin_read_exception bin_at_end bin_overflow bin_field_progress bin_read_stop
        not_False_eq_True simp_thms
        safe_atD [OF safe_bin_int(4)] safe_atD [OF safe_bin_value] safe_atD [OF safe_bin_skip(1)]
        safe_atD [OF safe_bin_field] | blast)+

section \<open>Examples\<close>

definition pair_class :: tclass where
  "pair_class = TClass ''pair'' [(1, ''x'', SI32), (2, ''name'', SString)]"

definition newer_class :: tclass where
  "newer_class = TClass ''pair'' [(1, ''x'', SI32), (2, ''name'', SI64), (3, ''extra'', SList SI16)]"

theorem read_write_roundtrip_witness:
  "\<exists>bs. (\<forall>buf. write_val bin_protocol (SStruct pair_class) (OObj pair_class [OInt (- 7), OStr ''ab'']) buf = (Inr (), buf @ bs)) \<and>
     (\<forall>rest. read_val bin_protocol (SStruct pair_class) (bs @ rest) = (Inr (OObj pair_class [OInt (- 7), OStr ''ab'']), rest))"
  by (rule read_write_roundtrip [OF bin.thrift_protocol_axioms]) (simp_all add: pair_class_def int_fits_def len_fits_def)

theorem read_other_version_witness:
  "\<exists>bs. (\<forall>buf. write_val bin_protocol (SStruct newer_class) (OObj newer_class [OInt 5, OInt 9, OList [OInt 1]]) buf = (Inr (), buf @ bs)) \<and>
     (\<forall>rest. read_val bin_protocol (SStruct pair_class) (bs @ rest) = (Inr (OObj pair_class [OInt 5, ONone]), rest))"
  using read_other_version [OF bin.thrift_protocol_axioms, of "''pair''" "cls_fields newer_class" "[OInt 5, OInt 9, OList [OInt 1]]"
      "cls_fields pair_class" "''pair''"]
  by (simp add: pair_class_def newer_class_def int_fits_def len_fits_def compatible_def take_field_def
      del: read_val.simps write_val.simps)

theorem read_val_ends_witness:
  "\<exists>r rest. read_val bin_protocol (SStruct pair_class) ''garbage'' = (r, rest) \<and> r \<noteq> Inl OutOfFuel \<and>
     (isl r \<or> length rest \<le> length ''garbage'')"
  by (rule read_val_ends [OF bin.thrift_protocol_axioms])

end
