(* ===== verification/Thrift_Rpc.thy ===== *)
theory Thrift_Rpc
  imports Thrift_Binary
begin

text \<open>
  Remote procedure calls with the classes \<open>Client\<close> and \<open>Processor\<close> that the Thrift compiler
  generates for a service (\<^verbatim>\<open>sswitch_runtime/SimpleSwitch.py\<close> and
  \<^verbatim>\<open>switch_sai/switch_sai_rpc.py\<close>). Every method of the service has the same code up to its name
  and its two classes: a method is a value of \<open>rpc_method\<close>. Both ends have a buffered transport; a
  call that is not followed by a reply, because the handler raised, ends with the server closing the
  connection.
\<close>

section \<open>Definitions\<close>

record rpc_method =
  m_name :: string
  m_args :: tclass
  m_result :: tclass

record 'b conn =
  wbuf :: "'b list"
  sent :: "'b list"
  rbuf :: "'b list"

definition on_wbuf :: "('b list, 'a) io \<Rightarrow> ('b conn, 'a) io" where
  "on_wbuf m = (\<lambda>c. case m (wbuf c) of (r, b) \<Rightarrow> (r, c\<lparr>wbuf := b\<rparr>))"

definition on_rbuf :: "('b list, 'a) io \<Rightarrow> ('b conn, 'a) io" where
  "on_rbuf m = (\<lambda>c. case m (rbuf c) of (r, b) \<Rightarrow> (r, c\<lparr>rbuf := b\<rparr>))"

definition flush :: "('b conn, unit) io" where
  "flush = io_modify (\<lambda>c. c\<lparr>sent := sent c @ wbuf c, wbuf := []\<rparr>)"

text \<open>\<open>send_x(self, ...)\<close>, with \<open>self._seqid\<close> always 0\<close>

definition client_send :: "'b protocol \<Rightarrow> rpc_method \<Rightarrow> pyobj list \<Rightarrow> ('b conn, unit) io" where
  "client_send pr m args =
     io_then (on_wbuf (put_op pr (WMessageBegin (m_name m) CALL 0))) (
     io_then (on_wbuf (write_val pr (SStruct (m_args m)) (OObj (m_args m) args))) (
     io_then (on_wbuf (put_op pr (WMark MessageEnd))) flush))"

text \<open>The attribute \<open>success\<close> of a result, which has no other.\<close>

fun success_of :: "pyobj \<Rightarrow> pyobj" where
  "success_of (OObj c (v # vs)) = v"
| "success_of _ = ONone"

fun attributes :: "pyobj \<Rightarrow> pyobj list" where
  "attributes (OObj c vs) = vs"
| "attributes _ = []"

text \<open>\<open>recv_x(self)\<close>\<close>

definition client_recv :: "'b protocol \<Rightarrow> rpc_method \<Rightarrow> ('b conn, pyobj) io" where
  "client_recv pr m =
     io_bind (on_rbuf (p_readMessageBegin pr)) (\<lambda>(fname, mtype, rseqid).
     if mtype = EXCEPTION then
       io_bind (on_rbuf (p_readException pr)) (\<lambda>(code, msg).
       io_then (on_rbuf (p_readMark pr MessageEnd)) (
       io_raise (TApplicationException code msg)))
     else
       io_bind (on_rbuf (read_val pr (SStruct (m_result m)))) (\<lambda>result.
       io_then (on_rbuf (p_readMark pr MessageEnd)) (
       if success_of result \<noteq> ONone then io_ret (success_of result)
       else io_raise (TApplicationException 5 (m_name m @ '' failed: unknown result'')))))"

text \<open>The server: its end of the connection and the state of the handler.\<close>

definition srv :: "('b conn, 'a) io \<Rightarrow> ('b conn \<times> 's, 'a) io" where
  "srv m = (\<lambda>(c, s). case m c of (r, c') \<Rightarrow> (r, (c', s)))"

definition hdl :: "('s, 'a) io \<Rightarrow> ('b conn \<times> 's, 'a) io" where
  "hdl m = (\<lambda>(c, s). case m s of (r, s') \<Rightarrow> (r, (c, s')))"

type_synonym 's handlers = "string \<Rightarrow> pyobj list \<Rightarrow> ('s, pyobj) io"

text \<open>\<open>process_x(self, seqid, iprot, oprot)\<close>: an exception of the handler goes through.\<close>

definition process_method :: "'b protocol \<Rightarrow> 's handlers \<Rightarrow> rpc_method \<Rightarrow> int \<Rightarrow> ('b conn \<times> 's, unit) io" where
  "process_method pr h m seqid =
     io_bind (srv (on_rbuf (read_val pr (SStruct (m_args m))))) (\<lambda>args.
     io_then (srv (on_rbuf (p_readMark pr MessageEnd))) (
     io_bind (hdl (h (m_name m) (attributes args))) (\<lambda>success.
     io_then (srv (on_wbuf (put_op pr (WMessageBegin (m_name m) REPLY seqid)))) (
     io_then (srv (on_wbuf (write_val pr (SStruct (m_result m)) (OObj (m_result m) [success])))) (
     io_then (srv (on_wbuf (put_op pr (WMark MessageEnd)))) (
     srv flush))))))"

text \<open>\<open>process(self, iprot, oprot)\<close>; the result tells whether the method was known.\<close>

definition process :: "'b protocol \<Rightarrow> rpc_method list \<Rightarrow> 's handlers \<Rightarrow> ('b conn \<times> 's, bool) io" where
  "process pr ms h =
     io_bind (srv (on_rbuf (p_readMessageBegin pr))) (\<lambda>(name, mtype, seqid).
     case find (\<lambda>m. m_name m = name) ms of
       None \<Rightarrow>
         io_then (srv (on_rbuf (p_skip pr T_STRUCT))) (
         io_then (srv (on_rbuf (p_readMark pr MessageEnd))) (
         io_then (srv (on_wbuf (put_op pr (WMessageBegin name EXCEPTION seqid)))) (
         io_then (srv (on_wbuf (put_op pr (WException 1 (''Unknown function '' @ name))))) (
         io_then (srv (on_wbuf (put_op pr (WMark MessageEnd)))) (
         io_then (srv flush) (
         io_ret False))))))
     | Some m \<Rightarrow> io_then (process_method pr h m seqid) (io_ret True))"

text \<open>A connection between a client and a server; a call sends the request, lets the server process
  what has arrived, and receives. The server closes the connection when \<open>process\<close> raises.\<close>

record 'b link =
  l_client :: "'b conn"
  l_server :: "'b conn"
  l_open :: bool

definition rpc_call :: "'b protocol \<Rightarrow> rpc_method list \<Rightarrow> 's handlers \<Rightarrow> rpc_method \<Rightarrow> pyobj list \<Rightarrow> ('b link \<times> 's, pyobj) io" where
  "rpc_call pr ms h m args = (\<lambda>(l, s).
     if \<not> l_open l then (Inl TransportError, (l, s))
     else case client_send pr m args (l_client l) of
       (Inl e, c) \<Rightarrow> (Inl e, (l\<lparr>l_client := c\<rparr>, s))
     | (Inr _, c) \<Rightarrow>
         (case process pr ms h ((l_server l)\<lparr>rbuf := rbuf (l_server l) @ sent c\<rparr>, s) of
            (r, (sv, s')) \<Rightarrow>
              (case client_recv pr m (c\<lparr>sent := [], rbuf := rbuf c @ sent sv\<rparr>) of
                 (r', c') \<Rightarrow> (r', (\<lparr>l_client = c', l_server = sv\<lparr>sent := []\<rparr>, l_open = \<not> isl r\<rparr>, s')))))"

definition fresh_link :: "'b link" where
  "fresh_link = \<lparr>l_client = \<lparr>wbuf = [], sent = [], rbuf = []\<rparr>, l_server = \<lparr>wbuf = [], sent = [], rbuf = []\<rparr>, l_open = True\<rparr>"

text \<open>The type of \<open>success\<close>, and the methods the compiler generates.\<close>

definition result_spec :: "rpc_method \<Rightarrow> tspec option" where
  "result_spec m = (case cls_fields (m_result m) of [(i, nm, s)] \<Rightarrow> if i = 0 then Some s else None | _ \<Rightarrow> None)"

definition wf_method :: "rpc_method \<Rightarrow> bool" where
  "wf_method m \<longleftrightarrow> wf_spec (SStruct (m_args m)) \<and> wf_spec (SStruct (m_result m)) \<and> result_spec m \<noteq> None \<and>
     length (m_name m) \<le> 200"

fun int_width :: "tspec \<Rightarrow> nat option" where
  "int_width SByte = Some 8"
| "int_width SI16 = Some 16"
| "int_width SI32 = Some 32"
| "int_width SI64 = Some 64"
| "int_width _ = None"

section \<open>A call is what the handler does\<close>

lemma on_buf_apply [io_simps]:
  "on_wbuf m c = (fst (m (wbuf c)), c\<lparr>wbuf := snd (m (wbuf c))\<rparr>)"
  "on_rbuf m' c = (fst (m' (rbuf c)), c\<lparr>rbuf := snd (m' (rbuf c))\<rparr>)"
  "srv f (c, s) = (fst (f c), (snd (f c), s))"
  "hdl g (c, s) = (fst (g s), (c, snd (g s)))"
  by (simp_all add: on_wbuf_def on_rbuf_def srv_def hdl_def split: prod.split)

lemma find_method:
  "m \<in> set ms \<Longrightarrow> distinct (map m_name ms) \<Longrightarrow> find (\<lambda>k. m_name k = m_name m) ms = Some m"
  by (induction ms) (auto simp: image_iff)

lemma name_fits:
  "wf_method m \<Longrightarrow> len_fits (m_name m)"
  "wf_method m \<Longrightarrow> len_fits (''Unknown function '' @ m_name m)"
  by (simp_all add: wf_method_def len_fits_def int_fits_def)

context thrift_protocol
begin

lemma request_bytes:
  assumes "wf_method m" "fits (SStruct (m_args m)) (OObj (m_args m) args)"
  shows "\<exists>xs ys zs.
    client_send pr m args c = (Inr (), c\<lparr>wbuf := [], sent := sent c @ wbuf c @ xs @ ys @ zs\<rparr>) \<and>
    (\<forall>rest. p_readMessageBegin pr (xs @ rest) = (Inr (m_name m, CALL, 0), rest)) \<and>
    (\<forall>rest. read_val pr (SStruct (m_args m)) (ys @ rest) = (Inr (OObj (m_args m) args), rest)) \<and>
    (\<forall>rest. p_skip pr T_STRUCT (ys @ rest) = (Inr (), rest)) \<and>
    (\<forall>rest. p_readMark pr MessageEnd (zs @ rest) = (Inr (), rest))"
proof -
  have wf: "wf_spec (SStruct (m_args m))" using assms(1) by (simp add: wf_method_def)
  obtain xs where xs: "writes (put_op pr (WMessageBegin (m_name m) CALL 0)) xs"
    "\<And>rest. p_readMessageBegin pr (xs @ rest) = (Inr (m_name m, CALL, 0), rest)"
    using carries_message [OF name_fits(1) [OF assms(1)], of 0 CALL] unfolding carries_def int_fits_def by auto
  obtain ys where ys: "writes (write_val pr (SStruct (m_args m)) (OObj (m_args m) args)) ys"
    "\<And>rest. read_val pr (SStruct (m_args m)) (ys @ rest) = (Inr (OObj (m_args m) args), rest)"
    using carries_val [OF wf assms(2)] unfolding carries_def by blast
  obtain zs where zs: "writes (put_op pr (WMark MessageEnd)) zs" "\<And>rest. p_readMark pr MessageEnd (zs @ rest) = (Inr (), rest)"
    using carries_mark [of MessageEnd] unfolding carries_def by blast
  have "p_skip pr T_STRUCT (ys @ rest) = (Inr (), rest)" for rest
    using skip_value [OF wf assms(2) ys(1)] by simp
  moreover have "client_send pr m args c = (Inr (), c\<lparr>wbuf := [], sent := sent c @ wbuf c @ xs @ ys @ zs\<rparr>)"
    using xs(1) ys(1) zs(1) by (simp add: client_send_def flush_def writes_def io_simps)
  ultimately show ?thesis using xs(2) ys(2) zs(2) by blast
qed

lemma result_fits:
  assumes "wf_method m" "result_spec m = Some rs" "v = ONone \<or> fits rs v"
  shows "fits (SStruct (m_result m)) (OObj (m_result m) [v])"
  using assms(2,3)
  by (auto simp: result_spec_def split: list.splits prod.splits if_splits)

lemma reply_bytes:
  assumes "wf_method m" "result_spec m = Some rs" "v = ONone \<or> fits rs v"
  shows "\<exists>xs ys zs.
    writes (put_op pr (WMessageBegin (m_name m) REPLY 0)) xs \<and>
    writes (write_val pr (SStruct (m_result m)) (OObj (m_result m) [v])) ys \<and>
    writes (put_op pr (WMark MessageEnd)) zs \<and>
    (\<forall>c. rbuf c = xs @ ys @ zs \<longrightarrow> client_recv pr m c =
      ((if v = ONone then Inl (TApplicationException 5 (m_name m @ '' failed: unknown result'')) else Inr v), c\<lparr>rbuf := []\<rparr>))"
proof -
  have wf: "wf_spec (SStruct (m_result m))" using assms(1) by (simp add: wf_method_def)
  obtain xs where xs: "writes (put_op pr (WMessageBegin (m_name m) REPLY 0)) xs"
    "\<And>rest. p_readMessageBegin pr (xs @ rest) = (Inr (m_name m, REPLY, 0), rest)"
    using carries_message [OF name_fits(1) [OF assms(1)], of 0 REPLY] unfolding carries_def int_fits_def by auto
  obtain ys where ys: "writes (write_val pr (SStruct (m_result m)) (OObj (m_result m) [v])) ys"
    "\<And>rest. read_val pr (SStruct (m_result m)) (ys @ rest) = (Inr (OObj (m_result m) [v]), rest)"
    using carries_val [OF wf result_fits [OF assms]] unfolding carries_def by blast
  obtain zs where zs: "writes (put_op pr (WMark MessageEnd)) zs" "\<And>rest. p_readMark pr MessageEnd (zs @ rest) = (Inr (), rest)"
    using carries_mark [of MessageEnd] unfolding carries_def by blast
  have "client_recv pr m c =
      ((if v = ONone then Inl (TApplicationException 5 (m_name m @ '' failed: unknown result'')) else Inr v), c\<lparr>rbuf := []\<rparr>)"
    if "rbuf c = xs @ ys @ zs" for c
    using that xs(2) ys(2) zs(2) [of "[]"] by (simp add: client_recv_def io_simps)
  then show ?thesis using xs(1) ys(1) zs(1) by blast
qed

lemma call_known:
  assumes "wf_method m" "m \<in> set ms" "distinct (map m_name ms)"
    "fits (SStruct (m_args m)) (OObj (m_args m) args)" "h (m_name m) args s = (r, s')"
    "\<And>v. r = Inr v \<Longrightarrow> v = ONone \<or> fits (the (result_spec m)) v"
  shows "rpc_call pr ms h m args (fresh_link, s) = (case r of
      Inl e \<Rightarrow> (Inl TransportError, (fresh_link\<lparr>l_open := False\<rparr>, s'))
    | Inr v \<Rightarrow> (if v = ONone then Inl (TApplicationException 5 (m_name m @ '' failed: unknown result'')) else Inr v,
        (fresh_link, s')))"
proof -
  let ?c = "\<lparr>wbuf = [], sent = [], rbuf = []\<rparr> :: 'b conn"
  obtain xs ys zs where req: "client_send pr m args ?c = (Inr (), ?c\<lparr>sent := xs @ ys @ zs\<rparr>)"
    "\<And>rest. p_readMessageBegin pr (xs @ rest) = (Inr (m_name m, CALL, 0), rest)"
    "\<And>rest. read_val pr (SStruct (m_args m)) (ys @ rest) = (Inr (OObj (m_args m) args), rest)"
    "\<And>rest. p_readMark pr MessageEnd (zs @ rest) = (Inr (), rest)"
    using request_bytes [OF assms(1,4), of ?c] by auto
  note srv = process_def process_method_def io_simps find_method [OF assms(2,3)] assms(5) flush_def
  show ?thesis
  proof (cases r)
    case (Inl e)
    have "process pr ms h (?c\<lparr>rbuf := xs @ ys @ zs\<rparr>, s) = (Inl e, (?c, s'))"
      using req(2,3) req(4) [of "[]"] Inl by (simp add: srv)
    then show ?thesis
      using req(1) Inl at_end by (simp add: rpc_call_def fresh_link_def client_recv_def io_simps)
  next
    case (Inr v)
    obtain rs where rs: "result_spec m = Some rs" using assms(1) by (auto simp: wf_method_def)
    then have v: "v = ONone \<or> fits rs v" using assms(6) Inr by simp
    obtain as bs cs where rep: "writes (put_op pr (WMessageBegin (m_name m) REPLY 0)) as"
      "writes (write_val pr (SStruct (m_result m)) (OObj (m_result m) [v])) bs"
      "writes (put_op pr (WMark MessageEnd)) cs"
      "\<And>c. rbuf c = as @ bs @ cs \<Longrightarrow> client_recv pr m c =
        ((if v = ONone then Inl (TApplicationException 5 (m_name m @ '' failed: unknown result'')) else Inr v), c\<lparr>rbuf := []\<rparr>)"
      using reply_bytes [OF assms(1) rs v] by blast
    have "process pr ms h (?c\<lparr>rbuf := xs @ ys @ zs\<rparr>, s) = (Inr True, (?c\<lparr>sent := as @ bs @ cs\<rparr>, s'))"
      using req(2,3) req(4) [of "[]"] rep(1-3) Inr by (simp add: srv writes_def)
    then show ?thesis using req(1) rep(4) Inr by (simp add: rpc_call_def fresh_link_def)
  qed
qed

lemma call_unknown:
  assumes "wf_method m" "m_name m \<notin> m_name ` set ms" "fits (SStruct (m_args m)) (OObj (m_args m) args)"
  shows "rpc_call pr ms h m args (fresh_link, s) =
    (Inl (TApplicationException 1 (''Unknown function '' @ m_name m)), (fresh_link, s))"
proof -
  let ?c = "\<lparr>wbuf = [], sent = [], rbuf = []\<rparr> :: 'b conn"
  obtain xs ys zs where req: "client_send pr m args ?c = (Inr (), ?c\<lparr>sent := xs @ ys @ zs\<rparr>)"
    "\<And>rest. p_readMessageBegin pr (xs @ rest) = (Inr (m_name m, CALL, 0), rest)"
    "\<And>rest. p_skip pr T_STRUCT (ys @ rest) = (Inr (), rest)"
    "\<And>rest. p_readMark pr MessageEnd (zs @ rest) = (Inr (), rest)"
    using request_bytes [OF assms(1,3), of ?c] by auto
  have find: "find (\<lambda>k. m_name k = m_name m) ms = None" using assms(2) by (metis (mono_tags, lifting) find_None_iff imageI)
  obtain as where as: "writes (put_op pr (WMessageBegin (m_name m) EXCEPTION 0)) as"
    "\<And>rest. p_readMessageBegin pr (as @ rest) = (Inr (m_name m, EXCEPTION, 0), rest)"
    using carries_message [OF name_fits(1) [OF assms(1)], of 0 EXCEPTION] unfolding carries_def int_fits_def by auto
  obtain bs where bs: "writes (put_op pr (WException 1 (''Unknown function '' @ m_name m))) bs"
    "\<And>rest. p_readException pr (bs @ rest) = (Inr (1, ''Unknown function '' @ m_name m), rest)"
    using carries_exception [OF _ name_fits(2) [OF assms(1)], of 1] unfolding carries_def int_fits_def by auto
  obtain cs where cs: "writes (put_op pr (WMark MessageEnd)) cs" "\<And>rest. p_readMark pr MessageEnd (cs @ rest) = (Inr (), rest)"
    using carries_mark [of MessageEnd] unfolding carries_def by blast
  have "process pr ms h (?c\<lparr>rbuf := xs @ ys @ zs\<rparr>, s) = (Inr False, (?c\<lparr>sent := as @ bs @ cs\<rparr>, s))"
    using req(2,3) req(4) [of "[]"] as(1) bs(1) cs(1) find
    by (simp add: process_def io_simps flush_def writes_def)
  then show ?thesis
    using req(1) as(2) bs(2) cs(2) [of "[]"] by (simp add: rpc_call_def fresh_link_def client_recv_def io_simps)
qed

text \<open>An integer that its type has no room for stops the request.\<close>

lemma overflow_fields:
  assumes "\<forall>(a, i, nm, s) \<in> set zs. int_fits 16 i \<and> (\<exists>b v. int_width s = Some b \<and> a = OInt v)"
    "\<exists>(a, i, nm, s) \<in> set zs. \<not> fits s a"
  shows "\<exists>buf'. io_for zs (write_field pr) buf = (Inl StructError, buf')"
  using assms
proof (induction zs arbitrary: buf)
  case (Cons z zs)
  obtain v i nm s b where z: "z = (OInt v, i, nm, s)" "int_fits 16 i" "int_width s = Some b"
    using Cons.prems(1) by (cases z) auto
  have w: "write_val pr s (OInt v) = put_op pr (WValue (ttype_of s) (OInt v))"
    "(ttype_of s, b) \<in> {(T_BYTE, 8), (T_I16, 16), (T_I32, 32), (T_I64, 64)}" "fits s (OInt v) = int_fits b v"
    using z(3) by (cases s; simp)+
  obtain xs where xs: "writes (put_op pr (WFieldBegin nm (ttype_of s) i)) xs"
    using field_bytes [OF ttype_of_not_stop z(2)] by metis
  show ?case
  proof (cases "int_fits b v")
    case True
    then have "basic_fits (ttype_of s) (OInt v)" using w(3) z(3) by (cases s) auto
    then obtain ys where ys: "writes (put_op pr (WValue (ttype_of s) (OInt v))) ys"
      using write_ok [of "WValue (ttype_of s) (OInt v)"] writes_put by fastforce
    obtain us where us: "writes (put_op pr (WMark FieldEnd)) us"
      using write_ok [of "WMark FieldEnd"] writes_put by fastforce
    have "\<exists>buf'. io_for zs (write_field pr) (buf @ xs @ ys @ us) = (Inl StructError, buf')"
      using Cons.prems True w(3) z(1) by (intro Cons.IH) auto
    then show ?thesis using xs ys us z(1) w(1) by (simp add: write_field_def io_simps writes_def)
  next
    case False
    then have "p_write pr (WValue (ttype_of s) (OInt v)) = Inl StructError" using int_overflow [OF w(2)] by blast
    then show ?thesis using xs z(1) w(1) by (simp add: write_field_def io_simps writes_def put_op_def)
  qed
qed simp

lemma overflow_send:
  assumes "wf_method m" "length args = length (cls_fields (m_args m))"
    "\<forall>(i, nm, s) \<in> set (cls_fields (m_args m)). int_width s \<noteq> None" "\<forall>a \<in> set args. \<exists>v. a = OInt v"
    "\<not> fits (SStruct (m_args m)) (OObj (m_args m) args)"
  shows "\<exists>c'. client_send pr m args c = (Inl StructError, c')"
proof -
  obtain n fs where cls: "m_args m = TClass n fs" by (cases "m_args m")
  have "\<forall>(a, i, nm, s) \<in> set (zip args fs). int_fits 16 i \<and> (\<exists>b v. int_width s = Some b \<and> a = OInt v)"
    using assms(1,3,4) cls by (force simp: wf_method_def list_all_iff dest: set_zip_leftD set_zip_rightD)
  moreover have "\<exists>(a, i, nm, s) \<in> set (zip args fs). \<not> fits s a" using assms(2,5) cls by auto
  ultimately have ov: "\<exists>buf'. io_for (zip args fs) (write_field pr) buf = (Inl StructError, buf')" for buf
    by (rule overflow_fields)
  obtain xs where xs: "writes (put_op pr (WMessageBegin (m_name m) CALL 0)) xs"
    using carries_message [OF name_fits(1) [OF assms(1)], of 0 CALL] unfolding carries_def int_fits_def by auto
  obtain ys where ys: "writes (put_op pr (WStructBegin n)) ys"
    using carries_struct [of n] unfolding carries_def by blast
  obtain buf' where "io_for (zip args fs) (write_field pr) (wbuf c @ xs @ ys) = (Inl StructError, buf')" using ov by blast
  then show ?thesis
    using xs ys unfolding client_send_def cls write_obj by (simp add: io_simps writes_def)
qed

end

section \<open>Properties\<close>

text \<open>
  C10. Remote calls are transparent: over an idle connection, calling a method of the service with
  arguments that fit their types runs the handler of that method once, with these arguments, on the
  state of the server, and gives the client exactly the value the handler returned; the connection is
  idle again. If the handler returns \<open>None\<close> the client raises \<open>TApplicationException\<close>
  (\<open>MISSING_RESULT\<close>), and if it raises, the client only sees the connection closed.
\<close>

theorem rpc_call_transparent:
  assumes "thrift_protocol pr" and "wf_method m" and "m \<in> set ms" and "distinct (map m_name ms)"
    and "fits (SStruct (m_args m)) (OObj (m_args m) args)"
    and "h (m_name m) args s = (r, s')"
    and "\<And>v. r = Inr v \<Longrightarrow> v = ONone \<or> fits (the (result_spec m)) v"
  shows "rpc_call pr ms h m args (fresh_link, s) = (case r of
      Inl e \<Rightarrow> (Inl TransportError, (fresh_link\<lparr>l_open := False\<rparr>, s'))
    | Inr v \<Rightarrow> (if v = ONone then Inl (TApplicationException 5 (m_name m @ '' failed: unknown result'')) else Inr v,
        (fresh_link, s')))"
  by (rule thrift_protocol.call_known [where h = h, OF assms(1-6)]) (rule assms(7))

text \<open>
  C35. A method the server does not know is answered with \<open>TApplicationException\<close>
  (\<open>UNKNOWN_METHOD\<close>): its arguments, whatever their types, are skipped, no handler runs, and the
  connection can be used again.
\<close>

theorem rpc_call_unknown:
  assumes "thrift_protocol pr" and "wf_method m" and "m_name m \<notin> m_name ` set ms"
    and "fits (SStruct (m_args m)) (OObj (m_args m) args)"
  shows "rpc_call pr ms h m args (fresh_link, s) =
    (Inl (TApplicationException 1 (''Unknown function '' @ m_name m)), (fresh_link, s))"
  by (rule thrift_protocol.call_unknown [OF assms])


end
