(* ===== verification/Sswitch_Rpc.thy ===== *)
theory Sswitch_Rpc
  imports Sswitch_CLI Thrift_Rpc
begin

text \<open>
  The service \<open>SimpleSwitch\<close> (\<^verbatim>\<open>sswitch_runtime/SimpleSwitch.py\<close>) that the CLI of the SAI switch calls: the
  classes of its nine methods, and the client as the CLI uses it. With a handler behind it, the
  commands of \<open>Sswitch_CLI\<close>, which take the client as a parameter, become commands that act on the
  state of the switch.
\<close>

section \<open>Argument and result classes\<close>

definition mirroring_mapping_add_args :: tclass where
  "mirroring_mapping_add_args = TClass ''mirroring_mapping_add_args''
    [(1, ''mirror_id'', SI32), (2, ''egress_port'', SI32)]"

definition mirroring_mapping_add_result :: tclass where
  "mirroring_mapping_add_result = TClass ''mirroring_mapping_add_result'' [(0, ''success'', SI32)]"

definition mirroring_mapping_delete_args :: tclass where
  "mirroring_mapping_delete_args = TClass ''mirroring_mapping_delete_args'' [(1, ''mirror_id'', SI32)]"

definition mirroring_mapping_delete_result :: tclass where
  "mirroring_mapping_delete_result = TClass ''mirroring_mapping_delete_result'' [(0, ''success'', SI32)]"

definition mirroring_mapping_get_egress_port_args :: tclass where
  "mirroring_mapping_get_egress_port_args = TClass ''mirroring_mapping_get_egress_port_args''
    [(1, ''mirror_id'', SI32)]"

definition mirroring_mapping_get_egress_port_result :: tclass where
  "mirroring_mapping_get_egress_port_result = TClass ''mirroring_mapping_get_egress_port_result''
    [(0, ''success'', SI32)]"

definition set_egress_queue_depth_args :: tclass where
  "set_egress_queue_depth_args = TClass ''set_egress_queue_depth_args''
    [(1, ''port_num'', SI32), (2, ''depth_pkts'', SI32)]"

definition set_egress_queue_depth_result :: tclass where
  "set_egress_queue_depth_result = TClass ''set_egress_queue_depth_result'' [(0, ''success'', SI32)]"

definition set_all_egress_queue_depths_args :: tclass where
  "set_all_egress_queue_depths_args = TClass ''set_all_egress_queue_depths_args'' [(1, ''depth_pkts'', SI32)]"

definition set_all_egress_queue_depths_result :: tclass where
  "set_all_egress_queue_depths_result = TClass ''set_all_egress_queue_depths_result''
    [(0, ''success'', SI32)]"

definition set_egress_queue_rate_args :: tclass where
  "set_egress_queue_rate_args = TClass ''set_egress_queue_rate_args''
    [(1, ''port_num'', SI32), (2, ''rate_pps'', SI64)]"

definition set_egress_queue_rate_result :: tclass where
  "set_egress_queue_rate_result = TClass ''set_egress_queue_rate_result'' [(0, ''success'', SI32)]"

definition set_all_egress_queue_rates_args :: tclass where
  "set_all_egress_queue_rates_args = TClass ''set_all_egress_queue_rates_args'' [(1, ''rate_pps'', SI64)]"

definition set_all_egress_queue_rates_result :: tclass where
  "set_all_egress_queue_rates_result = TClass ''set_all_egress_queue_rates_result'' [(0, ''success'', SI32)]"

definition get_time_elapsed_us_args :: tclass where
  "get_time_elapsed_us_args = TClass ''get_time_elapsed_us_args'' []"

definition get_time_elapsed_us_result :: tclass where
  "get_time_elapsed_us_result = TClass ''get_time_elapsed_us_result'' [(0, ''success'', SI64)]"

definition get_time_since_epoch_us_args :: tclass where
  "get_time_since_epoch_us_args = TClass ''get_time_since_epoch_us_args'' []"

definition get_time_since_epoch_us_result :: tclass where
  "get_time_since_epoch_us_result = TClass ''get_time_since_epoch_us_result'' [(0, ''success'', SI64)]"

section \<open>Methods\<close>

definition mirroring_mapping_add_rpc :: rpc_method where
  "mirroring_mapping_add_rpc = \<lparr>m_name = ''mirroring_mapping_add'',
     m_args = mirroring_mapping_add_args, m_result = mirroring_mapping_add_result\<rparr>"

definition mirroring_mapping_delete_rpc :: rpc_method where
  "mirroring_mapping_delete_rpc = \<lparr>m_name = ''mirroring_mapping_delete'',
     m_args = mirroring_mapping_delete_args, m_result = mirroring_mapping_delete_result\<rparr>"

definition mirroring_mapping_get_egress_port_rpc :: rpc_method where
  "mirroring_mapping_get_egress_port_rpc = \<lparr>m_name = ''mirroring_mapping_get_egress_port'',
     m_args = mirroring_mapping_get_egress_port_args, m_result = mirroring_mapping_get_egress_port_result\<rparr>"

definition set_egress_queue_depth_rpc :: rpc_method where
  "set_egress_queue_depth_rpc = \<lparr>m_name = ''set_egress_queue_depth'',
     m_args = set_egress_queue_depth_args, m_result = set_egress_queue_depth_result\<rparr>"

definition set_all_egress_queue_depths_rpc :: rpc_method where
  "set_all_egress_queue_depths_rpc = \<lparr>m_name = ''set_all_egress_queue_depths'',
     m_args = set_all_egress_queue_depths_args, m_result = set_all_egress_queue_depths_result\<rparr>"

definition set_egress_queue_rate_rpc :: rpc_method where
  "set_egress_queue_rate_rpc = \<lparr>m_name = ''set_egress_queue_rate'',
     m_args = set_egress_queue_rate_args, m_result = set_egress_queue_rate_result\<rparr>"

definition set_all_egress_queue_rates_rpc :: rpc_method where
  "set_all_egress_queue_rates_rpc = \<lparr>m_name = ''set_all_egress_queue_rates'',
     m_args = set_all_egress_queue_rates_args, m_result = set_all_egress_queue_rates_result\<rparr>"

definition get_time_elapsed_us_rpc :: rpc_method where
  "get_time_elapsed_us_rpc = \<lparr>m_name = ''get_time_elapsed_us'',
     m_args = get_time_elapsed_us_args, m_result = get_time_elapsed_us_result\<rparr>"

definition get_time_since_epoch_us_rpc :: rpc_method where
  "get_time_since_epoch_us_rpc = \<lparr>m_name = ''get_time_since_epoch_us'',
     m_args = get_time_since_epoch_us_args, m_result = get_time_since_epoch_us_result\<rparr>"

definition simple_switch_methods :: "rpc_method list" where
  "simple_switch_methods =
    [mirroring_mapping_add_rpc, mirroring_mapping_delete_rpc, mirroring_mapping_get_egress_port_rpc,
     set_egress_queue_depth_rpc, set_all_egress_queue_depths_rpc, set_egress_queue_rate_rpc,
     set_all_egress_queue_rates_rpc, get_time_elapsed_us_rpc, get_time_since_epoch_us_rpc]"

lemmas simple_switch_defs = simple_switch_methods_def
  mirroring_mapping_add_rpc_def mirroring_mapping_delete_rpc_def mirroring_mapping_get_egress_port_rpc_def
  set_egress_queue_depth_rpc_def set_all_egress_queue_depths_rpc_def set_egress_queue_rate_rpc_def
  set_all_egress_queue_rates_rpc_def get_time_elapsed_us_rpc_def get_time_since_epoch_us_rpc_def
  mirroring_mapping_add_args_def mirroring_mapping_add_result_def mirroring_mapping_delete_args_def
  mirroring_mapping_delete_result_def mirroring_mapping_get_egress_port_args_def
  mirroring_mapping_get_egress_port_result_def set_egress_queue_depth_args_def
  set_egress_queue_depth_result_def set_all_egress_queue_depths_args_def
  set_all_egress_queue_depths_result_def set_egress_queue_rate_args_def set_egress_queue_rate_result_def
  set_all_egress_queue_rates_args_def set_all_egress_queue_rates_result_def get_time_elapsed_us_args_def
  get_time_elapsed_us_result_def get_time_since_epoch_us_args_def get_time_since_epoch_us_result_def

lemma wf_simple_switch_methods:
  "list_all wf_method simple_switch_methods" "distinct (map m_name simple_switch_methods)"
  by (simp_all add: simple_switch_defs wf_method_def int_fits_def result_spec_def)

section \<open>The client of the CLI\<close>

text \<open>\<open>self.sswitch_client\<close>: the commands pass integers, and every method returns one.\<close>

fun arg_obj :: "py_arg \<Rightarrow> pyobj" where
  "arg_obj (AInt i) = OInt i"
| "arg_obj (AStr s) = OStr s"
| "arg_obj _ = ONone"

fun result_val :: "pyobj \<Rightarrow> std_val res" where
  "result_val (OInt i) = Inr (VInt i)"
| "result_val _ = Inl TypeError"

definition remote_client :: "'b protocol \<Rightarrow> 's handlers \<Rightarrow> ('b link \<times> 's) sw_client" where
  "remote_client pt h call = (case call of Call name args \<Rightarrow>
     (case find (\<lambda>m. m_name m = name) simple_switch_methods of
        None \<Rightarrow> io_raise AttributeError
      | Some m \<Rightarrow> io_bind (rpc_call pt simple_switch_methods h m (map arg_obj args)) (\<lambda>v. io_lift (result_val v))))"

text \<open>An argument list fits a method.\<close>

definition ints_fit :: "rpc_method \<Rightarrow> int list \<Rightarrow> bool" where
  "ints_fit m is \<longleftrightarrow> fits (SStruct (m_args m)) (OObj (m_args m) (map OInt is))"

lemma remote_client_ok:
  assumes "thrift_protocol pt" "m \<in> set simple_switch_methods" "ints_fit m is"
    "h (m_name m) (map OInt is) s = (Inr (OInt v), s')" "fits (the (result_spec m)) (OInt v)"
  shows "remote_client pt h (Call (m_name m) (map AInt is)) (fresh_link, s) = (Inr (VInt v), (fresh_link, s'))"
proof -
  have "wf_method m" using assms(2) wf_simple_switch_methods(1) by (auto simp: list_all_iff)
  from thrift_protocol.call_known [OF assms(1) this assms(2) wf_simple_switch_methods(2), of "map OInt is" h s "Inr (OInt v)" s']
  have "rpc_call pt simple_switch_methods h m (map OInt is) (fresh_link, s) = (Inr (OInt v), (fresh_link, s'))"
    using assms(3-5) by (simp add: ints_fit_def)
  then show ?thesis
    using find_method [OF assms(2) wf_simple_switch_methods(2)]
    by (simp add: remote_client_def io_simps comp_def)
qed

lemma remote_client_overflow:
  assumes "thrift_protocol pt" "m \<in> set simple_switch_methods" "\<not> ints_fit m is"
    "length is = length (cls_fields (m_args m))"
  shows "\<exists>l'. remote_client pt h (Call (m_name m) (map AInt is)) (fresh_link, s) = (Inl StructError, (l', s))"
proof -
  have wf: "wf_method m" using assms(2) wf_simple_switch_methods(1) by (auto simp: list_all_iff)
  have "\<forall>(i, nm, s) \<in> set (cls_fields (m_args m)). int_width s \<noteq> None"
    using assms(2) by (auto simp: simple_switch_defs)
  then obtain c' where "client_send pt m (map OInt is) (l_client fresh_link) = (Inl StructError, c')"
    using thrift_protocol.overflow_send [OF assms(1) wf, of "map OInt is" "l_client fresh_link"] assms(3,4)
    by (auto simp: ints_fit_def)
  then show ?thesis
    using find_method [OF assms(2) wf_simple_switch_methods(2)]
    by (simp add: remote_client_def io_simps comp_def rpc_call_def fresh_link_def)
qed

text \<open>
  C37. The command \<open>set_queue_depth <depth> <port>\<close>, from the typed line to the switch and back: when both
  numbers have 32 bits, the handler of the switch runs once, on exactly that port and that depth, and
  the command ends normally with the connection idle; otherwise the command raises \<open>struct.error\<close> and
  the switch is not touched, although nothing in the command checks the numbers.
\<close>

theorem do_set_queue_depth_remote:
  assumes "thrift_protocol pt" and "py_split line = [show_int depth, show_int port]" and "switch w = (fresh_link, s)"
    and "h ''set_egress_queue_depth'' [OInt port, OInt depth] s = (Inr (OInt status), s')" and "int_fits 32 status"
  shows "if int_fits 32 port \<and> int_fits 32 depth
    then do_set_queue_depth (remote_client pt h) line w =
      (Inr (), w\<lparr>switch := (fresh_link, s'), events := events w @ [Sw (Call ''set_egress_queue_depth'' [AInt port, AInt depth])]\<rparr>)
    else fst (do_set_queue_depth (remote_client pt h) line w) = Inl StructError \<and>
      snd (switch (snd (do_set_queue_depth (remote_client pt h) line w))) = s"
proof -
  let ?m = set_egress_queue_depth_rpc
  have m: "?m \<in> set simple_switch_methods" "m_name ?m = ''set_egress_queue_depth''"
    "ints_fit ?m [port, depth] \<longleftrightarrow> int_fits 32 port \<and> int_fits 32 depth"
    "fits (the (result_spec ?m)) (OInt status)" "length (cls_fields (m_args ?m)) = 2"
    using assms(5) by (auto simp: simple_switch_defs ints_fit_def result_spec_def)
  have run: "do_set_queue_depth (remote_client pt h) line w =
      (case remote_client pt h (Call ''set_egress_queue_depth'' [AInt port, AInt depth]) (fresh_link, s) of
        (Inl e, st) \<Rightarrow> (Inl e, w\<lparr>switch := st, events := events w @ [Sw (Call ''set_egress_queue_depth'' [AInt port, AInt depth])]\<rparr>)
      | (Inr v, st) \<Rightarrow> (Inr (), w\<lparr>switch := st, events := events w @ [Sw (Call ''set_egress_queue_depth'' [AInt port, AInt depth])]\<rparr>))"
    using assms(2,3)
    by (simp add: do_set_queue_depth_def queue_command_def sw_void_def int_at_def py_nth_def io_simps Let_def
        split: prod.split sum.split)
  show ?thesis
    using remote_client_ok [OF assms(1) m(1), of "[port, depth]" h s status s'] assms(4) m
      remote_client_overflow [OF assms(1) m(1), of "[port, depth]" h s]
    by (auto simp: run)
qed

section \<open>Examples\<close>

text \<open>A switch that records the queue depths it is given, and has no clock.\<close>

fun depth_handlers :: "(int \<times> int) list handlers" where
  "depth_handlers name [OInt p, OInt d] = (\<lambda>s. (Inr (OInt 0), (p, d) # s))"
| "depth_handlers name args = (\<lambda>s. (Inl AttributeError, s))"

definition time_rpc :: rpc_method where
  "time_rpc = \<lparr>m_name = ''get_time'', m_args = set_egress_queue_rate_args, m_result = get_time_elapsed_us_result\<rparr>"

lemma time_rpc_wf: "wf_method time_rpc"
  by (simp add: time_rpc_def simple_switch_defs wf_method_def int_fits_def result_spec_def)

lemma depth_rpc_ok:
  "wf_method set_egress_queue_depth_rpc" "set_egress_queue_depth_rpc \<in> set simple_switch_methods"
  using wf_simple_switch_methods(1) by (simp_all add: simple_switch_methods_def)

theorem rpc_call_transparent_witness:
  "rpc_call bin_protocol simple_switch_methods depth_handlers set_egress_queue_depth_rpc [OInt 3, OInt 64] (fresh_link, []) =
   (Inr (OInt 0), (fresh_link, [(3, 64)]))"
  using rpc_call_transparent [OF bin.thrift_protocol_axioms depth_rpc_ok wf_simple_switch_methods(2),
      of "[OInt 3, OInt 64]" depth_handlers "[]" "Inr (OInt 0)" "[(3, 64)]"]
  by (simp add: simple_switch_defs int_fits_def result_spec_def)

theorem rpc_call_unknown_witness:
  "rpc_call bin_protocol simple_switch_methods depth_handlers time_rpc [OInt 1, ONone] (fresh_link, []) =
   (Inl (TApplicationException 1 ''Unknown function get_time''), (fresh_link, []))"
  using rpc_call_unknown [OF bin.thrift_protocol_axioms time_rpc_wf,
      of simple_switch_methods "[OInt 1, ONone]" depth_handlers "[]"]
  by (simp add: simple_switch_defs time_rpc_def int_fits_def)


definition queue_world :: "(char link \<times> (int \<times> int) list) world" where
  "queue_world = \<lparr>cfg = empty_config, switch = (fresh_link, []), events = []\<rparr>"

theorem do_set_queue_depth_remote_witness:
  "do_set_queue_depth (remote_client bin_protocol depth_handlers) (show_int 64 @ '' '' @ show_int 3) queue_world =
     (Inr (), queue_world\<lparr>switch := (fresh_link, [(3, 64)]), events := [Sw (Call ''set_egress_queue_depth'' [AInt 3, AInt 64])]\<rparr>)"
  using do_set_queue_depth_remote [OF bin.thrift_protocol_axioms, of "show_int 64 @ '' '' @ show_int 3" 64 3 queue_world "[]"
      depth_handlers 0 "[(3, 64)]"] py_split_join [of "[show_int 64, show_int 3]"]
  by (simp add: queue_world_def int_fits_def)

end
