(* ===== verification/Cli_Driver.thy ===== *)
theory Cli_Driver
  imports Cli_Shell
begin

text \<open>
  \<^verbatim>\<open>targets/P4-SAI/cli_driver.py\<close>: the client through which the SAI server programs the
  switch. It builds the text of a runtime CLI command and runs the command's method, so the entries
  pass through the CLI's parser.
\<close>

section \<open>Definitions\<close>

definition ConnectToThrift :: "'s api \<Rightarrow> bool \<Rightarrow> int \<Rightarrow> string option \<Rightarrow> ('s, 'z, string option list) cli" where
  "ConnectToThrift api transport_opens thrift_port json =
     io_bind (thrift_connect transport_opens thrift_port (get_thrift_services (api_pre_type api))) (\<lambda>clients.
     io_then (load_json_config api True json) (io_ret clients))"

definition add_cmd :: "string \<Rightarrow> string \<Rightarrow> string \<Rightarrow> string \<Rightarrow> string" where
  "add_cmd table_name action_name match_string value_string =
     table_name @ '' '' @ action_name @ '' '' @ match_string @ '' => '' @ value_string"

definition AddTable :: "'s api \<Rightarrow> string \<Rightarrow> string \<Rightarrow> string \<Rightarrow> string \<Rightarrow> ('s, 'z, unit) cli" where
  "AddTable api table_name action_name match_string value_string = (
     let cmd = add_cmd table_name action_name match_string value_string in
     io_then (pr [''table_add '' @ cmd]) (do_table_add api cmd))"

definition RemoveTableEntry :: "'s api \<Rightarrow> string \<Rightarrow> string \<Rightarrow> ('s, 'z, unit) cli" where
  "RemoveTableEntry api table_name match_string =
     do_table_delete_entry_from_key api (table_name @ '' '' @ match_string)"

text \<open>The constructor, whose defaults are port 9090 and \<^verbatim>\<open>sai.json\<close>, and the main program, which
  adds one entry. The clients are those of \<open>api\<close>.\<close>

definition SwitchThriftClient :: "'s api \<Rightarrow> bool \<Rightarrow> int \<Rightarrow> string option \<Rightarrow> ('s, 'z, unit) cli" where
  "SwitchThriftClient api transport_opens port json =
     io_bind (ConnectToThrift api transport_opens port json) (\<lambda>clients. io_ret ())"

definition driver_main :: "'s api \<Rightarrow> bool \<Rightarrow> ('s, 'z, unit) cli" where
  "driver_main api transport_opens =
     io_then (SwitchThriftClient api transport_opens 9090 (Some ''sai.json'')) (
     AddTable api ''table_ingress_lag'' ''action_set_lag_l2if'' ''0'' ''0 0 0'')"

section \<open>The driver keeps the contract\<close>

lemma issues_driver:
  "issues c (call_ok c) (AddTable api t a m v)"
  "issues c (call_ok c) (RemoveTableEntry api t m)"
  unfolding AddTable_def RemoveTableEntry_def Let_def
  by (intro issues_then issues_atoms issues_table_commands issues_from_key_commands)+

text \<open>The words of a command are those of its parts: the driver's strings go through the CLI's
  tokeniser unharmed when table and action names are single words.\<close>

lemma py_split_add_cmd:
  assumes "no_space t" "t \<noteq> []" "no_space a" "a \<noteq> []"
  shows "py_split (add_cmd t a m v) = [t, a] @ py_split m @ ''=>'' # py_split v"
proof -
  have arrow: "py_split ''=>'' = [''=>'']" by (simp add: no_space_def is_space_def)
  have "py_split (add_cmd t a m v) = py_split (t @ CHR '' '' # a @ CHR '' '' # m @ CHR '' '' # ''=>'' @ CHR '' '' # v)"
    by (simp add: add_cmd_def)
  also have "\<dots> = [t, a] @ py_split m @ ''=>'' # py_split v"
    using assms arrow by (simp only: py_split_space py_split_token) simp
  finally show ?thesis .
qed

section \<open>The driver leaves its client's state alone\<close>

text \<open>The frame of a program that may change the switch, the configuration and the trace, but not
  the part of the world a client of the CLI has added.\<close>

definition same_more :: "('s, 'z) world_scheme \<Rightarrow> ('s, 'z) world_scheme \<Rightarrow> bool" where
  "same_more w w' \<longleftrightarrow> world.more w' = world.more w"

interpretation ext: io_frame same_more
  by unfold_locales (auto simp: same_more_def)

lemma ext_atoms:
  "io_keeps same_more (emit e)"
  "io_keeps same_more (pr parts)"
  "io_keeps same_more (std api call)"
  "io_keeps same_more (get_res ty name array)"
  "io_keeps same_more (at_least_n_args args n)"
  "io_keeps same_more (exactly_n_args args n)"
  "io_keeps same_more (int_arg msg s)"
  by (auto simp: io_keeps_def same_more_def io_simps)

lemma ext_if: "(b \<Longrightarrow> io_keeps R m) \<Longrightarrow> (\<not> b \<Longrightarrow> io_keeps R n) \<Longrightarrow> io_keeps R (if b then m else n)"
  by simp

lemma ext_case_prod: "(\<And>x y. io_keeps R (f x y)) \<Longrightarrow> io_keeps R (case p of (x, y) \<Rightarrow> f x y)"
  by (cases p) simp

lemma ext_handle: "io_keeps same_more m \<Longrightarrow> io_keeps same_more (handle_bad_input m)"
  unfolding handle_bad_input_def by (auto intro!: ext.keeps_intros ext_atoms split: option.split)

lemmas ext_intros = ext_handle ext_case_prod ext_if ext.keeps_intros ext_atoms

lemma keeps_more_driver:
  "io_keeps same_more (AddTable api t a m v)"
  "io_keeps same_more (RemoveTableEntry api t m)"
  unfolding AddTable_def RemoveTableEntry_def do_table_add_def do_table_delete_entry_from_key_def
    entry_from_key_def ACTIONS_at_def check_action_def print_table_add_def expect_def std_void_def Let_def
  by (intro ext_intros)+

lemma ext_files:
  "io_keeps same_more (open_read api path)"
  "io_keeps same_more (my_print text)"
  "io_keeps same_more (with_cfg m)"
  by (auto simp: io_keeps_def same_more_def open_read_def my_print_def with_cfg_def io_simps split: option.splits prod.splits)

lemma keeps_more_connect: "io_keeps same_more (SwitchThriftClient api transport_opens port json)"
  unfolding SwitchThriftClient_def ConnectToThrift_def thrift_connect_def load_json_config_def get_json_config_def
    check_JSON_md5_def expect_def Let_def
  by (auto intro!: ext_intros ext_files split: option.split list.split)

section \<open>Which table the driver adds to\<close>

definition adds_to :: "string \<Rightarrow> thrift_call \<Rightarrow> bool" where
  "adds_to t call \<longleftrightarrow> (\<exists>rest. call = Call ''bm_mt_add_entry'' (AInt 0 # AStr t # rest))"

lemma adds_to_simps [simp]:
  "adds_to t (Call ''bm_mt_add_entry'' (AInt 0 # AStr t' # rest)) \<longleftrightarrow> t' = t"
  "\<not> adds_to t (Call ''bm_mt_get_entry_from_key'' args)"
  "\<not> adds_to t (Call ''bm_mt_delete_entry'' args)"
  by (auto simp: adds_to_def)

lemma issues_AddTable_other:
  assumes "no_space t" "t \<noteq> []" "no_space a" "a \<noteq> []" "t \<noteq> t'"
  shows "issues c (\<lambda>call. \<not> adds_to t' call) (AddTable api t a m v)"
proof -
  have "py_split (add_cmd t a m v) ! 0 = t" using py_split_add_cmd [OF assms(1-4)] by simp
  then show ?thesis
    unfolding AddTable_def do_table_add_def ACTIONS_at_def check_action_def Let_def
    using assms(5) by (intro issues_flow issues_prints; simp)
qed

lemma issues_RemoveTableEntry_adds: "issues c (\<lambda>call. \<not> adds_to t' call) (RemoveTableEntry api t m)"
  unfolding RemoveTableEntry_def do_table_delete_entry_from_key_def entry_from_key_def std_void_def io_flatten Let_def
  by (intro issues_handle issues_bind issues_then issues_at_least_n_args issues_check issues_expect issues_std
      issues_atoms issues_if issues_case_prod; simp)

lemma issues_AddTable_wrong_arity:
  assumes "no_space t" "t \<noteq> []" "no_space a" "a \<noteq> []" "''=>'' \<notin> set (py_split m)"
    and "map_of (TABLES c) t = Some table" "t_match_type table = Some EXACT"
    and "map_of (ACTIONS c) a = Some action" "length (py_split v) \<noteq> num_params action"
  shows "issues c P (AddTable api t a m v)"
proof -
  let ?cmd = "add_cmd t a m v"
  have args: "py_split ?cmd = [t, a] @ py_split m @ ''=>'' # py_split v"
    using py_split_add_cmd [OF assms(1-4)] by simp
  have pop: "pop_priority table (py_split ?cmd) = Inr (0, py_split ?cmd)"
    using assms(7) by (simp add: pop_priority_def)
  have idx: "arrow_idx (drop 2 (py_split ?cmd)) = Inr (length (py_split m))"
    using assms(5) by (simp add: args arrow_idx_found)
  have bad: "api_parse_runtime_data api action (drop (length (py_split m) + 2 + 1) (py_split ?cmd)) =
      Inl (needs_params (a_name action) (num_params action))"
    using assms(9) by (simp add: args api_parse_runtime_data_def)
  show ?thesis
    unfolding AddTable_def do_table_add_def Let_def
    by (intro issues_then issues_atoms issues_handle issues_at_least_n_args issues_get_res issues_check_action
        issues_lift_prod issues_lift issues_ACTIONS_at issues_check)
       (use assms args pop idx bad in \<open>auto\<close>)
qed

section \<open>Entries arrive as meant\<close>

lemma AddTable_ok:
  assumes "no_space t" "t \<noteq> []" "no_space a" "a \<noteq> []" "''=>'' \<notin> set (py_split m)"
    and "map_of (TABLES (cfg w)) t = Some table" "t_match_type table = Some EXACT"
    and "a \<in> fst ` set (t_actions table)" "map_of (ACTIONS (cfg w)) a = Some action"
    and "length (py_split m) = num_key_fields table" "length (py_split v) = num_params action"
    and "parse_match_key (ip6 (lib api)) table (py_split m) = Inr key"
    and "parse_runtime_data (ip6 (lib api)) action (py_split v) = Inr data"
    and "client api (Call ''bm_mt_add_entry'' [AInt 0, AStr t, AKey key, AStr a, AData data, AOptions 0])
           (switch w) = (Inr (VInt h), s')"
  shows "AddTable api t a m v w =
    (Inr (), w\<lparr>switch := s', events := events w @ Out (''table_add '' @ add_cmd t a m v) #
       table_add_report t a EXACT key data 0 h\<rparr>)"
proof -
  let ?w = "w\<lparr>events := events w @ [Out (''table_add '' @ add_cmd t a m v)]\<rparr>"
  have "py_split (add_cmd t a m v) = [t, a] @ py_split m @ ''=>'' # py_split v @ priority_args EXACT 0"
    using py_split_add_cmd [OF assms(1-4), of m v] by (simp add: priority_args_def)
  then have "do_table_add api (add_cmd t a m v) ?w =
      (Inr (), ?w\<lparr>switch := s', events := events ?w @ table_add_report t a EXACT key data 0 h\<rparr>)"
    using assms by (intro do_table_add_ok) auto
  then show ?thesis by (simp add: AddTable_def Let_def io_simps)
qed

text \<open>
  An entry that the driver adds to an exact-match table arrives at the switch as the driver's
  caller meant it: for a table of the loaded program and one of its actions, the words of the match
  string are the key fields and the words of the value string the action parameters, and if they
  parse, exactly one \<open>bm_mt_add_entry\<close> call with the parsed key and data is sent, after the
  command has been echoed.
\<close>

theorem AddTable_adds:
  assumes "no_space t" "t \<noteq> []" "no_space a" "a \<noteq> []" "''=>'' \<notin> set (py_split m)"
    and "map_of (TABLES (cfg w)) t = Some table" "t_match_type table = Some EXACT"
    and "a \<in> fst ` set (t_actions table)" "map_of (ACTIONS (cfg w)) a = Some action"
    and "length (py_split m) = num_key_fields table" "length (py_split v) = num_params action"
    and "parse_match_key (ip6 (lib api)) table (py_split m) = Inr key"
    and "parse_runtime_data (ip6 (lib api)) action (py_split v) = Inr data"
    and "client api (Call ''bm_mt_add_entry'' [AInt 0, AStr t, AKey key, AStr a, AData data, AOptions 0])
           (switch w) = (Inr (VInt h), s')"
  shows "AddTable api t a m v w =
    (Inr (), w\<lparr>switch := s', events := events w @ Out (''table_add '' @ add_cmd t a m v) #
       table_add_report t a EXACT key data 0 h\<rparr>)"
  by (rule AddTable_ok [OF assms])

theorem AddTable_adds_witness:
  "AddTable counting_api ''table_lag_hash'' ''action_set_lag_hash_size'' ''5'' ''2'' lag_world =
    (Inr (), lag_world\<lparr>switch := 5, events := events lag_world @
       Out (''table_add '' @ add_cmd ''table_lag_hash'' ''action_set_lag_hash_size'' ''5'' ''2'') #
       table_add_report ''table_lag_hash'' ''action_set_lag_hash_size'' EXACT
         [BmMatchParamExact [CHR 0x05]] [[CHR 0x02]] 0 4\<rparr>)"
proof -
  have s: "py_split ''5'' = [''5'']" "py_split ''2'' = [''2'']" by code_simp+
  show ?thesis
    by (rule AddTable_adds [where table = lag_table and action = lag_action])
       (simp_all add: s lag_add_parses, simp_all add: no_space_def is_space_def lag_defs num_key_fields_def num_params_def)
qed

end
