(* ===== verification/Sai_Objects.thy ===== *)
theory Sai_Objects
  imports Cli_Driver
begin

text \<open>
  The object store of \<^verbatim>\<open>targets/P4-SAI/Sai-Tests/switch_sai_server.py\<close>: the object
  classes, the dictionaries from object ids to objects, and the allocator of object ids. Attribute
  values come from Thrift structures whose unset fields are \<open>None\<close>, so a Python value here is an
  integer or \<open>None\<close>.
\<close>

section \<open>Python values and dictionaries\<close>

type_synonym pyv = "int option"

definition py_str :: "pyv \<Rightarrow> string" where
  "py_str v = (case v of None \<Rightarrow> ''None'' | Some i \<Rightarrow> show_int i)"

definition list_to_str :: "pyv list \<Rightarrow> string" where
  "list_to_str num_list = foldl (\<lambda>st num. st @ py_str num @ '' '') [] num_list"

text \<open>A \<open>dict\<close> with integer keys: lookup, assignment and \<open>pop(k, None)\<close>.\<close>

type_synonym 'a dict = "(int \<times> 'a) list"

definition dict_get :: "'a dict \<Rightarrow> pyv \<Rightarrow> 'a res" where
  "dict_get d k = or_raise KeyError (Option.bind k (map_of d))"

definition dict_put :: "int \<Rightarrow> 'a \<Rightarrow> 'a dict \<Rightarrow> 'a dict" where
  "dict_put k v d = AList.update k v d"

definition dict_pop :: "int \<Rightarrow> 'a dict \<Rightarrow> 'a dict" where
  "dict_pop k d = AList.delete k d"

definition dict_has :: "'a dict \<Rightarrow> pyv \<Rightarrow> bool" where
  "dict_has d k = (case k of None \<Rightarrow> False | Some i \<Rightarrow> i \<in> fst ` set d)"

section \<open>Object ids\<close>

text \<open>\<open>min(set(xrange(len(num_list)+1)) - set(num_list))\<close>; \<open>min\<close> of an empty set is a
  ValueError.\<close>

definition GetNewIndex :: "int list \<Rightarrow> int res" where
  "GetNewIndex num_list =
     (let free = set (map int [0..<length num_list + 1]) - set num_list
      in if free = {} then Inl ValueError else Inr (Min free))"

text \<open>The object class is given by its constructor.\<close>

definition CreateNewItem :: "'a dict \<Rightarrow> (int \<Rightarrow> 'a) \<Rightarrow> int list \<Rightarrow> (int \<times> 'a \<times> 'a dict) res" where
  "CreateNewItem obj_list obj_class forbidden_list =
     res_bind (GetNewIndex (map fst obj_list @ forbidden_list)) (\<lambda>new_id.
     let new_obj = obj_class new_id in Inr (new_id, new_obj, dict_put new_id new_obj obj_list))"

section \<open>Object classes\<close>

record port_obj =
  p_id :: int
  hw_port :: pyv
  pvid :: pyv
  bind_mode :: pyv

text \<open>Every \<open>Lag_obj\<close> is created with the default value of \<open>lag_members\<close>, one list object that
  all of them share; the list itself is a component of the server state.\<close>

record lag_obj =
  l_id :: int

record lag_member_obj =
  lm_id :: int
  lm_port_id :: pyv
  lm_lag_id :: pyv

record vlan_member_obj =
  vm_id :: int
  vm_vid :: pyv
  vm_bridge_port_id :: pyv
  vm_vlan_oid :: pyv
  vm_tagging_mode :: pyv

record vlan_obj =
  v_id :: int
  v_vid :: pyv
  v_members :: "int list"

text \<open>The attribute \<open>type\<close> is not set by the constructor; \<open>None\<close> is an object without it.\<close>

record bridge_port_obj =
  bp_id :: int
  bp_port_id :: pyv
  bp_vlan_id :: pyv
  bp_br_port_type :: pyv
  bp_type :: "pyv option"

record bridge_obj =
  b_id :: int
  b_bridge_type :: pyv

definition Port_obj :: "int \<Rightarrow> port_obj" where
  "Port_obj i = \<lparr>p_id = i, hw_port = Some 0, pvid = Some 1, bind_mode = Some 0\<rparr>"

definition Lag_obj :: "int \<Rightarrow> lag_obj" where
  "Lag_obj i = \<lparr>l_id = i\<rparr>"

definition LagMember_obj :: "int \<Rightarrow> lag_member_obj" where
  "LagMember_obj i = \<lparr>lm_id = i, lm_port_id = Some 0, lm_lag_id = Some 0\<rparr>"

definition VlanMember_obj :: "int \<Rightarrow> vlan_member_obj" where
  "VlanMember_obj i = \<lparr>vm_id = i, vm_vid = Some 1, vm_bridge_port_id = Some 0, vm_vlan_oid = Some 0,
     vm_tagging_mode = Some 0\<rparr>"

definition Vlan_obj :: "int \<Rightarrow> vlan_obj" where
  "Vlan_obj i = \<lparr>v_id = i, v_vid = Some 1, v_members = []\<rparr>"

definition BridgePort_obj :: "int \<Rightarrow> bridge_port_obj" where
  "BridgePort_obj i = \<lparr>bp_id = i, bp_port_id = Some 0, bp_vlan_id = Some 1, bp_br_port_type = Some 0,
     bp_type = None\<rparr>"

definition Bridge_obj :: "int \<Rightarrow> bridge_obj" where
  "Bridge_obj i = \<lparr>b_id = i, b_bridge_type = Some 0\<rparr>"

section \<open>The allocator\<close>

text \<open>What the server relies on: an allocator always finds an id, and the id is not in use.\<close>

locale id_allocator =
  fixes alloc :: "int list \<Rightarrow> int res"
  assumes total: "\<exists>n. alloc used = Inr n"
    and fresh: "alloc used = Inr n \<Longrightarrow> n \<notin> set used"
begin

lemma alloc_insert_distinct:
  assumes "alloc (map fst d @ forbidden) = Inr n" "distinct (map fst d)"
  shows "distinct (map fst (dict_put n v d))" "set (map fst (dict_put n v d)) = insert n (set (map fst d))"
    "map_of (dict_put n v d) n = Some v" "k \<noteq> n \<Longrightarrow> map_of (dict_put n v d) k = map_of d k"
  using assms by (auto simp: dict_put_def distinct_update dom_update update_conv')

lemma alloc_disjoint:
  assumes "alloc (map fst d @ forbidden) = Inr n" "set (map fst d) \<inter> set forbidden = {}"
  shows "set (map fst (dict_put n v d)) \<inter> set forbidden = {}"
  using assms fresh [OF assms(1)] by (auto simp: dict_put_def)

end

lemma GetNewIndex_least:
  "\<exists>n. GetNewIndex xs = Inr n \<and> 0 \<le> n \<and> n \<le> int (length xs) \<and> n \<notin> set xs \<and> (\<forall>m. 0 \<le> m \<and> m < n \<longrightarrow> m \<in> set xs)"
proof -
  let ?range = "int ` {0..<length xs + 1}"
  let ?free = "?range - set xs"
  have "card (set xs) < card ?range"
    using card_length [of xs] by (simp add: card_image)
  then have ne: "?free \<noteq> {}" by (metis Diff_eq_empty_iff card_mono finite_set leD)
  have fin: "finite ?free" by simp
  have eq: "GetNewIndex xs = Inr (Min ?free)"
    using ne by (auto simp: GetNewIndex_def Let_def simp del: upt_Suc)
  have mem: "Min ?free \<in> ?free" by (rule Min_in [OF fin ne])
  have "m \<in> set xs" if "0 \<le> m" "m < Min ?free" for m
  proof (rule ccontr)
    assume "m \<notin> set xs"
    moreover have "m \<in> ?range" using that mem by (auto intro!: image_eqI [of _ _ "nat m"])
    ultimately have "Min ?free \<le> m" by (intro Min_le fin) blast
    then show False using that by simp
  qed
  then show ?thesis using eq mem by auto
qed

interpretation new_index: id_allocator GetNewIndex
proof
  show "\<exists>n. GetNewIndex used = Inr n" for used using GetNewIndex_least by blast
  show "n \<notin> set used" if "GetNewIndex used = Inr n" for used n
    using GetNewIndex_least [of used] that by auto
qed

lemma CreateNewItem_Inr:
  "\<exists>n. CreateNewItem d cls forbidden = Inr (n, cls n, dict_put n (cls n) d) \<and>
       GetNewIndex (map fst d @ forbidden) = Inr n"
  using new_index.total [of "map fst d @ forbidden"] by (auto simp: CreateNewItem_def Let_def)

text \<open>
  \<open>GetNewIndex\<close> never fails: it returns the least non-negative integer that is not in the
  list, which is at most the length of the list.
\<close>

theorem GetNewIndex_spec:
  "\<exists>n. GetNewIndex num_list = Inr n \<and> 0 \<le> n \<and> n \<le> int (length num_list) \<and> n \<notin> set num_list \<and>
     (\<forall>m. 0 \<le> m \<and> m < n \<longrightarrow> m \<in> set num_list)"
  by (rule GetNewIndex_least)

theorem GetNewIndex_spec_witness:
  "\<exists>n. GetNewIndex [0, 3] = Inr n \<and> 0 \<le> n \<and> n \<le> int (length [0, 3 :: int]) \<and> n \<notin> set [0, 3] \<and>
     (\<forall>m. 0 \<le> m \<and> m < n \<longrightarrow> m \<in> set [0, 3])"
  by (rule GetNewIndex_spec)

section \<open>Object lists as command words\<close>

lemma py_str_word [simp]: "no_space (py_str v)" "py_str v \<noteq> []"
  by (cases v; simp add: py_str_def; simp add: no_space_def is_space_def)+

lemma foldl_words: "foldl (\<lambda>st num. st @ py_str num @ '' '') st xs = st @ concat (map (\<lambda>v. py_str v @ '' '') xs)"
  by (induction xs arbitrary: st) auto

lemma py_split_list_to_str: "py_split (list_to_str xs) = map py_str xs"
proof -
  have "py_split (concat (map (\<lambda>v. py_str v @ '' '') xs)) = map py_str xs"
    by (induction xs) (simp_all add: py_split_token_space)
  then show ?thesis by (simp add: list_to_str_def foldl_words)
qed

lemma py_split_py_str: "py_split (py_str v) = [py_str v]"
  by simp

text \<open>
  The strings with which the server passes lists of ids to the CLI are read back as those ids:
  splitting the result of \<open>list_to_str\<close> and reading each word as an integer gives the list.
\<close>

theorem list_to_str_roundtrip: "map py_int (py_split (list_to_str (map Some ns))) = map Some ns"
  by (simp add: py_split_list_to_str py_str_def)

end
