(* ===== verification/Sai_Server.thy ===== *)
theory Sai_Server
  imports Sai_Objects
begin

text \<open>
  The handler of the SAI Thrift server (\<open>SaiHandler\<close> in
  \<^verbatim>\<open>targets/P4-SAI/Sai-Tests/switch_sai_server.py\<close>). Its state extends the world of the CLI
  with the object dictionaries; every remote procedure is a program over that state which programs
  the switch through \<open>AddTable\<close> and \<open>RemoveTableEntry\<close>. Enumeration constants are the numbers
  that \<^verbatim>\<open>switch_sai.thrift\<close> gives them. \<open>obj_repr\<close> stands for the printed form of an
  object instance, which contains its address.
\<close>

section \<open>State and attributes\<close>

record 's sai = "'s world" +
  switch_id :: int
  hw_port_list :: "int list"
  ports :: "port_obj dict"
  vlans :: "vlan_obj dict"
  vlan_members :: "vlan_member_obj dict"
  bridge_ports :: "bridge_port_obj dict"
  bridge_ids :: "bridge_obj dict"
  lag_members :: "lag_member_obj dict"
  lags :: "lag_obj dict"
  default_lag_members :: "int list"

type_synonym ('s, 'a) handler = "'s sai \<Rightarrow> 'a res \<times> 's sai"

record attr_value =
  av_s32 :: pyv
  av_u16 :: pyv
  av_oid :: pyv
  av_u32list :: "int list option option"

record thrift_attr =
  attr_id :: int
  attr_value :: "attr_value option"

record fdb_entry =
  mac_address :: string
  fdb_vlan_id :: pyv
  fdb_bridge_type :: pyv
  fdb_bridge_id :: pyv

definition attr_field :: "(attr_value \<Rightarrow> 'a) \<Rightarrow> thrift_attr \<Rightarrow> 'a res" where
  "attr_field f a = res_bind (or_raise AttributeError (attr_value a)) (\<lambda>v. Inr (f v))"

text \<open>\<open>for attr in attrs: if attr.id == i1: x1 = attr.value.f1 elif ...\<close>: the local variables the
  loop leaves behind, by attribute id; an id that is not a key is a variable that is not bound.\<close>

fun read_attrs :: "(int \<times> (attr_value \<Rightarrow> pyv)) list \<Rightarrow> thrift_attr list \<Rightarrow> (int \<rightharpoonup> pyv) \<Rightarrow> (int \<rightharpoonup> pyv) res" where
  "read_attrs fs [] env = Inr env"
| "read_attrs fs (a # as) env =
     (case map_of fs (attr_id a) of
        None \<Rightarrow> read_attrs fs as env
      | Some f \<Rightarrow> res_bind (attr_field f a) (\<lambda>x. read_attrs fs as (env(attr_id a \<mapsto> x))))"

definition local_var :: "(int \<rightharpoonup> pyv) \<Rightarrow> int \<Rightarrow> ('w, pyv) io" where
  "local_var env i = io_lift (or_raise UnboundLocalError (env i))"

text \<open>\<open>"%d" % v\<close>\<close>

definition fmt_d :: "pyv \<Rightarrow> string res" where
  "fmt_d v = (case v of None \<Rightarrow> Inl TypeError | Some i \<Rightarrow> Inr (show_int i))"

text \<open>\<open>CreateNewItem\<close> on one of the dictionaries.\<close>

definition new_item ::
  "('s sai \<Rightarrow> 'a dict) \<Rightarrow> (('a dict \<Rightarrow> 'a dict) \<Rightarrow> 's sai \<Rightarrow> 's sai) \<Rightarrow> (int \<Rightarrow> 'a) \<Rightarrow> ('s sai \<Rightarrow> int list) \<Rightarrow> ('s, int) handler" where
  "new_item get upd cls forbidden =
     io_bind (io_gets (\<lambda>w. CreateNewItem (get w) cls (forbidden w))) (\<lambda>r.
     io_bind (io_lift r) (\<lambda>(n, obj, d). io_then (io_modify (upd (\<lambda>_. d))) (io_ret n)))"

text \<open>\<open>self.d[k]\<close>, and an assignment to an attribute of the object with key \<open>k\<close>\<close>

definition at_key :: "('s sai \<Rightarrow> 'a dict) \<Rightarrow> pyv \<Rightarrow> ('s, 'a) handler" where
  "at_key get k = io_bind (io_gets (\<lambda>w. dict_get (get w) k)) io_lift"

definition set_obj ::
  "(('a dict \<Rightarrow> 'a dict) \<Rightarrow> 's sai \<Rightarrow> 's sai) \<Rightarrow> int \<Rightarrow> ('a \<Rightarrow> 'a) \<Rightarrow> ('s, unit) handler" where
  "set_obj upd k f = io_modify (upd (AList.map_entry k f))"

definition add_table :: "'s api \<Rightarrow> string \<Rightarrow> string \<Rightarrow> string \<Rightarrow> string \<Rightarrow> ('s, unit) handler" where
  "add_table api t a m v = AddTable api t a m v"

definition remove_entry :: "'s api \<Rightarrow> string \<Rightarrow> string \<Rightarrow> ('s, unit) handler" where
  "remove_entry api t m = RemoveTableEntry api t m"

text \<open>The constructor: connect, load \<^verbatim>\<open>../sai.json\<close>, and start with empty dictionaries.\<close>

definition SaiHandler_init :: "'s api \<Rightarrow> bool \<Rightarrow> ('s, unit) handler" where
  "SaiHandler_init api transport_opens =
     io_then (pr [''connecting to cli thrift'']) (
     io_then (SwitchThriftClient api transport_opens 9090 (Some ''../sai.json'')) (
     io_modify (\<lambda>w. w\<lparr>switch_id := 0, hw_port_list := [0, 1, 2, 3, 4, 5, 6, 7], ports := [], vlans := [],
       vlan_members := [], bridge_ports := [], bridge_ids := [], lag_members := [], lags := []\<rparr>)))"

section \<open>Switch and FDB\<close>

definition sai_thrift_create_switch :: "thrift_attr list \<Rightarrow> ('s, int) handler" where
  "sai_thrift_create_switch attrs = io_gets switch_id"

text \<open>The result is the attribute list: one attribute, with its id, its \<open>u32list\<close> and the count.\<close>

definition sai_thrift_get_switch_attribute :: "thrift_attr list \<Rightarrow> ('s, (int \<times> int list \<times> int) list) handler" where
  "sai_thrift_get_switch_attribute attrs =
     io_bind (io_gets hw_port_list) (\<lambda>hw.
     if \<exists>a \<in> set attrs. attr_id a = 1 then io_ret [(1, hw, int (length hw))]
     else io_raise UnboundLocalError)"

definition sai_thrift_create_fdb_entry :: "'s api \<Rightarrow> fdb_entry \<Rightarrow> thrift_attr list \<Rightarrow> ('s, pyv) handler" where
  "sai_thrift_create_fdb_entry api entry attrs =
     io_bind (io_lift (read_attrs [(0, av_s32), (2, av_oid), (1, av_s32)] attrs Map.empty)) (\<lambda>env.
     let match_str = mac_address entry @ '' '' @ py_str (fdb_bridge_id entry) in
     io_bind (local_var env 2) (\<lambda>bridge_port.
     let action_str = py_str bridge_port in
     io_bind (local_var env 1) (\<lambda>packet_action.
     if packet_action = Some 1 then
       io_bind (local_var env 0) (\<lambda>entry_type.
       if entry_type = Some 1 then
         io_then (add_table api ''table_fdb'' ''action_set_egress_br_port'' match_str action_str) (io_ret (Some 0))
       else io_ret None)
     else io_ret None)))"

definition sai_thrift_delete_fdb_entry :: "'s api \<Rightarrow> fdb_entry \<Rightarrow> ('s, pyv) handler" where
  "sai_thrift_delete_fdb_entry api entry =
     io_then (remove_entry api ''table_fdb'' (mac_address entry @ '' '' @ py_str (fdb_bridge_id entry)))
     (io_ret (Some 0))"

section \<open>VLANs\<close>

text \<open>\<open>[x.vid for x in self.vlans]\<close> goes through the keys of the dictionary, which are integers.\<close>

definition sai_thrift_create_vlan :: "thrift_attr list \<Rightarrow> ('s, pyv) handler" where
  "sai_thrift_create_vlan attrs =
     io_bind (io_lift (read_attrs [(0, av_u16)] attrs Map.empty)) (\<lambda>env.
     io_bind (local_var env 0) (\<lambda>vid.
     io_bind (io_gets (\<lambda>w. vlans w \<noteq> [])) (\<lambda>some.
     if some then io_raise AttributeError
     else
       io_bind (io_lift (fmt_d vid)) (\<lambda>d.
       io_then (pr [''vlan id '' @ d @ '' created'']) (
       io_bind (new_item vlans vlans_update Vlan_obj (\<lambda>_. [])) (\<lambda>vlan_oid.
       io_then (set_obj vlans_update vlan_oid (\<lambda>v. v\<lparr>v_vid := vid, v_members := []\<rparr>)) (
       io_ret (Some vlan_oid))))))))"

definition sai_thrift_delete_vlan :: "int \<Rightarrow> ('s, pyv) handler" where
  "sai_thrift_delete_vlan vlan_oid =
     io_then (io_modify (vlans_update (dict_pop vlan_oid))) (io_ret (Some 0))"

definition list_remove :: "int \<Rightarrow> int list \<Rightarrow> int list res" where
  "list_remove x xs = (if x \<in> set xs then Inr (remove1 x xs) else Inl ValueError)"

definition sai_thrift_remove_vlan_member :: "'s api \<Rightarrow> int \<Rightarrow> ('s, pyv) handler" where
  "sai_thrift_remove_vlan_member api vlan_member_id =
     io_bind (at_key vlan_members (Some vlan_member_id)) (\<lambda>vlan_member.
     let bridge_port_id = vm_bridge_port_id vlan_member; vid = vm_vid vlan_member in
     io_then (remove_entry api ''table_egress_vlan_filtering'' (list_to_str [bridge_port_id, vid])) (
     io_then (remove_entry api ''table_ingress_vlan_filtering'' (list_to_str [bridge_port_id, vid])) (
     io_bind (at_key bridge_ports bridge_port_id) (\<lambda>bp.
     io_bind (at_key ports (bp_port_id bp)) (\<lambda>port.
     let out_if = hw_port port in
     io_then (if vm_tagging_mode vlan_member = Some 0
              then remove_entry api ''table_egress_vlan_tag'' (list_to_str [out_if, vid, Some 1])
              else remove_entry api ''table_egress_vlan_tag'' (list_to_str [out_if, vid, Some 0])) (
     io_bind (at_key vlans (vm_vlan_oid vlan_member)) (\<lambda>vlan.
     io_bind (io_lift (list_remove vlan_member_id (v_members vlan))) (\<lambda>ms.
     io_then (set_obj vlans_update (the (vm_vlan_oid vlan_member)) (\<lambda>v. v\<lparr>v_members := ms\<rparr>)) (
     io_then (io_modify (vlan_members_update (dict_pop vlan_member_id))) (io_ret (Some 0)))))))))))"

definition sai_thrift_create_vlan_member :: "'s api \<Rightarrow> thrift_attr list \<Rightarrow> ('s, pyv) handler" where
  "sai_thrift_create_vlan_member api attrs =
     io_bind (io_lift (read_attrs [(0, av_oid), (1, av_oid), (2, av_s32)] attrs Map.empty)) (\<lambda>env.
     io_bind (local_var env 0) (\<lambda>vlan_oid.
     io_bind (at_key vlans vlan_oid) (\<lambda>vlan.
     let vlan_id = v_vid vlan in
     io_bind (new_item vlan_members vlan_members_update VlanMember_obj (\<lambda>_. [])) (\<lambda>vlan_member_id.
     io_bind (local_var env 1) (\<lambda>bridge_port_id.
     io_then (set_obj vlan_members_update vlan_member_id
       (\<lambda>m. m\<lparr>vm_bridge_port_id := bridge_port_id, vm_vid := vlan_id, vm_vlan_oid := vlan_oid\<rparr>)) (
     io_bind (local_var env 2) (\<lambda>tagging_mode.
     io_then (set_obj vlan_members_update vlan_member_id (\<lambda>m. m\<lparr>vm_tagging_mode := tagging_mode\<rparr>)) (
     io_then (set_obj vlans_update (the vlan_oid) (\<lambda>v. v\<lparr>v_members := v_members v @ [vlan_member_id]\<rparr>)) (
     io_bind (at_key bridge_ports bridge_port_id) (\<lambda>bp.
     let port_id = bp_port_id bp in
     io_bind (io_gets (\<lambda>w. dict_has (lags w) port_id)) (\<lambda>is_lag.
     io_bind (if is_lag then io_ret port_id
              else io_bind (at_key ports port_id) (\<lambda>p. io_ret (hw_port p))) (\<lambda>out_if.
     io_then (if tagging_mode = Some 1 \<or> tagging_mode = Some 2
              then add_table api ''table_egress_vlan_tag'' ''action_forward_vlan_tag''
                     (list_to_str [out_if, vlan_id, Some 0]) (list_to_str [Some 0, Some 0, vlan_id])
              else add_table api ''table_egress_vlan_tag'' ''action_forward_vlan_untag''
                     (list_to_str [out_if, vlan_id, Some 1]) []) (
     io_then (add_table api ''table_egress_vlan_filtering'' ''_nop'' (list_to_str [bridge_port_id, vlan_id]) []) (
     io_then (add_table api ''table_ingress_vlan_filtering'' ''_nop'' (list_to_str [bridge_port_id, vlan_id]) []) (
     io_ret (Some vlan_member_id))))))))))))))))"

section \<open>Ports\<close>

text \<open>One iteration of the attribute loop; the loop carries \<open>hw_port_list\<close>, which may be unbound
  (the outer option) or \<open>None\<close>.\<close>

definition create_port_attr ::
  "'s api \<Rightarrow> int \<Rightarrow> thrift_attr \<Rightarrow> int list option option \<Rightarrow> ('s, int list option option) handler" where
  "create_port_attr api port attr hw =
     (if attr_id attr = 1 then
        io_bind (io_lift (attr_field av_u16 attr)) (\<lambda>vlan_id.
        io_then (set_obj ports_update port (\<lambda>p. p\<lparr>pvid := vlan_id\<rparr>)) (
        io_then (add_table api ''table_port_PVID'' ''action_set_pvid'' (show_int port) (py_str vlan_id)) (
        io_ret hw)))
      else if attr_id attr = 0 then
        io_bind (io_lift (attr_field av_s32 attr)) (\<lambda>mode.
        io_then (set_obj ports_update port (\<lambda>p. p\<lparr>bind_mode := mode\<rparr>)) (
        io_then (add_table api ''table_port_mode'' ''action_set_port_mode'' (show_int port) (py_str mode)) (
        io_ret hw)))
      else if attr_id attr = 2 then
        io_bind (io_lift (res_bind (attr_field av_u32list attr) (or_raise AttributeError))) (\<lambda>l. io_ret (Some l))
      else io_ret hw)"

definition first_lane :: "int list option option \<Rightarrow> int res" where
  "first_lane hw = res_bind (or_raise UnboundLocalError hw) (\<lambda>l.
     res_bind (or_raise TypeError l) (\<lambda>xs. py_nth xs 0))"

definition sai_thrift_create_port :: "'s api \<Rightarrow> thrift_attr list \<Rightarrow> ('s, pyv) handler" where
  "sai_thrift_create_port api attrs =
     io_bind (new_item ports ports_update Port_obj (\<lambda>w. map fst (lags w))) (\<lambda>port.
     io_bind (io_fold attrs None (create_port_attr api port)) (\<lambda>hw_list.
     io_bind (io_lift (first_lane hw_list)) (\<lambda>hw.
     io_then (set_obj ports_update port (\<lambda>p. p\<lparr>hw_port := Some hw\<rparr>)) (
     io_then (add_table api ''table_ingress_lag'' ''action_set_lag_l2if'' (show_int hw)
                (list_to_str [Some 0, Some port])) (
     io_ret (Some port))))))"

definition sai_thrift_remove_port :: "'s api \<Rightarrow> int \<Rightarrow> ('s, pyv) handler" where
  "sai_thrift_remove_port api port_id =
     io_bind (at_key ports (Some port_id)) (\<lambda>port.
     io_then (remove_entry api ''table_ingress_lag'' (py_str (hw_port port))) (
     io_then (remove_entry api ''table_port_PVID'' (show_int port_id)) (
     io_then (io_modify (ports_update (dict_pop port_id))) (io_ret (Some 0)))))"

definition sai_thrift_set_port_attribute :: "'s api \<Rightarrow> int \<Rightarrow> thrift_attr \<Rightarrow> ('s, pyv) handler" where
  "sai_thrift_set_port_attribute api port attr =
     io_bind (io_lift (read_attrs [(1, av_u16)] [attr] Map.empty)) (\<lambda>env.
     io_bind (local_var env 1) (\<lambda>vlan_id.
     io_then (add_table api ''table_accepted_frame_type_default_internal'' ''action_set_pvid''
                (show_int port) (py_str vlan_id)) (
     io_ret (Some 0))))"

section \<open>LAGs\<close>

definition sai_thrift_create_lag :: "thrift_attr list \<Rightarrow> ('s, pyv) handler" where
  "sai_thrift_create_lag attrs =
     io_bind (new_item lags lags_update Lag_obj (\<lambda>w. map fst (ports w))) (\<lambda>lag_id. io_ret (Some lag_id))"

definition sai_thrift_remove_lag :: "int \<Rightarrow> ('s, pyv) handler" where
  "sai_thrift_remove_lag lag_id =
     io_then (io_modify (lags_update (dict_pop lag_id))) (io_ret (Some 0))"

text \<open>The loop carries the local variables \<open>port_id\<close> and \<open>lag_id\<close>.\<close>

definition create_lag_member_attr ::
  "int \<Rightarrow> thrift_attr \<Rightarrow> pyv option \<times> pyv option \<Rightarrow> ('s, pyv option \<times> pyv option) handler" where
  "create_lag_member_attr member attr vars =
     (case vars of (port_id, lag_id) \<Rightarrow>
        if attr_id attr = 0 then
          io_bind (io_lift (attr_field av_oid attr)) (\<lambda>p.
          io_then (set_obj lag_members_update member (\<lambda>m. m\<lparr>lm_port_id := p\<rparr>)) (
          io_ret (Some p, lag_id)))
        else if attr_id attr = 1 then
          io_bind (io_lift (attr_field av_oid attr)) (\<lambda>l.
          io_then (set_obj lag_members_update member (\<lambda>m. m\<lparr>lm_lag_id := l\<rparr>)) (
          io_bind (at_key lags l) (\<lambda>_.
          io_then (io_modify (default_lag_members_update (\<lambda>ms. ms @ [member]))) (
          io_ret (port_id, Some l)))))
        else io_ret (port_id, lag_id))"

definition sai_thrift_create_lag_member :: "'s api \<Rightarrow> thrift_attr list \<Rightarrow> ('s, pyv) handler" where
  "sai_thrift_create_lag_member api attrs =
     io_bind (new_item lag_members lag_members_update LagMember_obj (\<lambda>_. [])) (\<lambda>member.
     io_bind (io_fold attrs (None, None) (create_lag_member_attr member)) (\<lambda>(port_var, lag_var).
     io_bind (io_lift (or_raise UnboundLocalError port_var)) (\<lambda>port_id.
     io_bind (at_key ports port_id) (\<lambda>port.
     let hw = py_str (hw_port port) in
     io_then (remove_entry api ''table_ingress_lag'' hw) (
     io_bind (io_lift (or_raise UnboundLocalError lag_var)) (\<lambda>lag_id.
     io_then (add_table api ''table_ingress_lag'' ''action_set_lag_l2if'' hw (list_to_str [Some 1, lag_id])) (
     io_then (remove_entry api ''table_lag_hash'' (py_str lag_id)) (
     io_bind (at_key lags lag_id) (\<lambda>_.
     io_bind (io_gets (\<lambda>w. length (default_lag_members w))) (\<lambda>n.
     io_then (add_table api ''table_lag_hash'' ''action_set_lag_hash_size'' (py_str lag_id) (show_nat n)) (
     io_then (add_table api ''table_egress_lag'' ''action_set_out_port'' (list_to_str [lag_id, Some member]) hw) (
     io_then (remove_entry api ''table_port_PVID'' (py_str lag_id)) (
     io_then (remove_entry api ''table_port_mode'' (py_str lag_id)) (
     io_then (add_table api ''table_port_PVID'' ''action_set_pvid'' (py_str lag_id) (py_str (pvid port))) (
     io_then (add_table api ''table_port_mode'' ''action_set_port_mode'' (py_str lag_id) (py_str (bind_mode port))) (
     io_ret (Some member)))))))))))))))))"

definition dict_repr :: "(string \<Rightarrow> int \<Rightarrow> string) \<Rightarrow> string \<Rightarrow> 'a dict \<Rightarrow> string" where
  "dict_repr obj_repr cls d =
     ''{'' @ py_join '', '' (map (\<lambda>(k, _). show_int k @ '': '' @ obj_repr cls k) d) @ ''}''"

definition sai_thrift_remove_lag_member :: "(string \<Rightarrow> int \<Rightarrow> string) \<Rightarrow> int \<Rightarrow> ('s, pyv) handler" where
  "sai_thrift_remove_lag_member obj_repr member_id =
     io_then (pr [''removing lag member '' @ show_int member_id]) (
     io_then (pr [''members'']) (
     io_bind (io_gets lag_members) (\<lambda>ms.
     io_then (pr [dict_repr obj_repr ''LagMember_obj'' ms]) (
     io_then (pr [''lags'']) (
     io_bind (io_gets lags) (\<lambda>ls.
     io_then (pr [dict_repr obj_repr ''Lag_obj'' ls]) (
     io_then (io_modify (lag_members_update (dict_pop member_id))) (
     case map_of ms member_id of
       None \<Rightarrow> io_ret (Some 0)
     | Some m \<Rightarrow>
         io_bind (io_lift (fmt_d (lm_lag_id m))) (\<lambda>d.
         io_then (pr [''lag_id '' @ d]) (
         io_bind (at_key lags (lm_lag_id m)) (\<lambda>_.
         io_bind (io_gets default_lag_members) (\<lambda>xs.
         io_then (pr [''['' @ py_join '', '' (map show_int xs) @ '']'']) (
         io_bind (io_lift (list_remove member_id xs)) (\<lambda>xs'.
         io_then (io_modify (default_lag_members_update (\<lambda>_. xs'))) (io_ret (Some 0))))))))))))))))"

section \<open>Bridges\<close>

definition create_bridge_attr :: "int \<Rightarrow> thrift_attr \<Rightarrow> ('s, unit) handler" where
  "create_bridge_attr bridge_id attr =
     (if attr_id attr = 0 then
        io_bind (io_lift (attr_field av_s32 attr)) (\<lambda>t.
        set_obj bridge_ids_update bridge_id (\<lambda>b. b\<lparr>b_bridge_type := t\<rparr>))
      else io_ret ())"

definition sai_thrift_create_bridge :: "thrift_attr list \<Rightarrow> ('s, pyv) handler" where
  "sai_thrift_create_bridge attrs =
     io_bind (new_item bridge_ids bridge_ids_update Bridge_obj (\<lambda>_. [])) (\<lambda>bridge_id.
     io_then (io_for attrs (create_bridge_attr bridge_id)) (io_ret (Some bridge_id)))"

definition sai_thrift_remove_bridge :: "int \<Rightarrow> ('s, pyv) handler" where
  "sai_thrift_remove_bridge bridge_id =
     io_then (io_modify (bridge_ids_update (dict_pop bridge_id))) (io_ret (Some 0))"

text \<open>The table updates that depend on the type of the bridge port; the result is the local variable
  \<open>l2_if_type\<close>.\<close>

definition bridge_port_type_tables ::
  "'s api \<Rightarrow> string \<Rightarrow> pyv \<Rightarrow> pyv \<Rightarrow> (int \<rightharpoonup> pyv) \<Rightarrow> ('s, int option) handler" where
  "bridge_port_type_tables api br_port bp_ty vlan_id env =
     (if bp_ty = Some 1 then
        io_then (remove_entry api ''table_bridge_id_1d'' br_port) (
        io_then (remove_entry api ''table_egress_set_vlan'' br_port) (
        io_bind (local_var env 5) (\<lambda>bridge_id.
        io_then (add_table api ''table_bridge_id_1d'' ''action_set_bridge_id'' br_port (py_str bridge_id)) (
        io_then (add_table api ''table_egress_set_vlan'' ''action_set_vlan'' br_port (py_str vlan_id)) (
        io_ret (Some 2))))))
      else if bp_ty = Some 0 then
        io_then (remove_entry api ''table_bridge_id_1q'' br_port) (
        io_bind (local_var env 5) (\<lambda>bridge_id.
        io_then (add_table api ''table_bridge_id_1q'' ''action_set_bridge_id'' (py_str vlan_id) (py_str bridge_id)) (
        io_ret (Some 3))))
      else io_ret None)"

text \<open>The bind mode of the port, or of the first member of the shared member list for a LAG.\<close>

definition bridge_port_bind_mode :: "'s api \<Rightarrow> string \<Rightarrow> pyv \<Rightarrow> ('s, pyv) handler" where
  "bridge_port_bind_mode api br_port port_id =
     io_bind (io_gets (\<lambda>w. dict_has (lags w) port_id)) (\<lambda>is_lag.
     if is_lag then
       io_then (add_table api ''table_egress_br_port_to_if'' ''action_forward_set_outIfType'' br_port
                  (list_to_str [port_id, Some 1])) (
       io_bind (io_gets default_lag_members) (\<lambda>ms.
       io_bind (io_lift (py_nth ms 0)) (\<lambda>m.
       io_bind (at_key lag_members (Some m)) (\<lambda>member.
       io_bind (at_key ports (lm_port_id member)) (\<lambda>port. io_ret (bind_mode port))))))
     else
       io_bind (at_key ports port_id) (\<lambda>port.
       io_then (add_table api ''table_egress_br_port_to_if'' ''action_forward_set_outIfType'' br_port
                  (list_to_str [hw_port port, Some 0])) (
       io_ret (bind_mode port))))"

definition sai_thrift_create_bridge_port :: "'s api \<Rightarrow> thrift_attr list \<Rightarrow> ('s, pyv) handler" where
  "sai_thrift_create_bridge_port api attrs =
     io_bind (io_lift (read_attrs [(2, av_s32), (5, av_s32), (0, av_s32), (1, av_s32)] attrs Map.empty)) (\<lambda>env.
     io_bind (new_item bridge_ports bridge_ports_update BridgePort_obj (\<lambda>_. [])) (\<lambda>br.
     io_bind (local_var env 1) (\<lambda>port_id.
     io_then (set_obj bridge_ports_update br (\<lambda>b. b\<lparr>bp_port_id := port_id\<rparr>)) (
     io_bind (local_var env 2) (\<lambda>vlan_id.
     io_then (set_obj bridge_ports_update br (\<lambda>b. b\<lparr>bp_vlan_id := vlan_id\<rparr>)) (
     io_bind (local_var env 0) (\<lambda>bp_ty.
     io_then (set_obj bridge_ports_update br (\<lambda>b. b\<lparr>bp_type := Some bp_ty\<rparr>)) (
     io_bind (bridge_port_type_tables api (show_int br) bp_ty vlan_id env) (\<lambda>l2_if_type.
     io_then (remove_entry api ''table_egress_br_port_to_if'' (show_int br)) (
     io_bind (bridge_port_bind_mode api (show_int br) port_id) (\<lambda>mode.
     io_then (if mode = Some 1 then
                io_bind (io_lift (or_raise UnboundLocalError l2_if_type)) (\<lambda>ty.
                add_table api ''table_subport_ingress_interface_type'' ''action_set_l2_if_type''
                  (list_to_str [port_id, vlan_id]) (list_to_str [Some ty, Some br]))
              else add_table api ''table_port_ingress_interface_type'' ''action_set_l2_if_type''
                     (py_str port_id) (show_int br)) (
     io_ret (Some br)))))))))))))"

definition sai_thrift_remove_bridge_port :: "'s api \<Rightarrow> int \<Rightarrow> ('s, pyv) handler" where
  "sai_thrift_remove_bridge_port api bridge_port_id =
     io_bind (io_gets (\<lambda>w. map_of (bridge_ports w) bridge_port_id)) (\<lambda>popped.
     io_then (io_modify (bridge_ports_update (dict_pop bridge_port_id))) (
     io_bind (io_lift (or_raise AttributeError popped)) (\<lambda>bp.
     io_bind (io_lift (or_raise AttributeError (bp_type bp))) (\<lambda>ty.
     io_then (if ty = Some 1
              then io_then (remove_entry api ''table_bridge_id_1d'' (show_int (bp_id bp))) (
                   remove_entry api ''table_egress_set_vlan'' (show_int (bp_id bp)))
              else remove_entry api ''table_bridge_id_1d'' (py_str (bp_vlan_id bp))) (
     io_then (remove_entry api ''table_ingress_l2_interface_type''
                (list_to_str [bp_port_id bp, bp_vlan_id bp])) (
     io_then (remove_entry api ''table_egress_br_port_to_if'' (show_int (bp_id bp))) (
     io_ret (Some 0))))))))"

section \<open>The server as a transition system\<close>

text \<open>The remote procedures that change the state or the switch.\<close>

datatype sai_rpc =
    Create_fdb_entry fdb_entry "thrift_attr list"
  | Delete_fdb_entry fdb_entry
  | Create_vlan "thrift_attr list"
  | Delete_vlan int
  | Create_vlan_member "thrift_attr list"
  | Remove_vlan_member int
  | Create_port "thrift_attr list"
  | Remove_port int
  | Set_port_attribute int thrift_attr
  | Create_lag "thrift_attr list"
  | Remove_lag int
  | Create_lag_member "thrift_attr list"
  | Remove_lag_member int
  | Create_bridge "thrift_attr list"
  | Remove_bridge int
  | Create_bridge_port "thrift_attr list"
  | Remove_bridge_port int

fun sai_run :: "'s api \<Rightarrow> (string \<Rightarrow> int \<Rightarrow> string) \<Rightarrow> sai_rpc \<Rightarrow> ('s, pyv) handler" where
  "sai_run api obj_repr (Create_fdb_entry e as) = sai_thrift_create_fdb_entry api e as"
| "sai_run api obj_repr (Delete_fdb_entry e) = sai_thrift_delete_fdb_entry api e"
| "sai_run api obj_repr (Create_vlan as) = sai_thrift_create_vlan as"
| "sai_run api obj_repr (Delete_vlan i) = sai_thrift_delete_vlan i"
| "sai_run api obj_repr (Create_vlan_member as) = sai_thrift_create_vlan_member api as"
| "sai_run api obj_repr (Remove_vlan_member i) = sai_thrift_remove_vlan_member api i"
| "sai_run api obj_repr (Create_port as) = sai_thrift_create_port api as"
| "sai_run api obj_repr (Remove_port i) = sai_thrift_remove_port api i"
| "sai_run api obj_repr (Set_port_attribute i a) = sai_thrift_set_port_attribute api i a"
| "sai_run api obj_repr (Create_lag as) = sai_thrift_create_lag as"
| "sai_run api obj_repr (Remove_lag i) = sai_thrift_remove_lag i"
| "sai_run api obj_repr (Create_lag_member as) = sai_thrift_create_lag_member api as"
| "sai_run api obj_repr (Remove_lag_member i) = sai_thrift_remove_lag_member obj_repr i"
| "sai_run api obj_repr (Create_bridge as) = sai_thrift_create_bridge as"
| "sai_run api obj_repr (Remove_bridge i) = sai_thrift_remove_bridge i"
| "sai_run api obj_repr (Create_bridge_port as) = sai_thrift_create_bridge_port api as"
| "sai_run api obj_repr (Remove_bridge_port i) = sai_thrift_remove_bridge_port api i"

text \<open>The server runs one procedure at a time; one that raises leaves the state as it was at that
  point, and the server goes on. A start state has no objects.\<close>

definition sai_start :: "'s sai \<Rightarrow> bool" where
  "sai_start w \<longleftrightarrow> ports w = [] \<and> vlans w = [] \<and> vlan_members w = [] \<and> bridge_ports w = [] \<and>
     bridge_ids w = [] \<and> lag_members w = [] \<and> lags w = []"

inductive sai_reach :: "'s api \<Rightarrow> (string \<Rightarrow> int \<Rightarrow> string) \<Rightarrow> 's sai \<Rightarrow> bool" for api obj_repr where
  start: "sai_start w \<Longrightarrow> sai_reach api obj_repr w"
| step: "sai_reach api obj_repr w \<Longrightarrow> sai_run api obj_repr rpc w = (r, w') \<Longrightarrow> sai_reach api obj_repr w'"

section \<open>What the server sends to the switch\<close>

lemma issues_sai_modify: "(\<And>w. cfg (f w) = cfg w \<and> events (f w) = events w) \<Longrightarrow> issues c P (io_modify f)"
  by (auto simp: issues_def io_simps)

lemma issues_handler_atoms:
  "issues c P (local_var env i)"
  "issues c P (at_key get k)"
  "issues c (call_ok c) (add_table api t a m v)"
  "issues c (call_ok c) (remove_entry api t m)"
  unfolding local_var_def at_key_def add_table_def remove_entry_def
  by (intro issues_driver issues_bind issues_atoms)+

lemma issues_store:
  "(\<And>f w. cfg (upd f w) = cfg w \<and> events (upd f w) = events w) \<Longrightarrow> issues c P (new_item get upd cls forb)"
  "(\<And>f w. cfg (upd f w) = cfg w \<and> events (upd f w) = events w) \<Longrightarrow> issues c P (set_obj upd k g)"
  unfolding new_item_def set_obj_def
  by (auto intro!: issues_bind issues_then issues_atoms issues_sai_modify split: prod.split)

lemmas issues_handler = issues_handler_atoms issues_store issues_sai_modify

lemmas sai_defs = sai_thrift_create_fdb_entry_def sai_thrift_delete_fdb_entry_def sai_thrift_create_vlan_def
  sai_thrift_delete_vlan_def sai_thrift_create_vlan_member_def sai_thrift_remove_vlan_member_def
  sai_thrift_create_port_def sai_thrift_remove_port_def sai_thrift_set_port_attribute_def
  sai_thrift_create_lag_def sai_thrift_remove_lag_def sai_thrift_create_lag_member_def
  sai_thrift_remove_lag_member_def sai_thrift_create_bridge_def sai_thrift_remove_bridge_def
  sai_thrift_create_bridge_port_def sai_thrift_remove_bridge_port_def
  create_port_attr_def create_lag_member_attr_def create_bridge_attr_def
  bridge_port_type_tables_def bridge_port_bind_mode_def

lemma issues_sai_run: "issues c (call_ok c) (sai_run api obj_repr rpc)"
  by (cases rpc; hypsubst; unfold sai_run.simps sai_defs Let_def;
      intro issues_bind issues_then issues_for issues_fold issues_if issues_case_prod issues_case_option
        issues_atoms issues_handler; simp)


section \<open>The object store\<close>

definition stored :: "('a \<Rightarrow> int) \<Rightarrow> 'a dict \<Rightarrow> bool" where
  "stored idf d \<longleftrightarrow> distinct (map fst d) \<and> (\<forall>(k, v) \<in> set d. idf v = k)"

lemma stored_put: "stored idf d \<Longrightarrow> idf v = n \<Longrightarrow> stored idf (dict_put n v d)"
  by (auto simp: stored_def dict_put_def distinct_update dest!: set_updateD)

lemma stored_pop: "stored idf d \<Longrightarrow> stored idf (dict_pop k d)"
  using AList.distinct_delete [of d k] by (auto simp: stored_def dict_pop_def AList.delete_eq)

lemma keys_put [simp]: "fst ` set (dict_put n v d) = insert n (fst ` set d)"
  by (simp add: dict_put_def)

lemma keys_pop [simp]: "fst ` set (dict_pop k d) = fst ` set d - {k}"
  by (auto simp: dict_pop_def AList.delete_eq image_iff)

lemma stored_map_entry: "stored idf d \<Longrightarrow> (\<And>v. idf (f v) = idf v) \<Longrightarrow> stored idf (AList.map_entry k f d)"
  by (auto simp: stored_def dest!: set_map_entryD)

lemma length_pop: "length d \<le> n \<Longrightarrow> length (dict_pop k d) \<le> n"
  unfolding dict_pop_def by (rule le_trans [OF AList.length_delete_le])

definition sai_inv :: "'s sai \<Rightarrow> bool" where
  "sai_inv w \<longleftrightarrow> stored p_id (ports w) \<and> stored l_id (lags w) \<and> stored v_id (vlans w) \<and>
     stored vm_id (vlan_members w) \<and> stored bp_id (bridge_ports w) \<and> stored b_id (bridge_ids w) \<and>
     stored lm_id (lag_members w) \<and> fst ` set (ports w) \<inter> fst ` set (lags w) = {} \<and> length (vlans w) \<le> 1"

definition sai_frame :: "'s sai \<Rightarrow> 's sai \<Rightarrow> bool" where
  "sai_frame w w' \<longleftrightarrow> (sai_inv w \<longrightarrow> sai_inv w')"

interpretation store: io_frame sai_frame
  by unfold_locales (auto simp: sai_frame_def)

lemma sai_frame_same_more: "same_more w w' \<Longrightarrow> sai_frame w w'"
  by (cases w; cases w') (simp add: same_more_def sai_frame_def sai_inv_def)

lemma keeps_store_driver:
  "io_keeps sai_frame (add_table api t a m v)"
  "io_keeps sai_frame (remove_entry api t m)"
  "io_keeps sai_frame (pr parts)"
  unfolding add_table_def remove_entry_def
  by (rule io_keepsI, rule sai_frame_same_more, rule io_keepsD [OF _ surjective_pairing],
      rule keeps_more_driver ext_atoms)+

lemma keeps_store_read:
  "io_keeps sai_frame (local_var env i)"
  "io_keeps sai_frame (at_key get k)"
  unfolding local_var_def at_key_def by (intro store.keeps_intros)+

lemma keeps_case_option:
  "io_keeps R m \<Longrightarrow> (\<And>x. io_keeps R (f x)) \<Longrightarrow> io_keeps R (case p of None \<Rightarrow> m | Some x \<Rightarrow> f x)"
  by (cases p) simp_all

text \<open>Allocation, attribute assignments that keep the id, and removal.\<close>

lemma new_item_apply:
  "\<exists>n. new_item get upd cls forb w = (Inr n, upd (\<lambda>_. dict_put n (cls n) (get w)) w) \<and>
       n \<notin> set (map fst (get w) @ forb w)"
proof -
  obtain n where n: "CreateNewItem (get w) cls (forb w) = Inr (n, cls n, dict_put n (cls n) (get w))"
    and "GetNewIndex (map fst (get w) @ forb w) = Inr n"
    using CreateNewItem_Inr by blast
  then have "n \<notin> set (map fst (get w) @ forb w)" using new_index.fresh by blast
  then show ?thesis using n by (intro exI [of _ n]) (simp add: new_item_def io_simps)
qed

lemma class_ids [simp]:
  "p_id (Port_obj n) = n" "l_id (Lag_obj n) = n" "lm_id (LagMember_obj n) = n"
  "vm_id (VlanMember_obj n) = n" "bp_id (BridgePort_obj n) = n" "b_id (Bridge_obj n) = n" "v_id (Vlan_obj n) = n"
  by (simp_all add: Port_obj_def Lag_obj_def LagMember_obj_def VlanMember_obj_def BridgePort_obj_def
      Bridge_obj_def Vlan_obj_def)

lemma keeps_new_item:
  assumes "\<And>w n. n \<notin> set (map fst (get w) @ forb w) \<Longrightarrow> sai_inv w \<Longrightarrow>
      sai_inv (upd (\<lambda>_. dict_put n (cls n) (get w)) w)"
  shows "io_keeps sai_frame (new_item get upd cls forb)"
proof (rule io_keepsI)
  fix w
  obtain n where "new_item get upd cls forb w = (Inr n, upd (\<lambda>_. dict_put n (cls n) (get w)) w)"
    "n \<notin> set (map fst (get w) @ forb w)" using new_item_apply by blast
  then show "sai_frame w (snd (new_item get upd cls forb w))"
    using assms by (simp add: sai_frame_def)
qed

lemma keeps_store_new:
  "io_keeps sai_frame (new_item ports ports_update Port_obj (\<lambda>w. map fst (lags w)))"
  "io_keeps sai_frame (new_item lags lags_update Lag_obj (\<lambda>w. map fst (ports w)))"
  "io_keeps sai_frame (new_item vlan_members vlan_members_update VlanMember_obj (\<lambda>_. []))"
  "io_keeps sai_frame (new_item bridge_ports bridge_ports_update BridgePort_obj (\<lambda>_. []))"
  "io_keeps sai_frame (new_item bridge_ids bridge_ids_update Bridge_obj (\<lambda>_. []))"
  "io_keeps sai_frame (new_item lag_members lag_members_update LagMember_obj (\<lambda>_. []))"
  by (rule keeps_new_item, simp add: sai_inv_def stored_put)+

lemma keeps_store_modify:
  "(\<And>w. sai_inv w \<Longrightarrow> sai_inv (f w)) \<Longrightarrow> io_keeps sai_frame (io_modify f)"
  by (simp add: io_keeps_def sai_frame_def io_simps)

lemma keys_map_entry: "fst ` set (AList.map_entry k f d) = fst ` set d" "length (AList.map_entry k f d) = length d"
  by simp (induction d, auto)

lemma keeps_store_set:
  "(\<And>p. p_id (f1 p) = p_id p) \<Longrightarrow> io_keeps sai_frame (set_obj ports_update k f1)"
  "(\<And>p. v_id (f2 p) = v_id p) \<Longrightarrow> io_keeps sai_frame (set_obj vlans_update k f2)"
  "(\<And>p. vm_id (f3 p) = vm_id p) \<Longrightarrow> io_keeps sai_frame (set_obj vlan_members_update k f3)"
  "(\<And>p. bp_id (f4 p) = bp_id p) \<Longrightarrow> io_keeps sai_frame (set_obj bridge_ports_update k f4)"
  "(\<And>p. b_id (f5 p) = b_id p) \<Longrightarrow> io_keeps sai_frame (set_obj bridge_ids_update k f5)"
  "(\<And>p. lm_id (f6 p) = lm_id p) \<Longrightarrow> io_keeps sai_frame (set_obj lag_members_update k f6)"
  unfolding set_obj_def
  by (rule keeps_store_modify, simp add: sai_inv_def stored_map_entry keys_map_entry)+

lemma keeps_store_pop:
  "io_keeps sai_frame (io_modify (ports_update (dict_pop k)))"
  "io_keeps sai_frame (io_modify (vlans_update (dict_pop k)))"
  "io_keeps sai_frame (io_modify (vlan_members_update (dict_pop k)))"
  "io_keeps sai_frame (io_modify (bridge_ports_update (dict_pop k)))"
  "io_keeps sai_frame (io_modify (bridge_ids_update (dict_pop k)))"
  "io_keeps sai_frame (io_modify (lag_members_update (dict_pop k)))"
  "io_keeps sai_frame (io_modify (lags_update (dict_pop k)))"
  "io_keeps sai_frame (io_modify (default_lag_members_update g))"
  by (rule keeps_store_modify, auto simp: sai_inv_def stored_pop length_pop)+

lemma keeps_create_vlan: "io_keeps sai_frame (sai_thrift_create_vlan attrs)"
proof -
  have rest: "sai_frame w (snd (io_then (pr [d]) (io_bind (new_item vlans vlans_update Vlan_obj (\<lambda>_. [])) (\<lambda>i.
      io_then (set_obj vlans_update i (\<lambda>v. v\<lparr>v_vid := x, v_members := []\<rparr>)) (io_ret (Some i)))) w))"
    if "vlans w = []" for w d x
  proof -
    let ?w = "w\<lparr>events := events w @ [Out d]\<rparr>"
    obtain n where "new_item vlans vlans_update Vlan_obj (\<lambda>_. []) ?w =
        (Inr n, vlans_update (\<lambda>_. dict_put n (Vlan_obj n) (vlans ?w)) ?w)"
      using new_item_apply by blast
    then show ?thesis
      using that by (simp add: io_simps set_obj_def sai_frame_def sai_inv_def dict_put_def stored_def)
  qed
  show ?thesis
    unfolding sai_thrift_create_vlan_def
    by (insert rest, rule store.keeps_bind [OF store.keeps_lift], rule store.keeps_bind [OF keeps_store_read(1)])
       (auto simp: io_keeps_def io_simps fmt_d_def store.frame_refl split: option.split)
qed

lemma keeps_sai_run: "io_keeps sai_frame (sai_run api obj_repr rpc)"
proof (cases "\<exists>attrs. rpc = Create_vlan attrs")
  case True
  then show ?thesis using keeps_create_vlan by auto
next
  case False
  then show ?thesis
    by (cases rpc; (hypsubst, unfold sai_run.simps sai_defs Let_def)?;
        (intro store.keeps_intros ext_if ext_case_prod keeps_case_option keeps_store_driver keeps_store_read
           keeps_store_new keeps_store_set keeps_store_pop)?; simp)
qed


section \<open>LAG hash sizes\<close>

lemma same_more_lag_list: "same_more w w' \<Longrightarrow> default_lag_members w' = default_lag_members (w :: 's sai)"
  by (cases w; cases w') (simp add: same_more_def)

text \<open>The line with which the driver echoes a command.\<close>

definition echo :: "string \<Rightarrow> string \<Rightarrow> string \<Rightarrow> string \<Rightarrow> event" where
  "echo t a m v = Out (''table_add '' @ add_cmd t a m v)"

lemma add_table_step:
  assumes "add_table api t a m v w = (r, w')"
  shows "default_lag_members w' = default_lag_members w \<and> (\<exists>es. events w' = events w @ echo t a m v # es)"
proof
  show "default_lag_members w' = default_lag_members w"
    using io_keepsD [OF keeps_more_driver(1)] assms same_more_lag_list unfolding add_table_def by blast
  have "do_table_add api (add_cmd t a m v) (w\<lparr>events := events w @ [echo t a m v]\<rparr>) = (r, w')"
    using assms by (simp add: add_table_def AddTable_def echo_def Let_def io_simps)
  from issuesD(2) [OF issues_table_commands(7) refl this]
  show "\<exists>es. events w' = events w @ echo t a m v # es" by auto
qed

lemma remove_entry_step:
  assumes "remove_entry api t m w = (r, w')"
  shows "default_lag_members w' = default_lag_members w \<and> (\<exists>es. events w' = events w @ es)"
  using io_keepsD [OF keeps_more_driver(2)] issuesD(2) [OF issues_driver(2) refl] assms same_more_lag_list
  unfolding remove_entry_def by blast


section \<open>A table the server cannot program\<close>

definition port_if_table :: string where
  "port_if_table = ''table_port_ingress_interface_type''"

text \<open>The part of \<^verbatim>\<open>sai.json\<close> that matters: the table matches exactly, and its action has
  two parameters, the interface type and the bridge port.\<close>

definition port_if_config :: "config \<Rightarrow> bool" where
  "port_if_config c \<longleftrightarrow>
     (\<exists>table action. map_of (TABLES c) port_if_table = Some table \<and> t_match_type table = Some EXACT \<and>
        map_of (ACTIONS c) ''action_set_l2_if_type'' = Some action \<and> num_params action = 2)"

lemma issues_add_port_if:
  assumes "port_if_config c"
  shows "issues c P (add_table api ''table_port_ingress_interface_type'' ''action_set_l2_if_type''
    (py_str port_id) (show_int br))"
proof -
  have none: "py_int ''=>'' = None" by code_simp
  have "show_int a \<noteq> ''=>''" for a
    using none py_int_show_int [of a] by (metis option.distinct(1))
  then have "py_str port_id \<noteq> ''=>''" by (cases port_id) (auto simp: py_str_def)
  moreover have "py_split (py_str port_id) = [py_str port_id]" "py_split (show_int br) = [show_int br]" by simp_all
  ultimately show ?thesis
    using assms unfolding add_table_def port_if_config_def port_if_table_def
    by (auto intro!: issues_AddTable_wrong_arity simp: no_space_def is_space_def)
qed

lemma issues_add_other:
  assumes "no_space t" "t \<noteq> []" "no_space a" "a \<noteq> []" "t \<noteq> port_if_table"
  shows "issues c (\<lambda>call. \<not> adds_to port_if_table call) (add_table api t a m v)"
  unfolding add_table_def by (rule issues_AddTable_other [OF assms])

lemma issues_remove_adds: "issues c (\<lambda>call. \<not> adds_to t' call) (remove_entry api t m)"
  unfolding remove_entry_def by (rule issues_RemoveTableEntry_adds)

lemma issues_never_port_if:
  assumes "port_if_config c"
  shows "issues c (\<lambda>call. \<not> adds_to port_if_table call) (sai_run api obj_repr rpc)"
  by (cases rpc; hypsubst; unfold sai_run.simps sai_defs Let_def;
      intro issues_bind issues_then issues_for issues_fold issues_if issues_case_prod issues_case_option
        issues_atoms issues_handler_atoms(1,2) issues_store issues_sai_modify
        issues_add_port_if [OF assms] issues_add_other issues_remove_adds;
      simp add: no_space_def is_space_def port_if_table_def)

text \<open>
  C23. With the program of \<^verbatim>\<open>sai.json\<close> loaded, no remote procedure ever adds an entry to
  \<open>table_port_ingress_interface_type\<close>: \<open>create_bridge_port\<close> tries to, for ports bound in port
  mode, but passes one parameter to an action that has two, so the CLI rejects every such entry.
\<close>

theorem port_interface_never_programmed:
  assumes "port_if_config (cfg w)" and "sai_run api obj_repr rpc w = (r, w')"
  shows "\<exists>es. events w' = events w @ es \<and> list_all (\<lambda>call. \<not> adds_to port_if_table call) (rpcs es)"
  using issuesD(2) [OF issues_never_port_if [OF assms(1)] refl assms(2)] by blast

section \<open>Examples\<close>

definition sai_action :: action where
  "sai_action = \<lparr>a_name = ''action_set_l2_if_type'', a_id = 13,
     runtime_data = [(''l2_if_type'', 2), (''bridge_port'', 8)]\<rparr>"

definition sai_table :: table where
  "sai_table = \<lparr>t_name = port_if_table, t_id = 4, t_match_type = Some EXACT,
     t_actions = [(''action_set_l2_if_type'', sai_action)], t_key = [(''ingress_metadata.l2_if'', EXACT, 6)],
     t_type = Some Table_simple, support_timeout = False\<rparr>"

definition sai_world :: "int sai" where
  "sai_world = \<lparr>cfg = empty_config\<lparr>TABLES := [(port_if_table, sai_table)],
       ACTIONS := [(''action_set_l2_if_type'', sai_action)]\<rparr>, switch = 0, events = [],
     switch_id = 0, hw_port_list = [0, 1, 2, 3, 4, 5, 6, 7], ports = [], vlans = [], vlan_members = [],
     bridge_ports = [], bridge_ids = [], lag_members = [], lags = [], default_lag_members = []\<rparr>"

definition port_attrs :: "thrift_attr list" where
  "port_attrs =
    [\<lparr>attr_id = 1, attr_value = Some \<lparr>av_s32 = None, av_u16 = Some 10, av_oid = None, av_u32list = None\<rparr>\<rparr>,
     \<lparr>attr_id = 2, attr_value = Some \<lparr>av_s32 = None, av_u16 = None, av_oid = None, av_u32list = Some (Some [3])\<rparr>\<rparr>]"



theorem port_interface_never_programmed_witness:
  "\<exists>es. events (snd (sai_run counting_api (\<lambda>_ _. []) (Create_bridge_port []) sai_world)) = events sai_world @ es \<and>
     list_all (\<lambda>call. \<not> adds_to port_if_table call) (rpcs es)"
  by (rule port_interface_never_programmed [OF _ surjective_pairing])
     (simp add: port_if_config_def sai_world_def sai_table_def sai_action_def num_params_def)

definition lag_attrs :: "thrift_attr list" where
  "lag_attrs =
    [\<lparr>attr_id = 0, attr_value = Some \<lparr>av_s32 = None, av_u16 = None, av_oid = Some 0, av_u32list = None\<rparr>\<rparr>,
     \<lparr>attr_id = 1, attr_value = Some \<lparr>av_s32 = None, av_u16 = None, av_oid = Some 1, av_u32list = None\<rparr>\<rparr>]"

definition sai_lag_world :: "int sai" where
  "sai_lag_world = sai_world\<lparr>cfg := empty_config, ports := [(0, Port_obj 0)], lags := [(1, Lag_obj 1)]\<rparr>"

lemma lag_member_created:
  "fst (sai_thrift_create_lag_member counting_api lag_attrs sai_lag_world) = Inr (Some 0)"
  by code_simp


end
