(* ===== verification/Sai_Types.thy ===== *)
theory Sai_Types
  imports Thrift_Rpc
begin

text \<open>
  The types of the SAI service, \<^verbatim>\<open>Sai-Tests/sai_thrift_src/gen-py/switch_sai/ttypes.py\<close>: its
  enumerations, with the numbers of their members, and its structures, each with the number, the name
  and the type of its fields, from which \<open>new\<close>, \<open>read_val\<close> and \<open>write_val\<close> make its constructor, its
  \<open>read\<close> and its \<open>write\<close>.
\<close>

section \<open>Enumerations\<close>

definition sai_switch_attr :: "(string \<times> int) list" where
  "sai_switch_attr =
    [(''SAI_SWITCH_ATTR_PORT_NUMBER'', 0), (''SAI_SWITCH_ATTR_PORT_LIST'', 1)]"

definition sai_bridge_port_type :: "(string \<times> int) list" where
  "sai_bridge_port_type =
    [(''SAI_BRIDGE_PORT_TYPE_PORT'', 0), (''SAI_BRIDGE_PORT_TYPE_SUB_PORT'', 1),
     (''SAI_BRIDGE_PORT_TYPE_1Q_ROUTER'', 2), (''SAI_BRIDGE_PORT_TYPE_1D_ROUTER'', 3),
     (''SAI_BRIDGE_PORT_TYPE_TUNNEL'', 4)]"

definition sai_bridge_port_attr :: "(string \<times> int) list" where
  "sai_bridge_port_attr =
    [(''SAI_BRIDGE_PORT_ATTR_TYPE'', 0), (''SAI_BRIDGE_PORT_ATTR_PORT_ID'', 1),
     (''SAI_BRIDGE_PORT_ATTR_VLAN_ID'', 2), (''SAI_BRIDGE_PORT_ATTR_RIF_ID'', 3),
     (''SAI_BRIDGE_PORT_ATTR_TUNNEL_ID'', 4), (''SAI_BRIDGE_PORT_ATTR_BRIDGE_ID'', 5),
     (''SAI_BRIDGE_PORT_ATTR_FDB_LEARNING_MODE'', 6)]"

definition sai_lag_member_attr :: "(string \<times> int) list" where
  "sai_lag_member_attr =
    [(''SAI_LAG_MEMBER_ATTR_PORT_ID'', 0), (''SAI_LAG_MEMBER_ATTR_LAG_ID'', 1)]"

definition sai_fdb_entry_attr :: "(string \<times> int) list" where
  "sai_fdb_entry_attr =
    [(''SAI_FDB_ENTRY_ATTR_TYPE'', 0), (''SAI_FDB_ENTRY_ATTR_PACKET_ACTION'', 1),
     (''SAI_FDB_ENTRY_ATTR_BRIDGE_PORT_ID'', 2), (''SAI_FDB_ENTRY_ATTR_META_DATA'', 3),
     (''SAI_FDB_ENTRY_ATTR_END'', 4)]"

definition sai_fdb_entry_type :: "(string \<times> int) list" where
  "sai_fdb_entry_type =
    [(''SAI_FDB_ENTRY_TYPE_DYNAMIC'', 0), (''SAI_FDB_ENTRY_TYPE_STATIC'', 1)]"

definition sai_fdb_flush_attr :: "(string \<times> int) list" where
  "sai_fdb_flush_attr =
    [(''SAI_FDB_FLUSH_ATTR_PORT_ID'', 0), (''SAI_FDB_FLUSH_ATTR_VLAN_ID'', 1),
     (''SAI_FDB_FLUSH_ATTR_ENTRY_TYPE'', 2)]"

definition sai_vlan_member_attr :: "(string \<times> int) list" where
  "sai_vlan_member_attr =
    [(''SAI_VLAN_MEMBER_ATTR_VLAN_ID'', 0), (''SAI_VLAN_MEMBER_ATTR_BRIDGE_PORT_ID'', 1),
     (''SAI_VLAN_MEMBER_ATTR_VLAN_TAGGING_MODE'', 2)]"

definition sai_vlan_attr :: "(string \<times> int) list" where
  "sai_vlan_attr =
    [(''SAI_VLAN_ATTR_VLAN_ID'', 0), (''SAI_VLAN_ATTR_MEMBER_LIST'', 1)]"

definition sai_port_attr :: "(string \<times> int) list" where
  "sai_port_attr =
    [(''SAI_PORT_ATTR_BIND_MODE'', 0), (''SAI_PORT_ATTR_PORT_VLAN_ID'', 1),
     (''SAI_PORT_ATTR_HW_LANE_LIST'', 2)]"

definition sai_bridge_attr :: "(string \<times> int) list" where
  "sai_bridge_attr =
    [(''SAI_BRIDGE_ATTR_TYPE'', 0)]"

definition sai_bridge_type :: "(string \<times> int) list" where
  "sai_bridge_type =
    [(''SAI_BRIDGE_TYPE_1Q'', 0), (''SAI_BRIDGE_TYPE_1D'', 1)]"

definition sai_port_bind_mode :: "(string \<times> int) list" where
  "sai_port_bind_mode =
    [(''SAI_PORT_BIND_MODE_PORT'', 0), (''SAI_PORT_BIND_MODE_SUB_PORT'', 1)]"

definition sai_fdb_entry_bridge_type :: "(string \<times> int) list" where
  "sai_fdb_entry_bridge_type =
    [(''SAI_FDB_ENTRY_BRIDGE_TYPE_1Q'', 0), (''SAI_FDB_ENTRY_BRIDGE_TYPE_1D'', 1)]"

definition sai_packet_action :: "(string \<times> int) list" where
  "sai_packet_action =
    [(''SAI_PACKET_ACTION_DROP'', 0), (''SAI_PACKET_ACTION_FORWARD'', 1), (''SAI_PACKET_ACTION_COPY'', 2),
     (''SAI_PACKET_ACTION_COPY_CANCEL'', 3), (''SAI_PACKET_ACTION_TRAP'', 4),
     (''SAI_PACKET_ACTION_LOG'', 5), (''SAI_PACKET_ACTION_DENY'', 6), (''SAI_PACKET_ACTION_TRANSIT'', 7)]"

definition sai_vlan_tagging_mode :: "(string \<times> int) list" where
  "sai_vlan_tagging_mode =
    [(''SAI_VLAN_TAGGING_MODE_UNTAGGED'', 0), (''SAI_VLAN_TAGGING_MODE_TAGGED'', 1),
     (''SAI_VLAN_TAGGING_MODE_PRIORITY_TAGGED'', 2)]"

section \<open>Structures\<close>

definition sai_thrift_fdb_entry_t :: tclass where
  "sai_thrift_fdb_entry_t = TClass ''sai_thrift_fdb_entry_t''
    [(1, ''mac_address'', SString), (2, ''vlan_id'', SI16), (3, ''bridge_type'', SI32),
     (4, ''bridge_id'', SI64)]"

definition sai_thrift_vlan_port_t :: tclass where
  "sai_thrift_vlan_port_t = TClass ''sai_thrift_vlan_port_t''
    [(1, ''port_id'', SI64), (2, ''tagging_mode'', SByte)]"

definition sai_thrift_ip_t :: tclass where
  "sai_thrift_ip_t = TClass ''sai_thrift_ip_t'' [(1, ''ip4'', SString), (2, ''ip6'', SString)]"

definition sai_thrift_ip_address_t :: tclass where
  "sai_thrift_ip_address_t = TClass ''sai_thrift_ip_address_t''
    [(1, ''addr_family'', SByte), (2, ''addr'', SStruct sai_thrift_ip_t)]"

definition sai_thrift_ip_prefix_t :: tclass where
  "sai_thrift_ip_prefix_t = TClass ''sai_thrift_ip_prefix_t''
    [(1, ''addr_family'', SByte), (2, ''addr'', SStruct sai_thrift_ip_t),
     (3, ''mask'', SStruct sai_thrift_ip_t)]"

definition sai_thrift_object_list_t :: tclass where
  "sai_thrift_object_list_t = TClass ''sai_thrift_object_list_t''
    [(1, ''count'', SI32), (2, ''object_id_list'', SList SI64)]"

definition sai_thrift_vlan_list_t :: tclass where
  "sai_thrift_vlan_list_t = TClass ''sai_thrift_vlan_list_t''
    [(1, ''vlan_count'', SI32), (2, ''vlan_list'', SList SI16)]"

definition sai_thrift_acl_mask_t :: tclass where
  "sai_thrift_acl_mask_t = TClass ''sai_thrift_acl_mask_t''
    [(1, ''u8'', SByte), (2, ''s8'', SByte), (3, ''u16'', SI16), (4, ''s16'', SI16), (5, ''u32'', SI32),
     (6, ''s32'', SI32), (7, ''mac'', SString), (8, ''ip4'', SString), (9, ''ip6'', SString)]"

definition sai_thrift_acl_data_t :: tclass where
  "sai_thrift_acl_data_t = TClass ''sai_thrift_acl_data_t''
    [(1, ''u8'', SByte), (2, ''s8'', SByte), (3, ''u16'', SI16), (4, ''s16'', SI16), (5, ''u32'', SI32),
     (6, ''s32'', SI32), (7, ''mac'', SString), (8, ''ip4'', SString), (9, ''ip6'', SString),
     (10, ''oid'', SI64), (11, ''objlist'', SStruct sai_thrift_object_list_t)]"

definition sai_thrift_acl_field_data_t :: tclass where
  "sai_thrift_acl_field_data_t = TClass ''sai_thrift_acl_field_data_t''
    [(1, ''enable'', SBool), (2, ''mask'', SStruct sai_thrift_acl_mask_t),
     (3, ''data'', SStruct sai_thrift_acl_data_t)]"

definition sai_thrift_acl_parameter_t :: tclass where
  "sai_thrift_acl_parameter_t = TClass ''sai_thrift_acl_parameter_t''
    [(1, ''u8'', SByte), (2, ''s8'', SByte), (3, ''u16'', SI16), (4, ''s16'', SI16), (5, ''u32'', SI32),
     (6, ''s32'', SI32), (7, ''mac'', SString), (8, ''ip4'', SString), (9, ''ip6'', SString),
     (10, ''oid'', SI64)]"

definition sai_thrift_acl_action_data_t :: tclass where
  "sai_thrift_acl_action_data_t = TClass ''sai_thrift_acl_action_data_t''
    [(1, ''enable'', SBool), (2, ''parameter'', SStruct sai_thrift_acl_parameter_t)]"

definition sai_thrift_u32_list_t :: tclass where
  "sai_thrift_u32_list_t = TClass ''sai_thrift_u32_list_t''
    [(1, ''count'', SI32), (2, ''u32list'', SList SI32)]"

definition sai_thrift_qos_map_params_t :: tclass where
  "sai_thrift_qos_map_params_t = TClass ''sai_thrift_qos_map_params_t''
    [(1, ''tc'', SByte), (2, ''dscp'', SByte), (3, ''dot1p'', SByte), (4, ''prio'', SByte),
     (5, ''pg'', SByte), (6, ''queue_index'', SByte), (7, ''color'', SByte)]"

definition sai_thrift_qos_map_t :: tclass where
  "sai_thrift_qos_map_t = TClass ''sai_thrift_qos_map_t''
    [(1, ''key'', SStruct sai_thrift_qos_map_params_t), (2, ''value'', SStruct sai_thrift_qos_map_params_t)]"

definition sai_thrift_qos_map_list_t :: tclass where
  "sai_thrift_qos_map_list_t = TClass ''sai_thrift_qos_map_list_t''
    [(1, ''count'', SI32), (2, ''map_list'', SList (SStruct sai_thrift_qos_map_t))]"

definition sai_thrift_attribute_value_t :: tclass where
  "sai_thrift_attribute_value_t = TClass ''sai_thrift_attribute_value_t''
    [(1, ''booldata'', SBool), (2, ''chardata'', SString), (3, ''u8'', SByte), (4, ''s8'', SByte),
     (5, ''u16'', SI16), (6, ''s16'', SI16), (7, ''u32'', SI32), (8, ''s32'', SI32), (9, ''u64'', SI64),
     (10, ''s64'', SI64), (11, ''mac'', SString), (12, ''oid'', SI64), (13, ''ip4'', SString),
     (14, ''ip6'', SString), (15, ''ipaddr'', SStruct sai_thrift_ip_address_t),
     (16, ''objlist'', SStruct sai_thrift_object_list_t),
     (17, ''vlanlist'', SStruct sai_thrift_vlan_list_t),
     (18, ''aclfield'', SStruct sai_thrift_acl_field_data_t),
     (19, ''aclaction'', SStruct sai_thrift_acl_action_data_t),
     (20, ''u32list'', SStruct sai_thrift_u32_list_t), (21, ''qosmap'', SStruct sai_thrift_qos_map_list_t)]"

definition sai_thrift_attribute_t :: tclass where
  "sai_thrift_attribute_t = TClass ''sai_thrift_attribute_t''
    [(1, ''id'', SI32), (2, ''value'', SStruct sai_thrift_attribute_value_t)]"

definition sai_thrift_unicast_route_entry_t :: tclass where
  "sai_thrift_unicast_route_entry_t = TClass ''sai_thrift_unicast_route_entry_t''
    [(1, ''vr_id'', SI64), (2, ''destination'', SStruct sai_thrift_ip_prefix_t)]"

definition sai_thrift_neighbor_entry_t :: tclass where
  "sai_thrift_neighbor_entry_t = TClass ''sai_thrift_neighbor_entry_t''
    [(1, ''rif_id'', SI64), (2, ''ip_address'', SStruct sai_thrift_ip_address_t)]"

definition sai_thrift_attribute_list_t :: tclass where
  "sai_thrift_attribute_list_t = TClass ''sai_thrift_attribute_list_t''
    [(1, ''attr_list'', SList (SStruct sai_thrift_attribute_t)), (2, ''attr_count'', SI32)]"

lemmas sai_struct_defs = sai_thrift_fdb_entry_t_def
  sai_thrift_vlan_port_t_def
  sai_thrift_ip_t_def
  sai_thrift_ip_address_t_def
  sai_thrift_ip_prefix_t_def
  sai_thrift_object_list_t_def
  sai_thrift_vlan_list_t_def
  sai_thrift_acl_mask_t_def
  sai_thrift_acl_data_t_def
  sai_thrift_acl_field_data_t_def
  sai_thrift_acl_parameter_t_def
  sai_thrift_acl_action_data_t_def
  sai_thrift_u32_list_t_def
  sai_thrift_qos_map_params_t_def
  sai_thrift_qos_map_t_def
  sai_thrift_qos_map_list_t_def
  sai_thrift_attribute_value_t_def
  sai_thrift_attribute_t_def
  sai_thrift_unicast_route_entry_t_def
  sai_thrift_neighbor_entry_t_def
  sai_thrift_attribute_list_t_def

lemma wf_sai_structs [simp]:
  "wf_spec (SStruct sai_thrift_fdb_entry_t)"
  "wf_spec (SStruct sai_thrift_vlan_port_t)"
  "wf_spec (SStruct sai_thrift_ip_t)"
  "wf_spec (SStruct sai_thrift_ip_address_t)"
  "wf_spec (SStruct sai_thrift_ip_prefix_t)"
  "wf_spec (SStruct sai_thrift_object_list_t)"
  "wf_spec (SStruct sai_thrift_vlan_list_t)"
  "wf_spec (SStruct sai_thrift_acl_mask_t)"
  "wf_spec (SStruct sai_thrift_acl_data_t)"
  "wf_spec (SStruct sai_thrift_acl_field_data_t)"
  "wf_spec (SStruct sai_thrift_acl_parameter_t)"
  "wf_spec (SStruct sai_thrift_acl_action_data_t)"
  "wf_spec (SStruct sai_thrift_u32_list_t)"
  "wf_spec (SStruct sai_thrift_qos_map_params_t)"
  "wf_spec (SStruct sai_thrift_qos_map_t)"
  "wf_spec (SStruct sai_thrift_qos_map_list_t)"
  "wf_spec (SStruct sai_thrift_attribute_value_t)"
  "wf_spec (SStruct sai_thrift_attribute_t)"
  "wf_spec (SStruct sai_thrift_unicast_route_entry_t)"
  "wf_spec (SStruct sai_thrift_neighbor_entry_t)"
  "wf_spec (SStruct sai_thrift_attribute_list_t)"
  by (simp_all add: sai_struct_defs int_fits_def)

end
