(* ===== verification/Sai_Rpc.thy ===== *)
theory Sai_Rpc
  imports Sai_Types
begin

text \<open>
  The service \<open>switch_sai_rpc\<close> (\<^verbatim>\<open>switch_sai/switch_sai_rpc.py\<close>): for each of its 82 methods the class
  of the arguments and the class of the result, and the list of methods that the processor knows. A
  class is its table of fields: its \<open>__init__\<close>, \<open>read\<close> and \<open>write\<close> are \<open>new\<close>, \<open>read_val\<close> and
  \<open>write_val\<close> at that table. A method is its name and its classes: its code in \<open>Client\<close> and
  \<open>Processor\<close> is \<open>client_send\<close>, \<open>client_recv\<close> and \<open>process_method\<close> at that record.
\<close>

section \<open>Argument and result classes\<close>

definition sai_thrift_set_port_attribute_args :: tclass where
  "sai_thrift_set_port_attribute_args = TClass ''sai_thrift_set_port_attribute_args''
    [(1, ''port_id'', SI64), (2, ''thrift_attr'', SStruct sai_thrift_attribute_t)]"

definition sai_thrift_set_port_attribute_result :: tclass where
  "sai_thrift_set_port_attribute_result = TClass ''sai_thrift_set_port_attribute_result''
    [(0, ''success'', SI32)]"

definition sai_thrift_get_port_attribute_args :: tclass where
  "sai_thrift_get_port_attribute_args = TClass ''sai_thrift_get_port_attribute_args''
    [(1, ''port_id'', SI64)]"

definition sai_thrift_get_port_attribute_result :: tclass where
  "sai_thrift_get_port_attribute_result = TClass ''sai_thrift_get_port_attribute_result''
    [(0, ''success'', SStruct sai_thrift_attribute_list_t)]"

definition sai_thrift_get_port_stats_args :: tclass where
  "sai_thrift_get_port_stats_args = TClass ''sai_thrift_get_port_stats_args''
    [(1, ''port_id'', SI64), (2, ''counter_ids'', SList SI32), (3, ''number_of_counters'', SI32)]"

definition sai_thrift_get_port_stats_result :: tclass where
  "sai_thrift_get_port_stats_result = TClass ''sai_thrift_get_port_stats_result''
    [(0, ''success'', SList SI64)]"

definition sai_thrift_clear_port_all_stats_args :: tclass where
  "sai_thrift_clear_port_all_stats_args = TClass ''sai_thrift_clear_port_all_stats_args''
    [(1, ''port_id'', SI64)]"

definition sai_thrift_clear_port_all_stats_result :: tclass where
  "sai_thrift_clear_port_all_stats_result = TClass ''sai_thrift_clear_port_all_stats_result''
    [(0, ''success'', SI32)]"

definition sai_thrift_remove_port_args :: tclass where
  "sai_thrift_remove_port_args = TClass ''sai_thrift_remove_port_args'' [(1, ''port_id'', SI64)]"

definition sai_thrift_remove_port_result :: tclass where
  "sai_thrift_remove_port_result = TClass ''sai_thrift_remove_port_result'' [(0, ''success'', SI32)]"

definition sai_thrift_create_port_args :: tclass where
  "sai_thrift_create_port_args = TClass ''sai_thrift_create_port_args''
    [(1, ''thrift_attr_list'', SList (SStruct sai_thrift_attribute_t))]"

definition sai_thrift_create_port_result :: tclass where
  "sai_thrift_create_port_result = TClass ''sai_thrift_create_port_result'' [(0, ''success'', SI64)]"

definition sai_thrift_create_bridge_args :: tclass where
  "sai_thrift_create_bridge_args = TClass ''sai_thrift_create_bridge_args''
    [(1, ''thrift_attr_list'', SList (SStruct sai_thrift_attribute_t))]"

definition sai_thrift_create_bridge_result :: tclass where
  "sai_thrift_create_bridge_result = TClass ''sai_thrift_create_bridge_result'' [(0, ''success'', SI64)]"

definition sai_thrift_remove_bridge_args :: tclass where
  "sai_thrift_remove_bridge_args = TClass ''sai_thrift_remove_bridge_args'' [(1, ''bridge_id'', SI64)]"

definition sai_thrift_remove_bridge_result :: tclass where
  "sai_thrift_remove_bridge_result = TClass ''sai_thrift_remove_bridge_result'' [(0, ''success'', SI32)]"

definition sai_thrift_create_bridge_port_args :: tclass where
  "sai_thrift_create_bridge_port_args = TClass ''sai_thrift_create_bridge_port_args''
    [(1, ''thrift_attr_list'', SList (SStruct sai_thrift_attribute_t))]"

definition sai_thrift_create_bridge_port_result :: tclass where
  "sai_thrift_create_bridge_port_result = TClass ''sai_thrift_create_bridge_port_result''
    [(0, ''success'', SI64)]"

definition sai_thrift_remove_bridge_port_args :: tclass where
  "sai_thrift_remove_bridge_port_args = TClass ''sai_thrift_remove_bridge_port_args''
    [(1, ''bridge_port_id'', SI64)]"

definition sai_thrift_remove_bridge_port_result :: tclass where
  "sai_thrift_remove_bridge_port_result = TClass ''sai_thrift_remove_bridge_port_result''
    [(0, ''success'', SI32)]"

definition sai_thrift_create_fdb_entry_args :: tclass where
  "sai_thrift_create_fdb_entry_args = TClass ''sai_thrift_create_fdb_entry_args''
    [(1, ''thrift_fdb_entry'', SStruct sai_thrift_fdb_entry_t),
     (2, ''thrift_attr_list'', SList (SStruct sai_thrift_attribute_t))]"

definition sai_thrift_create_fdb_entry_result :: tclass where
  "sai_thrift_create_fdb_entry_result = TClass ''sai_thrift_create_fdb_entry_result''
    [(0, ''success'', SI32)]"

definition sai_thrift_delete_fdb_entry_args :: tclass where
  "sai_thrift_delete_fdb_entry_args = TClass ''sai_thrift_delete_fdb_entry_args''
    [(1, ''thrift_fdb_entry'', SStruct sai_thrift_fdb_entry_t)]"

definition sai_thrift_delete_fdb_entry_result :: tclass where
  "sai_thrift_delete_fdb_entry_result = TClass ''sai_thrift_delete_fdb_entry_result''
    [(0, ''success'', SI32)]"

definition sai_thrift_flush_fdb_entries_args :: tclass where
  "sai_thrift_flush_fdb_entries_args = TClass ''sai_thrift_flush_fdb_entries_args''
    [(1, ''thrift_attr_list'', SList (SStruct sai_thrift_attribute_t))]"

definition sai_thrift_flush_fdb_entries_result :: tclass where
  "sai_thrift_flush_fdb_entries_result = TClass ''sai_thrift_flush_fdb_entries_result''
    [(0, ''success'', SI32)]"

definition sai_thrift_create_vlan_args :: tclass where
  "sai_thrift_create_vlan_args = TClass ''sai_thrift_create_vlan_args''
    [(1, ''thrift_attr_list'', SList (SStruct sai_thrift_attribute_t))]"

definition sai_thrift_create_vlan_result :: tclass where
  "sai_thrift_create_vlan_result = TClass ''sai_thrift_create_vlan_result'' [(0, ''success'', SI64)]"

definition sai_thrift_delete_vlan_args :: tclass where
  "sai_thrift_delete_vlan_args = TClass ''sai_thrift_delete_vlan_args'' [(1, ''vlan_id'', SI64)]"

definition sai_thrift_delete_vlan_result :: tclass where
  "sai_thrift_delete_vlan_result = TClass ''sai_thrift_delete_vlan_result'' [(0, ''success'', SI32)]"

definition sai_thrift_get_vlan_stats_args :: tclass where
  "sai_thrift_get_vlan_stats_args = TClass ''sai_thrift_get_vlan_stats_args''
    [(1, ''vlan_id'', SI16), (2, ''counter_ids'', SList SI32), (3, ''number_of_counters'', SI32)]"

definition sai_thrift_get_vlan_stats_result :: tclass where
  "sai_thrift_get_vlan_stats_result = TClass ''sai_thrift_get_vlan_stats_result''
    [(0, ''success'', SList SI64)]"

definition sai_thrift_create_vlan_member_args :: tclass where
  "sai_thrift_create_vlan_member_args = TClass ''sai_thrift_create_vlan_member_args''
    [(1, ''thrift_attr_list'', SList (SStruct sai_thrift_attribute_t))]"

definition sai_thrift_create_vlan_member_result :: tclass where
  "sai_thrift_create_vlan_member_result = TClass ''sai_thrift_create_vlan_member_result''
    [(0, ''success'', SI64)]"

definition sai_thrift_remove_vlan_member_args :: tclass where
  "sai_thrift_remove_vlan_member_args = TClass ''sai_thrift_remove_vlan_member_args''
    [(1, ''vlan_member_id'', SI64)]"

definition sai_thrift_remove_vlan_member_result :: tclass where
  "sai_thrift_remove_vlan_member_result = TClass ''sai_thrift_remove_vlan_member_result''
    [(0, ''success'', SI32)]"

definition sai_thrift_get_vlan_attribute_args :: tclass where
  "sai_thrift_get_vlan_attribute_args = TClass ''sai_thrift_get_vlan_attribute_args''
    [(1, ''vlan_id'', SI64)]"

definition sai_thrift_get_vlan_attribute_result :: tclass where
  "sai_thrift_get_vlan_attribute_result = TClass ''sai_thrift_get_vlan_attribute_result''
    [(0, ''success'', SStruct sai_thrift_attribute_list_t)]"

definition sai_thrift_create_virtual_router_args :: tclass where
  "sai_thrift_create_virtual_router_args = TClass ''sai_thrift_create_virtual_router_args''
    [(1, ''thrift_attr_list'', SList (SStruct sai_thrift_attribute_t))]"

definition sai_thrift_create_virtual_router_result :: tclass where
  "sai_thrift_create_virtual_router_result = TClass ''sai_thrift_create_virtual_router_result''
    [(0, ''success'', SI64)]"

definition sai_thrift_remove_virtual_router_args :: tclass where
  "sai_thrift_remove_virtual_router_args = TClass ''sai_thrift_remove_virtual_router_args''
    [(1, ''vr_id'', SI64)]"

definition sai_thrift_remove_virtual_router_result :: tclass where
  "sai_thrift_remove_virtual_router_result = TClass ''sai_thrift_remove_virtual_router_result''
    [(0, ''success'', SI32)]"

definition sai_thrift_create_route_args :: tclass where
  "sai_thrift_create_route_args = TClass ''sai_thrift_create_route_args''
    [(1, ''thrift_unicast_route_entry'', SStruct sai_thrift_unicast_route_entry_t),
     (2, ''thrift_attr_list'', SList (SStruct sai_thrift_attribute_t))]"

definition sai_thrift_create_route_result :: tclass where
  "sai_thrift_create_route_result = TClass ''sai_thrift_create_route_result'' [(0, ''success'', SI32)]"

definition sai_thrift_remove_route_args :: tclass where
  "sai_thrift_remove_route_args = TClass ''sai_thrift_remove_route_args''
    [(1, ''thrift_unicast_route_entry'', SStruct sai_thrift_unicast_route_entry_t)]"

definition sai_thrift_remove_route_result :: tclass where
  "sai_thrift_remove_route_result = TClass ''sai_thrift_remove_route_result'' [(0, ''success'', SI32)]"

definition sai_thrift_create_router_interface_args :: tclass where
  "sai_thrift_create_router_interface_args = TClass ''sai_thrift_create_router_interface_args''
    [(1, ''thrift_attr_list'', SList (SStruct sai_thrift_attribute_t))]"

definition sai_thrift_create_router_interface_result :: tclass where
  "sai_thrift_create_router_interface_result = TClass ''sai_thrift_create_router_interface_result''
    [(0, ''success'', SI64)]"

definition sai_thrift_remove_router_interface_args :: tclass where
  "sai_thrift_remove_router_interface_args = TClass ''sai_thrift_remove_router_interface_args''
    [(1, ''rif_id'', SI64)]"

definition sai_thrift_remove_router_interface_result :: tclass where
  "sai_thrift_remove_router_interface_result = TClass ''sai_thrift_remove_router_interface_result''
    [(0, ''success'', SI32)]"

definition sai_thrift_create_next_hop_args :: tclass where
  "sai_thrift_create_next_hop_args = TClass ''sai_thrift_create_next_hop_args''
    [(1, ''thrift_attr_list'', SList (SStruct sai_thrift_attribute_t))]"

definition sai_thrift_create_next_hop_result :: tclass where
  "sai_thrift_create_next_hop_result = TClass ''sai_thrift_create_next_hop_result'' [(0, ''success'', SI64)]"

definition sai_thrift_remove_next_hop_args :: tclass where
  "sai_thrift_remove_next_hop_args = TClass ''sai_thrift_remove_next_hop_args'' [(1, ''next_hop_id'', SI64)]"

definition sai_thrift_remove_next_hop_result :: tclass where
  "sai_thrift_remove_next_hop_result = TClass ''sai_thrift_remove_next_hop_result'' [(0, ''success'', SI32)]"

definition sai_thrift_create_next_hop_group_args :: tclass where
  "sai_thrift_create_next_hop_group_args = TClass ''sai_thrift_create_next_hop_group_args''
    [(1, ''thrift_attr_list'', SList (SStruct sai_thrift_attribute_t))]"

definition sai_thrift_create_next_hop_group_result :: tclass where
  "sai_thrift_create_next_hop_group_result = TClass ''sai_thrift_create_next_hop_group_result''
    [(0, ''success'', SI64)]"

definition sai_thrift_remove_next_hop_group_args :: tclass where
  "sai_thrift_remove_next_hop_group_args = TClass ''sai_thrift_remove_next_hop_group_args''
    [(1, ''next_hop_group_id'', SI64)]"

definition sai_thrift_remove_next_hop_group_result :: tclass where
  "sai_thrift_remove_next_hop_group_result = TClass ''sai_thrift_remove_next_hop_group_result''
    [(0, ''success'', SI32)]"

definition sai_thrift_add_next_hop_to_group_args :: tclass where
  "sai_thrift_add_next_hop_to_group_args = TClass ''sai_thrift_add_next_hop_to_group_args''
    [(1, ''next_hop_group_id'', SI64), (2, ''thrift_nexthops'', SList SI64)]"

definition sai_thrift_add_next_hop_to_group_result :: tclass where
  "sai_thrift_add_next_hop_to_group_result = TClass ''sai_thrift_add_next_hop_to_group_result''
    [(0, ''success'', SI32)]"

definition sai_thrift_remove_next_hop_from_group_args :: tclass where
  "sai_thrift_remove_next_hop_from_group_args = TClass ''sai_thrift_remove_next_hop_from_group_args''
    [(1, ''next_hop_group_id'', SI64), (2, ''thrift_nexthops'', SList SI64)]"

definition sai_thrift_remove_next_hop_from_group_result :: tclass where
  "sai_thrift_remove_next_hop_from_group_result = TClass ''sai_thrift_remove_next_hop_from_group_result''
    [(0, ''success'', SI32)]"

definition sai_thrift_create_lag_args :: tclass where
  "sai_thrift_create_lag_args = TClass ''sai_thrift_create_lag_args''
    [(1, ''thrift_attr_list'', SList (SStruct sai_thrift_attribute_t))]"

definition sai_thrift_create_lag_result :: tclass where
  "sai_thrift_create_lag_result = TClass ''sai_thrift_create_lag_result'' [(0, ''success'', SI64)]"

definition sai_thrift_remove_lag_args :: tclass where
  "sai_thrift_remove_lag_args = TClass ''sai_thrift_remove_lag_args'' [(1, ''lag_id'', SI64)]"

definition sai_thrift_remove_lag_result :: tclass where
  "sai_thrift_remove_lag_result = TClass ''sai_thrift_remove_lag_result'' [(0, ''success'', SI32)]"

definition sai_thrift_create_lag_member_args :: tclass where
  "sai_thrift_create_lag_member_args = TClass ''sai_thrift_create_lag_member_args''
    [(1, ''thrift_attr_list'', SList (SStruct sai_thrift_attribute_t))]"

definition sai_thrift_create_lag_member_result :: tclass where
  "sai_thrift_create_lag_member_result = TClass ''sai_thrift_create_lag_member_result''
    [(0, ''success'', SI64)]"

definition sai_thrift_remove_lag_member_args :: tclass where
  "sai_thrift_remove_lag_member_args = TClass ''sai_thrift_remove_lag_member_args''
    [(1, ''lag_member_id'', SI64)]"

definition sai_thrift_remove_lag_member_result :: tclass where
  "sai_thrift_remove_lag_member_result = TClass ''sai_thrift_remove_lag_member_result''
    [(0, ''success'', SI32)]"

definition sai_thrift_create_stp_entry_args :: tclass where
  "sai_thrift_create_stp_entry_args = TClass ''sai_thrift_create_stp_entry_args''
    [(1, ''thrift_attr_list'', SList (SStruct sai_thrift_attribute_t))]"

definition sai_thrift_create_stp_entry_result :: tclass where
  "sai_thrift_create_stp_entry_result = TClass ''sai_thrift_create_stp_entry_result''
    [(0, ''success'', SI64)]"

definition sai_thrift_remove_stp_entry_args :: tclass where
  "sai_thrift_remove_stp_entry_args = TClass ''sai_thrift_remove_stp_entry_args'' [(1, ''stp_id'', SI64)]"

definition sai_thrift_remove_stp_entry_result :: tclass where
  "sai_thrift_remove_stp_entry_result = TClass ''sai_thrift_remove_stp_entry_result''
    [(0, ''success'', SI32)]"

definition sai_thrift_set_stp_port_state_args :: tclass where
  "sai_thrift_set_stp_port_state_args = TClass ''sai_thrift_set_stp_port_state_args''
    [(1, ''stp_id'', SI64), (2, ''port_id'', SI64), (3, ''stp_port_state'', SByte)]"

definition sai_thrift_set_stp_port_state_result :: tclass where
  "sai_thrift_set_stp_port_state_result = TClass ''sai_thrift_set_stp_port_state_result''
    [(0, ''success'', SI32)]"

definition sai_thrift_get_stp_port_state_args :: tclass where
  "sai_thrift_get_stp_port_state_args = TClass ''sai_thrift_get_stp_port_state_args''
    [(1, ''stp_id'', SI64), (2, ''port_id'', SI64)]"

definition sai_thrift_get_stp_port_state_result :: tclass where
  "sai_thrift_get_stp_port_state_result = TClass ''sai_thrift_get_stp_port_state_result''
    [(0, ''success'', SByte)]"

definition sai_thrift_create_neighbor_entry_args :: tclass where
  "sai_thrift_create_neighbor_entry_args = TClass ''sai_thrift_create_neighbor_entry_args''
    [(1, ''thrift_neighbor_entry'', SStruct sai_thrift_neighbor_entry_t),
     (2, ''thrift_attr_list'', SList (SStruct sai_thrift_attribute_t))]"

definition sai_thrift_create_neighbor_entry_result :: tclass where
  "sai_thrift_create_neighbor_entry_result = TClass ''sai_thrift_create_neighbor_entry_result''
    [(0, ''success'', SI32)]"

definition sai_thrift_remove_neighbor_entry_args :: tclass where
  "sai_thrift_remove_neighbor_entry_args = TClass ''sai_thrift_remove_neighbor_entry_args''
    [(1, ''thrift_neighbor_entry'', SStruct sai_thrift_neighbor_entry_t)]"

definition sai_thrift_remove_neighbor_entry_result :: tclass where
  "sai_thrift_remove_neighbor_entry_result = TClass ''sai_thrift_remove_neighbor_entry_result''
    [(0, ''success'', SI32)]"

definition sai_thrift_create_switch_args :: tclass where
  "sai_thrift_create_switch_args = TClass ''sai_thrift_create_switch_args''
    [(1, ''thrift_attr_list'', SList (SStruct sai_thrift_attribute_t))]"

definition sai_thrift_create_switch_result :: tclass where
  "sai_thrift_create_switch_result = TClass ''sai_thrift_create_switch_result'' [(0, ''success'', SI64)]"

definition sai_thrift_get_switch_attribute_args :: tclass where
  "sai_thrift_get_switch_attribute_args = TClass ''sai_thrift_get_switch_attribute_args''
    [(1, ''thrift_attr_list'', SList (SStruct sai_thrift_attribute_t))]"

definition sai_thrift_get_switch_attribute_result :: tclass where
  "sai_thrift_get_switch_attribute_result = TClass ''sai_thrift_get_switch_attribute_result''
    [(0, ''success'', SStruct sai_thrift_attribute_list_t)]"

definition sai_thrift_get_port_list_by_front_port_args :: tclass where
  "sai_thrift_get_port_list_by_front_port_args = TClass ''sai_thrift_get_port_list_by_front_port_args'' []"

definition sai_thrift_get_port_list_by_front_port_result :: tclass where
  "sai_thrift_get_port_list_by_front_port_result = TClass ''sai_thrift_get_port_list_by_front_port_result''
    [(0, ''success'', SStruct sai_thrift_attribute_t)]"

definition sai_thrift_get_cpu_port_id_args :: tclass where
  "sai_thrift_get_cpu_port_id_args = TClass ''sai_thrift_get_cpu_port_id_args'' []"

definition sai_thrift_get_cpu_port_id_result :: tclass where
  "sai_thrift_get_cpu_port_id_result = TClass ''sai_thrift_get_cpu_port_id_result'' [(0, ''success'', SI64)]"

definition sai_thrift_get_default_trap_group_args :: tclass where
  "sai_thrift_get_default_trap_group_args = TClass ''sai_thrift_get_default_trap_group_args'' []"

definition sai_thrift_get_default_trap_group_result :: tclass where
  "sai_thrift_get_default_trap_group_result = TClass ''sai_thrift_get_default_trap_group_result''
    [(0, ''success'', SI64)]"

definition sai_thrift_get_default_router_id_args :: tclass where
  "sai_thrift_get_default_router_id_args = TClass ''sai_thrift_get_default_router_id_args'' []"

definition sai_thrift_get_default_router_id_result :: tclass where
  "sai_thrift_get_default_router_id_result = TClass ''sai_thrift_get_default_router_id_result''
    [(0, ''success'', SI64)]"

definition sai_thrift_get_port_id_by_front_port_args :: tclass where
  "sai_thrift_get_port_id_by_front_port_args = TClass ''sai_thrift_get_port_id_by_front_port_args''
    [(1, ''port_name'', SString)]"

definition sai_thrift_get_port_id_by_front_port_result :: tclass where
  "sai_thrift_get_port_id_by_front_port_result = TClass ''sai_thrift_get_port_id_by_front_port_result''
    [(0, ''success'', SI64)]"

definition sai_thrift_set_switch_attribute_args :: tclass where
  "sai_thrift_set_switch_attribute_args = TClass ''sai_thrift_set_switch_attribute_args''
    [(1, ''attribute'', SStruct sai_thrift_attribute_t)]"

definition sai_thrift_set_switch_attribute_result :: tclass where
  "sai_thrift_set_switch_attribute_result = TClass ''sai_thrift_set_switch_attribute_result''
    [(0, ''success'', SI32)]"

definition sai_thrift_create_hostif_args :: tclass where
  "sai_thrift_create_hostif_args = TClass ''sai_thrift_create_hostif_args''
    [(1, ''thrift_attr_list'', SList (SStruct sai_thrift_attribute_t))]"

definition sai_thrift_create_hostif_result :: tclass where
  "sai_thrift_create_hostif_result = TClass ''sai_thrift_create_hostif_result'' [(0, ''success'', SI64)]"

definition sai_thrift_remove_hostif_args :: tclass where
  "sai_thrift_remove_hostif_args = TClass ''sai_thrift_remove_hostif_args'' [(1, ''hif_id'', SI64)]"

definition sai_thrift_remove_hostif_result :: tclass where
  "sai_thrift_remove_hostif_result = TClass ''sai_thrift_remove_hostif_result'' [(0, ''success'', SI32)]"

definition sai_thrift_create_hostif_trap_group_args :: tclass where
  "sai_thrift_create_hostif_trap_group_args = TClass ''sai_thrift_create_hostif_trap_group_args''
    [(1, ''thrift_attr_list'', SList (SStruct sai_thrift_attribute_t))]"

definition sai_thrift_create_hostif_trap_group_result :: tclass where
  "sai_thrift_create_hostif_trap_group_result = TClass ''sai_thrift_create_hostif_trap_group_result''
    [(0, ''success'', SI64)]"

definition sai_thrift_remove_hostif_trap_group_args :: tclass where
  "sai_thrift_remove_hostif_trap_group_args = TClass ''sai_thrift_remove_hostif_trap_group_args''
    [(1, ''trap_group_id'', SI64)]"

definition sai_thrift_remove_hostif_trap_group_result :: tclass where
  "sai_thrift_remove_hostif_trap_group_result = TClass ''sai_thrift_remove_hostif_trap_group_result''
    [(0, ''success'', SI32)]"

definition sai_thrift_create_hostif_trap_args :: tclass where
  "sai_thrift_create_hostif_trap_args = TClass ''sai_thrift_create_hostif_trap_args''
    [(1, ''thrift_attr_list'', SList (SStruct sai_thrift_attribute_t))]"

definition sai_thrift_create_hostif_trap_result :: tclass where
  "sai_thrift_create_hostif_trap_result = TClass ''sai_thrift_create_hostif_trap_result''
    [(0, ''success'', SI32)]"

definition sai_thrift_remove_hostif_trap_args :: tclass where
  "sai_thrift_remove_hostif_trap_args = TClass ''sai_thrift_remove_hostif_trap_args''
    [(1, ''trap_id'', SI32)]"

definition sai_thrift_remove_hostif_trap_result :: tclass where
  "sai_thrift_remove_hostif_trap_result = TClass ''sai_thrift_remove_hostif_trap_result''
    [(0, ''success'', SI32)]"

definition sai_thrift_set_hostif_trap_args :: tclass where
  "sai_thrift_set_hostif_trap_args = TClass ''sai_thrift_set_hostif_trap_args''
    [(1, ''trap_id'', SI32), (2, ''thrift_attr'', SStruct sai_thrift_attribute_t)]"

definition sai_thrift_set_hostif_trap_result :: tclass where
  "sai_thrift_set_hostif_trap_result = TClass ''sai_thrift_set_hostif_trap_result'' [(0, ''success'', SI32)]"

definition sai_thrift_set_hostif_trap_group_args :: tclass where
  "sai_thrift_set_hostif_trap_group_args = TClass ''sai_thrift_set_hostif_trap_group_args''
    [(1, ''trap_group_id'', SI64), (2, ''thrift_attr'', SStruct sai_thrift_attribute_t)]"

definition sai_thrift_set_hostif_trap_group_result :: tclass where
  "sai_thrift_set_hostif_trap_group_result = TClass ''sai_thrift_set_hostif_trap_group_result''
    [(0, ''success'', SI32)]"

definition sai_thrift_create_acl_table_args :: tclass where
  "sai_thrift_create_acl_table_args = TClass ''sai_thrift_create_acl_table_args''
    [(1, ''thrift_attr_list'', SList (SStruct sai_thrift_attribute_t))]"

definition sai_thrift_create_acl_table_result :: tclass where
  "sai_thrift_create_acl_table_result = TClass ''sai_thrift_create_acl_table_result''
    [(0, ''success'', SI64)]"

definition sai_thrift_delete_acl_table_args :: tclass where
  "sai_thrift_delete_acl_table_args = TClass ''sai_thrift_delete_acl_table_args''
    [(1, ''acl_table_id'', SI64)]"

definition sai_thrift_delete_acl_table_result :: tclass where
  "sai_thrift_delete_acl_table_result = TClass ''sai_thrift_delete_acl_table_result''
    [(0, ''success'', SI32)]"

definition sai_thrift_create_acl_entry_args :: tclass where
  "sai_thrift_create_acl_entry_args = TClass ''sai_thrift_create_acl_entry_args''
    [(1, ''thrift_attr_list'', SList (SStruct sai_thrift_attribute_t))]"

definition sai_thrift_create_acl_entry_result :: tclass where
  "sai_thrift_create_acl_entry_result = TClass ''sai_thrift_create_acl_entry_result''
    [(0, ''success'', SI64)]"

definition sai_thrift_delete_acl_entry_args :: tclass where
  "sai_thrift_delete_acl_entry_args = TClass ''sai_thrift_delete_acl_entry_args'' [(1, ''acl_entry'', SI64)]"

definition sai_thrift_delete_acl_entry_result :: tclass where
  "sai_thrift_delete_acl_entry_result = TClass ''sai_thrift_delete_acl_entry_result''
    [(0, ''success'', SI32)]"

definition sai_thrift_create_acl_counter_args :: tclass where
  "sai_thrift_create_acl_counter_args = TClass ''sai_thrift_create_acl_counter_args''
    [(1, ''thrift_attr_list'', SList (SStruct sai_thrift_attribute_t))]"

definition sai_thrift_create_acl_counter_result :: tclass where
  "sai_thrift_create_acl_counter_result = TClass ''sai_thrift_create_acl_counter_result''
    [(0, ''success'', SI64)]"

definition sai_thrift_delete_acl_counter_args :: tclass where
  "sai_thrift_delete_acl_counter_args = TClass ''sai_thrift_delete_acl_counter_args''
    [(1, ''acl_counter_id'', SI64)]"

definition sai_thrift_delete_acl_counter_result :: tclass where
  "sai_thrift_delete_acl_counter_result = TClass ''sai_thrift_delete_acl_counter_result''
    [(0, ''success'', SI32)]"

definition sai_thrift_get_acl_counter_attribute_args :: tclass where
  "sai_thrift_get_acl_counter_attribute_args = TClass ''sai_thrift_get_acl_counter_attribute_args''
    [(1, ''acl_counter_id'', SI64), (2, ''thrift_attr_ids'', SList SI32)]"

definition sai_thrift_get_acl_counter_attribute_result :: tclass where
  "sai_thrift_get_acl_counter_attribute_result = TClass ''sai_thrift_get_acl_counter_attribute_result''
    [(0, ''success'', SList (SStruct sai_thrift_attribute_value_t))]"

definition sai_thrift_create_mirror_session_args :: tclass where
  "sai_thrift_create_mirror_session_args = TClass ''sai_thrift_create_mirror_session_args''
    [(1, ''thrift_attr_list'', SList (SStruct sai_thrift_attribute_t))]"

definition sai_thrift_create_mirror_session_result :: tclass where
  "sai_thrift_create_mirror_session_result = TClass ''sai_thrift_create_mirror_session_result''
    [(0, ''success'', SI64)]"

definition sai_thrift_remove_mirror_session_args :: tclass where
  "sai_thrift_remove_mirror_session_args = TClass ''sai_thrift_remove_mirror_session_args''
    [(1, ''session_id'', SI64)]"

definition sai_thrift_remove_mirror_session_result :: tclass where
  "sai_thrift_remove_mirror_session_result = TClass ''sai_thrift_remove_mirror_session_result''
    [(0, ''success'', SI32)]"

definition sai_thrift_create_policer_args :: tclass where
  "sai_thrift_create_policer_args = TClass ''sai_thrift_create_policer_args''
    [(1, ''thrift_attr_list'', SList (SStruct sai_thrift_attribute_t))]"

definition sai_thrift_create_policer_result :: tclass where
  "sai_thrift_create_policer_result = TClass ''sai_thrift_create_policer_result'' [(0, ''success'', SI64)]"

definition sai_thrift_remove_policer_args :: tclass where
  "sai_thrift_remove_policer_args = TClass ''sai_thrift_remove_policer_args'' [(1, ''policer_id'', SI64)]"

definition sai_thrift_remove_policer_result :: tclass where
  "sai_thrift_remove_policer_result = TClass ''sai_thrift_remove_policer_result'' [(0, ''success'', SI32)]"

definition sai_thrift_get_policer_stats_args :: tclass where
  "sai_thrift_get_policer_stats_args = TClass ''sai_thrift_get_policer_stats_args''
    [(1, ''policer_id'', SI64), (2, ''counter_ids'', SList SI32)]"

definition sai_thrift_get_policer_stats_result :: tclass where
  "sai_thrift_get_policer_stats_result = TClass ''sai_thrift_get_policer_stats_result''
    [(0, ''success'', SList SI64)]"

definition sai_thrift_create_scheduler_profile_args :: tclass where
  "sai_thrift_create_scheduler_profile_args = TClass ''sai_thrift_create_scheduler_profile_args''
    [(1, ''thrift_attr_list'', SList (SStruct sai_thrift_attribute_t))]"

definition sai_thrift_create_scheduler_profile_result :: tclass where
  "sai_thrift_create_scheduler_profile_result = TClass ''sai_thrift_create_scheduler_profile_result''
    [(0, ''success'', SI64)]"

definition sai_thrift_remove_scheduler_profile_args :: tclass where
  "sai_thrift_remove_scheduler_profile_args = TClass ''sai_thrift_remove_scheduler_profile_args''
    [(1, ''scheduler_id'', SI64)]"

definition sai_thrift_remove_scheduler_profile_result :: tclass where
  "sai_thrift_remove_scheduler_profile_result = TClass ''sai_thrift_remove_scheduler_profile_result''
    [(0, ''success'', SI32)]"

definition sai_thrift_get_queue_stats_args :: tclass where
  "sai_thrift_get_queue_stats_args = TClass ''sai_thrift_get_queue_stats_args''
    [(1, ''queue_id'', SI64), (2, ''counter_ids'', SList SI32), (3, ''number_of_counters'', SI32)]"

definition sai_thrift_get_queue_stats_result :: tclass where
  "sai_thrift_get_queue_stats_result = TClass ''sai_thrift_get_queue_stats_result''
    [(0, ''success'', SList SI64)]"

definition sai_thrift_clear_queue_stats_args :: tclass where
  "sai_thrift_clear_queue_stats_args = TClass ''sai_thrift_clear_queue_stats_args''
    [(1, ''queue_id'', SI64), (2, ''counter_ids'', SList SI32), (3, ''number_of_counters'', SI32)]"

definition sai_thrift_clear_queue_stats_result :: tclass where
  "sai_thrift_clear_queue_stats_result = TClass ''sai_thrift_clear_queue_stats_result''
    [(0, ''success'', SI32)]"

definition sai_thrift_set_queue_attribute_args :: tclass where
  "sai_thrift_set_queue_attribute_args = TClass ''sai_thrift_set_queue_attribute_args''
    [(1, ''queue_id'', SI64), (2, ''thrift_attr'', SStruct sai_thrift_attribute_t)]"

definition sai_thrift_set_queue_attribute_result :: tclass where
  "sai_thrift_set_queue_attribute_result = TClass ''sai_thrift_set_queue_attribute_result''
    [(0, ''success'', SI32)]"

definition sai_thrift_create_buffer_profile_args :: tclass where
  "sai_thrift_create_buffer_profile_args = TClass ''sai_thrift_create_buffer_profile_args''
    [(1, ''thrift_attr_list'', SList (SStruct sai_thrift_attribute_t))]"

definition sai_thrift_create_buffer_profile_result :: tclass where
  "sai_thrift_create_buffer_profile_result = TClass ''sai_thrift_create_buffer_profile_result''
    [(0, ''success'', SI64)]"

definition sai_thrift_create_pool_profile_args :: tclass where
  "sai_thrift_create_pool_profile_args = TClass ''sai_thrift_create_pool_profile_args''
    [(1, ''thrift_attr_list'', SList (SStruct sai_thrift_attribute_t))]"

definition sai_thrift_create_pool_profile_result :: tclass where
  "sai_thrift_create_pool_profile_result = TClass ''sai_thrift_create_pool_profile_result''
    [(0, ''success'', SI64)]"

definition sai_thrift_set_priority_group_attribute_args :: tclass where
  "sai_thrift_set_priority_group_attribute_args = TClass ''sai_thrift_set_priority_group_attribute_args''
    [(1, ''pg_id'', SI64), (2, ''thrift_attr'', SStruct sai_thrift_attribute_t)]"

definition sai_thrift_set_priority_group_attribute_result :: tclass where
  "sai_thrift_set_priority_group_attribute_result = TClass ''sai_thrift_set_priority_group_attribute_result''
    [(0, ''success'', SI32)]"

definition sai_thrift_get_pg_stats_args :: tclass where
  "sai_thrift_get_pg_stats_args = TClass ''sai_thrift_get_pg_stats_args''
    [(1, ''pg_id'', SI64), (2, ''counter_ids'', SList SI32), (3, ''number_of_counters'', SI32)]"

definition sai_thrift_get_pg_stats_result :: tclass where
  "sai_thrift_get_pg_stats_result = TClass ''sai_thrift_get_pg_stats_result'' [(0, ''success'', SList SI64)]"

definition sai_thrift_create_wred_profile_args :: tclass where
  "sai_thrift_create_wred_profile_args = TClass ''sai_thrift_create_wred_profile_args''
    [(1, ''thrift_attr_list'', SList (SStruct sai_thrift_attribute_t))]"

definition sai_thrift_create_wred_profile_result :: tclass where
  "sai_thrift_create_wred_profile_result = TClass ''sai_thrift_create_wred_profile_result''
    [(0, ''success'', SI64)]"

definition sai_thrift_remove_wred_profile_args :: tclass where
  "sai_thrift_remove_wred_profile_args = TClass ''sai_thrift_remove_wred_profile_args''
    [(1, ''wred_id'', SI64)]"

definition sai_thrift_remove_wred_profile_result :: tclass where
  "sai_thrift_remove_wred_profile_result = TClass ''sai_thrift_remove_wred_profile_result''
    [(0, ''success'', SI32)]"

definition sai_thrift_create_qos_map_args :: tclass where
  "sai_thrift_create_qos_map_args = TClass ''sai_thrift_create_qos_map_args''
    [(1, ''thrift_attr_list'', SList (SStruct sai_thrift_attribute_t))]"

definition sai_thrift_create_qos_map_result :: tclass where
  "sai_thrift_create_qos_map_result = TClass ''sai_thrift_create_qos_map_result'' [(0, ''success'', SI64)]"

definition sai_thrift_remove_qos_map_args :: tclass where
  "sai_thrift_remove_qos_map_args = TClass ''sai_thrift_remove_qos_map_args'' [(1, ''qos_map_id'', SI64)]"

definition sai_thrift_remove_qos_map_result :: tclass where
  "sai_thrift_remove_qos_map_result = TClass ''sai_thrift_remove_qos_map_result'' [(0, ''success'', SI32)]"

section \<open>Methods\<close>

definition sai_thrift_set_port_attribute_rpc :: rpc_method where
  "sai_thrift_set_port_attribute_rpc = \<lparr>m_name = ''sai_thrift_set_port_attribute'',
     m_args = sai_thrift_set_port_attribute_args, m_result = sai_thrift_set_port_attribute_result\<rparr>"

definition sai_thrift_get_port_attribute_rpc :: rpc_method where
  "sai_thrift_get_port_attribute_rpc = \<lparr>m_name = ''sai_thrift_get_port_attribute'',
     m_args = sai_thrift_get_port_attribute_args, m_result = sai_thrift_get_port_attribute_result\<rparr>"

definition sai_thrift_get_port_stats_rpc :: rpc_method where
  "sai_thrift_get_port_stats_rpc = \<lparr>m_name = ''sai_thrift_get_port_stats'',
     m_args = sai_thrift_get_port_stats_args, m_result = sai_thrift_get_port_stats_result\<rparr>"

definition sai_thrift_clear_port_all_stats_rpc :: rpc_method where
  "sai_thrift_clear_port_all_stats_rpc = \<lparr>m_name = ''sai_thrift_clear_port_all_stats'',
     m_args = sai_thrift_clear_port_all_stats_args, m_result = sai_thrift_clear_port_all_stats_result\<rparr>"

definition sai_thrift_remove_port_rpc :: rpc_method where
  "sai_thrift_remove_port_rpc = \<lparr>m_name = ''sai_thrift_remove_port'',
     m_args = sai_thrift_remove_port_args, m_result = sai_thrift_remove_port_result\<rparr>"

definition sai_thrift_create_port_rpc :: rpc_method where
  "sai_thrift_create_port_rpc = \<lparr>m_name = ''sai_thrift_create_port'',
     m_args = sai_thrift_create_port_args, m_result = sai_thrift_create_port_result\<rparr>"

definition sai_thrift_create_bridge_rpc :: rpc_method where
  "sai_thrift_create_bridge_rpc = \<lparr>m_name = ''sai_thrift_create_bridge'',
     m_args = sai_thrift_create_bridge_args, m_result = sai_thrift_create_bridge_result\<rparr>"

definition sai_thrift_remove_bridge_rpc :: rpc_method where
  "sai_thrift_remove_bridge_rpc = \<lparr>m_name = ''sai_thrift_remove_bridge'',
     m_args = sai_thrift_remove_bridge_args, m_result = sai_thrift_remove_bridge_result\<rparr>"

definition sai_thrift_create_bridge_port_rpc :: rpc_method where
  "sai_thrift_create_bridge_port_rpc = \<lparr>m_name = ''sai_thrift_create_bridge_port'',
     m_args = sai_thrift_create_bridge_port_args, m_result = sai_thrift_create_bridge_port_result\<rparr>"

definition sai_thrift_remove_bridge_port_rpc :: rpc_method where
  "sai_thrift_remove_bridge_port_rpc = \<lparr>m_name = ''sai_thrift_remove_bridge_port'',
     m_args = sai_thrift_remove_bridge_port_args, m_result = sai_thrift_remove_bridge_port_result\<rparr>"

definition sai_thrift_create_fdb_entry_rpc :: rpc_method where
  "sai_thrift_create_fdb_entry_rpc = \<lparr>m_name = ''sai_thrift_create_fdb_entry'',
     m_args = sai_thrift_create_fdb_entry_args, m_result = sai_thrift_create_fdb_entry_result\<rparr>"

definition sai_thrift_delete_fdb_entry_rpc :: rpc_method where
  "sai_thrift_delete_fdb_entry_rpc = \<lparr>m_name = ''sai_thrift_delete_fdb_entry'',
     m_args = sai_thrift_delete_fdb_entry_args, m_result = sai_thrift_delete_fdb_entry_result\<rparr>"

definition sai_thrift_flush_fdb_entries_rpc :: rpc_method where
  "sai_thrift_flush_fdb_entries_rpc = \<lparr>m_name = ''sai_thrift_flush_fdb_entries'',
     m_args = sai_thrift_flush_fdb_entries_args, m_result = sai_thrift_flush_fdb_entries_result\<rparr>"

definition sai_thrift_create_vlan_rpc :: rpc_method where
  "sai_thrift_create_vlan_rpc = \<lparr>m_name = ''sai_thrift_create_vlan'',
     m_args = sai_thrift_create_vlan_args, m_result = sai_thrift_create_vlan_result\<rparr>"

definition sai_thrift_delete_vlan_rpc :: rpc_method where
  "sai_thrift_delete_vlan_rpc = \<lparr>m_name = ''sai_thrift_delete_vlan'',
     m_args = sai_thrift_delete_vlan_args, m_result = sai_thrift_delete_vlan_result\<rparr>"

definition sai_thrift_get_vlan_stats_rpc :: rpc_method where
  "sai_thrift_get_vlan_stats_rpc = \<lparr>m_name = ''sai_thrift_get_vlan_stats'',
     m_args = sai_thrift_get_vlan_stats_args, m_result = sai_thrift_get_vlan_stats_result\<rparr>"

definition sai_thrift_create_vlan_member_rpc :: rpc_method where
  "sai_thrift_create_vlan_member_rpc = \<lparr>m_name = ''sai_thrift_create_vlan_member'',
     m_args = sai_thrift_create_vlan_member_args, m_result = sai_thrift_create_vlan_member_result\<rparr>"

definition sai_thrift_remove_vlan_member_rpc :: rpc_method where
  "sai_thrift_remove_vlan_member_rpc = \<lparr>m_name = ''sai_thrift_remove_vlan_member'',
     m_args = sai_thrift_remove_vlan_member_args, m_result = sai_thrift_remove_vlan_member_result\<rparr>"

definition sai_thrift_get_vlan_attribute_rpc :: rpc_method where
  "sai_thrift_get_vlan_attribute_rpc = \<lparr>m_name = ''sai_thrift_get_vlan_attribute'',
     m_args = sai_thrift_get_vlan_attribute_args, m_result = sai_thrift_get_vlan_attribute_result\<rparr>"

definition sai_thrift_create_virtual_router_rpc :: rpc_method where
  "sai_thrift_create_virtual_router_rpc = \<lparr>m_name = ''sai_thrift_create_virtual_router'',
     m_args = sai_thrift_create_virtual_router_args, m_result = sai_thrift_create_virtual_router_result\<rparr>"

definition sai_thrift_remove_virtual_router_rpc :: rpc_method where
  "sai_thrift_remove_virtual_router_rpc = \<lparr>m_name = ''sai_thrift_remove_virtual_router'',
     m_args = sai_thrift_remove_virtual_router_args, m_result = sai_thrift_remove_virtual_router_result\<rparr>"

definition sai_thrift_create_route_rpc :: rpc_method where
  "sai_thrift_create_route_rpc = \<lparr>m_name = ''sai_thrift_create_route'',
     m_args = sai_thrift_create_route_args, m_result = sai_thrift_create_route_result\<rparr>"

definition sai_thrift_remove_route_rpc :: rpc_method where
  "sai_thrift_remove_route_rpc = \<lparr>m_name = ''sai_thrift_remove_route'',
     m_args = sai_thrift_remove_route_args, m_result = sai_thrift_remove_route_result\<rparr>"

definition sai_thrift_create_router_interface_rpc :: rpc_method where
  "sai_thrift_create_router_interface_rpc = \<lparr>m_name = ''sai_thrift_create_router_interface'',
     m_args = sai_thrift_create_router_interface_args, m_result = sai_thrift_create_router_interface_result\<rparr>"

definition sai_thrift_remove_router_interface_rpc :: rpc_method where
  "sai_thrift_remove_router_interface_rpc = \<lparr>m_name = ''sai_thrift_remove_router_interface'',
     m_args = sai_thrift_remove_router_interface_args, m_result = sai_thrift_remove_router_interface_result\<rparr>"

definition sai_thrift_create_next_hop_rpc :: rpc_method where
  "sai_thrift_create_next_hop_rpc = \<lparr>m_name = ''sai_thrift_create_next_hop'',
     m_args = sai_thrift_create_next_hop_args, m_result = sai_thrift_create_next_hop_result\<rparr>"

definition sai_thrift_remove_next_hop_rpc :: rpc_method where
  "sai_thrift_remove_next_hop_rpc = \<lparr>m_name = ''sai_thrift_remove_next_hop'',
     m_args = sai_thrift_remove_next_hop_args, m_result = sai_thrift_remove_next_hop_result\<rparr>"

definition sai_thrift_create_next_hop_group_rpc :: rpc_method where
  "sai_thrift_create_next_hop_group_rpc = \<lparr>m_name = ''sai_thrift_create_next_hop_group'',
     m_args = sai_thrift_create_next_hop_group_args, m_result = sai_thrift_create_next_hop_group_result\<rparr>"

definition sai_thrift_remove_next_hop_group_rpc :: rpc_method where
  "sai_thrift_remove_next_hop_group_rpc = \<lparr>m_name = ''sai_thrift_remove_next_hop_group'',
     m_args = sai_thrift_remove_next_hop_group_args, m_result = sai_thrift_remove_next_hop_group_result\<rparr>"

definition sai_thrift_add_next_hop_to_group_rpc :: rpc_method where
  "sai_thrift_add_next_hop_to_group_rpc = \<lparr>m_name = ''sai_thrift_add_next_hop_to_group'',
     m_args = sai_thrift_add_next_hop_to_group_args, m_result = sai_thrift_add_next_hop_to_group_result\<rparr>"

definition sai_thrift_remove_next_hop_from_group_rpc :: rpc_method where
  "sai_thrift_remove_next_hop_from_group_rpc = \<lparr>m_name = ''sai_thrift_remove_next_hop_from_group'',
     m_args = sai_thrift_remove_next_hop_from_group_args, m_result = sai_thrift_remove_next_hop_from_group_result\<rparr>"

definition sai_thrift_create_lag_rpc :: rpc_method where
  "sai_thrift_create_lag_rpc = \<lparr>m_name = ''sai_thrift_create_lag'',
     m_args = sai_thrift_create_lag_args, m_result = sai_thrift_create_lag_result\<rparr>"

definition sai_thrift_remove_lag_rpc :: rpc_method where
  "sai_thrift_remove_lag_rpc = \<lparr>m_name = ''sai_thrift_remove_lag'',
     m_args = sai_thrift_remove_lag_args, m_result = sai_thrift_remove_lag_result\<rparr>"

definition sai_thrift_create_lag_member_rpc :: rpc_method where
  "sai_thrift_create_lag_member_rpc = \<lparr>m_name = ''sai_thrift_create_lag_member'',
     m_args = sai_thrift_create_lag_member_args, m_result = sai_thrift_create_lag_member_result\<rparr>"

definition sai_thrift_remove_lag_member_rpc :: rpc_method where
  "sai_thrift_remove_lag_member_rpc = \<lparr>m_name = ''sai_thrift_remove_lag_member'',
     m_args = sai_thrift_remove_lag_member_args, m_result = sai_thrift_remove_lag_member_result\<rparr>"

definition sai_thrift_create_stp_entry_rpc :: rpc_method where
  "sai_thrift_create_stp_entry_rpc = \<lparr>m_name = ''sai_thrift_create_stp_entry'',
     m_args = sai_thrift_create_stp_entry_args, m_result = sai_thrift_create_stp_entry_result\<rparr>"

definition sai_thrift_remove_stp_entry_rpc :: rpc_method where
  "sai_thrift_remove_stp_entry_rpc = \<lparr>m_name = ''sai_thrift_remove_stp_entry'',
     m_args = sai_thrift_remove_stp_entry_args, m_result = sai_thrift_remove_stp_entry_result\<rparr>"

definition sai_thrift_set_stp_port_state_rpc :: rpc_method where
  "sai_thrift_set_stp_port_state_rpc = \<lparr>m_name = ''sai_thrift_set_stp_port_state'',
     m_args = sai_thrift_set_stp_port_state_args, m_result = sai_thrift_set_stp_port_state_result\<rparr>"

definition sai_thrift_get_stp_port_state_rpc :: rpc_method where
  "sai_thrift_get_stp_port_state_rpc = \<lparr>m_name = ''sai_thrift_get_stp_port_state'',
     m_args = sai_thrift_get_stp_port_state_args, m_result = sai_thrift_get_stp_port_state_result\<rparr>"

definition sai_thrift_create_neighbor_entry_rpc :: rpc_method where
  "sai_thrift_create_neighbor_entry_rpc = \<lparr>m_name = ''sai_thrift_create_neighbor_entry'',
     m_args = sai_thrift_create_neighbor_entry_args, m_result = sai_thrift_create_neighbor_entry_result\<rparr>"

definition sai_thrift_remove_neighbor_entry_rpc :: rpc_method where
  "sai_thrift_remove_neighbor_entry_rpc = \<lparr>m_name = ''sai_thrift_remove_neighbor_entry'',
     m_args = sai_thrift_remove_neighbor_entry_args, m_result = sai_thrift_remove_neighbor_entry_result\<rparr>"

definition sai_thrift_create_switch_rpc :: rpc_method where
  "sai_thrift_create_switch_rpc = \<lparr>m_name = ''sai_thrift_create_switch'',
     m_args = sai_thrift_create_switch_args, m_result = sai_thrift_create_switch_result\<rparr>"

definition sai_thrift_get_switch_attribute_rpc :: rpc_method where
  "sai_thrift_get_switch_attribute_rpc = \<lparr>m_name = ''sai_thrift_get_switch_attribute'',
     m_args = sai_thrift_get_switch_attribute_args, m_result = sai_thrift_get_switch_attribute_result\<rparr>"

definition sai_thrift_get_port_list_by_front_port_rpc :: rpc_method where
  "sai_thrift_get_port_list_by_front_port_rpc = \<lparr>m_name = ''sai_thrift_get_port_list_by_front_port'',
     m_args = sai_thrift_get_port_list_by_front_port_args, m_result = sai_thrift_get_port_list_by_front_port_result\<rparr>"

definition sai_thrift_get_cpu_port_id_rpc :: rpc_method where
  "sai_thrift_get_cpu_port_id_rpc = \<lparr>m_name = ''sai_thrift_get_cpu_port_id'',
     m_args = sai_thrift_get_cpu_port_id_args, m_result = sai_thrift_get_cpu_port_id_result\<rparr>"

definition sai_thrift_get_default_trap_group_rpc :: rpc_method where
  "sai_thrift_get_default_trap_group_rpc = \<lparr>m_name = ''sai_thrift_get_default_trap_group'',
     m_args = sai_thrift_get_default_trap_group_args, m_result = sai_thrift_get_default_trap_group_result\<rparr>"

definition sai_thrift_get_default_router_id_rpc :: rpc_method where
  "sai_thrift_get_default_router_id_rpc = \<lparr>m_name = ''sai_thrift_get_default_router_id'',
     m_args = sai_thrift_get_default_router_id_args, m_result = sai_thrift_get_default_router_id_result\<rparr>"

definition sai_thrift_get_port_id_by_front_port_rpc :: rpc_method where
  "sai_thrift_get_port_id_by_front_port_rpc = \<lparr>m_name = ''sai_thrift_get_port_id_by_front_port'',
     m_args = sai_thrift_get_port_id_by_front_port_args, m_result = sai_thrift_get_port_id_by_front_port_result\<rparr>"

definition sai_thrift_set_switch_attribute_rpc :: rpc_method where
  "sai_thrift_set_switch_attribute_rpc = \<lparr>m_name = ''sai_thrift_set_switch_attribute'',
     m_args = sai_thrift_set_switch_attribute_args, m_result = sai_thrift_set_switch_attribute_result\<rparr>"

definition sai_thrift_create_hostif_rpc :: rpc_method where
  "sai_thrift_create_hostif_rpc = \<lparr>m_name = ''sai_thrift_create_hostif'',
     m_args = sai_thrift_create_hostif_args, m_result = sai_thrift_create_hostif_result\<rparr>"

definition sai_thrift_remove_hostif_rpc :: rpc_method where
  "sai_thrift_remove_hostif_rpc = \<lparr>m_name = ''sai_thrift_remove_hostif'',
     m_args = sai_thrift_remove_hostif_args, m_result = sai_thrift_remove_hostif_result\<rparr>"

definition sai_thrift_create_hostif_trap_group_rpc :: rpc_method where
  "sai_thrift_create_hostif_trap_group_rpc = \<lparr>m_name = ''sai_thrift_create_hostif_trap_group'',
     m_args = sai_thrift_create_hostif_trap_group_args, m_result = sai_thrift_create_hostif_trap_group_result\<rparr>"

definition sai_thrift_remove_hostif_trap_group_rpc :: rpc_method where
  "sai_thrift_remove_hostif_trap_group_rpc = \<lparr>m_name = ''sai_thrift_remove_hostif_trap_group'',
     m_args = sai_thrift_remove_hostif_trap_group_args, m_result = sai_thrift_remove_hostif_trap_group_result\<rparr>"

definition sai_thrift_create_hostif_trap_rpc :: rpc_method where
  "sai_thrift_create_hostif_trap_rpc = \<lparr>m_name = ''sai_thrift_create_hostif_trap'',
     m_args = sai_thrift_create_hostif_trap_args, m_result = sai_thrift_create_hostif_trap_result\<rparr>"

definition sai_thrift_remove_hostif_trap_rpc :: rpc_method where
  "sai_thrift_remove_hostif_trap_rpc = \<lparr>m_name = ''sai_thrift_remove_hostif_trap'',
     m_args = sai_thrift_remove_hostif_trap_args, m_result = sai_thrift_remove_hostif_trap_result\<rparr>"

definition sai_thrift_set_hostif_trap_rpc :: rpc_method where
  "sai_thrift_set_hostif_trap_rpc = \<lparr>m_name = ''sai_thrift_set_hostif_trap'',
     m_args = sai_thrift_set_hostif_trap_args, m_result = sai_thrift_set_hostif_trap_result\<rparr>"

definition sai_thrift_set_hostif_trap_group_rpc :: rpc_method where
  "sai_thrift_set_hostif_trap_group_rpc = \<lparr>m_name = ''sai_thrift_set_hostif_trap_group'',
     m_args = sai_thrift_set_hostif_trap_group_args, m_result = sai_thrift_set_hostif_trap_group_result\<rparr>"

definition sai_thrift_create_acl_table_rpc :: rpc_method where
  "sai_thrift_create_acl_table_rpc = \<lparr>m_name = ''sai_thrift_create_acl_table'',
     m_args = sai_thrift_create_acl_table_args, m_result = sai_thrift_create_acl_table_result\<rparr>"

definition sai_thrift_delete_acl_table_rpc :: rpc_method where
  "sai_thrift_delete_acl_table_rpc = \<lparr>m_name = ''sai_thrift_delete_acl_table'',
     m_args = sai_thrift_delete_acl_table_args, m_result = sai_thrift_delete_acl_table_result\<rparr>"

definition sai_thrift_create_acl_entry_rpc :: rpc_method where
  "sai_thrift_create_acl_entry_rpc = \<lparr>m_name = ''sai_thrift_create_acl_entry'',
     m_args = sai_thrift_create_acl_entry_args, m_result = sai_thrift_create_acl_entry_result\<rparr>"

definition sai_thrift_delete_acl_entry_rpc :: rpc_method where
  "sai_thrift_delete_acl_entry_rpc = \<lparr>m_name = ''sai_thrift_delete_acl_entry'',
     m_args = sai_thrift_delete_acl_entry_args, m_result = sai_thrift_delete_acl_entry_result\<rparr>"

definition sai_thrift_create_acl_counter_rpc :: rpc_method where
  "sai_thrift_create_acl_counter_rpc = \<lparr>m_name = ''sai_thrift_create_acl_counter'',
     m_args = sai_thrift_create_acl_counter_args, m_result = sai_thrift_create_acl_counter_result\<rparr>"

definition sai_thrift_delete_acl_counter_rpc :: rpc_method where
  "sai_thrift_delete_acl_counter_rpc = \<lparr>m_name = ''sai_thrift_delete_acl_counter'',
     m_args = sai_thrift_delete_acl_counter_args, m_result = sai_thrift_delete_acl_counter_result\<rparr>"

definition sai_thrift_get_acl_counter_attribute_rpc :: rpc_method where
  "sai_thrift_get_acl_counter_attribute_rpc = \<lparr>m_name = ''sai_thrift_get_acl_counter_attribute'',
     m_args = sai_thrift_get_acl_counter_attribute_args, m_result = sai_thrift_get_acl_counter_attribute_result\<rparr>"

definition sai_thrift_create_mirror_session_rpc :: rpc_method where
  "sai_thrift_create_mirror_session_rpc = \<lparr>m_name = ''sai_thrift_create_mirror_session'',
     m_args = sai_thrift_create_mirror_session_args, m_result = sai_thrift_create_mirror_session_result\<rparr>"

definition sai_thrift_remove_mirror_session_rpc :: rpc_method where
  "sai_thrift_remove_mirror_session_rpc = \<lparr>m_name = ''sai_thrift_remove_mirror_session'',
     m_args = sai_thrift_remove_mirror_session_args, m_result = sai_thrift_remove_mirror_session_result\<rparr>"

definition sai_thrift_create_policer_rpc :: rpc_method where
  "sai_thrift_create_policer_rpc = \<lparr>m_name = ''sai_thrift_create_policer'',
     m_args = sai_thrift_create_policer_args, m_result = sai_thrift_create_policer_result\<rparr>"

definition sai_thrift_remove_policer_rpc :: rpc_method where
  "sai_thrift_remove_policer_rpc = \<lparr>m_name = ''sai_thrift_remove_policer'',
     m_args = sai_thrift_remove_policer_args, m_result = sai_thrift_remove_policer_result\<rparr>"

definition sai_thrift_get_policer_stats_rpc :: rpc_method where
  "sai_thrift_get_policer_stats_rpc = \<lparr>m_name = ''sai_thrift_get_policer_stats'',
     m_args = sai_thrift_get_policer_stats_args, m_result = sai_thrift_get_policer_stats_result\<rparr>"

definition sai_thrift_create_scheduler_profile_rpc :: rpc_method where
  "sai_thrift_create_scheduler_profile_rpc = \<lparr>m_name = ''sai_thrift_create_scheduler_profile'',
     m_args = sai_thrift_create_scheduler_profile_args, m_result = sai_thrift_create_scheduler_profile_result\<rparr>"

definition sai_thrift_remove_scheduler_profile_rpc :: rpc_method where
  "sai_thrift_remove_scheduler_profile_rpc = \<lparr>m_name = ''sai_thrift_remove_scheduler_profile'',
     m_args = sai_thrift_remove_scheduler_profile_args, m_result = sai_thrift_remove_scheduler_profile_result\<rparr>"

definition sai_thrift_get_queue_stats_rpc :: rpc_method where
  "sai_thrift_get_queue_stats_rpc = \<lparr>m_name = ''sai_thrift_get_queue_stats'',
     m_args = sai_thrift_get_queue_stats_args, m_result = sai_thrift_get_queue_stats_result\<rparr>"

definition sai_thrift_clear_queue_stats_rpc :: rpc_method where
  "sai_thrift_clear_queue_stats_rpc = \<lparr>m_name = ''sai_thrift_clear_queue_stats'',
     m_args = sai_thrift_clear_queue_stats_args, m_result = sai_thrift_clear_queue_stats_result\<rparr>"

definition sai_thrift_set_queue_attribute_rpc :: rpc_method where
  "sai_thrift_set_queue_attribute_rpc = \<lparr>m_name = ''sai_thrift_set_queue_attribute'',
     m_args = sai_thrift_set_queue_attribute_args, m_result = sai_thrift_set_queue_attribute_result\<rparr>"

definition sai_thrift_create_buffer_profile_rpc :: rpc_method where
  "sai_thrift_create_buffer_profile_rpc = \<lparr>m_name = ''sai_thrift_create_buffer_profile'',
     m_args = sai_thrift_create_buffer_profile_args, m_result = sai_thrift_create_buffer_profile_result\<rparr>"

definition sai_thrift_create_pool_profile_rpc :: rpc_method where
  "sai_thrift_create_pool_profile_rpc = \<lparr>m_name = ''sai_thrift_create_pool_profile'',
     m_args = sai_thrift_create_pool_profile_args, m_result = sai_thrift_create_pool_profile_result\<rparr>"

definition sai_thrift_set_priority_group_attribute_rpc :: rpc_method where
  "sai_thrift_set_priority_group_attribute_rpc = \<lparr>m_name = ''sai_thrift_set_priority_group_attribute'',
     m_args = sai_thrift_set_priority_group_attribute_args, m_result = sai_thrift_set_priority_group_attribute_result\<rparr>"

definition sai_thrift_get_pg_stats_rpc :: rpc_method where
  "sai_thrift_get_pg_stats_rpc = \<lparr>m_name = ''sai_thrift_get_pg_stats'',
     m_args = sai_thrift_get_pg_stats_args, m_result = sai_thrift_get_pg_stats_result\<rparr>"

definition sai_thrift_create_wred_profile_rpc :: rpc_method where
  "sai_thrift_create_wred_profile_rpc = \<lparr>m_name = ''sai_thrift_create_wred_profile'',
     m_args = sai_thrift_create_wred_profile_args, m_result = sai_thrift_create_wred_profile_result\<rparr>"

definition sai_thrift_remove_wred_profile_rpc :: rpc_method where
  "sai_thrift_remove_wred_profile_rpc = \<lparr>m_name = ''sai_thrift_remove_wred_profile'',
     m_args = sai_thrift_remove_wred_profile_args, m_result = sai_thrift_remove_wred_profile_result\<rparr>"

definition sai_thrift_create_qos_map_rpc :: rpc_method where
  "sai_thrift_create_qos_map_rpc = \<lparr>m_name = ''sai_thrift_create_qos_map'',
     m_args = sai_thrift_create_qos_map_args, m_result = sai_thrift_create_qos_map_result\<rparr>"

definition sai_thrift_remove_qos_map_rpc :: rpc_method where
  "sai_thrift_remove_qos_map_rpc = \<lparr>m_name = ''sai_thrift_remove_qos_map'',
     m_args = sai_thrift_remove_qos_map_args, m_result = sai_thrift_remove_qos_map_result\<rparr>"

definition switch_sai_methods :: "rpc_method list" where
  "switch_sai_methods =
    [sai_thrift_set_port_attribute_rpc, sai_thrift_get_port_attribute_rpc, sai_thrift_get_port_stats_rpc,
     sai_thrift_clear_port_all_stats_rpc, sai_thrift_remove_port_rpc, sai_thrift_create_port_rpc,
     sai_thrift_create_bridge_rpc, sai_thrift_remove_bridge_rpc, sai_thrift_create_bridge_port_rpc,
     sai_thrift_remove_bridge_port_rpc, sai_thrift_create_fdb_entry_rpc, sai_thrift_delete_fdb_entry_rpc,
     sai_thrift_flush_fdb_entries_rpc, sai_thrift_create_vlan_rpc, sai_thrift_delete_vlan_rpc,
     sai_thrift_get_vlan_stats_rpc, sai_thrift_create_vlan_member_rpc, sai_thrift_remove_vlan_member_rpc,
     sai_thrift_get_vlan_attribute_rpc, sai_thrift_create_virtual_router_rpc,
     sai_thrift_remove_virtual_router_rpc, sai_thrift_create_route_rpc, sai_thrift_remove_route_rpc,
     sai_thrift_create_router_interface_rpc, sai_thrift_remove_router_interface_rpc,
     sai_thrift_create_next_hop_rpc, sai_thrift_remove_next_hop_rpc, sai_thrift_create_next_hop_group_rpc,
     sai_thrift_remove_next_hop_group_rpc, sai_thrift_add_next_hop_to_group_rpc,
     sai_thrift_remove_next_hop_from_group_rpc, sai_thrift_create_lag_rpc, sai_thrift_remove_lag_rpc,
     sai_thrift_create_lag_member_rpc, sai_thrift_remove_lag_member_rpc, sai_thrift_create_stp_entry_rpc,
     sai_thrift_remove_stp_entry_rpc, sai_thrift_set_stp_port_state_rpc, sai_thrift_get_stp_port_state_rpc,
     sai_thrift_create_neighbor_entry_rpc, sai_thrift_remove_neighbor_entry_rpc,
     sai_thrift_create_switch_rpc, sai_thrift_get_switch_attribute_rpc,
     sai_thrift_get_port_list_by_front_port_rpc, sai_thrift_get_cpu_port_id_rpc,
     sai_thrift_get_default_trap_group_rpc, sai_thrift_get_default_router_id_rpc,
     sai_thrift_get_port_id_by_front_port_rpc, sai_thrift_set_switch_attribute_rpc,
     sai_thrift_create_hostif_rpc, sai_thrift_remove_hostif_rpc, sai_thrift_create_hostif_trap_group_rpc,
     sai_thrift_remove_hostif_trap_group_rpc, sai_thrift_create_hostif_trap_rpc,
     sai_thrift_remove_hostif_trap_rpc, sai_thrift_set_hostif_trap_rpc,
     sai_thrift_set_hostif_trap_group_rpc, sai_thrift_create_acl_table_rpc,
     sai_thrift_delete_acl_table_rpc, sai_thrift_create_acl_entry_rpc, sai_thrift_delete_acl_entry_rpc,
     sai_thrift_create_acl_counter_rpc, sai_thrift_delete_acl_counter_rpc,
     sai_thrift_get_acl_counter_attribute_rpc, sai_thrift_create_mirror_session_rpc,
     sai_thrift_remove_mirror_session_rpc, sai_thrift_create_policer_rpc, sai_thrift_remove_policer_rpc,
     sai_thrift_get_policer_stats_rpc, sai_thrift_create_scheduler_profile_rpc,
     sai_thrift_remove_scheduler_profile_rpc, sai_thrift_get_queue_stats_rpc,
     sai_thrift_clear_queue_stats_rpc, sai_thrift_set_queue_attribute_rpc,
     sai_thrift_create_buffer_profile_rpc, sai_thrift_create_pool_profile_rpc,
     sai_thrift_set_priority_group_attribute_rpc, sai_thrift_get_pg_stats_rpc,
     sai_thrift_create_wred_profile_rpc, sai_thrift_remove_wred_profile_rpc, sai_thrift_create_qos_map_rpc,
     sai_thrift_remove_qos_map_rpc]"

lemmas sai_class_defs =
  sai_thrift_set_port_attribute_args_def sai_thrift_set_port_attribute_result_def
  sai_thrift_get_port_attribute_args_def sai_thrift_get_port_attribute_result_def
  sai_thrift_get_port_stats_args_def sai_thrift_get_port_stats_result_def
  sai_thrift_clear_port_all_stats_args_def sai_thrift_clear_port_all_stats_result_def
  sai_thrift_remove_port_args_def sai_thrift_remove_port_result_def sai_thrift_create_port_args_def
  sai_thrift_create_port_result_def sai_thrift_create_bridge_args_def sai_thrift_create_bridge_result_def
  sai_thrift_remove_bridge_args_def sai_thrift_remove_bridge_result_def
  sai_thrift_create_bridge_port_args_def sai_thrift_create_bridge_port_result_def
  sai_thrift_remove_bridge_port_args_def sai_thrift_remove_bridge_port_result_def
  sai_thrift_create_fdb_entry_args_def sai_thrift_create_fdb_entry_result_def
  sai_thrift_delete_fdb_entry_args_def sai_thrift_delete_fdb_entry_result_def
  sai_thrift_flush_fdb_entries_args_def sai_thrift_flush_fdb_entries_result_def
  sai_thrift_create_vlan_args_def sai_thrift_create_vlan_result_def sai_thrift_delete_vlan_args_def
  sai_thrift_delete_vlan_result_def sai_thrift_get_vlan_stats_args_def sai_thrift_get_vlan_stats_result_def
  sai_thrift_create_vlan_member_args_def sai_thrift_create_vlan_member_result_def
  sai_thrift_remove_vlan_member_args_def sai_thrift_remove_vlan_member_result_def
  sai_thrift_get_vlan_attribute_args_def sai_thrift_get_vlan_attribute_result_def
  sai_thrift_create_virtual_router_args_def sai_thrift_create_virtual_router_result_def
  sai_thrift_remove_virtual_router_args_def sai_thrift_remove_virtual_router_result_def
  sai_thrift_create_route_args_def sai_thrift_create_route_result_def sai_thrift_remove_route_args_def
  sai_thrift_remove_route_result_def sai_thrift_create_router_interface_args_def
  sai_thrift_create_router_interface_result_def sai_thrift_remove_router_interface_args_def
  sai_thrift_remove_router_interface_result_def sai_thrift_create_next_hop_args_def
  sai_thrift_create_next_hop_result_def sai_thrift_remove_next_hop_args_def
  sai_thrift_remove_next_hop_result_def sai_thrift_create_next_hop_group_args_def
  sai_thrift_create_next_hop_group_result_def sai_thrift_remove_next_hop_group_args_def
  sai_thrift_remove_next_hop_group_result_def sai_thrift_add_next_hop_to_group_args_def
  sai_thrift_add_next_hop_to_group_result_def sai_thrift_remove_next_hop_from_group_args_def
  sai_thrift_remove_next_hop_from_group_result_def sai_thrift_create_lag_args_def
  sai_thrift_create_lag_result_def sai_thrift_remove_lag_args_def sai_thrift_remove_lag_result_def
  sai_thrift_create_lag_member_args_def sai_thrift_create_lag_member_result_def
  sai_thrift_remove_lag_member_args_def sai_thrift_remove_lag_member_result_def
  sai_thrift_create_stp_entry_args_def sai_thrift_create_stp_entry_result_def
  sai_thrift_remove_stp_entry_args_def sai_thrift_remove_stp_entry_result_def
  sai_thrift_set_stp_port_state_args_def sai_thrift_set_stp_port_state_result_def
  sai_thrift_get_stp_port_state_args_def sai_thrift_get_stp_port_state_result_def
  sai_thrift_create_neighbor_entry_args_def sai_thrift_create_neighbor_entry_result_def
  sai_thrift_remove_neighbor_entry_args_def sai_thrift_remove_neighbor_entry_result_def
  sai_thrift_create_switch_args_def sai_thrift_create_switch_result_def
  sai_thrift_get_switch_attribute_args_def sai_thrift_get_switch_attribute_result_def
  sai_thrift_get_port_list_by_front_port_args_def sai_thrift_get_port_list_by_front_port_result_def
  sai_thrift_get_cpu_port_id_args_def sai_thrift_get_cpu_port_id_result_def
  sai_thrift_get_default_trap_group_args_def sai_thrift_get_default_trap_group_result_def
  sai_thrift_get_default_router_id_args_def sai_thrift_get_default_router_id_result_def
  sai_thrift_get_port_id_by_front_port_args_def sai_thrift_get_port_id_by_front_port_result_def
  sai_thrift_set_switch_attribute_args_def sai_thrift_set_switch_attribute_result_def
  sai_thrift_create_hostif_args_def sai_thrift_create_hostif_result_def sai_thrift_remove_hostif_args_def
  sai_thrift_remove_hostif_result_def sai_thrift_create_hostif_trap_group_args_def
  sai_thrift_create_hostif_trap_group_result_def sai_thrift_remove_hostif_trap_group_args_def
  sai_thrift_remove_hostif_trap_group_result_def sai_thrift_create_hostif_trap_args_def
  sai_thrift_create_hostif_trap_result_def sai_thrift_remove_hostif_trap_args_def
  sai_thrift_remove_hostif_trap_result_def sai_thrift_set_hostif_trap_args_def
  sai_thrift_set_hostif_trap_result_def sai_thrift_set_hostif_trap_group_args_def
  sai_thrift_set_hostif_trap_group_result_def sai_thrift_create_acl_table_args_def
  sai_thrift_create_acl_table_result_def sai_thrift_delete_acl_table_args_def
  sai_thrift_delete_acl_table_result_def sai_thrift_create_acl_entry_args_def
  sai_thrift_create_acl_entry_result_def sai_thrift_delete_acl_entry_args_def
  sai_thrift_delete_acl_entry_result_def sai_thrift_create_acl_counter_args_def
  sai_thrift_create_acl_counter_result_def sai_thrift_delete_acl_counter_args_def
  sai_thrift_delete_acl_counter_result_def sai_thrift_get_acl_counter_attribute_args_def
  sai_thrift_get_acl_counter_attribute_result_def sai_thrift_create_mirror_session_args_def
  sai_thrift_create_mirror_session_result_def sai_thrift_remove_mirror_session_args_def
  sai_thrift_remove_mirror_session_result_def sai_thrift_create_policer_args_def
  sai_thrift_create_policer_result_def sai_thrift_remove_policer_args_def
  sai_thrift_remove_policer_result_def sai_thrift_get_policer_stats_args_def
  sai_thrift_get_policer_stats_result_def sai_thrift_create_scheduler_profile_args_def
  sai_thrift_create_scheduler_profile_result_def sai_thrift_remove_scheduler_profile_args_def
  sai_thrift_remove_scheduler_profile_result_def sai_thrift_get_queue_stats_args_def
  sai_thrift_get_queue_stats_result_def sai_thrift_clear_queue_stats_args_def
  sai_thrift_clear_queue_stats_result_def sai_thrift_set_queue_attribute_args_def
  sai_thrift_set_queue_attribute_result_def sai_thrift_create_buffer_profile_args_def
  sai_thrift_create_buffer_profile_result_def sai_thrift_create_pool_profile_args_def
  sai_thrift_create_pool_profile_result_def sai_thrift_set_priority_group_attribute_args_def
  sai_thrift_set_priority_group_attribute_result_def sai_thrift_get_pg_stats_args_def
  sai_thrift_get_pg_stats_result_def sai_thrift_create_wred_profile_args_def
  sai_thrift_create_wred_profile_result_def sai_thrift_remove_wred_profile_args_def
  sai_thrift_remove_wred_profile_result_def sai_thrift_create_qos_map_args_def
  sai_thrift_create_qos_map_result_def sai_thrift_remove_qos_map_args_def
  sai_thrift_remove_qos_map_result_def

lemmas sai_method_defs =
  sai_thrift_set_port_attribute_rpc_def sai_thrift_get_port_attribute_rpc_def
  sai_thrift_get_port_stats_rpc_def sai_thrift_clear_port_all_stats_rpc_def sai_thrift_remove_port_rpc_def
  sai_thrift_create_port_rpc_def sai_thrift_create_bridge_rpc_def sai_thrift_remove_bridge_rpc_def
  sai_thrift_create_bridge_port_rpc_def sai_thrift_remove_bridge_port_rpc_def
  sai_thrift_create_fdb_entry_rpc_def sai_thrift_delete_fdb_entry_rpc_def
  sai_thrift_flush_fdb_entries_rpc_def sai_thrift_create_vlan_rpc_def sai_thrift_delete_vlan_rpc_def
  sai_thrift_get_vlan_stats_rpc_def sai_thrift_create_vlan_member_rpc_def
  sai_thrift_remove_vlan_member_rpc_def sai_thrift_get_vlan_attribute_rpc_def
  sai_thrift_create_virtual_router_rpc_def sai_thrift_remove_virtual_router_rpc_def
  sai_thrift_create_route_rpc_def sai_thrift_remove_route_rpc_def sai_thrift_create_router_interface_rpc_def
  sai_thrift_remove_router_interface_rpc_def sai_thrift_create_next_hop_rpc_def
  sai_thrift_remove_next_hop_rpc_def sai_thrift_create_next_hop_group_rpc_def
  sai_thrift_remove_next_hop_group_rpc_def sai_thrift_add_next_hop_to_group_rpc_def
  sai_thrift_remove_next_hop_from_group_rpc_def sai_thrift_create_lag_rpc_def sai_thrift_remove_lag_rpc_def
  sai_thrift_create_lag_member_rpc_def sai_thrift_remove_lag_member_rpc_def
  sai_thrift_create_stp_entry_rpc_def sai_thrift_remove_stp_entry_rpc_def
  sai_thrift_set_stp_port_state_rpc_def sai_thrift_get_stp_port_state_rpc_def
  sai_thrift_create_neighbor_entry_rpc_def sai_thrift_remove_neighbor_entry_rpc_def
  sai_thrift_create_switch_rpc_def sai_thrift_get_switch_attribute_rpc_def
  sai_thrift_get_port_list_by_front_port_rpc_def sai_thrift_get_cpu_port_id_rpc_def
  sai_thrift_get_default_trap_group_rpc_def sai_thrift_get_default_router_id_rpc_def
  sai_thrift_get_port_id_by_front_port_rpc_def sai_thrift_set_switch_attribute_rpc_def
  sai_thrift_create_hostif_rpc_def sai_thrift_remove_hostif_rpc_def
  sai_thrift_create_hostif_trap_group_rpc_def sai_thrift_remove_hostif_trap_group_rpc_def
  sai_thrift_create_hostif_trap_rpc_def sai_thrift_remove_hostif_trap_rpc_def
  sai_thrift_set_hostif_trap_rpc_def sai_thrift_set_hostif_trap_group_rpc_def
  sai_thrift_create_acl_table_rpc_def sai_thrift_delete_acl_table_rpc_def
  sai_thrift_create_acl_entry_rpc_def sai_thrift_delete_acl_entry_rpc_def
  sai_thrift_create_acl_counter_rpc_def sai_thrift_delete_acl_counter_rpc_def
  sai_thrift_get_acl_counter_attribute_rpc_def sai_thrift_create_mirror_session_rpc_def
  sai_thrift_remove_mirror_session_rpc_def sai_thrift_create_policer_rpc_def
  sai_thrift_remove_policer_rpc_def sai_thrift_get_policer_stats_rpc_def
  sai_thrift_create_scheduler_profile_rpc_def sai_thrift_remove_scheduler_profile_rpc_def
  sai_thrift_get_queue_stats_rpc_def sai_thrift_clear_queue_stats_rpc_def
  sai_thrift_set_queue_attribute_rpc_def sai_thrift_create_buffer_profile_rpc_def
  sai_thrift_create_pool_profile_rpc_def sai_thrift_set_priority_group_attribute_rpc_def
  sai_thrift_get_pg_stats_rpc_def sai_thrift_create_wred_profile_rpc_def
  sai_thrift_remove_wred_profile_rpc_def sai_thrift_create_qos_map_rpc_def sai_thrift_remove_qos_map_rpc_def

lemma wf_switch_sai_methods: "list_all wf_method switch_sai_methods"
  by (simp add: switch_sai_methods_def sai_method_defs wf_method_def sai_class_defs int_fits_def result_spec_def)

lemma distinct_switch_sai_methods: "distinct (map m_name switch_sai_methods)"
  by (simp add: switch_sai_methods_def sai_method_defs)

end
