(* ===== verification/Sai_Remote.thy ===== *)
theory Sai_Remote
  imports Sai_Server Sai_Rpc
begin

text \<open>
  The SAI server behind its Thrift processor: \<open>processor = switch_sai_rpc.Processor(handler)\<close> in
  \<^verbatim>\<open>switch_sai_server.py\<close>. The objects that arrive are those of \<^verbatim>\<open>switch_sai/ttypes.py\<close>; the procedures
  of \<open>Sai_Server\<close> see of an attribute its id and the members of its value that they use. A request
  whose arguments are missing (\<open>None\<close> instead of a list, an attribute without an id) is outside the
  model of the procedures: \<open>other\<close> stands for what they do then.
\<close>

section \<open>From objects to requests\<close>

fun obj_pyv :: "pyobj \<Rightarrow> pyv" where
  "obj_pyv (OInt i) = Some i"
| "obj_pyv _ = None"

fun pyv_obj :: "pyv \<Rightarrow> pyobj" where
  "pyv_obj (Some i) = OInt i"
| "pyv_obj None = ONone"

definition attr_pyv :: "pyobj \<Rightarrow> string \<Rightarrow> pyv" where
  "attr_pyv x nm = (case getattr x nm of Inr v \<Rightarrow> obj_pyv v | Inl _ \<Rightarrow> None)"

fun obj_ints :: "pyobj \<Rightarrow> int list option" where
  "obj_ints (OList xs) = those (map obj_pyv xs)"
| "obj_ints _ = None"

definition as_value :: "pyobj \<Rightarrow> attr_value" where
  "as_value v = \<lparr>av_s32 = attr_pyv v ''s32'', av_u16 = attr_pyv v ''u16'', av_oid = attr_pyv v ''oid'',
     av_u32list = (case getattr v ''u32list'' of
         Inr (OObj c us) \<Rightarrow> (case getattr (OObj c us) ''u32list'' of Inr xs \<Rightarrow> Some (obj_ints xs) | Inl _ \<Rightarrow> None)
       | _ \<Rightarrow> None)\<rparr>"

definition as_attr :: "pyobj \<Rightarrow> thrift_attr option" where
  "as_attr a = (case (getattr a ''id'', getattr a ''value'') of
     (Inr (OInt i), Inr v) \<Rightarrow> Some \<lparr>attr_id = i, attr_value = (if v = ONone then None else Some (as_value v))\<rparr>
   | _ \<Rightarrow> None)"

fun as_attrs :: "pyobj \<Rightarrow> thrift_attr list option" where
  "as_attrs (OList xs) = those (map as_attr xs)"
| "as_attrs _ = None"

definition as_fdb :: "pyobj \<Rightarrow> fdb_entry option" where
  "as_fdb e = (case getattr e ''mac_address'' of
     Inr (OStr mac) \<Rightarrow> Some \<lparr>mac_address = mac, fdb_vlan_id = attr_pyv e ''vlan_id'',
       fdb_bridge_type = attr_pyv e ''bridge_type'', fdb_bridge_id = attr_pyv e ''bridge_id''\<rparr>
   | _ \<Rightarrow> None)"

section \<open>The methods of the handler\<close>

text \<open>\<open>self._handler.x(args.a, ...)\<close>, by name: the procedures that take a list of attributes, those that
  take an id, and the others.\<close>

definition attr_list_procs :: "(string \<times> (thrift_attr list \<Rightarrow> sai_rpc)) list" where
  "attr_list_procs =
    [(''sai_thrift_create_vlan'', Create_vlan), (''sai_thrift_create_vlan_member'', Create_vlan_member),
     (''sai_thrift_create_port'', Create_port), (''sai_thrift_create_lag'', Create_lag),
     (''sai_thrift_create_lag_member'', Create_lag_member), (''sai_thrift_create_bridge'', Create_bridge),
     (''sai_thrift_create_bridge_port'', Create_bridge_port)]"

definition id_procs :: "(string \<times> (int \<Rightarrow> sai_rpc)) list" where
  "id_procs =
    [(''sai_thrift_delete_vlan'', Delete_vlan), (''sai_thrift_remove_vlan_member'', Remove_vlan_member),
     (''sai_thrift_remove_port'', Remove_port), (''sai_thrift_remove_lag'', Remove_lag),
     (''sai_thrift_remove_lag_member'', Remove_lag_member), (''sai_thrift_remove_bridge'', Remove_bridge),
     (''sai_thrift_remove_bridge_port'', Remove_bridge_port)]"

definition handler_methods :: "string list" where
  "handler_methods = map fst attr_list_procs @ map fst id_procs @
    [''sai_thrift_create_fdb_entry'', ''sai_thrift_delete_fdb_entry'', ''sai_thrift_set_port_attribute'',
     ''sai_thrift_create_switch'', ''sai_thrift_get_switch_attribute'']"

definition sai_call :: "string \<Rightarrow> pyobj list \<Rightarrow> sai_rpc option" where
  "sai_call name args = (case args of
     [a] \<Rightarrow>
       (case (map_of attr_list_procs name, map_of id_procs name) of
          (Some f, _) \<Rightarrow> map_option f (as_attrs a)
        | (None, Some f) \<Rightarrow> map_option f (obj_pyv a)
        | (None, None) \<Rightarrow> if name = ''sai_thrift_delete_fdb_entry'' then map_option Delete_fdb_entry (as_fdb a) else None)
   | [a, b] \<Rightarrow>
       if name = ''sai_thrift_create_fdb_entry''
       then Option.bind (as_fdb a) (\<lambda>e. map_option (Create_fdb_entry e) (as_attrs b))
       else if name = ''sai_thrift_set_port_attribute''
       then Option.bind (obj_pyv a) (\<lambda>i. map_option (Set_port_attribute i) (as_attr b))
       else None
   | _ \<Rightarrow> None)"

text \<open>The attribute list that \<open>sai_thrift_get_switch_attribute\<close> returns.\<close>

definition switch_attribute_list :: "(int \<times> int list \<times> int) list \<Rightarrow> pyobj" where
  "switch_attribute_list xs = new sai_thrift_attribute_list_t
     [(''attr_list'', OList (map (\<lambda>(i, hw, n). new sai_thrift_attribute_t [(''id'', OInt i),
         (''value'', new sai_thrift_attribute_value_t [(''u32list'',
            new sai_thrift_u32_list_t [(''u32list'', OList (map OInt hw)), (''count'', OInt n)])])]) xs)),
      (''attr_count'', OInt 1)]"

definition sai_handlers ::
  "'s api \<Rightarrow> (string \<Rightarrow> int \<Rightarrow> string) \<Rightarrow> 's sai handlers \<Rightarrow> 's sai handlers" where
  "sai_handlers api obj_repr other name args =
     (case sai_call name args of
        Some rpc \<Rightarrow> io_bind (sai_run api obj_repr rpc) (\<lambda>v. io_ret (pyv_obj v))
      | None \<Rightarrow>
          if name \<notin> set handler_methods then io_raise AttributeError
          else case (name = ''sai_thrift_create_switch'', name = ''sai_thrift_get_switch_attribute'', args) of
            (True, _, _) \<Rightarrow> io_bind (sai_thrift_create_switch []) (\<lambda>i. io_ret (OInt i))
          | (_, True, [a]) \<Rightarrow>
              (case as_attrs a of
                 Some attrs \<Rightarrow> io_bind (sai_thrift_get_switch_attribute attrs) (\<lambda>xs. io_ret (switch_attribute_list xs))
               | None \<Rightarrow> other name args)
          | _ \<Rightarrow> other name args)"

text \<open>\<open>switch_sai_rpc.Client\<close>: a method by its name.\<close>

definition sai_client ::
  "'b protocol \<Rightarrow> 's api \<Rightarrow> (string \<Rightarrow> int \<Rightarrow> string) \<Rightarrow> 's sai handlers \<Rightarrow> string \<Rightarrow> pyobj list \<Rightarrow> ('b link \<times> 's sai, pyobj) io" where
  "sai_client pt api obj_repr other name args =
     (case find (\<lambda>m. m_name m = name) switch_sai_methods of
        None \<Rightarrow> io_raise AttributeError
      | Some m \<Rightarrow> rpc_call pt switch_sai_methods (sai_handlers api obj_repr other) m args)"

section \<open>Remote procedures are the procedures of the handler\<close>

text \<open>What the client sees of the outcome of a procedure.\<close>

definition remote_outcome :: "string \<Rightarrow> pyv res \<Rightarrow> 's sai \<Rightarrow> pyobj res \<times> 'b link \<times> 's sai" where
  "remote_outcome name r w = (case r of
     Inl e \<Rightarrow> (Inl TransportError, (fresh_link\<lparr>l_open := False\<rparr>, w))
   | Inr None \<Rightarrow> (Inl (TApplicationException 5 (name @ '' failed: unknown result'')), (fresh_link, w))
   | Inr (Some v) \<Rightarrow> (Inr (OInt v), (fresh_link, w)))"

lemma sai_method_wf: "m \<in> set switch_sai_methods \<Longrightarrow> wf_method m"
  using wf_switch_sai_methods by (auto simp: list_all_iff)

lemma sai_client_known:
  "m \<in> set switch_sai_methods \<Longrightarrow>
   sai_client pt api obj_repr other (m_name m) args = rpc_call pt switch_sai_methods (sai_handlers api obj_repr other) m args"
  by (simp add: sai_client_def find_method distinct_switch_sai_methods)

lemma sai_client_run:
  assumes "thrift_protocol pt" "m \<in> set switch_sai_methods" "fits (SStruct (m_args m)) (OObj (m_args m) args)"
    "sai_call (m_name m) args = Some rpc" "sai_run api obj_repr rpc w = (r, w')"
    "\<And>v. r = Inr (Some v) \<Longrightarrow> fits (the (result_spec m)) (OInt v)"
  shows "sai_client pt api obj_repr other (m_name m) args (fresh_link, w) = remote_outcome (m_name m) r w'"
proof -
  let ?h = "sai_handlers api obj_repr other"
  define r' where "r' = (case r of Inl e \<Rightarrow> Inl e | Inr v \<Rightarrow> Inr (pyv_obj v))"
  have run: "?h (m_name m) args w = (r', w')"
    using assms(4,5) by (simp add: sai_handlers_def io_simps r'_def split: sum.split)
  have res: "v = ONone \<or> fits (the (result_spec m)) v" if v: "r' = Inr v" for v
  proof (cases r)
    case (Inr x)
    then show ?thesis using v assms(6) by (cases x) (auto simp: r'_def)
  qed (use v in \<open>simp add: r'_def\<close>)
  have "rpc_call pt switch_sai_methods ?h m args (fresh_link, w) = (case r' of
      Inl e \<Rightarrow> (Inl TransportError, (fresh_link\<lparr>l_open := False\<rparr>, w'))
    | Inr v \<Rightarrow> (if v = ONone then Inl (TApplicationException 5 (m_name m @ '' failed: unknown result'')) else Inr v,
        (fresh_link, w')))"
    by (rule thrift_protocol.call_known [where h = ?h, OF assms(1) sai_method_wf [OF assms(2)] assms(2)
          distinct_switch_sai_methods assms(3) run]) (rule res)
  then show ?thesis
    by (auto simp: sai_client_known [OF assms(2)] remote_outcome_def r'_def split: sum.split option.split)
qed


lemma sai_call_handled: "sai_call name args = Some rpc \<Longrightarrow> name \<in> set handler_methods"
  by (auto simp: sai_call_def handler_methods_def image_iff split: list.splits option.splits if_splits
      dest!: map_of_SomeD; metis fst_conv)

text \<open>
  C39. Sixty-three of the eighty-two methods of the service have no handler: calling one of them, with
  any arguments, closes the connection of the client and changes nothing on the server, instead of the
  answer \<open>Unknown function\<close> that a method outside the service gets.
\<close>

theorem sai_unimplemented_closes:
  assumes "thrift_protocol pt" and "m \<in> set switch_sai_methods" and "m_name m \<notin> set handler_methods"
    and "fits (SStruct (m_args m)) (OObj (m_args m) args)"
  shows "sai_client pt api obj_repr other (m_name m) args (fresh_link, w) =
      (Inl TransportError, (fresh_link\<lparr>l_open := False\<rparr>, w)) \<and>
    length (filter (\<lambda>m. m_name m \<notin> set handler_methods) switch_sai_methods) = 63"
proof
  let ?h = "sai_handlers api obj_repr other"
  have "sai_call (m_name m) args = None" using assms(3) sai_call_handled by (cases "sai_call (m_name m) args") auto
  then have run: "?h (m_name m) args w = (Inl AttributeError, w)" using assms(3) by (simp add: sai_handlers_def io_simps)
  have "rpc_call pt switch_sai_methods ?h m args (fresh_link, w) = (Inl TransportError, (fresh_link\<lparr>l_open := False\<rparr>, w))"
    using thrift_protocol.call_known [where h = ?h, OF assms(1) sai_method_wf [OF assms(2)] assms(2)
        distinct_switch_sai_methods assms(4) run] by simp
  then show "sai_client pt api obj_repr other (m_name m) args (fresh_link, w) =
      (Inl TransportError, (fresh_link\<lparr>l_open := False\<rparr>, w))"
    by (simp add: sai_client_known [OF assms(2)])
  show "length (filter (\<lambda>m. m_name m \<notin> set handler_methods) switch_sai_methods) = 63"
    by (simp add: switch_sai_methods_def sai_method_defs handler_methods_def attr_list_procs_def id_procs_def)
qed


theorem sai_unimplemented_closes_witness:
  "sai_client bin_protocol counting_api (\<lambda>_ _. []) (\<lambda>_ _. io_raise TypeError) ''sai_thrift_get_port_attribute'' [OInt 1] (fresh_link, sai_world) =
     (Inl TransportError, (fresh_link\<lparr>l_open := False\<rparr>, sai_world))"
proof -
  let ?m = sai_thrift_get_port_attribute_rpc
  have ok: "?m \<in> set switch_sai_methods" by (simp add: switch_sai_methods_def)
  have name: "m_name ?m = ''sai_thrift_get_port_attribute''" by (simp add: sai_thrift_get_port_attribute_rpc_def)
  have none: "m_name ?m \<notin> set handler_methods"
    by (simp add: name handler_methods_def attr_list_procs_def id_procs_def)
  have fit: "fits (SStruct (m_args ?m)) (OObj (m_args ?m) [OInt 1])"
    by (simp add: sai_thrift_get_port_attribute_rpc_def sai_thrift_get_port_attribute_args_def int_fits_def)
  show ?thesis
    using sai_unimplemented_closes [OF bin.thrift_protocol_axioms ok none fit, of counting_api "\<lambda>_ _. []" "\<lambda>_ _. io_raise TypeError" sai_world] by (simp add: name)
qed

end
