(* ===== verification/Sai_Tests.thy ===== *)
theory Sai_Tests
  imports Sai_Remote
begin

text \<open>
  The client side of the SAI tests: the helpers of \<^verbatim>\<open>Sai-Tests/tests/switch.py\<close> that the layer 2 tests use,
  which build attribute lists and call the service, and the test programs of
  \<^verbatim>\<open>Sai-Tests/tests/sail2_new.py\<close>. A client is a function from the name of a method and its arguments;
  the packets that a test sends and expects are the parameter \<open>traffic\<close>, a program that gets the
  hardware ports. What the tests print is left out.
\<close>

section \<open>Helpers\<close>

type_synonym 'w sai_api = "string \<Rightarrow> pyobj list \<Rightarrow> ('w, pyobj) io"

text \<open>\<open>sai_x_attr.SAI_Y\<close>\<close>

definition enum_member :: "(string \<times> int) list \<Rightarrow> string \<Rightarrow> pyobj" where
  "enum_member en nm = OInt (the (map_of en nm))"

text \<open>\<open>sai_thrift_attribute_t(id=i, value=sai_thrift_attribute_value_t(f=v))\<close>\<close>

definition attribute :: "pyobj \<Rightarrow> string \<Rightarrow> pyobj \<Rightarrow> pyobj" where
  "attribute i f v = new sai_thrift_attribute_t [(''id'', i), (''value'', new sai_thrift_attribute_value_t [(f, v)])]"

fun truthy :: "pyobj \<Rightarrow> bool" where
  "truthy ONone = False"
| "truthy (OBool b) = b"
| "truthy (OInt i) = (i \<noteq> 0)"
| "truthy (OStr s) = (s \<noteq> [])"
| "truthy (OList xs) = (xs \<noteq> [])"
| "truthy (OObj c vs) = True"

definition create_bridge_port :: "'w sai_api \<Rightarrow> pyobj \<Rightarrow> pyobj \<Rightarrow> pyobj \<Rightarrow> pyobj \<Rightarrow> ('w, pyobj) io" where
  "create_bridge_port cl bridge_port_type port_id vlan_id bridge_id =
     cl ''sai_thrift_create_bridge_port'' [OList
       [attribute (enum_member sai_bridge_port_attr ''SAI_BRIDGE_PORT_ATTR_TYPE'') ''s32'' bridge_port_type,
        attribute (enum_member sai_bridge_port_attr ''SAI_BRIDGE_PORT_ATTR_PORT_ID'') ''s32'' port_id,
        attribute (enum_member sai_bridge_port_attr ''SAI_BRIDGE_PORT_ATTR_VLAN_ID'') ''s32'' vlan_id,
        attribute (enum_member sai_bridge_port_attr ''SAI_BRIDGE_PORT_ATTR_BRIDGE_ID'') ''s32'' bridge_id]]"

definition create_fdb ::
  "'w sai_api \<Rightarrow> pyobj \<Rightarrow> pyobj \<Rightarrow> pyobj \<Rightarrow> pyobj \<Rightarrow> pyobj \<Rightarrow> pyobj \<Rightarrow> pyobj \<Rightarrow> ('w, unit) io" where
  "create_fdb cl mac bridge_type vlan_id bridge_id bridge_port mac_action fdb_entry_type =
     io_bind (cl ''sai_thrift_create_fdb_entry''
       [new sai_thrift_fdb_entry_t [(''mac_address'', mac), (''vlan_id'', vlan_id), (''bridge_type'', bridge_type),
          (''bridge_id'', bridge_id)],
        OList
          [attribute (enum_member sai_fdb_entry_attr ''SAI_FDB_ENTRY_ATTR_TYPE'') ''s32'' fdb_entry_type,
           attribute (enum_member sai_fdb_entry_attr ''SAI_FDB_ENTRY_ATTR_BRIDGE_PORT_ID'') ''oid'' bridge_port,
           attribute (enum_member sai_fdb_entry_attr ''SAI_FDB_ENTRY_ATTR_PACKET_ACTION'') ''s32'' mac_action]]) (\<lambda>_.
     io_ret ())"

definition delete_fdb :: "'w sai_api \<Rightarrow> pyobj \<Rightarrow> pyobj \<Rightarrow> ('w, unit) io" where
  "delete_fdb cl mac bridge_id =
     io_bind (cl ''sai_thrift_delete_fdb_entry''
       [new sai_thrift_fdb_entry_t [(''mac_address'', mac), (''bridge_id'', bridge_id)]]) (\<lambda>_. io_ret ())"

definition create_port :: "'w sai_api \<Rightarrow> pyobj \<Rightarrow> pyobj \<Rightarrow> pyobj \<Rightarrow> ('w, pyobj) io" where
  "create_port cl mode lane vlan_id =
     cl ''sai_thrift_create_port'' [OList (
       [attribute (enum_member sai_port_attr ''SAI_PORT_ATTR_BIND_MODE'') ''s32'' mode,
        attribute (enum_member sai_port_attr ''SAI_PORT_ATTR_HW_LANE_LIST'') ''u32list''
          (new sai_thrift_u32_list_t [(''u32list'', OList [lane]), (''count'', OInt 1)])] @
       (if truthy vlan_id
        then [attribute (enum_member sai_port_attr ''SAI_PORT_ATTR_PORT_VLAN_ID'') ''u16'' vlan_id] else []))]"

text \<open>The second definition of \<open>sai_thrift_create_lag_member\<close>, which replaces the first.\<close>

definition create_lag_member :: "'w sai_api \<Rightarrow> pyobj \<Rightarrow> pyobj \<Rightarrow> ('w, pyobj) io" where
  "create_lag_member cl port_id lag_id =
     cl ''sai_thrift_create_lag_member'' [OList
       [attribute (enum_member sai_lag_member_attr ''SAI_LAG_MEMBER_ATTR_PORT_ID'') ''oid'' port_id,
        attribute (enum_member sai_lag_member_attr ''SAI_LAG_MEMBER_ATTR_LAG_ID'') ''oid'' lag_id]]"

definition create_vlan_member :: "'w sai_api \<Rightarrow> pyobj \<Rightarrow> pyobj \<Rightarrow> pyobj \<Rightarrow> ('w, pyobj) io" where
  "create_vlan_member cl vlan_oid bridge_port tagging_mode =
     cl ''sai_thrift_create_vlan_member'' [OList
       [attribute (enum_member sai_vlan_member_attr ''SAI_VLAN_MEMBER_ATTR_VLAN_ID'') ''oid'' vlan_oid,
        attribute (enum_member sai_vlan_member_attr ''SAI_VLAN_MEMBER_ATTR_BRIDGE_PORT_ID'') ''oid'' bridge_port,
        attribute (enum_member sai_vlan_member_attr ''SAI_VLAN_MEMBER_ATTR_VLAN_TAGGING_MODE'') ''s32'' tagging_mode]]"

section \<open>Test programs\<close>

text \<open>\<open>try: m  finally: n\<close>\<close>

definition io_finally :: "('w, unit) io \<Rightarrow> ('w, unit) io \<Rightarrow> ('w, unit) io" where
  "io_finally m n = (\<lambda>w. case m w of (r, w1) \<Rightarrow> (case n w1 of (Inl e, w2) \<Rightarrow> (Inl e, w2) | (Inr _, w2) \<Rightarrow> (r, w2)))"

text \<open>A call whose result is not used.\<close>

definition run_call :: "'w sai_api \<Rightarrow> string \<Rightarrow> pyobj list \<Rightarrow> ('w, unit) io" where
  "run_call cl name args = io_bind (cl name args) (\<lambda>_. io_ret ())"

text \<open>The head of every test: ask for the list of hardware ports, and look for it in the answer.\<close>

fun find_port_list :: "pyobj list \<Rightarrow> pyobj option \<Rightarrow> pyobj option res" where
  "find_port_list [] found = Inr found"
| "find_port_list (a # as) found =
     res_bind (getattr a ''id'') (\<lambda>i.
     if i = enum_member sai_switch_attr ''SAI_SWITCH_ATTR_PORT_LIST''
     then res_bind (getattr a ''value'') (\<lambda>v. res_bind (getattr v ''u32list'') (\<lambda>l.
          res_bind (getattr l ''u32list'') (\<lambda>hw. find_port_list as (Some hw))))
     else find_port_list as found)"

fun list_items :: "pyobj \<Rightarrow> pyobj list res" where
  "list_items (OList xs) = Inr xs"
| "list_items _ = Inl TypeError"

definition get_hw_port_list :: "'w sai_api \<Rightarrow> ('w, pyobj list) io" where
  "get_hw_port_list cl =
     io_bind (cl ''sai_thrift_get_switch_attribute''
       [OList [new sai_thrift_attribute_t [(''id'', enum_member sai_switch_attr ''SAI_SWITCH_ATTR_PORT_LIST'')]]]) (\<lambda>attr_list.
     io_lift (res_bind (getattr attr_list ''attr_list'') (\<lambda>al.
       res_bind (list_items al) (\<lambda>as.
       res_bind (find_port_list as None) (\<lambda>found.
       res_bind (or_raise UnboundLocalError found) list_items)))))"

definition mac1 :: pyobj where "mac1 = OStr ''00:11:11:11:11:11''"

definition mac2 :: pyobj where "mac2 = OStr ''00:22:22:22:22:22''"

definition sub_port_mode :: pyobj where
  "sub_port_mode = enum_member sai_port_bind_mode ''SAI_PORT_BIND_MODE_SUB_PORT''"

definition static_fdb :: "'w sai_api \<Rightarrow> pyobj \<Rightarrow> pyobj \<Rightarrow> pyobj \<Rightarrow> pyobj \<Rightarrow> pyobj \<Rightarrow> ('w, unit) io" where
  "static_fdb cl mac bridge_type vlan_id bridge bridge_port =
     create_fdb cl mac bridge_type vlan_id bridge bridge_port
       (enum_member sai_packet_action ''SAI_PACKET_ACTION_FORWARD'') (enum_member sai_fdb_entry_type ''SAI_FDB_ENTRY_TYPE_STATIC'')"

definition create_bridge :: "'w sai_api \<Rightarrow> pyobj \<Rightarrow> ('w, pyobj) io" where
  "create_bridge cl bridge_type = cl ''sai_thrift_create_bridge''
     [OList [attribute (enum_member sai_bridge_attr ''SAI_BRIDGE_ATTR_TYPE'') ''s32'' bridge_type]]"

definition create_vlan :: "'w sai_api \<Rightarrow> pyobj \<Rightarrow> ('w, pyobj) io" where
  "create_vlan cl vlan_id = cl ''sai_thrift_create_vlan''
     [OList [attribute (enum_member sai_vlan_attr ''SAI_VLAN_ATTR_VLAN_ID'') ''u16'' vlan_id]]"

definition set_port_vlan :: "'w sai_api \<Rightarrow> pyobj \<Rightarrow> pyobj \<Rightarrow> ('w, unit) io" where
  "set_port_vlan cl port vlan_id = run_call cl ''sai_thrift_set_port_attribute''
     [port, attribute (enum_member sai_port_attr ''SAI_PORT_ATTR_PORT_VLAN_ID'') ''u16'' vlan_id]"

definition L21DBridgeBasicTest :: "'w sai_api \<Rightarrow> (pyobj list \<Rightarrow> ('w, unit) io) \<Rightarrow> ('w, unit) io" where
  "L21DBridgeBasicTest cl traffic = (
     let vlan_id = OInt 10; bridge_type = enum_member sai_bridge_type ''SAI_BRIDGE_TYPE_1D'';
         bp_type = enum_member sai_bridge_port_type ''SAI_BRIDGE_PORT_TYPE_SUB_PORT'' in
     io_bind (get_hw_port_list cl) (\<lambda>hw.
     io_bind (io_lift (py_nth hw 0)) (\<lambda>hw_port1.
     io_bind (io_lift (py_nth hw 1)) (\<lambda>hw_port2.
     io_bind (create_port cl sub_port_mode hw_port1 vlan_id) (\<lambda>port1.
     io_bind (create_port cl sub_port_mode hw_port2 vlan_id) (\<lambda>port2.
     io_bind (create_bridge cl bridge_type) (\<lambda>bridge.
     io_bind (create_bridge_port cl bp_type port1 vlan_id bridge) (\<lambda>bridge_port1.
     io_bind (create_bridge_port cl bp_type port2 vlan_id bridge) (\<lambda>bridge_port2.
     io_then (static_fdb cl mac1 bridge_type vlan_id bridge bridge_port1) (
     io_then (static_fdb cl mac2 bridge_type vlan_id bridge bridge_port2) (
     io_finally (traffic [hw_port1, hw_port2]) (
     io_then (delete_fdb cl mac1 bridge) (
     io_then (delete_fdb cl mac2 bridge) (
     io_then (run_call cl ''sai_thrift_remove_bridge_port'' [bridge_port1]) (
     io_then (run_call cl ''sai_thrift_remove_bridge_port'' [bridge_port2]) (
     io_then (run_call cl ''sai_thrift_remove_bridge'' [bridge]) (
     io_then (run_call cl ''sai_thrift_remove_port'' [port1]) (
     run_call cl ''sai_thrift_remove_port'' [port2]))))))))))))))))))"

text \<open>The four tests of a 802.1Q bridge differ in the VLAN, the VLAN of the second bridge port, whether
  they set the VLAN of the first port, and the tagging modes.\<close>

definition L21QBridgeTest ::
  "pyobj \<Rightarrow> pyobj \<Rightarrow> bool \<Rightarrow> string \<Rightarrow> string \<Rightarrow> 'w sai_api \<Rightarrow> (pyobj list \<Rightarrow> ('w, unit) io) \<Rightarrow> ('w, unit) io" where
  "L21QBridgeTest vlan_id vlan_id2 set_port mode1 mode2 cl traffic = (
     let bridge_type = enum_member sai_bridge_type ''SAI_BRIDGE_TYPE_1Q'';
         bp_type = enum_member sai_bridge_port_type ''SAI_BRIDGE_PORT_TYPE_PORT'' in
     io_bind (get_hw_port_list cl) (\<lambda>hw.
     io_bind (io_lift (py_nth hw 0)) (\<lambda>hw_port1.
     io_bind (io_lift (py_nth hw 1)) (\<lambda>hw_port2.
     io_bind (create_port cl sub_port_mode hw_port1 vlan_id) (\<lambda>port1.
     io_bind (create_port cl sub_port_mode hw_port2 vlan_id) (\<lambda>port2.
     io_bind (create_bridge cl bridge_type) (\<lambda>bridge.
     io_bind (create_bridge_port cl bp_type port1 vlan_id bridge) (\<lambda>bridge_port1.
     io_bind (create_bridge_port cl bp_type port2 vlan_id2 bridge) (\<lambda>bridge_port2.
     io_bind (create_vlan cl vlan_id) (\<lambda>vlan_oid.
     io_then (if set_port then set_port_vlan cl port1 vlan_id else io_ret ()) (
     io_bind (create_vlan_member cl vlan_oid bridge_port1 (enum_member sai_vlan_tagging_mode mode1)) (\<lambda>vlan_member1.
     io_bind (create_vlan_member cl vlan_oid bridge_port2 (enum_member sai_vlan_tagging_mode mode2)) (\<lambda>vlan_member2.
     io_then (static_fdb cl mac1 bridge_type vlan_id bridge bridge_port1) (
     io_then (static_fdb cl mac2 bridge_type vlan_id bridge bridge_port2) (
     io_finally (traffic [hw_port1, hw_port2]) (
     io_then (delete_fdb cl mac1 bridge) (
     io_then (delete_fdb cl mac2 bridge) (
     io_then (run_call cl ''sai_thrift_remove_vlan_member'' [vlan_member1]) (
     io_then (run_call cl ''sai_thrift_remove_vlan_member'' [vlan_member2]) (
     io_then (run_call cl ''sai_thrift_delete_vlan'' [vlan_oid]) (
     io_then (run_call cl ''sai_thrift_remove_bridge_port'' [bridge_port1]) (
     io_then (run_call cl ''sai_thrift_remove_bridge_port'' [bridge_port2]) (
     io_then (run_call cl ''sai_thrift_remove_bridge'' [bridge]) (
     io_then (run_call cl ''sai_thrift_remove_port'' [port1]) (
     run_call cl ''sai_thrift_remove_port'' [port2])))))))))))))))))))))))))"

definition tagged :: string where "tagged = ''SAI_VLAN_TAGGING_MODE_TAGGED''"

definition untagged :: string where "untagged = ''SAI_VLAN_TAGGING_MODE_UNTAGGED''"

definition L21QBridgeAccess2AccessTest :: "'w sai_api \<Rightarrow> (pyobj list \<Rightarrow> ('w, unit) io) \<Rightarrow> ('w, unit) io" where
  "L21QBridgeAccess2AccessTest = L21QBridgeTest (OInt 10) (OInt 10) False untagged untagged"

definition L21QBridgeAccess2TrunkTest :: "'w sai_api \<Rightarrow> (pyobj list \<Rightarrow> ('w, unit) io) \<Rightarrow> ('w, unit) io" where
  "L21QBridgeAccess2TrunkTest = L21QBridgeTest (OInt 11) (OInt 20) True untagged tagged"

definition L21QBridgeTrunk2TrunkTest :: "'w sai_api \<Rightarrow> (pyobj list \<Rightarrow> ('w, unit) io) \<Rightarrow> ('w, unit) io" where
  "L21QBridgeTrunk2TrunkTest = L21QBridgeTest (OInt 12) (OInt 20) True tagged tagged"

definition L21QBridgeTrunk2AccessTest :: "'w sai_api \<Rightarrow> (pyobj list \<Rightarrow> ('w, unit) io) \<Rightarrow> ('w, unit) io" where
  "L21QBridgeTrunk2AccessTest = L21QBridgeTest (OInt 13) (OInt 20) True tagged untagged"

text \<open>The two tests of a link aggregation group share their first half, up to the VLAN of the LAG, and
  the way they take the objects down; the first half gives the hardware ports, the ports, the LAG and
  its members.\<close>

definition lag_setup :: "'w sai_api \<Rightarrow> pyobj \<Rightarrow> ('w, pyobj list \<times> pyobj list \<times> pyobj \<times> pyobj list) io" where
  "lag_setup cl vid =
     io_bind (get_hw_port_list cl) (\<lambda>hw.
     io_bind (io_lift (py_nth hw 0)) (\<lambda>hw_port1.
     io_bind (io_lift (py_nth hw 1)) (\<lambda>hw_port2.
     io_bind (io_lift (py_nth hw 2)) (\<lambda>hw_port3.
     io_bind (io_lift (py_nth hw 3)) (\<lambda>hw_port4.
     io_bind (create_port cl sub_port_mode hw_port1 vid) (\<lambda>port1.
     io_bind (create_port cl sub_port_mode hw_port2 ONone) (\<lambda>port2.
     io_bind (create_port cl sub_port_mode hw_port3 ONone) (\<lambda>port3.
     io_bind (create_port cl sub_port_mode hw_port4 ONone) (\<lambda>port4.
     io_bind (cl ''sai_thrift_create_lag'' [OList []]) (\<lambda>lag.
     io_bind (create_lag_member cl port4 lag) (\<lambda>lag_member1.
     io_bind (create_lag_member cl port2 lag) (\<lambda>lag_member2.
     io_bind (create_lag_member cl port3 lag) (\<lambda>lag_member3.
     io_then (set_port_vlan cl lag vid) (
     io_ret ([hw_port1, hw_port2, hw_port3, hw_port4], [port1, port2, port3, port4], lag,
       [lag_member1, lag_member2, lag_member3])))))))))))))))"

definition lag_teardown ::
  "'w sai_api \<Rightarrow> pyobj \<Rightarrow> pyobj \<Rightarrow> pyobj \<Rightarrow> pyobj list \<Rightarrow> pyobj \<Rightarrow> pyobj list \<Rightarrow> ('w, unit) io" where
  "lag_teardown cl bridge bridge_port1 bridge_port2 members lag ps =
     io_then (delete_fdb cl mac1 bridge) (
     io_then (delete_fdb cl mac2 bridge) (
     io_then (run_call cl ''sai_thrift_remove_bridge_port'' [bridge_port1]) (
     io_then (run_call cl ''sai_thrift_remove_bridge_port'' [bridge_port2]) (
     io_then (run_call cl ''sai_thrift_remove_bridge'' [bridge]) (
     io_then (io_for members (\<lambda>m. run_call cl ''sai_thrift_remove_lag_member'' [m])) (
     io_then (run_call cl ''sai_thrift_remove_lag'' [lag]) (
     io_for ps (\<lambda>p. run_call cl ''sai_thrift_remove_port'' [p]))))))))"

definition L21DLagTest :: "'w sai_api \<Rightarrow> (pyobj list \<Rightarrow> ('w, unit) io) \<Rightarrow> ('w, unit) io" where
  "L21DLagTest cl traffic = (
     let vid = OInt 15; bridge_type = enum_member sai_bridge_type ''SAI_BRIDGE_TYPE_1D'';
         bp_type = enum_member sai_bridge_port_type ''SAI_BRIDGE_PORT_TYPE_SUB_PORT'' in
     io_bind (lag_setup cl vid) (\<lambda>(hw, ps, lag, members).
     io_bind (create_bridge cl bridge_type) (\<lambda>bridge.
     io_bind (create_bridge_port cl bp_type (ps ! 0) vid bridge) (\<lambda>bridge_port1.
     io_bind (create_bridge_port cl bp_type lag vid bridge) (\<lambda>bridge_port2.
     io_then (static_fdb cl mac1 bridge_type vid bridge bridge_port1) (
     io_then (static_fdb cl mac2 bridge_type vid bridge bridge_port2) (
     io_finally (traffic hw) (
     lag_teardown cl bridge bridge_port1 bridge_port2 members lag ps))))))))"

definition L21QLagTest :: "'w sai_api \<Rightarrow> (pyobj list \<Rightarrow> ('w, unit) io) \<Rightarrow> ('w, unit) io" where
  "L21QLagTest cl traffic = (
     let vid = OInt 15; bridge_type = enum_member sai_bridge_type ''SAI_BRIDGE_TYPE_1Q'';
         bp_type = enum_member sai_bridge_port_type ''SAI_BRIDGE_PORT_TYPE_PORT'' in
     io_bind (lag_setup cl vid) (\<lambda>(hw, ps, lag, members).
     io_bind (create_bridge cl bridge_type) (\<lambda>bridge.
     io_bind (create_bridge_port cl bp_type (ps ! 0) vid bridge) (\<lambda>bridge_port1.
     io_bind (create_bridge_port cl bp_type lag vid bridge) (\<lambda>bridge_port2.
     io_bind (create_vlan cl vid) (\<lambda>vlan_oid.
     io_bind (create_vlan_member cl vlan_oid bridge_port1 (enum_member sai_vlan_tagging_mode untagged)) (\<lambda>vlan_member1.
     io_bind (create_vlan_member cl vlan_oid bridge_port2 (enum_member sai_vlan_tagging_mode untagged)) (\<lambda>vlan_member2.
     io_then (static_fdb cl mac1 bridge_type vid bridge bridge_port1) (
     io_then (static_fdb cl mac2 bridge_type vid bridge bridge_port2) (
     io_finally (traffic hw) (
     lag_teardown cl bridge bridge_port1 bridge_port2 members lag ps)))))))))))"

lemma io_finally_then: "io_finally m n w = (Inr a, w') \<longleftrightarrow> io_then m n w = (Inr a, w')"
  by (auto simp: io_finally_def io_then_apply split: prod.splits sum.splits)

lemmas test_defs = get_hw_port_list_def create_port_def create_bridge_port_def create_bridge_def create_vlan_def
  create_vlan_member_def create_lag_member_def create_fdb_def delete_fdb_def static_fdb_def set_port_vlan_def run_call_def
  lag_setup_def lag_teardown_def Let_def

section \<open>The requests of the helpers\<close>

text \<open>What the server makes of the attributes that the helpers build.\<close>

definition no_value :: attr_value where
  "no_value = \<lparr>av_s32 = None, av_u16 = None, av_oid = None, av_u32list = None\<rparr>"

lemma as_attr_attribute:
  "as_attr (attribute (OInt i) ''s32'' v) = Some \<lparr>attr_id = i, attr_value = Some (no_value\<lparr>av_s32 := obj_pyv v\<rparr>)\<rparr>"
  "as_attr (attribute (OInt i) ''u16'' v) = Some \<lparr>attr_id = i, attr_value = Some (no_value\<lparr>av_u16 := obj_pyv v\<rparr>)\<rparr>"
  "as_attr (attribute (OInt i) ''oid'' v) = Some \<lparr>attr_id = i, attr_value = Some (no_value\<lparr>av_oid := obj_pyv v\<rparr>)\<rparr>"
  "as_attr (attribute (OInt i) ''u32list'' (new sai_thrift_u32_list_t [(''u32list'', OList xs), (''count'', c)])) =
     Some \<lparr>attr_id = i, attr_value = Some (no_value\<lparr>av_u32list := Some (those (map obj_pyv xs))\<rparr>)\<rparr>"
  by (simp_all add: as_attr_def attribute_def as_value_def no_value_def attr_pyv_def new_def
      sai_thrift_attribute_t_def sai_thrift_attribute_value_t_def sai_thrift_u32_list_t_def)

lemma as_fdb_new:
  "as_fdb (new sai_thrift_fdb_entry_t [(''mac_address'', OStr m), (''vlan_id'', v), (''bridge_type'', t), (''bridge_id'', b)]) =
     Some \<lparr>mac_address = m, fdb_vlan_id = obj_pyv v, fdb_bridge_type = obj_pyv t, fdb_bridge_id = obj_pyv b\<rparr>"
  "as_fdb (new sai_thrift_fdb_entry_t [(''mac_address'', OStr m), (''bridge_id'', b)]) =
     Some \<lparr>mac_address = m, fdb_vlan_id = None, fdb_bridge_type = None, fdb_bridge_id = obj_pyv b\<rparr>"
  by (simp_all add: as_fdb_def attr_pyv_def new_def sai_thrift_fdb_entry_t_def)

text \<open>The numbers of the enumeration members that the helpers name.\<close>

lemma enum_members:
  "enum_member sai_bridge_port_attr ''SAI_BRIDGE_PORT_ATTR_TYPE'' = OInt 0"
  "enum_member sai_bridge_port_attr ''SAI_BRIDGE_PORT_ATTR_PORT_ID'' = OInt 1"
  "enum_member sai_bridge_port_attr ''SAI_BRIDGE_PORT_ATTR_VLAN_ID'' = OInt 2"
  "enum_member sai_bridge_port_attr ''SAI_BRIDGE_PORT_ATTR_BRIDGE_ID'' = OInt 5"
  "enum_member sai_fdb_entry_attr ''SAI_FDB_ENTRY_ATTR_TYPE'' = OInt 0"
  "enum_member sai_fdb_entry_attr ''SAI_FDB_ENTRY_ATTR_BRIDGE_PORT_ID'' = OInt 2"
  "enum_member sai_fdb_entry_attr ''SAI_FDB_ENTRY_ATTR_PACKET_ACTION'' = OInt 1"
  "enum_member sai_port_attr ''SAI_PORT_ATTR_BIND_MODE'' = OInt 0"
  "enum_member sai_port_attr ''SAI_PORT_ATTR_PORT_VLAN_ID'' = OInt 1"
  "enum_member sai_port_attr ''SAI_PORT_ATTR_HW_LANE_LIST'' = OInt 2"
  "enum_member sai_lag_member_attr ''SAI_LAG_MEMBER_ATTR_PORT_ID'' = OInt 0"
  "enum_member sai_lag_member_attr ''SAI_LAG_MEMBER_ATTR_LAG_ID'' = OInt 1"
  "enum_member sai_vlan_member_attr ''SAI_VLAN_MEMBER_ATTR_VLAN_ID'' = OInt 0"
  "enum_member sai_vlan_member_attr ''SAI_VLAN_MEMBER_ATTR_BRIDGE_PORT_ID'' = OInt 1"
  "enum_member sai_vlan_member_attr ''SAI_VLAN_MEMBER_ATTR_VLAN_TAGGING_MODE'' = OInt 2"
  "enum_member sai_vlan_attr ''SAI_VLAN_ATTR_VLAN_ID'' = OInt 0"
  "enum_member sai_bridge_attr ''SAI_BRIDGE_ATTR_TYPE'' = OInt 0"
  "enum_member sai_switch_attr ''SAI_SWITCH_ATTR_PORT_LIST'' = OInt 1"
  "enum_member sai_port_bind_mode ''SAI_PORT_BIND_MODE_SUB_PORT'' = OInt 1"
  "enum_member sai_packet_action ''SAI_PACKET_ACTION_FORWARD'' = OInt 1"
  "enum_member sai_fdb_entry_type ''SAI_FDB_ENTRY_TYPE_STATIC'' = OInt 1"
  "enum_member sai_bridge_type ''SAI_BRIDGE_TYPE_1Q'' = OInt 0"
  "enum_member sai_bridge_type ''SAI_BRIDGE_TYPE_1D'' = OInt 1"
  "enum_member sai_bridge_port_type ''SAI_BRIDGE_PORT_TYPE_PORT'' = OInt 0"
  "enum_member sai_bridge_port_type ''SAI_BRIDGE_PORT_TYPE_SUB_PORT'' = OInt 1"
  "enum_member sai_vlan_tagging_mode tagged = OInt 1"
  "enum_member sai_vlan_tagging_mode untagged = OInt 0"
  by (simp_all add: enum_member_def tagged_def untagged_def sai_bridge_port_attr_def sai_fdb_entry_attr_def sai_port_attr_def
      sai_lag_member_attr_def sai_vlan_member_attr_def sai_vlan_attr_def sai_bridge_attr_def sai_switch_attr_def
      sai_port_bind_mode_def sai_packet_action_def sai_fdb_entry_type_def sai_bridge_type_def sai_bridge_port_type_def
      sai_vlan_tagging_mode_def)

text \<open>The handler by the name of the method.\<close>

definition answer :: "('w, pyv) io \<Rightarrow> ('w, pyobj) io" where
  "answer m = io_bind m (\<lambda>v. io_ret (pyv_obj v))"

lemma sai_call_names:
  "sai_call ''sai_thrift_create_port'' [a] = map_option Create_port (as_attrs a)"
  "sai_call ''sai_thrift_create_bridge'' [a] = map_option Create_bridge (as_attrs a)"
  "sai_call ''sai_thrift_create_bridge_port'' [a] = map_option Create_bridge_port (as_attrs a)"
  "sai_call ''sai_thrift_create_vlan'' [a] = map_option Create_vlan (as_attrs a)"
  "sai_call ''sai_thrift_create_vlan_member'' [a] = map_option Create_vlan_member (as_attrs a)"
  "sai_call ''sai_thrift_create_lag'' [a] = map_option Create_lag (as_attrs a)"
  "sai_call ''sai_thrift_create_lag_member'' [a] = map_option Create_lag_member (as_attrs a)"
  "sai_call ''sai_thrift_remove_port'' [a] = map_option Remove_port (obj_pyv a)"
  "sai_call ''sai_thrift_remove_bridge'' [a] = map_option Remove_bridge (obj_pyv a)"
  "sai_call ''sai_thrift_remove_bridge_port'' [a] = map_option Remove_bridge_port (obj_pyv a)"
  "sai_call ''sai_thrift_delete_vlan'' [a] = map_option Delete_vlan (obj_pyv a)"
  "sai_call ''sai_thrift_remove_vlan_member'' [a] = map_option Remove_vlan_member (obj_pyv a)"
  "sai_call ''sai_thrift_remove_lag'' [a] = map_option Remove_lag (obj_pyv a)"
  "sai_call ''sai_thrift_remove_lag_member'' [a] = map_option Remove_lag_member (obj_pyv a)"
  "sai_call ''sai_thrift_delete_fdb_entry'' [a] = map_option Delete_fdb_entry (as_fdb a)"
  "sai_call ''sai_thrift_create_fdb_entry'' [a, b] = Option.bind (as_fdb a) (\<lambda>e. map_option (Create_fdb_entry e) (as_attrs b))"
  "sai_call ''sai_thrift_set_port_attribute'' [a, b] = Option.bind (obj_pyv a) (\<lambda>i. map_option (Set_port_attribute i) (as_attr b))"
  "sai_call ''sai_thrift_get_switch_attribute'' [a] = None"
  by (simp_all add: sai_call_def attr_list_procs_def id_procs_def)

section \<open>Adding a forwarding entry, end to end\<close>

lemma fits_attribute:
  "fits (SStruct sai_thrift_attribute_t) (attribute (OInt i) ''s32'' (OInt v)) \<longleftrightarrow> int_fits 32 i \<and> int_fits 32 v"
  "fits (SStruct sai_thrift_attribute_t) (attribute (OInt i) ''u16'' (OInt v)) \<longleftrightarrow> int_fits 32 i \<and> int_fits 16 v"
  "fits (SStruct sai_thrift_attribute_t) (attribute (OInt i) ''oid'' (OInt v)) \<longleftrightarrow> int_fits 32 i \<and> int_fits 64 v"
  by (simp_all add: attribute_def new_def sai_thrift_attribute_t_def sai_thrift_attribute_value_t_def)

lemma fits_fdb_entry:
  "fits (SStruct sai_thrift_fdb_entry_t)
     (new sai_thrift_fdb_entry_t [(''mac_address'', OStr m), (''vlan_id'', OInt v), (''bridge_type'', OInt t), (''bridge_id'', OInt b)]) \<longleftrightarrow>
   len_fits m \<and> int_fits 16 v \<and> int_fits 32 t \<and> int_fits 64 b"
  by (simp add: new_def sai_thrift_fdb_entry_t_def)

definition fdb_args_fit :: "string \<Rightarrow> int \<Rightarrow> int \<Rightarrow> int \<Rightarrow> int \<Rightarrow> int \<Rightarrow> int \<Rightarrow> bool" where
  "fdb_args_fit mac bridge_type vlan_id bridge_id bridge_port action entry_type \<longleftrightarrow>
     len_fits mac \<and> int_fits 32 bridge_type \<and> int_fits 16 vlan_id \<and> int_fits 64 bridge_id \<and> int_fits 64 bridge_port \<and>
     int_fits 32 action \<and> int_fits 32 entry_type"

lemma fdb_method:
  "sai_thrift_create_fdb_entry_rpc \<in> set switch_sai_methods"
  "m_name sai_thrift_create_fdb_entry_rpc = ''sai_thrift_create_fdb_entry''"
  "fits (the (result_spec sai_thrift_create_fdb_entry_rpc)) (OInt 0)"
  by (simp add: switch_sai_methods_def)
     (simp_all add: sai_thrift_create_fdb_entry_rpc_def result_spec_def sai_thrift_create_fdb_entry_result_def int_fits_def)

lemma create_fdb_run:
  assumes "thrift_protocol pt" "fdb_args_fit mac bridge_type vlan_id bridge_id bridge_port action entry_type"
  shows "create_fdb (sai_client pt api r other) (OStr mac) (OInt bridge_type) (OInt vlan_id) (OInt bridge_id)
      (OInt bridge_port) (OInt action) (OInt entry_type) (fresh_link, w) =
    (if action = 1 \<and> entry_type = 1 then
       (case AddTable api ''table_fdb'' ''action_set_egress_br_port'' (mac @ '' '' @ show_int bridge_id) (show_int bridge_port) w of
          (Inr _, w') \<Rightarrow> (Inr (), (fresh_link, w'))
        | (Inl e, w') \<Rightarrow> (Inl TransportError, (fresh_link\<lparr>l_open := False\<rparr>, w')))
     else (Inl (TApplicationException 5 ''sai_thrift_create_fdb_entry failed: unknown result''), (fresh_link, w)))"
proof -
  let ?e = "new sai_thrift_fdb_entry_t [(''mac_address'', OStr mac), (''vlan_id'', OInt vlan_id),
      (''bridge_type'', OInt bridge_type), (''bridge_id'', OInt bridge_id)]"
  let ?as = "[attribute (OInt 0) ''s32'' (OInt entry_type), attribute (OInt 2) ''oid'' (OInt bridge_port),
      attribute (OInt 1) ''s32'' (OInt action)]"
  let ?m = sai_thrift_create_fdb_entry_rpc
  let ?rpc = "Create_fdb_entry \<lparr>mac_address = mac, fdb_vlan_id = Some vlan_id, fdb_bridge_type = Some bridge_type, fdb_bridge_id = Some bridge_id\<rparr>
      [\<lparr>attr_id = 0, attr_value = Some (no_value\<lparr>av_s32 := Some entry_type\<rparr>)\<rparr>,
       \<lparr>attr_id = 2, attr_value = Some (no_value\<lparr>av_oid := Some bridge_port\<rparr>)\<rparr>,
       \<lparr>attr_id = 1, attr_value = Some (no_value\<lparr>av_s32 := Some action\<rparr>)\<rparr>]"
  have fit: "fits (SStruct (m_args ?m)) (OObj (m_args ?m) [?e, OList ?as])"
    using assms(2) fits_attribute fits_fdb_entry
    by (simp add: fdb_args_fit_def sai_thrift_create_fdb_entry_rpc_def sai_thrift_create_fdb_entry_args_def len_fits_def int_fits_def)
  have call: "sai_call (m_name ?m) [?e, OList ?as] = Some ?rpc"
    by (simp add: fdb_method sai_call_names as_fdb_new as_attr_attribute)
  obtain res w' where run: "sai_run api r ?rpc w = (res, w')" by fastforce
  have shape: "(res, w') = (if action = 1 \<and> entry_type = 1 then
      (case AddTable api ''table_fdb'' ''action_set_egress_br_port'' (mac @ '' '' @ show_int bridge_id) (show_int bridge_port) w of
          (Inr _, w') \<Rightarrow> (Inr (Some 0), w') | (Inl e, w') \<Rightarrow> (Inl e, w'))
      else (Inr None, w))"
    using run [symmetric]
    by (simp add: sai_thrift_create_fdb_entry_def attr_field_def no_value_def local_var_def io_simps Let_def py_str_def
        add_table_def split: prod.split sum.split)
  have "fits (the (result_spec ?m)) (OInt v)" if "res = Inr (Some v)" for v
    using that shape fdb_method(3) by (auto split: if_splits prod.splits sum.splits)
  from sai_client_run [where api = api, OF assms(1) fdb_method(1) fit call run this]
  have "sai_client pt api r other ''sai_thrift_create_fdb_entry'' [?e, OList ?as] (fresh_link, w) =
      remote_outcome ''sai_thrift_create_fdb_entry'' res w'"
    by (simp only: fdb_method(2))
  then show ?thesis
    using shape by (auto simp: create_fdb_def enum_members io_simps remote_outcome_def split: prod.splits sum.splits if_splits)
qed

text \<open>
  C38. \<open>sai_thrift_create_fdb\<close> of the test client, through the Thrift connection, the handler and the
  driver: it is one \<open>table_add\<close> to \<open>table_fdb\<close> with the MAC address and the bridge id as the key and the
  bridge port as the parameter, if the entry is static and forwards. For any other entry the handler
  falls off its end, so the client raises \<open>TApplicationException\<close> although nothing went wrong, and the
  switch is not touched.
\<close>

theorem create_fdb_remote:
  assumes "thrift_protocol pt" and "fdb_args_fit mac bridge_type vlan_id bridge_id bridge_port action entry_type"
  shows "create_fdb (sai_client pt api r other) (OStr mac) (OInt bridge_type) (OInt vlan_id) (OInt bridge_id)
      (OInt bridge_port) (OInt action) (OInt entry_type) (fresh_link, w) =
    (if action = 1 \<and> entry_type = 1 then
       (case AddTable api ''table_fdb'' ''action_set_egress_br_port'' (mac @ '' '' @ show_int bridge_id) (show_int bridge_port) w of
          (Inr _, w') \<Rightarrow> (Inr (), (fresh_link, w'))
        | (Inl e, w') \<Rightarrow> (Inl TransportError, (fresh_link\<lparr>l_open := False\<rparr>, w')))
     else (Inl (TApplicationException 5 ''sai_thrift_create_fdb_entry failed: unknown result''), (fresh_link, w)))"
  by (rule create_fdb_run [OF assms])

lemma fdb_key_words:
  assumes "no_space mac" "mac \<noteq> []"
  shows "py_split (mac @ '' '' @ show_int n) = [mac, show_int n]"
  using py_split_token [OF assms] py_split_space by simp

text \<open>
  C5. With a program that has \<open>table_fdb\<close>, a static forwarding entry goes from the test client into the
  switch: exactly one \<open>bm_mt_add_entry\<close> is sent, its key the bytes of the MAC address and of the bridge
  id, its data the bytes of the bridge port, as the CLI parses them; the client returns normally and
  the connection stays open.
\<close>

theorem create_fdb_programs_switch:
  assumes "thrift_protocol pt" and "fdb_args_fit mac bridge_type vlan_id bridge_id bridge_port 1 1"
    and "no_space mac" "mac \<noteq> []" "mac \<noteq> ''=>''"
    and "map_of (TABLES (cfg w)) ''table_fdb'' = Some table" "t_match_type table = Some EXACT" "num_key_fields table = 2"
    and "''action_set_egress_br_port'' \<in> fst ` set (t_actions table)"
    and "map_of (ACTIONS (cfg w)) ''action_set_egress_br_port'' = Some action" "num_params action = 1"
    and "parse_match_key (ip6 (lib api)) table [mac, show_int bridge_id] = Inr key"
    and "parse_runtime_data (ip6 (lib api)) action [show_int bridge_port] = Inr data"
    and "client api (Call ''bm_mt_add_entry'' [AInt 0, AStr ''table_fdb'', AKey key, AStr ''action_set_egress_br_port'',
           AData data, AOptions 0]) (switch w) = (Inr (VInt h), s')"
  shows "\<exists>es. create_fdb (sai_client pt api r other) (OStr mac) (OInt bridge_type) (OInt vlan_id) (OInt bridge_id)
      (OInt bridge_port) (OInt 1) (OInt 1) (fresh_link, w) = (Inr (), (fresh_link, w\<lparr>switch := s', events := events w @ es\<rparr>)) \<and>
    rpcs es = [Call ''bm_mt_add_entry'' [AInt 0, AStr ''table_fdb'', AKey key, AStr ''action_set_egress_br_port'', AData data, AOptions 0]]"
proof -
  let ?m = "mac @ '' '' @ show_int bridge_id"
  have words: "py_split ?m = [mac, show_int bridge_id]" using assms(3,4) by (rule fdb_key_words)
  have arrow: "''=>'' \<noteq> show_int n" for n
  proof -
    have "py_int ''=>'' = None" by code_simp
    then show ?thesis using py_int_show_int [of n] by (metis option.distinct(1))
  qed
  have names: "no_space ''table_fdb''" "no_space ''action_set_egress_br_port''" by (simp_all add: no_space_def is_space_def)
  have add: "AddTable api ''table_fdb'' ''action_set_egress_br_port'' ?m (show_int bridge_port) w =
    (Inr (), w\<lparr>switch := s', events := events w @ Out (''table_add '' @ add_cmd ''table_fdb'' ''action_set_egress_br_port'' ?m (show_int bridge_port)) #
       table_add_report ''table_fdb'' ''action_set_egress_br_port'' EXACT key data 0 h\<rparr>)"
    using assms(5-14) words arrow [of bridge_id] names
    by (intro AddTable_ok [where table = table and action = action]) auto
  show ?thesis
    using create_fdb_run [OF assms(1,2), of api r other w] add
    by (auto simp: table_add_report_def)
qed

section \<open>Examples\<close>

definition fdb_action :: action where
  "fdb_action = \<lparr>a_name = ''action_set_egress_br_port'', a_id = 1, runtime_data = [(''br_port'', 8)]\<rparr>"

definition fdb_table :: table where
  "fdb_table = \<lparr>t_name = ''table_fdb'', t_id = 2, t_match_type = Some EXACT,
     t_actions = [(''action_set_egress_br_port'', fdb_action)],
     t_key = [(''ethernet.dstAddr'', EXACT, 48), (''ingress_metadata.bridge_id'', EXACT, 12)],
     t_type = Some Table_simple, support_timeout = False\<rparr>"

definition fdb_world :: "int sai" where
  "fdb_world = sai_world\<lparr>cfg := empty_config\<lparr>TABLES := [(''table_fdb'', fdb_table)],
     ACTIONS := [(''action_set_egress_br_port'', fdb_action)]\<rparr>\<rparr>"

definition fdb_key :: "bm_match_param list" where
  "fdb_key = [BmMatchParamExact [CHR 0x00, CHR 0x11, CHR 0x22, CHR 0x33, CHR 0x44, CHR 0x55],
     BmMatchParamExact [CHR 0x00, CHR 0x02]]"

lemma fdb_parses:
  "parse_match_key (ip6 (lib counting_api)) fdb_table [''00:11:22:33:44:55'', show_int 2] = Inr fdb_key"
  "parse_runtime_data (ip6 (lib counting_api)) fdb_action [show_int 5] = Inr [[CHR 0x05]]"
  by code_simp+

lemma fdb_fits: "fdb_args_fit ''00:11:22:33:44:55'' 0 10 2 5 1 1" "fdb_args_fit ''00:11:22:33:44:55'' 0 10 2 5 1 0"
  by (simp_all add: fdb_args_fit_def len_fits_def int_fits_def)

theorem create_fdb_remote_witness:
  "create_fdb (sai_client bin_protocol counting_api (\<lambda>_ _. []) (\<lambda>_ _. io_raise TypeError)) (OStr ''00:11:22:33:44:55'')
     (OInt 0) (OInt 10) (OInt 2) (OInt 5) (OInt 1) (OInt 0) (fresh_link, fdb_world) =
   (Inl (TApplicationException 5 ''sai_thrift_create_fdb_entry failed: unknown result''), (fresh_link, fdb_world))"
  using create_fdb_remote [OF bin.thrift_protocol_axioms fdb_fits(2), of counting_api "\<lambda>_ _. []" "\<lambda>_ _. io_raise TypeError" fdb_world]
  by simp

theorem create_fdb_programs_switch_witness:
  "\<exists>es. create_fdb (sai_client bin_protocol counting_api (\<lambda>_ _. []) (\<lambda>_ _. io_raise TypeError)) (OStr ''00:11:22:33:44:55'')
      (OInt 0) (OInt 10) (OInt 2) (OInt 5) (OInt 1) (OInt 1) (fresh_link, fdb_world) =
        (Inr (), (fresh_link, fdb_world\<lparr>switch := 1, events := events fdb_world @ es\<rparr>)) \<and>
    rpcs es = [Call ''bm_mt_add_entry'' [AInt 0, AStr ''table_fdb'', AKey fdb_key, AStr ''action_set_egress_br_port'',
      AData [[CHR 0x05]], AOptions 0]]"
  by (rule create_fdb_programs_switch [where table = fdb_table and action = fdb_action and h = 0,
        OF bin.thrift_protocol_axioms fdb_fits(1) _ _ _ _ _ _ _ _ _ fdb_parses])
     (simp_all add: no_space_def is_space_def fdb_world_def fdb_table_def fdb_action_def sai_world_def empty_config_def
       num_key_fields_def num_params_def counting_api_def)

end
