(* ===== verification/Driver_Total.thy ===== *)
theory Driver_Total
  imports Sai_Objects Cli_Driver
begin

text \<open>
  When the driver returns: the commands that the SAI server builds consist of numbers, and of a MAC
  address in the key of \<open>table_fdb\<close>. For a program with exact tables and a switch that answers the
  table operations, or refuses them with an error code of the interface, every such command ends: what
  it raises is an error that the decorator \<open>handle_bad_input\<close> prints.
\<close>

section \<open>Errors that are printed\<close>

definition fine :: "'a res \<Rightarrow> bool" where
  "fine r \<longleftrightarrow> (case r of Inl e \<Rightarrow> handled e | Inr _ \<Rightarrow> True)"

lemma fine_simps [simp]: "fine (Inr a)" "fine (Inl e) \<longleftrightarrow> handled e"
  by (simp_all add: fine_def)

lemma fine_bind: "fine r \<Longrightarrow> (\<And>a. r = Inr a \<Longrightarrow> fine (f a)) \<Longrightarrow> fine (res_bind r f)"
  by (cases r) auto

lemma fine_map: "(\<And>x. x \<in> set xs \<Longrightarrow> fine (f x)) \<Longrightarrow> fine (res_map f xs)"
  by (induction xs) (auto intro!: fine_bind)

definition fine_io :: "config \<Rightarrow> ('s, 'z, 'a) cli \<Rightarrow> bool" where
  "fine_io c m \<longleftrightarrow> (\<forall>w. cfg w = c \<longrightarrow> cfg (snd (m w)) = c \<and> fine (fst (m w)))"

lemma fine_ioD: "fine_io c m \<Longrightarrow> cfg w = c \<Longrightarrow> m w = (r, w') \<Longrightarrow> cfg w' = c \<and> fine r"
  unfolding fine_io_def by (metis fst_conv snd_conv)

lemma fine_io_bind:
  assumes "fine_io c m" "\<And>a w w'. cfg w = c \<Longrightarrow> m w = (Inr a, w') \<Longrightarrow> fine_io c (f a)"
  shows "fine_io c (io_bind m f)"
  unfolding fine_io_def
proof (intro allI impI)
  fix w :: "('a, 'b) world_scheme" assume w: "cfg w = c"
  obtain r w' where m: "m w = (r, w')" by fastforce
  note 1 = fine_ioD [OF assms(1) w m]
  show "cfg (snd (io_bind m f w)) = c \<and> fine (fst (io_bind m f w))"
  proof (cases r)
    case (Inl e)
    then show ?thesis using m 1 by (simp add: io_simps)
  next
    case (Inr a)
    then have "fine_io c (f a)" using assms(2) w m by blast
    then show ?thesis using m 1 Inr by (simp add: io_simps fine_io_def)
  qed
qed

lemma fine_io_then: "fine_io c m \<Longrightarrow> fine_io c n \<Longrightarrow> fine_io c (io_then m n)"
  unfolding io_then_def by (rule fine_io_bind)

lemma fine_io_atoms:
  "fine_io c (io_ret a)"
  "handled e \<Longrightarrow> fine_io c (io_raise e)"
  "fine r \<Longrightarrow> fine_io c (io_lift r)"
  "fine_io c (pr parts)"
  by (auto simp: fine_io_def io_simps pr_def emit_def)

lemma fine_io_if: "(b \<Longrightarrow> fine_io c m) \<Longrightarrow> (\<not> b \<Longrightarrow> fine_io c n) \<Longrightarrow> fine_io c (if b then m else n)"
  by simp

lemma handle_bad_input_returns:
  assumes "fine_io c m" "cfg w = c"
  shows "fst (handle_bad_input m w) = Inr ()"
proof -
  obtain r w' where m: "m w = (r, w')" by fastforce
  show ?thesis
  proof (cases r)
    case (Inl e)
    then have "handled e" using fine_ioD [OF assms m] by simp
    then show ?thesis
      using bad_input_line_handled m Inl by (fastforce simp: handle_bad_input_apply)
  qed (use m in \<open>simp add: handle_bad_input_apply\<close>)
qed

section \<open>Words that parse or are refused\<close>

lemma int_to_bytes_in_range: "int_to_bytes i (int n) = Inr bs \<Longrightarrow> list_all (\<lambda>b. 0 \<le> b \<and> b \<le> 255) bs"
  using int_to_bytes_nonneg [of i n] int_to_bytes_neg [of i n] be_bytes_range
  by (cases "0 \<le> i") (auto simp: list_all_iff split: if_splits)

definition number :: "string \<Rightarrow> bool" where
  "number x \<longleftrightarrow> (\<exists>n. x = show_int n)"

lemma number_show [simp]: "number (show_int n)"
  unfolding number_def by blast

lemma numberE: "number x \<Longrightarrow> (\<And>n. x = show_int n \<Longrightarrow> P) \<Longrightarrow> P"
  unfolding number_def by blast

definition numbers :: "string \<Rightarrow> bool" where
  "numbers s \<longleftrightarrow> (\<forall>x \<in> set (py_split s). number x)"

lemma numbers_simps [simp]:
  "numbers (show_int n)" "numbers []" "numbers (show_nat k)"
  "None \<notin> set ps \<Longrightarrow> numbers (list_to_str ps)" "p \<noteq> None \<Longrightarrow> numbers (py_str p)"
proof -
  have n: "numbers (show_int n)" for n by (simp add: numbers_def)
  show "numbers (show_int n)" by (rule n)
  show "numbers []" by (simp add: numbers_def py_split_def)
  show "numbers (show_nat k)" using n [of "int k"] by (simp add: show_int_def)
  show "numbers (py_str p)" if "p \<noteq> None" using that n by (auto simp: py_str_def)
  show "numbers (list_to_str ps)" if "None \<notin> set ps"
  proof -
    have "number (py_str q)" if "q \<noteq> None" for q using that by (auto simp: py_str_def)
    then have "\<forall>q \<in> set ps. number (py_str q)" using that by metis
    then show ?thesis unfolding numbers_def py_split_list_to_str by simp
  qed
qed

text \<open>A word that, read as a MAC address, consists of bytes.\<close>

definition mac_word :: "string \<Rightarrow> bool" where
  "mac_word m \<longleftrightarrow> no_space m \<and> m \<noteq> [] \<and> m \<noteq> ''=>'' \<and> CHR ''.'' \<notin> set m \<and>
     (case macAddr_to_bytes m of Inr bs \<Rightarrow> list_all (\<lambda>b. 0 \<le> b \<and> b \<le> 255) bs | Inl _ \<Rightarrow> True)"

lemma number_not_arrow: "number x \<Longrightarrow> x \<noteq> ''=>''"
proof -
  have "py_int ''=>'' = None" by code_simp
  then show "number x \<Longrightarrow> x \<noteq> ''=>''" by (auto simp: number_def dest!: arg_cong [of _ _ py_int])
qed

lemma parse_param_in_range:
  assumes "parse_param v6 x bw = Inr bs" "0 \<le> bw" "number x \<or> mac_word x \<and> bw \<noteq> 128"
  shows "list_all (\<lambda>b. 0 \<le> b \<and> b \<le> 255) bs"
proof -
  have range: "int_to_bytes i ((bw + 7) div 8) = Inr bs \<Longrightarrow> ?thesis" for i
    using int_to_bytes_in_range [of i "nat ((bw + 7) div 8)" bs] assms(2)
    by (simp add: pos_imp_zdiv_nonneg_iff)
  show ?thesis
  proof (cases "number x")
    case True
    then show ?thesis using assms(1) range by (auto simp: number_def parse_param_show_int)
  next
    case False
    then have "mac_word x" "bw \<noteq> 128" using assms(3) by auto
    then show ?thesis
      using assms(1) range
      by (auto simp: mac_word_def parse_param_def try_address_def ipv4Addr_to_bytes_def split: if_splits sum.splits option.splits)
  qed
qed

lemma fine_param_bytes:
  assumes "\<And>m. handled (exn m)" "0 \<le> bw" "number x \<or> mac_word x \<and> bw \<noteq> 128"
  shows "fine (param_bytes exn v6 x bw)"
proof (cases "param_bytes exn v6 x bw")
  case (Inl e)
  moreover have "e \<noteq> StructError"
  proof
    assume "e = StructError"
    then have r: "param_bytes exn v6 x bw = Inl StructError" using Inl by simp
    have "exn m \<noteq> StructError" for m using assms(1) [of m] by auto
    then obtain bs where bs: "parse_param v6 x bw = Inr bs" "bytes_to_string bs = Inl StructError"
      using r by (cases "parse_param v6 x bw") (auto simp: param_bytes_def wrap_bad_param_def dest!: parse_param_Inl)
    then show False using parse_param_in_range [OF bs(1) assms(2,3)] by (simp add: bytes_to_string_def)
  qed
  ultimately show ?thesis using param_bytes_Inl [OF Inl] assms(1) by auto
qed simp

definition key_ok :: "string \<times> match_type \<times> int \<Rightarrow> string \<Rightarrow> bool" where
  "key_ok k x \<longleftrightarrow> (case k of (_, mt, bw) \<Rightarrow> 0 \<le> bw \<and>
     (number x \<and> (mt = EXACT \<or> mt = VALID) \<or> mac_word x \<and> mt = EXACT \<and> bw \<noteq> 128))"

lemma fine_match_fields:
  assumes "length xs = length ks" "\<forall>k \<in> set ks. \<forall>x \<in> set xs. key_ok k x"
  shows "fine (parse_match_fields v6 ks xs)"
proof -
  have field: "fine (parse_match_field v6 mt bw x)" if "key_ok (f, mt, bw) x" for v6 f mt bw x
    using that
    by (auto simp: key_ok_def parse_match_field_def Let_def intro!: fine_bind fine_param_bytes elim!: numberE)
  show ?thesis
    using assms by (induction v6 ks xs rule: parse_match_fields.induct) (auto intro!: fine_bind intro: field)
qed

section \<open>Commands that end\<close>

text \<open>The programs the server works with: exact tables, whose keys may also ask for the validity of a
  header, with known actions; the key of \<open>table_fdb\<close> is a plain exact key.\<close>

definition program_ok :: "config \<Rightarrow> bool" where
  "program_ok c \<longleftrightarrow> widths_ok c \<and> (\<forall>(t, table) \<in> set (TABLES c).
     t_match_type table = Some EXACT \<and>
     (\<forall>(f, mt, bw) \<in> set (t_key table). mt = EXACT \<and> bw \<noteq> 128 \<or> t \<noteq> ''table_fdb'' \<and> (mt = EXACT \<or> mt = VALID)) \<and>
     (\<forall>a \<in> fst ` set (t_actions table). map_of (ACTIONS c) a \<noteq> None))"

text \<open>A switch that answers the table operations, or refuses them with a code of the interface.\<close>

definition answers_with :: "(std_val \<Rightarrow> 'a res) \<Rightarrow> std_val res \<Rightarrow> bool" where
  "answers_with f r \<longleftrightarrow> (case r of
     Inl e \<Rightarrow> (\<exists>code. e = InvalidTableOperation code \<and> 1 \<le> code \<and> code \<le> 23)
   | Inr v \<Rightarrow> \<not> isl (f v))"

definition switch_answers :: "'s api \<Rightarrow> bool" where
  "switch_answers api \<longleftrightarrow> (\<forall>s args.
     answers_with as_int (fst (client api (Call ''bm_mt_add_entry'' args) s)) \<and>
     answers_with as_entry (fst (client api (Call ''bm_mt_get_entry_from_key'' args) s)) \<and>
     answers_with Inr (fst (client api (Call ''bm_mt_delete_entry'' args) s)))"

lemma fine_std:
  assumes "\<And>s. answers_with f (fst (client api call s))"
  shows "fine_io c (expect f (std api call))"
proof -
  have "handled e" if "fst (client api call s) = Inl e" for s e
    using assms [of s] that by (auto simp: answers_with_def)
  moreover have "\<not> isl (f v)" if "fst (client api call s) = Inr v" for s v
    using assms [of s] that by (simp add: answers_with_def)
  ultimately show ?thesis
    unfolding fine_io_def expect_def std_def fine_def
    by (auto simp: io_simps split: prod.splits sum.splits) (metis fst_conv isl_def)+
qed

lemma fine_get_res: "fine_io c (get_res ty name array)"
  by (auto simp: fine_io_def get_res_def io_simps or_raise_def split: option.split)

lemma get_res_Inr: "get_res ty name array w = (Inr a, w') \<Longrightarrow> map_of (array (cfg w)) name = Some a"
  by (auto simp: get_res_def io_simps or_raise_def split: option.splits)

text \<open>The words of a key that the server asks for.\<close>

definition key_words :: "string \<Rightarrow> string list \<Rightarrow> bool" where
  "key_words t ks \<longleftrightarrow> (\<forall>x \<in> set ks. number x \<or> t = ''table_fdb'' \<and> mac_word x)"

lemma key_words_ok:
  assumes "program_ok c" "map_of (TABLES c) t = Some table" "key_words t ks" "length ks = num_key_fields table"
  shows "fine (parse_match_key v6 table ks)"
proof -
  have t: "(t, table) \<in> set (TABLES c)" using assms(2) by (rule map_of_SomeD)
  have w: "\<forall>k \<in> set (t_key table). 0 \<le> snd (snd k)" using assms(1) widths_okD(1) [OF _ assms(2)] by (simp add: program_ok_def)
  have "key_ok k x" if "k \<in> set (t_key table)" "x \<in> set ks" for k x
    using assms(1,3) t w that by (cases k) (fastforce simp: program_ok_def key_words_def key_ok_def)
  then show ?thesis
    unfolding parse_match_key_def using assms(4) by (intro fine_match_fields) (auto simp: num_key_fields_def)
qed

lemma fine_runtime_data:
  assumes "widths_ok c" "map_of (ACTIONS c) a = Some action" "\<forall>x \<in> set vs. number x"
  shows "fine (api_parse_runtime_data api action vs)"
proof -
  have w: "0 \<le> bw" if "bw \<in> set (map snd (runtime_data action))" for bw
    using widths_okD(2) [OF assms(1,2)] that by auto
  have "fine (param_bytes UIn_RuntimeDataError (ip6 (lib api)) x bw)"
    if "(x, bw) \<in> set (zip vs (map snd (runtime_data action)))" for x bw
    using set_zip_leftD [OF that] set_zip_rightD [OF that] assms(3) w by (intro fine_param_bytes) auto
  then show ?thesis
    by (auto simp: api_parse_runtime_data_def needs_params_def parse_runtime_data_def Let_def intro!: fine_map)
qed

lemma program_table:
  assumes "program_ok c" "map_of (TABLES c) t = Some table"
  shows "t_match_type table = Some EXACT"
  using assms(1) map_of_SomeD [OF assms(2)] unfolding program_ok_def by fastforce

lemma fine_io_known:
  fixes f :: "table \<Rightarrow> ('s, 'z, 'a) cli"
  assumes "program_ok c" "\<And>table. map_of (TABLES c) t = Some table \<Longrightarrow> t_match_type table = Some EXACT \<Longrightarrow> fine_io c (f table)"
  shows "fine_io c (io_bind (get_res ''table'' t TABLES) f)"
proof (rule fine_io_bind [OF fine_get_res])
  fix table and w w' :: "('s, 'z) world_scheme"
  assume "cfg w = c" and "get_res ''table'' t TABLES w = (Inr table, w')"
  from get_res_Inr [OF this(2)] this(1) have "map_of (TABLES c) t = Some table" by simp
  then show "fine_io c (f table)" using assms(2) program_table [OF assms(1)] by blast
qed

lemma fine_io_lift_bind: "fine r \<Longrightarrow> (\<And>a. r = Inr a \<Longrightarrow> fine_io c (f a)) \<Longrightarrow> fine_io c (io_bind (io_lift r) f)"
  by (rule fine_io_bind) (auto simp: fine_io_atoms io_simps)

lemma fine_io_check: "(b \<Longrightarrow> handled e) \<Longrightarrow> (\<not> b \<Longrightarrow> fine_io c m) \<Longrightarrow> fine_io c (io_then (if b then io_raise e else io_ret ()) m)"
  by (cases b) (auto simp: fine_io_def io_simps)

lemma fine_print_table_add: "fine_io c (print_table_add key a data)"
  unfolding print_table_add_def by (intro fine_io_then fine_io_atoms)

lemma fine_ACTIONS_at:
  "map_of (ACTIONS c) a = Some action \<Longrightarrow> fine_io c (f action) \<Longrightarrow> fine_io c (io_bind (ACTIONS_at a) f)"
  by (simp add: fine_io_def ACTIONS_at_def io_simps or_raise_def)

lemma program_action:
  assumes "program_ok c" "map_of (TABLES c) t = Some table" "a \<in> fst ` set (t_actions table)"
  shows "\<exists>action. map_of (ACTIONS c) a = Some action"
  using assms(1,3) map_of_SomeD [OF assms(2)] unfolding program_ok_def by fastforce

lemma lift_Inr: "io_bind (io_lift (Inr a)) f = f a"
  by (rule ext) (simp add: io_simps)

lemma fine_table_add:
  assumes "program_ok c" "switch_answers api" "py_split line = [t, a] @ ks @ ''=>'' # vs"
    and "''=>'' \<notin> set ks" "key_words t ks" "\<forall>x \<in> set vs. number x" "cfg w = c"
  shows "fst (do_table_add api line w) = Inr ()"
proof -
  have add: "fine_io c (expect as_int (std api (Call ''bm_mt_add_entry'' args)))" for args
    using assms(2) by (intro fine_std) (simp add: switch_answers_def)
  have w: "widths_ok c" using assms(1) by (simp add: program_ok_def)
  show ?thesis
    unfolding do_table_add_def Let_def assms(3)
    apply (rule handle_bad_input_returns [OF _ assms(7)])
    apply (simp add: at_least_n_args_def)
    apply (rule fine_io_then, rule fine_io_atoms)
    apply (rule fine_io_known [OF assms(1)])
    apply (simp add: check_action_def pop_priority_def match_type_str_def or_raise_def lift_Inr
        arrow_idx_found assms(4) split del: if_split)
    apply (rule fine_io_check, simp add: no_action_def)
    apply (frule program_action [OF assms(1), of _ _ a], simp)
    apply (elim exE)
    apply (rule fine_ACTIONS_at, assumption)
    apply (rule fine_io_check, simp add: needs_keys_def)
    apply (rule fine_io_lift_bind, rule fine_runtime_data [OF w _ assms(6)], assumption)
    apply (rule fine_io_lift_bind, rule key_words_ok [OF assms(1) _ assms(5)], assumption, simp)
    apply (intro fine_io_then fine_io_bind fine_io_atoms fine_print_table_add add)
    done
qed

lemma expect_Inr: "expect Inr m = m"
  by (rule ext) (simp add: expect_def io_simps split: prod.split sum.split)

lemma fine_table_delete:
  assumes "program_ok c" "switch_answers api" "py_split line = t # ks" "key_words t ks" "cfg w = c"
  shows "fst (do_table_delete_entry_from_key api line w) = Inr ()"
proof -
  have get: "fine_io c (expect as_entry (std api (Call ''bm_mt_get_entry_from_key'' args)))" for args
    using assms(2) by (intro fine_std) (simp add: switch_answers_def)
  have "fine_io c (expect Inr (std api (Call ''bm_mt_delete_entry'' args)))" for args
    using assms(2) by (intro fine_std) (simp add: switch_answers_def)
  then have del: "fine_io c (std_void api (Call ''bm_mt_delete_entry'' args))" for args
    unfolding std_void_def expect_Inr by (intro fine_io_bind fine_io_atoms)
  show ?thesis
    unfolding do_table_delete_entry_from_key_def entry_from_key_def Let_def assms(3)
    apply (rule handle_bad_input_returns [OF _ assms(5)])
    apply (rule fine_io_bind)
     apply (simp add: at_least_n_args_def)
     apply (rule fine_io_then, rule fine_io_atoms)
     apply (rule fine_io_known [OF assms(1)])
     apply (simp add: pop_priority_def or_raise_def lift_Inr split del: if_split)
     apply (rule fine_io_check, simp add: needs_keys_def)
     apply (rule fine_io_lift_bind, rule key_words_ok [OF assms(1) _ assms(4)], assumption, simp)
     apply (rule fine_io_bind [OF get], rule fine_io_atoms)
    apply (simp only: split_beta, rule del)
    done
qed

text \<open>The commands that the server gives, and the condition under which they return.\<close>

definition server_key :: "string \<Rightarrow> string \<Rightarrow> bool" where
  "server_key t m \<longleftrightarrow> numbers m \<or> t = ''table_fdb'' \<and> (\<exists>mac n. mac_word mac \<and> m = mac @ '' '' @ show_int n)"

lemma server_key_words:
  assumes "server_key t m"
  shows "key_words t (py_split m)" "''=>'' \<notin> set (py_split m)"
proof -
  have "key_words t (py_split m) \<and> ''=>'' \<notin> set (py_split m)"
  proof (cases "numbers m")
    case True
    then show ?thesis using number_not_arrow by (auto simp: numbers_def key_words_def)
  next
    case False
    then obtain mac n where m: "t = ''table_fdb''" "mac_word mac" "m = mac @ '' '' @ show_int n"
      using assms by (auto simp: server_key_def)
    then have "py_split m = [mac, show_int n]"
      using py_split_token_space [of mac "show_int n"] by (simp add: mac_word_def)
    then show ?thesis
      using m(1,2) number_not_arrow [OF number_show, of n] by (auto simp: key_words_def mac_word_def)
  qed
  then show "key_words t (py_split m)" "''=>'' \<notin> set (py_split m)" by auto
qed

lemma driver_returns:
  assumes "program_ok (cfg w)" "switch_answers api" "t \<noteq> []" "no_space t" "server_key t m"
  shows "a \<noteq> [] \<Longrightarrow> no_space a \<Longrightarrow> numbers v \<Longrightarrow> fst (AddTable api t a m v w) = Inr ()"
    "fst (RemoveTableEntry api t m w) = Inr ()"
proof -
  show "fst (RemoveTableEntry api t m w) = Inr ()"
    unfolding RemoveTableEntry_def
    using py_split_token_space [of t m] assms server_key_words [OF assms(5)]
    by (intro fine_table_delete [where c = "cfg w" and t = t and ks = "py_split m"]) auto
next
  assume a: "a \<noteq> []" "no_space a" "numbers v"
  let ?w = "w\<lparr>events := events w @ [Out (''table_add '' @ add_cmd t a m v)]\<rparr>"
  have "fst (do_table_add api (add_cmd t a m v) ?w) = Inr ()"
    using py_split_add_cmd [OF assms(4,3) a(2,1), of m v] assms a server_key_words [OF assms(5)]
    by (intro fine_table_add [where c = "cfg w" and t = t and a = a and ks = "py_split m" and vs = "py_split v"])
       (auto simp: numbers_def)
  then show "fst (AddTable api t a m v w) = Inr ()" by (simp add: AddTable_def Let_def io_simps)
qed

end
