(* ===== verification/Sai_Spec.thy ===== *)
theory Sai_Spec
  imports Sai_Server Driver_Total
begin

text \<open>
  An abstract specification of the SAI server: what its procedures answer and which objects they keep,
  without the switch. \<open>spec_run\<close> says for each procedure which ids it hands out and how it changes the
  object store; the server of \<open>Sai_Server\<close>, which programs the switch through the CLI on the way,
  implements it, as a forward simulation shows. So the answers of the server do not depend on the
  switch, and runs of whole test programs can be computed on the specification.
\<close>

section \<open>The specification\<close>

text \<open>A value that is missing in a request is printed as \<open>None\<close> into the command for the switch. The
  strict specification does not answer such a request, and none with a MAC address that does not
  consist of bytes; the other one does not look at what goes into a command.\<close>

definition need :: "bool \<Rightarrow> pyv list \<Rightarrow> ('w, 'a) io \<Rightarrow> ('w, 'a) io" where
  "need strict vs n = (if strict \<and> None \<in> set vs then io_raise TypeError else n)"

definition need_mac :: "bool \<Rightarrow> string \<Rightarrow> ('w, 'a) io \<Rightarrow> ('w, 'a) io" where
  "need_mac strict mac n = (if strict \<and> \<not> mac_word mac then io_raise TypeError else n)"

definition spec_create_fdb_entry :: "bool \<Rightarrow> fdb_entry \<Rightarrow> thrift_attr list \<Rightarrow> ('s, pyv) handler" where
  "spec_create_fdb_entry strict entry attrs =
     io_bind (io_lift (read_attrs [(0, av_s32), (2, av_oid), (1, av_s32)] attrs Map.empty)) (\<lambda>env.
     io_bind (local_var env 2) (\<lambda>bridge_port.
     io_bind (local_var env 1) (\<lambda>packet_action.
     if packet_action = Some 1
     then io_bind (local_var env 0) (\<lambda>entry_type.
          if entry_type = Some 1
          then need_mac strict (mac_address entry) (need strict [fdb_bridge_id entry, bridge_port] (io_ret (Some 0)))
          else io_ret None)
     else io_ret None)))"

definition spec_delete_fdb_entry :: "bool \<Rightarrow> fdb_entry \<Rightarrow> ('s, pyv) handler" where
  "spec_delete_fdb_entry strict entry =
     need_mac strict (mac_address entry) (need strict [fdb_bridge_id entry] (io_ret (Some 0)))"

text \<open>At most one VLAN exists at a time.\<close>

definition spec_create_vlan :: "thrift_attr list \<Rightarrow> ('s, pyv) handler" where
  "spec_create_vlan attrs =
     io_bind (io_lift (read_attrs [(0, av_u16)] attrs Map.empty)) (\<lambda>env.
     io_bind (local_var env 0) (\<lambda>vid.
     io_bind (io_gets (\<lambda>w. vlans w \<noteq> [])) (\<lambda>some.
     if some then io_raise AttributeError
     else
       io_bind (io_lift (fmt_d vid)) (\<lambda>_.
       io_bind (new_item vlans vlans_update Vlan_obj (\<lambda>_. [])) (\<lambda>vlan_oid.
       io_then (set_obj vlans_update vlan_oid (\<lambda>v. v\<lparr>v_vid := vid, v_members := []\<rparr>)) (
       io_ret (Some vlan_oid)))))))"

definition spec_remove_vlan_member :: "bool \<Rightarrow> int \<Rightarrow> ('s, pyv) handler" where
  "spec_remove_vlan_member strict vlan_member_id =
     io_bind (at_key vlan_members (Some vlan_member_id)) (\<lambda>vlan_member.
     need strict [vm_bridge_port_id vlan_member, vm_vid vlan_member] (
     io_bind (at_key bridge_ports (vm_bridge_port_id vlan_member)) (\<lambda>bp.
     io_bind (at_key ports (bp_port_id bp)) (\<lambda>port.
     need strict [hw_port port] (
     io_bind (at_key vlans (vm_vlan_oid vlan_member)) (\<lambda>vlan.
     io_bind (io_lift (list_remove vlan_member_id (v_members vlan))) (\<lambda>ms.
     io_then (set_obj vlans_update (the (vm_vlan_oid vlan_member)) (\<lambda>v. v\<lparr>v_members := ms\<rparr>)) (
     io_then (io_modify (vlan_members_update (dict_pop vlan_member_id))) (io_ret (Some 0))))))))))"

definition spec_create_vlan_member :: "bool \<Rightarrow> thrift_attr list \<Rightarrow> ('s, pyv) handler" where
  "spec_create_vlan_member strict attrs =
     io_bind (io_lift (read_attrs [(0, av_oid), (1, av_oid), (2, av_s32)] attrs Map.empty)) (\<lambda>env.
     io_bind (local_var env 0) (\<lambda>vlan_oid.
     io_bind (at_key vlans vlan_oid) (\<lambda>vlan.
     io_bind (new_item vlan_members vlan_members_update VlanMember_obj (\<lambda>_. [])) (\<lambda>vlan_member_id.
     io_bind (local_var env 1) (\<lambda>bridge_port_id.
     io_then (set_obj vlan_members_update vlan_member_id
       (\<lambda>m. m\<lparr>vm_bridge_port_id := bridge_port_id, vm_vid := v_vid vlan, vm_vlan_oid := vlan_oid\<rparr>)) (
     io_bind (local_var env 2) (\<lambda>tagging_mode.
     io_then (set_obj vlan_members_update vlan_member_id (\<lambda>m. m\<lparr>vm_tagging_mode := tagging_mode\<rparr>)) (
     io_then (set_obj vlans_update (the vlan_oid) (\<lambda>v. v\<lparr>v_members := v_members v @ [vlan_member_id]\<rparr>)) (
     io_bind (at_key bridge_ports bridge_port_id) (\<lambda>bp.
     io_bind (io_gets (\<lambda>w. dict_has (lags w) (bp_port_id bp))) (\<lambda>is_lag.
     io_bind (if is_lag then io_ret (bp_port_id bp)
              else io_bind (at_key ports (bp_port_id bp)) (\<lambda>p. io_ret (hw_port p))) (\<lambda>out_if.
     need strict [out_if, v_vid vlan, bridge_port_id] (
     io_ret (Some vlan_member_id))))))))))))))"

definition spec_create_port_attr ::
  "bool \<Rightarrow> int \<Rightarrow> thrift_attr \<Rightarrow> int list option option \<Rightarrow> ('s, int list option option) handler" where
  "spec_create_port_attr strict port attr hw =
     (if attr_id attr = 1 then
        io_bind (io_lift (attr_field av_u16 attr)) (\<lambda>vlan_id.
        io_then (set_obj ports_update port (\<lambda>p. p\<lparr>pvid := vlan_id\<rparr>)) (need strict [vlan_id] (io_ret hw)))
      else if attr_id attr = 0 then
        io_bind (io_lift (attr_field av_s32 attr)) (\<lambda>mode.
        io_then (set_obj ports_update port (\<lambda>p. p\<lparr>bind_mode := mode\<rparr>)) (need strict [mode] (io_ret hw)))
      else if attr_id attr = 2 then
        io_bind (io_lift (res_bind (attr_field av_u32list attr) (or_raise AttributeError))) (\<lambda>l. io_ret (Some l))
      else io_ret hw)"

definition spec_create_port :: "bool \<Rightarrow> thrift_attr list \<Rightarrow> ('s, pyv) handler" where
  "spec_create_port strict attrs =
     io_bind (new_item ports ports_update Port_obj (\<lambda>w. map fst (lags w))) (\<lambda>port.
     io_bind (io_fold attrs None (spec_create_port_attr strict port)) (\<lambda>hw_list.
     io_bind (io_lift (first_lane hw_list)) (\<lambda>hw.
     io_then (set_obj ports_update port (\<lambda>p. p\<lparr>hw_port := Some hw\<rparr>)) (
     io_ret (Some port)))))"

definition spec_remove_port :: "bool \<Rightarrow> int \<Rightarrow> ('s, pyv) handler" where
  "spec_remove_port strict port_id =
     io_bind (at_key ports (Some port_id)) (\<lambda>port.
     need strict [hw_port port] (
     io_then (io_modify (ports_update (dict_pop port_id))) (io_ret (Some 0))))"

definition spec_set_port_attribute :: "bool \<Rightarrow> thrift_attr \<Rightarrow> ('s, pyv) handler" where
  "spec_set_port_attribute strict attr =
     io_bind (io_lift (read_attrs [(1, av_u16)] [attr] Map.empty)) (\<lambda>env.
     io_bind (local_var env 1) (\<lambda>vlan_id. need strict [vlan_id] (io_ret (Some 0))))"

definition spec_create_lag_member :: "bool \<Rightarrow> thrift_attr list \<Rightarrow> ('s, pyv) handler" where
  "spec_create_lag_member strict attrs =
     io_bind (new_item lag_members lag_members_update LagMember_obj (\<lambda>_. [])) (\<lambda>member.
     io_bind (io_fold attrs (None, None) (create_lag_member_attr member)) (\<lambda>(port_var, lag_var).
     io_bind (io_lift (or_raise UnboundLocalError port_var)) (\<lambda>port_id.
     io_bind (at_key ports port_id) (\<lambda>port.
     need strict [hw_port port] (
     io_bind (io_lift (or_raise UnboundLocalError lag_var)) (\<lambda>lag_id.
     need strict [lag_id] (
     io_bind (at_key lags lag_id) (\<lambda>_.
     need strict [pvid port, bind_mode port] (io_ret (Some member))))))))))"

definition spec_remove_lag_member :: "int \<Rightarrow> ('s, pyv) handler" where
  "spec_remove_lag_member member_id =
     io_bind (io_gets lag_members) (\<lambda>ms.
     io_then (io_modify (lag_members_update (dict_pop member_id))) (
     case map_of ms member_id of
       None \<Rightarrow> io_ret (Some 0)
     | Some m \<Rightarrow>
         io_bind (io_lift (fmt_d (lm_lag_id m))) (\<lambda>_.
         io_bind (at_key lags (lm_lag_id m)) (\<lambda>_.
         io_bind (io_gets default_lag_members) (\<lambda>xs.
         io_bind (io_lift (list_remove member_id xs)) (\<lambda>xs'.
         io_then (io_modify (default_lag_members_update (\<lambda>_. xs'))) (io_ret (Some 0))))))))"

definition spec_type_tables :: "bool \<Rightarrow> pyv \<Rightarrow> pyv \<Rightarrow> (int \<rightharpoonup> pyv) \<Rightarrow> ('s, int option) handler" where
  "spec_type_tables strict bp_ty vlan_id env =
     (if bp_ty = Some 1 then io_bind (local_var env 5) (\<lambda>bridge_id. need strict [bridge_id, vlan_id] (io_ret (Some 2)))
      else if bp_ty = Some 0 then io_bind (local_var env 5) (\<lambda>bridge_id. need strict [bridge_id, vlan_id] (io_ret (Some 3)))
      else io_ret None)"

definition spec_bind_mode :: "bool \<Rightarrow> pyv \<Rightarrow> ('s, pyv) handler" where
  "spec_bind_mode strict port_id =
     io_bind (io_gets (\<lambda>w. dict_has (lags w) port_id)) (\<lambda>is_lag.
     if is_lag then
       need strict [port_id] (
       io_bind (io_gets default_lag_members) (\<lambda>ms.
       io_bind (io_lift (py_nth ms 0)) (\<lambda>m.
       io_bind (at_key lag_members (Some m)) (\<lambda>member.
       io_bind (at_key ports (lm_port_id member)) (\<lambda>port. io_ret (bind_mode port))))))
     else
       io_bind (at_key ports port_id) (\<lambda>port. need strict [hw_port port] (io_ret (bind_mode port))))"

definition spec_create_bridge_port :: "bool \<Rightarrow> thrift_attr list \<Rightarrow> ('s, pyv) handler" where
  "spec_create_bridge_port strict attrs =
     io_bind (io_lift (read_attrs [(2, av_s32), (5, av_s32), (0, av_s32), (1, av_s32)] attrs Map.empty)) (\<lambda>env.
     io_bind (new_item bridge_ports bridge_ports_update BridgePort_obj (\<lambda>_. [])) (\<lambda>br.
     io_bind (local_var env 1) (\<lambda>port_id.
     io_then (set_obj bridge_ports_update br (\<lambda>b. b\<lparr>bp_port_id := port_id\<rparr>)) (
     io_bind (local_var env 2) (\<lambda>vlan_id.
     io_then (set_obj bridge_ports_update br (\<lambda>b. b\<lparr>bp_vlan_id := vlan_id\<rparr>)) (
     io_bind (local_var env 0) (\<lambda>bp_ty.
     io_then (set_obj bridge_ports_update br (\<lambda>b. b\<lparr>bp_type := Some bp_ty\<rparr>)) (
     io_bind (spec_type_tables strict bp_ty vlan_id env) (\<lambda>l2_if_type.
     io_bind (spec_bind_mode strict port_id) (\<lambda>mode.
     need strict [port_id, vlan_id] (
     io_then (if mode = Some 1 then io_bind (io_lift (or_raise UnboundLocalError l2_if_type)) (\<lambda>ty. io_ret ())
              else io_ret ()) (
     io_ret (Some br)))))))))))))"

definition spec_remove_bridge_port :: "bool \<Rightarrow> int \<Rightarrow> ('s, pyv) handler" where
  "spec_remove_bridge_port strict bridge_port_id =
     io_bind (io_gets (\<lambda>w. map_of (bridge_ports w) bridge_port_id)) (\<lambda>popped.
     io_then (io_modify (bridge_ports_update (dict_pop bridge_port_id))) (
     io_bind (io_lift (or_raise AttributeError popped)) (\<lambda>bp.
     io_bind (io_lift (or_raise AttributeError (bp_type bp))) (\<lambda>ty.
     need strict [bp_vlan_id bp, bp_port_id bp] (io_ret (Some 0))))))"

fun spec_run :: "bool \<Rightarrow> sai_rpc \<Rightarrow> ('s, pyv) handler" where
  "spec_run strict (Create_fdb_entry e as) = spec_create_fdb_entry strict e as"
| "spec_run strict (Delete_fdb_entry e) = spec_delete_fdb_entry strict e"
| "spec_run strict (Create_vlan as) = spec_create_vlan as"
| "spec_run strict (Delete_vlan i) = sai_thrift_delete_vlan i"
| "spec_run strict (Create_vlan_member as) = spec_create_vlan_member strict as"
| "spec_run strict (Remove_vlan_member i) = spec_remove_vlan_member strict i"
| "spec_run strict (Create_port as) = spec_create_port strict as"
| "spec_run strict (Remove_port i) = spec_remove_port strict i"
| "spec_run strict (Set_port_attribute i a) = spec_set_port_attribute strict a"
| "spec_run strict (Create_lag as) = sai_thrift_create_lag as"
| "spec_run strict (Remove_lag i) = sai_thrift_remove_lag i"
| "spec_run strict (Create_lag_member as) = spec_create_lag_member strict as"
| "spec_run strict (Remove_lag_member i) = spec_remove_lag_member i"
| "spec_run strict (Create_bridge as) = sai_thrift_create_bridge as"
| "spec_run strict (Remove_bridge i) = sai_thrift_remove_bridge i"
| "spec_run strict (Create_bridge_port as) = spec_create_bridge_port strict as"
| "spec_run strict (Remove_bridge_port i) = spec_remove_bridge_port strict i"

section \<open>Simulation\<close>

text \<open>Whenever the program \<open>m\<close> returns, \<open>n\<close> returns the same value from a related state, and the states
  they end in are related.\<close>

definition io_sim :: "('u \<Rightarrow> 'v \<Rightarrow> bool) \<Rightarrow> ('u, 'a) io \<Rightarrow> ('v, 'a) io \<Rightarrow> bool" where
  "io_sim R m n \<longleftrightarrow> (\<forall>u v a u'. R u v \<longrightarrow> m u = (Inr a, u') \<longrightarrow> (\<exists>v'. n v = (Inr a, v') \<and> R u' v'))"

lemma io_simD: "io_sim R m n \<Longrightarrow> R u v \<Longrightarrow> m u = (Inr a, u') \<Longrightarrow> \<exists>v'. n v = (Inr a, v') \<and> R u' v'"
  unfolding io_sim_def by blast

lemma sim_bind:
  assumes "io_sim R m n" and "\<And>a. io_sim R (f a) (g a)"
  shows "io_sim R (io_bind m f) (io_bind n g)"
  unfolding io_sim_def
proof (intro allI impI)
  fix u v b u'
  assume R: "R u v" and "io_bind m f u = (Inr b, u')"
  then obtain a u1 where 1: "m u = (Inr a, u1)" "f a u1 = (Inr b, u')" unfolding io_bind_Inr_iff by blast
  then obtain v1 where "n v = (Inr a, v1)" "R u1 v1" using io_simD [OF assms(1) R] by blast
  then show "\<exists>v'. io_bind n g v = (Inr b, v') \<and> R u' v'"
    using io_simD [OF assms(2) _ 1(2)] unfolding io_bind_Inr_iff by blast
qed

lemma sim_then: "io_sim R m n \<Longrightarrow> io_sim R m' n' \<Longrightarrow> io_sim R (io_then m m') (io_then n n')"
  unfolding io_then_def by (rule sim_bind)

lemma sim_atoms:
  "io_sim R (io_ret a) (io_ret a)"
  "io_sim R (io_raise e) n"
  "io_sim R (io_lift r) (io_lift r)"
  by (auto simp: io_sim_def io_simps)

lemma sim_gets: "(\<And>u v. R u v \<Longrightarrow> f u = g v) \<Longrightarrow> io_sim R (io_gets f) (io_gets g)"
  by (auto simp: io_sim_def io_simps)

lemma sim_modify: "(\<And>u v. R u v \<Longrightarrow> R (f u) (g v)) \<Longrightarrow> io_sim R (io_modify f) (io_modify g)"
  by (auto simp: io_sim_def io_simps)

lemma sim_if: "(b \<Longrightarrow> io_sim R m n) \<Longrightarrow> (\<not> b \<Longrightarrow> io_sim R m' n') \<Longrightarrow> io_sim R (if b then m else m') (if b then n else n')"
  by simp

lemma sim_prod: "(\<And>x y. io_sim R (f x y) (g x y)) \<Longrightarrow> io_sim R (case p of (x, y) \<Rightarrow> f x y) (case p of (x, y) \<Rightarrow> g x y)"
  by (cases p) simp

lemma sim_option:
  "io_sim R m n \<Longrightarrow> (\<And>x. io_sim R (f x) (g x)) \<Longrightarrow>
   io_sim R (case p of None \<Rightarrow> m | Some x \<Rightarrow> f x) (case p of None \<Rightarrow> n | Some x \<Rightarrow> g x)"
  by (cases p) simp_all

lemma sim_for: "(\<And>x. io_sim R (f x) (g x)) \<Longrightarrow> io_sim R (io_for xs f) (io_for xs g)"
  by (induction xs) (simp_all add: sim_atoms sim_then)

lemma sim_fold: "(\<And>x b. io_sim R (f x b) (g x b)) \<Longrightarrow> io_sim R (io_fold xs b f) (io_fold xs b g)"
  by (induction xs arbitrary: b) (simp_all add: sim_atoms sim_bind)

lemmas sim_intros = sim_bind sim_then sim_atoms sim_if sim_prod sim_option sim_for sim_fold

section \<open>The object store\<close>

type_synonym sai_store = "int \<times> int list \<times> port_obj dict \<times> vlan_obj dict \<times> vlan_member_obj dict \<times>
  bridge_port_obj dict \<times> bridge_obj dict \<times> lag_member_obj dict \<times> lag_obj dict \<times> int list"

definition store_of :: "'s sai \<Rightarrow> sai_store" where
  "store_of w = (switch_id w, hw_port_list w, ports w, vlans w, vlan_members w, bridge_ports w, bridge_ids w,
     lag_members w, lags w, default_lag_members w)"

definition same_store :: "'s sai \<Rightarrow> 't sai \<Rightarrow> bool" where
  "same_store u v \<longleftrightarrow> store_of u = store_of v"

lemmas store_simps = same_store_def store_of_def

lemma same_more_store: "same_more w w' \<Longrightarrow> store_of w' = store_of w"
  by (cases w; cases w') (simp add: same_more_def store_of_def)

text \<open>The specification skips what only concerns the switch.\<close>

lemma sim_skip:
  fixes m :: "('s, unit) handler" and n :: "('t, 'a) handler"
  assumes "io_keeps same_more m" and "io_sim same_store k n"
  shows "io_sim same_store (io_then m k) n"
  unfolding io_sim_def io_then_Inr_iff
proof (intro allI impI)
  fix u u' :: "'s sai" and v :: "'t sai" and a
  assume "same_store u v" and "\<exists>u1. m u = (Inr (), u1) \<and> k u1 = (Inr a, u')"
  then obtain u1 where "k u1 = (Inr a, u')" "same_store u1 v"
    using io_keepsD [OF assms(1)] same_more_store by (metis same_store_def)
  then show "\<exists>v'. n v = (Inr a, v') \<and> same_store u' v'" using io_simD [OF assms(2)] by blast
qed

lemma keeps_driver:
  "io_keeps same_more (add_table api t a m v)"
  "io_keeps same_more (remove_entry api t m)"
  unfolding add_table_def remove_entry_def by (rule keeps_more_driver)+

lemma keeps_two_removed: "io_keeps same_more (io_then (remove_entry api t m) (remove_entry api t' m'))"
  by (intro ext.keeps_intros keeps_driver)

lemma sim_drop: "io_keeps same_more m \<Longrightarrow> io_sim same_store m (io_ret ())"
  unfolding io_sim_def same_store_def by (auto simp: io_simps dest!: io_keepsD same_more_store)

lemmas sim_skips = sim_skip [OF keeps_driver(1)] sim_skip [OF keeps_driver(2)] sim_skip [OF ext_atoms(2)]
  sim_drop [OF keeps_driver(1)] sim_drop [OF keeps_driver(2)]

text \<open>A relation between two servers with the same objects that every update of the object store keeps.\<close>

locale store_rel =
  fixes R :: "'s sai \<Rightarrow> 't sai \<Rightarrow> bool"
  assumes same: "R u v \<Longrightarrow> store_of u = store_of v"
    and ports_kept: "R u v \<Longrightarrow> R (ports_update h u) (ports_update h v)"
    and vlans_kept: "R u v \<Longrightarrow> R (vlans_update h2 u) (vlans_update h2 v)"
    and vlan_members_kept: "R u v \<Longrightarrow> R (vlan_members_update h3 u) (vlan_members_update h3 v)"
    and bridge_ports_kept: "R u v \<Longrightarrow> R (bridge_ports_update h4 u) (bridge_ports_update h4 v)"
    and bridge_ids_kept: "R u v \<Longrightarrow> R (bridge_ids_update h5 u) (bridge_ids_update h5 v)"
    and lag_members_kept: "R u v \<Longrightarrow> R (lag_members_update h6 u) (lag_members_update h6 v)"
    and lags_kept: "R u v \<Longrightarrow> R (lags_update h7 u) (lags_update h7 v)"
    and default_lag_members_kept: "R u v \<Longrightarrow> R (default_lag_members_update h8 u) (default_lag_members_update h8 v)"
begin

lemmas kept = ports_kept vlans_kept vlan_members_kept bridge_ports_kept bridge_ids_kept lag_members_kept lags_kept
  default_lag_members_kept

lemma fields:
  "R u v \<Longrightarrow> ports u = ports v" "R u v \<Longrightarrow> vlans u = vlans v" "R u v \<Longrightarrow> vlan_members u = vlan_members v"
  "R u v \<Longrightarrow> bridge_ports u = bridge_ports v" "R u v \<Longrightarrow> bridge_ids u = bridge_ids v"
  "R u v \<Longrightarrow> lag_members u = lag_members v" "R u v \<Longrightarrow> lags u = lags v"
  "R u v \<Longrightarrow> default_lag_members u = default_lag_members v" "R u v \<Longrightarrow> hw_port_list u = hw_port_list v"
  "R u v \<Longrightarrow> switch_id u = switch_id v"
  by (drule same, simp add: store_of_def)+

lemma sim_local: "io_sim R (local_var env i) (local_var env i)"
  unfolding local_var_def by (rule sim_atoms)

lemma sim_at_key: "(\<And>u v. R u v \<Longrightarrow> f u = g v) \<Longrightarrow> io_sim R (at_key f k) (at_key g k)"
  unfolding at_key_def by (intro sim_bind sim_gets sim_atoms) simp

lemma sim_new_item:
  assumes "\<And>u v. R u v \<Longrightarrow> f u = g v" "\<And>u v. R u v \<Longrightarrow> fb u = gb v"
    "\<And>u v d. R u v \<Longrightarrow> R (fu (\<lambda>_. d) u) (gu (\<lambda>_. d) v)"
  shows "io_sim R (new_item f fu cls fb) (new_item g gu cls gb)"
  unfolding new_item_def
  by (intro sim_bind sim_gets sim_atoms sim_prod sim_then sim_modify) (use assms in auto)

lemma sim_set_obj:
  "(\<And>u v h. R u v \<Longrightarrow> R (fu h u) (gu h v)) \<Longrightarrow> io_sim R (set_obj fu k h) (set_obj gu k h)"
  unfolding set_obj_def by (rule sim_modify) simp

lemmas sim_store = sim_local sim_at_key sim_new_item sim_set_obj sim_modify sim_gets

end

interpretation alike: store_rel same_store
  by unfold_locales (simp_all add: store_simps)

lemmas spec_defs = spec_create_fdb_entry_def spec_delete_fdb_entry_def spec_create_vlan_def spec_remove_vlan_member_def spec_create_vlan_member_def
  spec_create_port_def spec_create_port_attr_def spec_remove_port_def spec_set_port_attribute_def spec_create_lag_member_def
  spec_remove_lag_member_def spec_type_tables_def spec_bind_mode_def spec_create_bridge_port_def spec_remove_bridge_port_def

text \<open>Where the server chooses between two driver calls, the specification does nothing.\<close>

lemma sim_skip_gets: "(\<And>x. io_sim R (f x) n) \<Longrightarrow> io_sim R (io_bind (io_gets g) f) n"
  unfolding io_sim_def io_bind_Inr_iff by (auto simp: io_simps)

lemma sim_skip_if:
  "io_keeps same_more m \<Longrightarrow> io_keeps same_more m' \<Longrightarrow> io_sim same_store k n \<Longrightarrow>
   io_sim same_store (io_then (if b then m else m') k) n"
  by (rule sim_skip) simp_all

lemmas sim_rules = sim_skips sim_skip_if [OF keeps_driver(1) keeps_driver(1)] sim_skip_if [OF keeps_driver(2) keeps_driver(2)]
  sim_skip_if [OF keeps_two_removed keeps_driver(2)]
  sim_intros alike.sim_store

lemma need_False [simp]: "need False vs n = n" "need_mac False mac n = n"
  by (simp_all add: need_def need_mac_def)

lemma sim_spec_run: "io_sim same_store (sai_run api obj_repr rpc) (spec_run False rpc)"
  apply (cases rpc; hypsubst; unfold spec_run.simps sai_run.simps sai_defs spec_defs need_False Let_def;
      intro sim_rules sim_skip_gets)
  apply (simp_all add: alike.fields alike.kept)
  done

section \<open>The server keeps up with its specification\<close>

text \<open>The other direction needs a driver that returns: the procedures of the server do not catch what a
  command of the CLI raises. For a program with exact tables and a switch that answers, the commands
  that go with a request of the strict specification do return.\<close>

definition follows :: "config \<Rightarrow> 't sai \<Rightarrow> 's sai \<Rightarrow> bool" where
  "follows c v w \<longleftrightarrow> same_store v w \<and> cfg w = c"

interpretation follows: store_rel "follows c" for c
  by unfold_locales (simp_all add: follows_def store_simps)

text \<open>A step of the server that always returns and keeps what the specification sees.\<close>

definition silent :: "config \<Rightarrow> ('s, unit) handler \<Rightarrow> bool" where
  "silent c m \<longleftrightarrow> (\<forall>w. cfg w = c \<longrightarrow> (\<exists>w'. m w = (Inr (), w') \<and> cfg w' = c \<and> store_of w' = store_of w))"

lemma silentI:
  assumes "\<And>w. cfg w = c \<Longrightarrow> fst (m w) = Inr ()" "issues c P m" "io_keeps same_more m"
  shows "silent c m"
  unfolding silent_def
proof (intro allI impI)
  fix w :: "'a sai" assume c: "cfg w = c"
  obtain w' where "m w = (Inr (), w')" using assms(1) [OF c] by (metis prod.collapse)
  moreover from this have "cfg w' = c" "store_of w' = store_of w"
    using issuesD(1) [OF assms(2) c] io_keepsD [OF assms(3)] same_more_store by blast+
  ultimately show "\<exists>w'. m w = (Inr (), w') \<and> cfg w' = c \<and> store_of w' = store_of w" by blast
qed

lemma silent_pr: "silent c (pr parts)"
  by (simp add: silent_def pr_def emit_def io_simps store_of_def)

lemma silent_driver:
  assumes "program_ok c" "switch_answers api" "t \<noteq> []" "no_space t" "server_key t m"
  shows "a \<noteq> [] \<Longrightarrow> no_space a \<Longrightarrow> numbers v \<Longrightarrow> silent c (add_table api t a m v)"
    "silent c (remove_entry api t m)"
proof -
  show "silent c (add_table api t a m v)" if "a \<noteq> []" "no_space a" "numbers v"
    by (rule silentI [OF _ issues_handler_atoms(3) keeps_driver(1)])
       (use assms that in \<open>simp add: driver_returns add_table_def\<close>)
  show "silent c (remove_entry api t m)"
    by (rule silentI [OF _ issues_handler_atoms(4) keeps_driver(2)])
       (use assms in \<open>simp add: driver_returns remove_entry_def\<close>)
qed

lemma silentE:
  assumes "silent c m" "cfg w = c"
  obtains w' where "m w = (Inr (), w')" "cfg w' = c" "store_of w' = store_of w"
  using assms unfolding silent_def by blast

lemma silent_then:
  assumes "silent c m" "silent c n"
  shows "silent c (io_then m n)"
  unfolding silent_def
proof (intro allI impI)
  fix w :: "'a sai" assume "cfg w = c"
  then obtain w1 where 1: "m w = (Inr (), w1)" "cfg w1 = c" "store_of w1 = store_of w" by (rule silentE [OF assms(1)])
  obtain w2 where "n w1 = (Inr (), w2)" "cfg w2 = c" "store_of w2 = store_of w1" by (rule silentE [OF assms(2) 1(2)])
  then show "\<exists>w'. io_then m n w = (Inr (), w') \<and> cfg w' = c \<and> store_of w' = store_of w"
    using 1 by (auto simp: io_then_Inr_iff)
qed

lemma silent_if: "silent c m \<Longrightarrow> silent c n \<Longrightarrow> silent c (if b then m else n)"
  by simp

lemma follow_skip:
  fixes n :: "('t, 'a) handler" and m :: "('s, unit) handler"
  assumes "silent c m" "io_sim (follows c) n k"
  shows "io_sim (follows c) n (io_then m k)"
  unfolding io_sim_def
proof (intro allI impI)
  fix v v' :: "'t sai" and w :: "'s sai" and a assume f: "follows c v w" and n: "n v = (Inr a, v')"
  then obtain w1 where 1: "m w = (Inr (), w1)" "cfg w1 = c" "store_of w1 = store_of w"
    using silentE [OF assms(1)] by (auto simp: follows_def)
  then have "follows c v w1" using f by (simp add: follows_def same_store_def)
  then show "\<exists>w'. io_then m k w = (Inr a, w') \<and> follows c v' w'"
    using io_simD [OF assms(2) _ n] 1(1) by (auto simp: io_then_Inr_iff)
qed

lemma follow_drop: "silent c m \<Longrightarrow> io_sim (follows c) (io_ret ()) m"
  unfolding io_sim_def by (auto simp: io_simps follows_def same_store_def elim: silentE)

lemma follow_skip_gets: "(\<And>x. io_sim R n (f x)) \<Longrightarrow> io_sim R n (io_bind (io_gets g) f)"
  unfolding io_sim_def io_bind_Inr_iff by (simp add: io_simps)

lemma follow_need:
  "(None \<notin> set vs \<Longrightarrow> io_sim R n k) \<Longrightarrow> io_sim R (need True vs n) k"
  "(mac_word mac \<Longrightarrow> io_sim R n k) \<Longrightarrow> io_sim R (need_mac True mac n) k"
  by (simp_all add: need_def need_mac_def sim_atoms)

lemmas follow_rules = sim_intros follows.sim_store

lemma fdb_entry_key: "mac_word mac \<Longrightarrow> None \<noteq> p \<Longrightarrow> server_key ''table_fdb'' (mac @ CHR '' '' # py_str p)"
  by (cases p) (auto simp: server_key_def py_str_def)

lemma number_py_str: "None \<noteq> p \<Longrightarrow> numbers (py_str p)"
  by (rule numbers_simps) simp

lemma number_key: "numbers m \<Longrightarrow> server_key t m"
  by (simp add: server_key_def)

lemma follow_spec_run:
  assumes "program_ok c" "switch_answers api"
  shows "io_sim (follows c) (spec_run True rpc) (sai_run api obj_repr rpc)"
proof -
  note add = silent_driver(1) [OF assms] and rem = silent_driver(2) [OF assms]
  note skips = follow_skip [OF add] follow_skip [OF rem] follow_skip [OF silent_pr] follow_drop [OF add] follow_drop [OF rem]
    follow_skip [OF silent_if [OF add add]] follow_skip [OF silent_if [OF rem rem]]
    follow_skip [OF silent_if [OF silent_then [OF rem rem] rem]]
  show ?thesis
    apply (cases rpc; hypsubst; unfold spec_run.simps sai_run.simps sai_defs spec_defs Let_def;
        intro follow_need skips follow_rules follow_skip_gets)
    apply (simp_all add: follows.fields follows.kept no_space_def is_space_def fdb_entry_key number_key number_py_str)
    done
qed

section \<open>Refinement\<close>

text \<open>
  C6. The server implements its specification: whatever the switch, its program and the tables are, a
  procedure that returns has returned what the specification returns from a store with the same
  objects, and has left the objects that the specification leaves.
\<close>

theorem sai_run_refines_spec:
  assumes "store_of w = store_of v" and "sai_run api obj_repr rpc w = (Inr a, w')"
  shows "\<exists>v'. spec_run False rpc v = (Inr a, v') \<and> store_of w' = store_of v'"
  using io_simD [OF sim_spec_run, of w v] assms by (auto simp: same_store_def)


text \<open>
  C7. For a program with exact tables and a switch that answers the table operations, or refuses them
  with a code of the interface, the server answers every request that the strict specification answers,
  with the same value, and keeps the same objects and the configuration: no command that it gives to the
  CLI raises.
\<close>

theorem sai_run_answers:
  assumes "program_ok (cfg w)" and "switch_answers api"
    and "store_of v = store_of w" and "spec_run True rpc v = (Inr a, v')"
  shows "\<exists>w'. sai_run api obj_repr rpc w = (Inr a, w') \<and> store_of w' = store_of v' \<and> cfg w' = cfg w"
  using io_simD [OF follow_spec_run [OF assms(1,2)] _ assms(4), of w obj_repr] assms(3)
  by (auto simp: follows_def same_store_def)

section \<open>Examples\<close>

text \<open>A switch that accepts every entry, and one that refuses every operation.\<close>

definition willing_switch :: "'s api" where
  "willing_switch = \<lparr>client = (\<lambda>c s. case c of Call name args \<Rightarrow>
       (if name = ''bm_mt_add_entry'' then Inr (VInt 0)
        else if name = ''bm_mt_get_entry_from_key''
        then Inr (VEntry \<lparr>e_match_key = [], e_priority = None, entry_handle = 0, action_entry = BmActionEntry_NONE, e_life = None\<rparr>)
        else Inr VUnit, s)),
     mc_client = None, api_pre_type = PreType_None, lib = no_lib\<rparr>"

definition other_switch :: "int api" where
  "other_switch = counting_api\<lparr>client := \<lambda>c s. (Inl (InvalidTableOperation 1), s + 7)\<rparr>"

lemma switches_answer: "switch_answers willing_switch" "switch_answers other_switch"
  by (simp_all add: switch_answers_def answers_with_def willing_switch_def other_switch_def as_int_def as_entry_def)

lemma sai_world_program: "program_ok (cfg sai_world)"
  by code_simp

lemma port_created:
  "fst (sai_run counting_api (\<lambda>_ _. []) (Create_port port_attrs) sai_world) = Inr (Some 0)"
  "fst (sai_run other_switch (\<lambda>_ _. []) (Create_port port_attrs) (sai_world\<lparr>switch := 100\<rparr>)) = Inr (Some 0)"
  by code_simp+

lemma run_surj: "fst r = x \<Longrightarrow> r = (x, snd r)"
  by (cases r) simp

theorem sai_run_refines_spec_witness:
  "\<exists>v'. spec_run False (Create_port port_attrs) sai_world = (Inr (Some 0), v') \<and>
     store_of (snd (sai_run counting_api (\<lambda>_ _. []) (Create_port port_attrs) sai_world)) = store_of v'"
  by (rule sai_run_refines_spec [OF refl run_surj [OF port_created(1)]])


lemma port_specified: "fst (spec_run True (Create_port port_attrs) sai_world) = Inr (Some 0)"
  by code_simp

theorem sai_run_answers_witness:
  "\<exists>w'. sai_run other_switch (\<lambda>_ _. []) (Create_port port_attrs) sai_world = (Inr (Some 0), w') \<and>
     store_of w' = store_of (snd (spec_run True (Create_port port_attrs) sai_world)) \<and> cfg w' = cfg sai_world"
  by (rule sai_run_answers [OF sai_world_program switches_answer(2) refl run_surj [OF port_specified]])

end
