(* ===== verification/Sai_Test_Runs.thy ===== *)
theory Sai_Test_Runs
  imports Sai_Tests Sai_Spec
begin

text \<open>
  Runs of the layer 2 tests against the server, over the Thrift connection: the client, the wire, the
  handler and the driver of the CLI follow the specification of the server, so a run can be computed on
  the specification, and what it leaves in the object store holds of every switch.
\<close>

section \<open>A client of the specification\<close>

definition spec_handlers :: "'t sai handlers" where
  "spec_handlers name args =
     (case sai_call name args of
        Some rpc \<Rightarrow> answer (spec_run True rpc)
      | None \<Rightarrow>
          if name = ''sai_thrift_get_switch_attribute''
          then (case map as_attrs args of
                  [Some attrs] \<Rightarrow> io_bind (sai_thrift_get_switch_attribute attrs) (\<lambda>xs. io_ret (switch_attribute_list xs))
                | _ \<Rightarrow> io_raise TypeError)
          else io_raise AttributeError)"

definition spec_reply :: "rpc_method \<Rightarrow> pyobj list \<Rightarrow> ('t sai, pyobj) io" where
  "spec_reply m args =
     (if fits (SStruct (m_args m)) (OObj (m_args m) args)
      then io_bind (spec_handlers (m_name m) args) (\<lambda>v.
           if v \<noteq> ONone \<and> fits (the (result_spec m)) v then io_ret v else io_raise TypeError)
      else io_raise StructError)"

definition spec_client :: "'t sai sai_api" where
  "spec_client name args =
     (case find (\<lambda>m. m_name m = name) switch_sai_methods of
        None \<Rightarrow> io_raise AttributeError
      | Some m \<Rightarrow> spec_reply m args)"

definition linked :: "config \<Rightarrow> 't sai \<Rightarrow> 'b link \<times> 's sai \<Rightarrow> bool" where
  "linked c v s \<longleftrightarrow> fst s = fresh_link \<and> follows c v (snd s)"

lemma follow_switch_attribute:
  "io_sim (follows c) (sai_thrift_get_switch_attribute as) (sai_thrift_get_switch_attribute as)"
  unfolding sai_thrift_get_switch_attribute_def
  by (intro sim_intros sim_gets; simp add: follows.fields)

lemma follow_handlers:
  assumes "program_ok c" "switch_answers api"
  shows "io_sim (follows c) (spec_handlers name args) (sai_handlers api r other name args)"
proof (cases "sai_call name args")
  case (Some rpc)
  then show ?thesis
    unfolding spec_handlers_def sai_handlers_def answer_def
    by simp (intro sim_bind follow_spec_run [OF assms] sim_atoms)
next
  case None
  have "name = ''sai_thrift_get_switch_attribute'' \<Longrightarrow> name \<in> set handler_methods"
    by (simp add: handler_methods_def)
  then show ?thesis
    unfolding spec_handlers_def sai_handlers_def None option.case
    by (auto intro!: sim_atoms sim_bind follow_switch_attribute split: list.split option.split bool.split)
qed

lemma follow_client:
  fixes api :: "'s api" and pt :: "'b protocol"
  assumes "thrift_protocol pt" "program_ok c" "switch_answers api"
  shows "io_sim (linked c) (spec_client name args :: ('t sai, pyobj) io) (sai_client pt api r other name args)"
  unfolding io_sim_def
proof (intro allI impI)
  fix v v' :: "'t sai" and s :: "'b link \<times> 's sai" and a
  assume l: "linked c v s" and run: "spec_client name args v = (Inr a, v')"
  then obtain m where m: "find (\<lambda>m. m_name m = name) switch_sai_methods = Some m" "spec_reply m args v = (Inr a, v')"
    by (auto simp: spec_client_def io_simps split: option.splits)
  then have name: "m_name m = name" "m \<in> set switch_sai_methods" by (auto simp: find_Some_iff)
  obtain w where s: "s = (fresh_link, w)" and f: "follows c v w" using l by (cases s) (auto simp: linked_def)
  from m(2) have fit: "fits (SStruct (m_args m)) (OObj (m_args m) args)" and a: "a \<noteq> ONone" "fits (the (result_spec m)) a"
    and h: "spec_handlers name args v = (Inr a, v')"
    unfolding spec_reply_def by (auto simp: io_simps name split: if_splits prod.splits sum.splits)
  obtain w' where w': "sai_handlers api r other name args w = (Inr a, w')" "follows c v' w'"
    using io_simD [OF follow_handlers [OF assms(2,3)] f h] by blast
  have "rpc_call pt switch_sai_methods (sai_handlers api r other) m args (fresh_link, w) = (Inr a, (fresh_link, w'))"
    using thrift_protocol.call_known [where h = "sai_handlers api r other", OF assms(1) sai_method_wf [OF name(2)] name(2)
        distinct_switch_sai_methods fit, unfolded name(1), OF w'(1)] a by simp
  then show "\<exists>s'. sai_client pt api r other name args s = (Inr a, s') \<and> linked c v' s'"
    using m(1) w'(2) by (simp add: sai_client_def s linked_def)
qed

section \<open>Runs that end\<close>

text \<open>Whatever the last step of \<open>n\<close> raises, its state ends related to the one that \<open>m\<close> ends in, and its
  result is one of \<open>P\<close>.\<close>

definition io_fin :: "('a res \<Rightarrow> bool) \<Rightarrow> ('u \<Rightarrow> 'v \<Rightarrow> bool) \<Rightarrow> ('u, 'a) io \<Rightarrow> ('v, 'a) io \<Rightarrow> bool" where
  "io_fin P R m n \<longleftrightarrow> (\<forall>u v a u'. R u v \<longrightarrow> m u = (Inr a, u') \<longrightarrow> (\<exists>r v'. n v = (r, v') \<and> P r \<and> R u' v'))"

lemma fin_bind:
  assumes "io_sim R m n" and "\<And>a. io_fin P R (f a) (g a)"
  shows "io_fin P R (io_bind m f) (io_bind n g)"
  unfolding io_fin_def
proof (intro allI impI)
  fix u v b u'
  assume R: "R u v" and "io_bind m f u = (Inr b, u')"
  then obtain a u1 where 1: "m u = (Inr a, u1)" "f a u1 = (Inr b, u')" unfolding io_bind_Inr_iff by blast
  then obtain v1 where "n v = (Inr a, v1)" "R u1 v1" using io_simD [OF assms(1) R] by blast
  then show "\<exists>r v'. io_bind n g v = (r, v') \<and> P r \<and> R u' v'"
    using assms(2) [unfolded io_fin_def] 1(2) by (simp add: io_simps)
qed

lemma fin_then: "io_sim R m n \<Longrightarrow> io_fin P R m' n' \<Longrightarrow> io_fin P R (io_then m m') (io_then n n')"
  unfolding io_then_def by (rule fin_bind)

lemma fin_prod: "(\<And>x y. io_fin P R (f x y) (g x y)) \<Longrightarrow> io_fin P R (case p of (x, y) \<Rightarrow> f x y) (case p of (x, y) \<Rightarrow> g x y)"
  by (cases p) simp

lemma fin_finally:
  assumes "io_fin P R m m'" "io_sim R n n'"
  shows "io_fin P R (io_finally m n) (io_finally m' n')"
  unfolding io_fin_def
proof (intro allI impI)
  fix u v a u'
  assume R: "R u v" and "io_finally m n u = (Inr a, u')"
  then obtain u1 where 1: "m u = (Inr (), u1)" "n u1 = (Inr (), u')" by (auto simp: io_finally_then io_then_Inr_iff)
  then obtain r v1 where 2: "m' v = (r, v1)" "P r" "R u1 v1" using assms(1) R unfolding io_fin_def by blast
  then obtain v' where "n' v1 = (Inr (), v')" "R u' v'" using io_simD [OF assms(2) _ 1(2)] by blast
  then show "\<exists>r v'. io_finally m' n' v = (r, v') \<and> P r \<and> R u' v'" using 2 by (simp add: io_finally_def)
qed

lemma fin_tests:
  assumes call: "\<And>name args. io_sim R (cl name args) (cl' name args)" and traffic: "\<And>ps. io_fin P R (traffic ps) (traffic' ps)"
  shows "io_fin P R (L21DBridgeBasicTest cl traffic) (L21DBridgeBasicTest cl' traffic')"
    "io_fin P R (L21QBridgeTest v v2 b m1 m2 cl traffic) (L21QBridgeTest v v2 b m1 m2 cl' traffic')"
    "io_fin P R (L21DLagTest cl traffic) (L21DLagTest cl' traffic')"
    "io_fin P R (L21QLagTest cl traffic) (L21QLagTest cl' traffic')"
  unfolding L21DBridgeBasicTest_def L21QBridgeTest_def L21DLagTest_def L21QLagTest_def test_defs
  by (intro fin_bind fin_then fin_prod fin_finally sim_intros call traffic)+

section \<open>Computing on the specification\<close>

lemma spec_client_known: "m \<in> set switch_sai_methods \<Longrightarrow> spec_client (m_name m) args = spec_reply m args"
  by (simp add: spec_client_def find_method distinct_switch_sai_methods)

definition checked :: "bool \<Rightarrow> tspec \<Rightarrow> sai_rpc option \<Rightarrow> ('t sai, pyobj) io" where
  "checked ok s q =
     (if ok then
        (case q of
           None \<Rightarrow> io_raise AttributeError
         | Some rpc \<Rightarrow> io_bind (spec_run True rpc) (\<lambda>v. case v of
             None \<Rightarrow> io_raise TypeError
           | Some i \<Rightarrow> if fits s (OInt i) then io_ret (OInt i) else io_raise TypeError))
      else io_raise StructError)"

lemma spec_reply_call:
  assumes "m_args m = TClass n fs" "m_result m = TClass n' [(0, nm, s)]" "length args = length fs"
    "m_name m \<noteq> ''sai_thrift_get_switch_attribute''"
  shows "(spec_reply m args :: ('t sai, pyobj) io) =
    checked (\<forall>(a, i, nm, s) \<in> set (zip args fs). a = ONone \<or> fits s a) s (sai_call (m_name m) args)"
proof -
  have "(io_bind (io_ret (pyv_obj v)) :: _ \<Rightarrow> ('t sai, pyobj) io) (\<lambda>v. if v \<noteq> ONone \<and> fits s v then io_ret v else io_raise TypeError) =
    (case v of None \<Rightarrow> io_raise TypeError | Some i \<Rightarrow> if fits s (OInt i) then io_ret (OInt i) else io_raise TypeError)"
    for v :: pyv by (cases v) (auto intro!: ext simp: io_simps)
  then have reply: "io_bind (answer k) (\<lambda>v. if v \<noteq> ONone \<and> fits s v then io_ret v else io_raise TypeError) =
    io_bind k (\<lambda>v. case v of None \<Rightarrow> io_raise TypeError
      | Some i \<Rightarrow> if fits s (OInt i) then io_ret (OInt i) else io_raise TypeError)" for k :: "('t sai, pyv) io"
    by (simp add: answer_def io_bind_assoc)
  have res: "the (result_spec m) = s" using assms(2) by (simp add: result_spec_def)
  have fit: "fits (SStruct (m_args m)) (OObj (m_args m) args) \<longleftrightarrow>
      (\<forall>(a, i, nm, s) \<in> set (zip args fs). a = ONone \<or> fits s a)"
    using assms(1,3) by simp
  show ?thesis
    unfolding spec_reply_def checked_def spec_handlers_def res fit
    using assms(4) reply by (cases "sai_call (m_name m) args") (auto simp: io_simps intro!: ext)
qed

lemmas called_defs =
  sai_thrift_create_port_rpc_def sai_thrift_create_bridge_rpc_def sai_thrift_create_bridge_port_rpc_def
  sai_thrift_create_vlan_rpc_def sai_thrift_create_vlan_member_rpc_def sai_thrift_create_lag_rpc_def
  sai_thrift_create_lag_member_rpc_def sai_thrift_remove_port_rpc_def sai_thrift_remove_bridge_rpc_def
  sai_thrift_remove_bridge_port_rpc_def sai_thrift_delete_vlan_rpc_def sai_thrift_remove_vlan_member_rpc_def
  sai_thrift_remove_lag_rpc_def sai_thrift_remove_lag_member_rpc_def sai_thrift_delete_fdb_entry_rpc_def
  sai_thrift_create_fdb_entry_rpc_def sai_thrift_set_port_attribute_rpc_def sai_thrift_get_switch_attribute_rpc_def

lemmas called_classes =
  sai_thrift_create_port_args_def sai_thrift_create_port_result_def sai_thrift_create_bridge_args_def
  sai_thrift_create_bridge_result_def sai_thrift_create_bridge_port_args_def
  sai_thrift_create_bridge_port_result_def sai_thrift_create_vlan_args_def sai_thrift_create_vlan_result_def
  sai_thrift_create_vlan_member_args_def sai_thrift_create_vlan_member_result_def sai_thrift_create_lag_args_def
  sai_thrift_create_lag_result_def sai_thrift_create_lag_member_args_def sai_thrift_create_lag_member_result_def
  sai_thrift_remove_port_args_def sai_thrift_remove_port_result_def sai_thrift_remove_bridge_args_def
  sai_thrift_remove_bridge_result_def sai_thrift_remove_bridge_port_args_def
  sai_thrift_remove_bridge_port_result_def sai_thrift_delete_vlan_args_def sai_thrift_delete_vlan_result_def
  sai_thrift_remove_vlan_member_args_def sai_thrift_remove_vlan_member_result_def sai_thrift_remove_lag_args_def
  sai_thrift_remove_lag_result_def sai_thrift_remove_lag_member_args_def sai_thrift_remove_lag_member_result_def
  sai_thrift_delete_fdb_entry_args_def sai_thrift_delete_fdb_entry_result_def sai_thrift_create_fdb_entry_args_def
  sai_thrift_create_fdb_entry_result_def sai_thrift_set_port_attribute_args_def
  sai_thrift_set_port_attribute_result_def sai_thrift_get_switch_attribute_args_def
  sai_thrift_get_switch_attribute_result_def

lemma called_methods:
  "sai_thrift_create_port_rpc \<in> set switch_sai_methods" "m_name sai_thrift_create_port_rpc = ''sai_thrift_create_port''"
  "sai_thrift_create_bridge_rpc \<in> set switch_sai_methods" "m_name sai_thrift_create_bridge_rpc = ''sai_thrift_create_bridge''"
  "sai_thrift_create_bridge_port_rpc \<in> set switch_sai_methods" "m_name sai_thrift_create_bridge_port_rpc = ''sai_thrift_create_bridge_port''"
  "sai_thrift_create_vlan_rpc \<in> set switch_sai_methods" "m_name sai_thrift_create_vlan_rpc = ''sai_thrift_create_vlan''"
  "sai_thrift_create_vlan_member_rpc \<in> set switch_sai_methods" "m_name sai_thrift_create_vlan_member_rpc = ''sai_thrift_create_vlan_member''"
  "sai_thrift_create_lag_rpc \<in> set switch_sai_methods" "m_name sai_thrift_create_lag_rpc = ''sai_thrift_create_lag''"
  "sai_thrift_create_lag_member_rpc \<in> set switch_sai_methods" "m_name sai_thrift_create_lag_member_rpc = ''sai_thrift_create_lag_member''"
  "sai_thrift_remove_port_rpc \<in> set switch_sai_methods" "m_name sai_thrift_remove_port_rpc = ''sai_thrift_remove_port''"
  "sai_thrift_remove_bridge_rpc \<in> set switch_sai_methods" "m_name sai_thrift_remove_bridge_rpc = ''sai_thrift_remove_bridge''"
  "sai_thrift_remove_bridge_port_rpc \<in> set switch_sai_methods" "m_name sai_thrift_remove_bridge_port_rpc = ''sai_thrift_remove_bridge_port''"
  "sai_thrift_delete_vlan_rpc \<in> set switch_sai_methods" "m_name sai_thrift_delete_vlan_rpc = ''sai_thrift_delete_vlan''"
  "sai_thrift_remove_vlan_member_rpc \<in> set switch_sai_methods" "m_name sai_thrift_remove_vlan_member_rpc = ''sai_thrift_remove_vlan_member''"
  "sai_thrift_remove_lag_rpc \<in> set switch_sai_methods" "m_name sai_thrift_remove_lag_rpc = ''sai_thrift_remove_lag''"
  "sai_thrift_remove_lag_member_rpc \<in> set switch_sai_methods" "m_name sai_thrift_remove_lag_member_rpc = ''sai_thrift_remove_lag_member''"
  "sai_thrift_delete_fdb_entry_rpc \<in> set switch_sai_methods" "m_name sai_thrift_delete_fdb_entry_rpc = ''sai_thrift_delete_fdb_entry''"
  "sai_thrift_create_fdb_entry_rpc \<in> set switch_sai_methods" "m_name sai_thrift_create_fdb_entry_rpc = ''sai_thrift_create_fdb_entry''"
  "sai_thrift_set_port_attribute_rpc \<in> set switch_sai_methods" "m_name sai_thrift_set_port_attribute_rpc = ''sai_thrift_set_port_attribute''"
  "sai_thrift_get_switch_attribute_rpc \<in> set switch_sai_methods" "m_name sai_thrift_get_switch_attribute_rpc = ''sai_thrift_get_switch_attribute''"
  by (simp_all add: switch_sai_methods_def, simp_all add: called_defs)

lemma spec_calls:
  "spec_client ''sai_thrift_create_port'' [a] = checked (a = ONone \<or> fits (SList (SStruct sai_thrift_attribute_t)) a) SI64 (map_option Create_port (as_attrs a))"
  "spec_client ''sai_thrift_create_bridge'' [a] = checked (a = ONone \<or> fits (SList (SStruct sai_thrift_attribute_t)) a) SI64 (map_option Create_bridge (as_attrs a))"
  "spec_client ''sai_thrift_create_bridge_port'' [a] = checked (a = ONone \<or> fits (SList (SStruct sai_thrift_attribute_t)) a) SI64 (map_option Create_bridge_port (as_attrs a))"
  "spec_client ''sai_thrift_create_vlan'' [a] = checked (a = ONone \<or> fits (SList (SStruct sai_thrift_attribute_t)) a) SI64 (map_option Create_vlan (as_attrs a))"
  "spec_client ''sai_thrift_create_vlan_member'' [a] = checked (a = ONone \<or> fits (SList (SStruct sai_thrift_attribute_t)) a) SI64 (map_option Create_vlan_member (as_attrs a))"
  "spec_client ''sai_thrift_create_lag'' [a] = checked (a = ONone \<or> fits (SList (SStruct sai_thrift_attribute_t)) a) SI64 (map_option Create_lag (as_attrs a))"
  "spec_client ''sai_thrift_create_lag_member'' [a] = checked (a = ONone \<or> fits (SList (SStruct sai_thrift_attribute_t)) a) SI64 (map_option Create_lag_member (as_attrs a))"
  "spec_client ''sai_thrift_remove_port'' [a] = checked (a = ONone \<or> fits SI64 a) SI32 (map_option Remove_port (obj_pyv a))"
  "spec_client ''sai_thrift_remove_bridge'' [a] = checked (a = ONone \<or> fits SI64 a) SI32 (map_option Remove_bridge (obj_pyv a))"
  "spec_client ''sai_thrift_remove_bridge_port'' [a] = checked (a = ONone \<or> fits SI64 a) SI32 (map_option Remove_bridge_port (obj_pyv a))"
  "spec_client ''sai_thrift_delete_vlan'' [a] = checked (a = ONone \<or> fits SI64 a) SI32 (map_option Delete_vlan (obj_pyv a))"
  "spec_client ''sai_thrift_remove_vlan_member'' [a] = checked (a = ONone \<or> fits SI64 a) SI32 (map_option Remove_vlan_member (obj_pyv a))"
  "spec_client ''sai_thrift_remove_lag'' [a] = checked (a = ONone \<or> fits SI64 a) SI32 (map_option Remove_lag (obj_pyv a))"
  "spec_client ''sai_thrift_remove_lag_member'' [a] = checked (a = ONone \<or> fits SI64 a) SI32 (map_option Remove_lag_member (obj_pyv a))"
  "spec_client ''sai_thrift_delete_fdb_entry'' [a] = checked (a = ONone \<or> fits (SStruct sai_thrift_fdb_entry_t) a) SI32 (map_option Delete_fdb_entry (as_fdb a))"
  "spec_client ''sai_thrift_create_fdb_entry'' [a, b] = checked ((a = ONone \<or> fits (SStruct sai_thrift_fdb_entry_t) a) \<and>
     (b = ONone \<or> fits (SList (SStruct sai_thrift_attribute_t)) b)) SI32
     (Option.bind (as_fdb a) (\<lambda>e. map_option (Create_fdb_entry e) (as_attrs b)))"
  "spec_client ''sai_thrift_set_port_attribute'' [a, b] = checked ((a = ONone \<or> fits SI64 a) \<and>
     (b = ONone \<or> fits (SStruct sai_thrift_attribute_t) b)) SI32
     (Option.bind (obj_pyv a) (\<lambda>i. map_option (Set_port_attribute i) (as_attr b)))"
  by (subst called_methods(2,4,6,8,10,12,14,16,18,20,22,24,26,28,30,32,34) [symmetric], subst spec_client_known,
      rule called_methods, subst spec_reply_call, (simp add: called_defs called_classes)+, simp add: called_methods sai_call_names)+

lemma fits_attributes:
  "fits (SList (SStruct sai_thrift_attribute_t)) (OList xs) \<longleftrightarrow> len_fits xs \<and> list_all (fits (SStruct sai_thrift_attribute_t)) xs"
  "fits (SStruct sai_thrift_attribute_t) (attribute (OInt i) ''s32'' v) \<longleftrightarrow> int_fits 32 i \<and> (v = ONone \<or> fits SI32 v)"
  "fits (SStruct sai_thrift_attribute_t) (attribute (OInt i) ''u16'' v) \<longleftrightarrow> int_fits 32 i \<and> (v = ONone \<or> fits SI16 v)"
  "fits (SStruct sai_thrift_attribute_t) (attribute (OInt i) ''oid'' v) \<longleftrightarrow> int_fits 32 i \<and> (v = ONone \<or> fits SI64 v)"
  "fits (SStruct sai_thrift_attribute_t) (attribute (OInt i) ''u32list'' (new sai_thrift_u32_list_t [(''u32list'', l), (''count'', n)])) \<longleftrightarrow>
     int_fits 32 i \<and> (n = ONone \<or> fits SI32 n) \<and> (l = ONone \<or> fits (SList SI32) l)"
  "fits (SStruct sai_thrift_fdb_entry_t)
     (new sai_thrift_fdb_entry_t [(''mac_address'', m), (''vlan_id'', v), (''bridge_type'', t), (''bridge_id'', b)]) \<longleftrightarrow>
   (m = ONone \<or> fits SString m) \<and> (v = ONone \<or> fits SI16 v) \<and> (t = ONone \<or> fits SI32 t) \<and> (b = ONone \<or> fits SI64 b)"
  "fits (SStruct sai_thrift_fdb_entry_t) (new sai_thrift_fdb_entry_t [(''mac_address'', m), (''bridge_id'', b)]) \<longleftrightarrow>
   (m = ONone \<or> fits SString m) \<and> (b = ONone \<or> fits SI64 b)"
  by (auto simp: list_all_iff attribute_def new_def sai_thrift_attribute_t_def sai_thrift_attribute_value_t_def
      sai_thrift_u32_list_t_def sai_thrift_fdb_entry_t_def)

lemma spec_switch_attribute:
  "spec_client ''sai_thrift_get_switch_attribute'' [OList [new sai_thrift_attribute_t [(''id'', OInt 1)]]] =
   io_bind (io_gets hw_port_list) (\<lambda>hw. if len_fits hw \<and> list_all (int_fits 32) hw
     then io_ret (switch_attribute_list [(1, hw, int (length hw))]) else io_raise TypeError)"
proof -
  let ?a = "OList [new sai_thrift_attribute_t [(''id'', OInt 1)]]"
  have args: "fits (SList (SStruct sai_thrift_attribute_t)) ?a" "as_attrs ?a = Some [\<lparr>attr_id = 1, attr_value = None\<rparr>]"
    by (simp_all add: new_def sai_thrift_attribute_t_def as_attr_def int_fits_def len_fits_def)
  have val: "fits (SStruct sai_thrift_attribute_list_t) (switch_attribute_list [(1, hw, int (length hw))]) \<longleftrightarrow>
      len_fits hw \<and> list_all (int_fits 32) hw" "switch_attribute_list [(1, hw, int (length hw))] \<noteq> ONone" for hw
    by (auto simp: switch_attribute_list_def new_def sai_thrift_attribute_t_def sai_thrift_attribute_list_t_def
        sai_thrift_attribute_value_t_def sai_thrift_u32_list_t_def len_fits_def int_fits_def list_all_iff)
  let ?m = sai_thrift_get_switch_attribute_rpc
  have cls: "fits (SStruct (m_args ?m)) (OObj (m_args ?m) [x]) \<longleftrightarrow> x = ONone \<or> fits (SList (SStruct sai_thrift_attribute_t)) x"
    "result_spec ?m = Some (SStruct sai_thrift_attribute_list_t)" "m_name ?m = ''sai_thrift_get_switch_attribute''" for x
    by (simp_all add: called_defs called_classes result_spec_def)
  have "spec_client ''sai_thrift_get_switch_attribute'' [?a] = spec_reply ?m [?a]"
    using spec_client_known [OF called_methods(35)] by (simp only: called_methods)
  also have "\<dots> = io_bind (sai_thrift_get_switch_attribute [\<lparr>attr_id = 1, attr_value = None\<rparr>]) (\<lambda>xs.
      let v = switch_attribute_list xs in
      if v \<noteq> ONone \<and> fits (SStruct sai_thrift_attribute_list_t) v then io_ret v else io_raise TypeError)"
    unfolding spec_reply_def spec_handlers_def cls sai_call_names list.map args(2)
    using args(1) by (simp add: io_bind_assoc io_bind_ret Let_def)
  also have "\<dots> = io_bind (io_gets hw_port_list) (\<lambda>hw. if len_fits hw \<and> list_all (int_fits 32) hw
     then io_ret (switch_attribute_list [(1, hw, int (length hw))]) else io_raise TypeError)"
    by (auto intro!: ext simp: val sai_thrift_get_switch_attribute_def io_simps Let_def)
  finally show ?thesis .
qed

lemma spec_hw_ports:
  "get_hw_port_list spec_client =
   io_bind (io_gets hw_port_list) (\<lambda>hw. if len_fits hw \<and> list_all (int_fits 32) hw
     then io_ret (map OInt hw) else io_raise TypeError)"
  unfolding get_hw_port_list_def enum_members spec_switch_attribute
  by (auto intro!: ext simp: io_simps switch_attribute_list_def new_def enum_members
      sai_thrift_attribute_t_def sai_thrift_attribute_list_t_def sai_thrift_attribute_value_t_def sai_thrift_u32_list_t_def)

section \<open>What the tests leave behind\<close>

definition SaiHandler :: "unit sai" where
  "SaiHandler = \<lparr>cfg = empty_config, switch = (), events = [],
     switch_id = 0, hw_port_list = [0, 1, 2, 3, 4, 5, 6, 7], ports = [], vlans = [], vlan_members = [],
     bridge_ports = [], bridge_ids = [], lag_members = [], lags = [], default_lag_members = []\<rparr>"

text \<open>What the constructor of the server leaves, once it has connected and loaded the program; the shared
  default list of \<open>Lag_obj\<close> belongs to the class and is empty when the process starts.\<close>

lemma SaiHandler_init_store:
  assumes "SaiHandler_init api transport_opens w = (Inr (), w')" "default_lag_members w = []"
  shows "store_of w' = store_of SaiHandler"
proof -
  obtain w1 w2 where 1: "pr [''connecting to cli thrift''] w = (Inr (), w1)"
    "SwitchThriftClient api transport_opens 9090 (Some ''../sai.json'') w1 = (Inr (), w2)"
    and w': "w' = w2\<lparr>switch_id := 0, hw_port_list := [0, 1, 2, 3, 4, 5, 6, 7], ports := [], vlans := [],
       vlan_members := [], bridge_ports := [], bridge_ids := [], lag_members := [], lags := []\<rparr>"
    using assms(1) unfolding SaiHandler_init_def io_then_Inr_iff io_modify_def by blast
  have "store_of w1 = store_of w" using 1(1) io_keepsD [OF ext_atoms(2)] same_more_store by blast
  moreover have "store_of w2 = store_of w1" using 1(2) io_keepsD [OF keeps_more_connect] same_more_store by blast
  ultimately have "default_lag_members w2 = []" using assms(2) by (simp add: store_of_def)
  then show ?thesis by (simp add: store_of_def SaiHandler_def w')
qed

definition outcome :: "('w, unit) io \<Rightarrow> 'w \<Rightarrow> ('w \<Rightarrow> 'a) \<Rightarrow> bool \<times> 'a" where
  "outcome m w f = (case m w of (r, w') \<Rightarrow> (r = Inr (), f w'))"

lemmas spec_unfold = lag_setup_def lag_teardown_def spec_hw_ports create_port_def create_bridge_port_def create_bridge_def create_vlan_def
  create_vlan_member_def create_lag_member_def create_fdb_def delete_fdb_def static_fdb_def set_port_vlan_def run_call_def
  Let_def enum_members sub_port_mode_def mac1_def mac2_def spec_calls fits_attributes as_fdb_new as_attrs.simps list.map
  as_attr_attribute option.map


lemma GetNewIndex_find:
  "GetNewIndex xs = Inr (the (find (\<lambda>n. n \<notin> set xs) (map int [0..<length xs + 1])))"
proof -
  obtain n where n: "GetNewIndex xs = Inr n" "0 \<le> n" "n \<le> int (length xs)" "n \<notin> set xs"
    "\<And>m. 0 \<le> m \<Longrightarrow> m < n \<Longrightarrow> m \<in> set xs"
    using GetNewIndex_least [of xs] by blast
  have "find (\<lambda>n. n \<notin> set xs) (map int [0..<length xs + 1]) = Some n"
    unfolding find_Some_iff using n(2-4) n(5) [of "int _"]
    by (intro exI [of _ "nat n"]) (auto simp: nth_append nth_upt simp del: upt_Suc)
  then show ?thesis using n(1) by simp
qed

lemma bind_cong_weak: "m = m' \<Longrightarrow> io_bind m f = io_bind m' f" by simp
lemma then_cong_weak: "m = m' \<Longrightarrow> io_then m n = io_then m' n" by simp
lemma finally_apply: "io_finally m n w = (case m w of (r, w1) \<Rightarrow> (case n w1 of (Inl e, w2) \<Rightarrow> (Inl e, w2) | (Inr _, w2) \<Rightarrow> (r, w2)))"
  by (simp add: io_finally_def)

lemma macs_ok: "mac_word ''00:11:11:11:11:11''" "mac_word ''00:22:22:22:22:22''"
  by code_simp+

lemmas run_simps = need_def need_mac_def macs_ok outcome_def SaiHandler_def io_simps finally_apply checked_def spec_defs sai_thrift_create_bridge_def sai_thrift_remove_bridge_def sai_thrift_create_lag_def sai_thrift_remove_lag_def
  sai_thrift_delete_vlan_def create_lag_member_attr_def create_bridge_attr_def new_item_def at_key_def set_obj_def local_var_def
  CreateNewItem_def GetNewIndex_find attr_field_def no_value_def len_fits_def int_fits_def store_of_def
  first_lane_def dict_get_def dict_has_def dict_put_def dict_pop_def list_remove_def py_nth_def fmt_d_def

lemmas run_congs = bind_cong_weak then_cong_weak

lemmas q_tests = L21QBridgeAccess2AccessTest_def L21QBridgeAccess2TrunkTest_def L21QBridgeTrunk2TrunkTest_def
  L21QBridgeTrunk2AccessTest_def

lemma run_1d: "outcome (L21DBridgeBasicTest spec_client (\<lambda>_. io_ret ())) SaiHandler store_of = (True, store_of SaiHandler)"
  by (simp add: L21DBridgeBasicTest_def spec_unfold run_simps cong: run_congs)

lemma run_access_access: "outcome (L21QBridgeAccess2AccessTest spec_client (\<lambda>_. io_ret ())) SaiHandler store_of = (True, store_of SaiHandler)"
  by (simp add: L21QBridgeAccess2AccessTest_def L21QBridgeTest_def spec_unfold run_simps cong: run_congs)

lemma run_access_trunk: "outcome (L21QBridgeAccess2TrunkTest spec_client (\<lambda>_. io_ret ())) SaiHandler store_of = (True, store_of SaiHandler)"
  by (simp add: L21QBridgeAccess2TrunkTest_def L21QBridgeTest_def spec_unfold run_simps cong: run_congs)

lemma run_trunk_trunk: "outcome (L21QBridgeTrunk2TrunkTest spec_client (\<lambda>_. io_ret ())) SaiHandler store_of = (True, store_of SaiHandler)"
  by (simp add: L21QBridgeTrunk2TrunkTest_def L21QBridgeTest_def spec_unfold run_simps cong: run_congs)

lemma run_trunk_access: "outcome (L21QBridgeTrunk2AccessTest spec_client (\<lambda>_. io_ret ())) SaiHandler store_of = (True, store_of SaiHandler)"
  by (simp add: L21QBridgeTrunk2AccessTest_def L21QBridgeTest_def spec_unfold run_simps cong: run_congs)

lemma run_1d_lag: "outcome (L21DLagTest spec_client (\<lambda>_. io_ret ())) SaiHandler store_of = (True, store_of SaiHandler)"
  by (simp add: L21DLagTest_def spec_unfold run_simps Port_obj_def cong: run_congs)

lemmas runs_on_spec = run_1d run_access_access run_access_trunk run_trunk_trunk run_trunk_access run_1d_lag

text \<open>The objects that the test of a LAG on a 802.1Q bridge does not remove.\<close>

definition left_vlan :: vlan_obj where
  "left_vlan = \<lparr>v_id = 0, v_vid = Some 15, v_members = [0, 1]\<rparr>"

definition left_member :: "int \<Rightarrow> vlan_member_obj" where
  "left_member n = \<lparr>vm_id = n, vm_vid = Some 15, vm_bridge_port_id = Some n, vm_vlan_oid = Some 0, vm_tagging_mode = Some 0\<rparr>"

lemma lag_run_on_spec:
  "outcome (L21QLagTest spec_client (\<lambda>_. io_ret ())) SaiHandler store_of =
   (True, store_of (SaiHandler\<lparr>vlans := [(0, left_vlan)], vlan_members := [(0, left_member 0), (1, left_member 1)]\<rparr>))"
  by (simp add: L21QLagTest_def spec_unfold run_simps Port_obj_def left_vlan_def left_member_def cong: run_congs)

section \<open>Cleaning up\<close>

text \<open>Sending and checking packets goes to the ports of the switch, not to the SAI server.\<close>

definition traffic_apart :: "config \<Rightarrow> (pyobj list \<Rightarrow> ('b link \<times> 's sai, unit) io) \<Rightarrow> bool" where
  "traffic_apart c traffic \<longleftrightarrow> (\<forall>ps w. cfg w = c \<longrightarrow>
     (\<exists>r w'. traffic ps (fresh_link, w) = (r, (fresh_link, w')) \<and> cfg w' = c \<and> store_of w' = store_of w))"

definition verdict_of :: "(pyobj list \<Rightarrow> ('w, unit) io) \<Rightarrow> unit res \<Rightarrow> bool" where
  "verdict_of traffic r \<longleftrightarrow> (\<exists>ps s. r = fst (traffic ps s))"

lemma fin_traffic:
  fixes traffic :: "pyobj list \<Rightarrow> ('b link \<times> 's sai, unit) io"
  assumes "traffic_apart c traffic"
  shows "io_fin (verdict_of traffic) (linked c) (io_ret () :: ('t sai, unit) io) (traffic ps)"
  unfolding io_fin_def
proof (intro allI impI)
  fix u u' :: "'t sai" and v :: "'b link \<times> 's sai" and a
  assume l: "linked c u v" and "io_ret () u = (Inr a, u')"
  then have u: "u' = u" by (simp add: io_simps)
  obtain w where v: "v = (fresh_link, w)" "cfg w = c" "store_of u = store_of w"
    using l by (cases v) (simp add: linked_def follows_def same_store_def)
  obtain r w' where t: "traffic ps v = (r, (fresh_link, w'))" "cfg w' = c" "store_of w' = store_of w"
    using assms v(2) unfolding traffic_apart_def v(1) by blast
  have "verdict_of traffic r" unfolding verdict_of_def by (intro exI [of _ ps] exI [of _ v]) (simp add: t(1))
  moreover have "linked c u' (fresh_link, w')" using t v u by (simp add: linked_def follows_def same_store_def)
  ultimately show "\<exists>r v'. traffic ps v = (r, v') \<and> verdict_of traffic r \<and> linked c u' v'" using t(1) by blast
qed

lemma fin_remote:
  assumes "thrift_protocol pt" "program_ok c" "switch_answers api" "traffic_apart c traffic"
  shows "io_fin (verdict_of traffic) (linked c) (L21DBridgeBasicTest spec_client (\<lambda>_. io_ret ())) (L21DBridgeBasicTest (sai_client pt api obj_repr other) traffic)"
    "io_fin (verdict_of traffic) (linked c) (L21QBridgeTest v v2 b m1 m2 spec_client (\<lambda>_. io_ret ()))
       (L21QBridgeTest v v2 b m1 m2 (sai_client pt api obj_repr other) traffic)"
    "io_fin (verdict_of traffic) (linked c) (L21DLagTest spec_client (\<lambda>_. io_ret ())) (L21DLagTest (sai_client pt api obj_repr other) traffic)"
    "io_fin (verdict_of traffic) (linked c) (L21QLagTest spec_client (\<lambda>_. io_ret ())) (L21QLagTest (sai_client pt api obj_repr other) traffic)"
  by (rule fin_tests; rule follow_client [OF assms(1-3)] fin_traffic [OF assms(4)])+

lemma run_follows:
  assumes "io_fin P (linked (cfg w)) m n" "outcome m SaiHandler store_of = (True, X)" "store_of w = store_of SaiHandler"
  shows "\<exists>r w'. n (fresh_link, w) = (r, (fresh_link, w')) \<and> P r \<and> store_of w' = X"
proof -
  obtain v' where "m SaiHandler = (Inr (), v')" "store_of v' = X"
    using assms(2) by (cases "m SaiHandler") (simp add: outcome_def)
  moreover have "linked (cfg w) SaiHandler (fresh_link, w)"
    using assms(3) by (simp add: linked_def follows_def same_store_def)
  ultimately show ?thesis
    using assms(1) unfolding io_fin_def linked_def follows_def same_store_def by fastforce
qed

definition layer2_tests :: "('w sai_api \<Rightarrow> (pyobj list \<Rightarrow> ('w, unit) io) \<Rightarrow> ('w, unit) io) list" where
  "layer2_tests = [L21DBridgeBasicTest, L21QBridgeAccess2AccessTest, L21QBridgeAccess2TrunkTest,
     L21QBridgeTrunk2TrunkTest, L21QBridgeTrunk2AccessTest, L21DLagTest]"

text \<open>
  C4. Six of the seven layer 2 tests clean up after themselves: on a server that has just started, with
  a program of exact tables and any switch that answers the table operations or refuses them with a code
  of the interface, the test runs to its end over the Thrift connection, the objects it
  created are gone, the connection is as it was, and its verdict is that of the packets, also when a
  packet check raises.
\<close>

theorem layer2_tests_clean_up:
  assumes "thrift_protocol pt" and "program_ok (cfg w)" and "switch_answers api"
    and "store_of w = store_of SaiHandler"
    and "traffic_apart (cfg w) traffic" and "test \<in> set layer2_tests"
  shows "\<exists>verdict w'. test (sai_client pt api obj_repr other) traffic (fresh_link, w) = (verdict, (fresh_link, w')) \<and>
    verdict_of traffic verdict \<and> store_of w' = store_of w"
proof -
  note fin = fin_remote [OF assms(1-3,5)]
  note ends = run_follows [OF fin(1) run_1d assms(4)] run_follows [OF fin(2) run_access_access [unfolded q_tests] assms(4)]
    run_follows [OF fin(2) run_access_trunk [unfolded q_tests] assms(4)] run_follows [OF fin(2) run_trunk_trunk [unfolded q_tests] assms(4)]
    run_follows [OF fin(2) run_trunk_access [unfolded q_tests] assms(4)] run_follows [OF fin(3) run_1d_lag assms(4)]
  consider "test = L21DBridgeBasicTest" | "test = L21QBridgeAccess2AccessTest" | "test = L21QBridgeAccess2TrunkTest"
    | "test = L21QBridgeTrunk2TrunkTest" | "test = L21QBridgeTrunk2AccessTest" | "test = L21DLagTest"
    using assms(6) unfolding layer2_tests_def by auto
  then show ?thesis
    unfolding assms(4) by cases (simp_all only: q_tests, (rule ends)+)
qed

lemma create_vlan_again:
  assumes "thrift_protocol pt" "vlans w \<noteq> []" "int_fits 16 vid"
  shows "create_vlan (sai_client pt api obj_repr other) (OInt vid) (fresh_link, w) =
    (Inl TransportError, (fresh_link\<lparr>l_open := False\<rparr>, w))"
proof -
  let ?m = sai_thrift_create_vlan_rpc
  let ?args = "[OList [attribute (OInt 0) ''u16'' (OInt vid)]]"
  let ?rpc = "Create_vlan [\<lparr>attr_id = 0, attr_value = Some (no_value\<lparr>av_u16 := Some vid\<rparr>)\<rparr>]"
  have call: "sai_call (m_name ?m) ?args = Some ?rpc"
    unfolding called_methods sai_call_names by (simp add: as_attr_attribute)
  have fit: "fits (SStruct (m_args ?m)) (OObj (m_args ?m) ?args)"
    using assms(3) fits_attributes(1,3)
    by (simp add: called_defs called_classes len_fits_def int_fits_def)
  have run: "sai_run api obj_repr ?rpc w = (Inl AttributeError, w)"
    using assms(2) by (simp add: sai_thrift_create_vlan_def attr_field_def no_value_def local_var_def io_simps)
  have "sai_client pt api obj_repr other (m_name ?m) ?args (fresh_link, w) = remote_outcome (m_name ?m) (Inl AttributeError) w"
    by (rule sai_client_run [where api = api, OF assms(1) called_methods(7) fit call run]) simp
  then show ?thesis
    unfolding create_vlan_def enum_members called_methods by (simp add: remote_outcome_def)
qed

text \<open>
  C40. The seventh test does not clean up: after \<open>L21QLagTest\<close> the server still has the VLAN and its two
  members, whose bridge ports are gone, and as the server supports one VLAN only, the next
  \<open>create_vlan\<close>, of this test or of any other, fails and closes the connection.
\<close>

theorem L21QLagTest_leaves_vlan:
  assumes "thrift_protocol pt" and "program_ok (cfg w)" and "switch_answers api"
    and "store_of w = store_of SaiHandler"
    and "traffic_apart (cfg w) traffic" and "int_fits 16 vid"
  shows "\<exists>verdict w'. L21QLagTest (sai_client pt api obj_repr other) traffic (fresh_link, w) = (verdict, (fresh_link, w')) \<and>
    verdict_of traffic verdict \<and> vlans w' = [(0, left_vlan)] \<and>
    vlan_members w' = [(0, left_member 0), (1, left_member 1)] \<and> bridge_ports w' = [] \<and>
    create_vlan (sai_client pt api obj_repr other) (OInt vid) (fresh_link, w') =
      (Inl TransportError, (fresh_link\<lparr>l_open := False\<rparr>, w'))"
proof -
  obtain verdict w' where run: "L21QLagTest (sai_client pt api obj_repr other) traffic (fresh_link, w) = (verdict, (fresh_link, w'))"
    "verdict_of traffic verdict"
    "store_of w' = store_of (SaiHandler\<lparr>vlans := [(0, left_vlan)], vlan_members := [(0, left_member 0), (1, left_member 1)]\<rparr>)"
    using run_follows [OF fin_remote(4) [OF assms(1-3,5)] lag_run_on_spec assms(4)] by blast
  moreover from run(3) have "vlans w' = [(0, left_vlan)]" "vlan_members w' = [(0, left_member 0), (1, left_member 1)]"
    "bridge_ports w' = []" by (simp_all add: store_of_def SaiHandler_def)
  ultimately show ?thesis using create_vlan_again [OF assms(1) _ assms(6), of w' api obj_repr other] by auto
qed

section \<open>Examples\<close>

lemma example_setting:
  "thrift_protocol bin_protocol" "program_ok (cfg (SaiHandler\<lparr>cfg := cfg fdb_world\<rparr>))"
  "store_of (SaiHandler\<lparr>cfg := cfg fdb_world\<rparr>) = store_of SaiHandler"
  "traffic_apart (cfg (SaiHandler\<lparr>cfg := cfg fdb_world\<rparr>)) (\<lambda>_. io_raise TypeError :: (char link \<times> unit sai, unit) io)"
  by (rule bin.thrift_protocol_axioms, code_simp) (simp_all add: store_of_def traffic_apart_def io_simps)

theorem layer2_tests_clean_up_witness:
  "\<exists>verdict w'. L21QBridgeAccess2TrunkTest (sai_client bin_protocol willing_switch (\<lambda>_ _. []) (\<lambda>_ _. io_raise TypeError))
      (\<lambda>_. io_raise TypeError) (fresh_link, SaiHandler\<lparr>cfg := cfg fdb_world\<rparr>) = (verdict, (fresh_link, w')) \<and>
    verdict_of (\<lambda>_. io_raise TypeError :: (char link \<times> unit sai, unit) io) verdict \<and>
    store_of w' = store_of (SaiHandler\<lparr>cfg := cfg fdb_world\<rparr>)"
  by (rule layer2_tests_clean_up [where test = L21QBridgeAccess2TrunkTest,
        OF example_setting(1,2) switches_answer(1) example_setting(3,4)]) (simp add: layer2_tests_def)

theorem L21QLagTest_leaves_vlan_witness:
  "\<exists>verdict w'. L21QLagTest (sai_client bin_protocol willing_switch (\<lambda>_ _. []) (\<lambda>_ _. io_raise TypeError))
      (\<lambda>_. io_raise TypeError) (fresh_link, SaiHandler\<lparr>cfg := cfg fdb_world\<rparr>) = (verdict, (fresh_link, w')) \<and>
    verdict_of (\<lambda>_. io_raise TypeError :: (char link \<times> unit sai, unit) io) verdict \<and> vlans w' = [(0, left_vlan)] \<and>
    vlan_members w' = [(0, left_member 0), (1, left_member 1)] \<and> bridge_ports w' = [] \<and>
    create_vlan (sai_client bin_protocol willing_switch (\<lambda>_ _. []) (\<lambda>_ _. io_raise TypeError)) (OInt 10) (fresh_link, w') =
      (Inl TransportError, (fresh_link\<lparr>l_open := False\<rparr>, w'))"
  by (rule L21QLagTest_leaves_vlan [OF example_setting(1,2) switches_answer(1) example_setting(3,4)]) (simp add: int_fits_def)

end
