(* ===== verification/P4dbg_Msg.thy ===== *)
theory P4dbg_Msg
  imports Struct_Codec
begin

text \<open>
  The messages of the debugger \<^verbatim>\<open>tools/p4dbg.py\<close>: the message types, the classes that
  \<open>decorate_msg\<close> builds from lists of field formats, and the functions it gives them (constructor,
  \<open>extract\<close>, \<open>generate\<close>, \<open>__str__\<close>). A message object is its class and its attributes. The
  last part shows that \<open>generate\<close> and \<open>extract\<close> are inverse to each other for every class.
\<close>

section \<open>Message types and classes\<close>

datatype msg_type =
    PACKET_IN | PACKET_OUT | FIELD_VALUE | CONTINUE | NEXT | GET_VALUE | GET_BACKTRACE | BACKTRACE
  | BREAK_PACKET_IN | REMOVE_PACKET_IN | STOP_PACKET_IN | RESUME_PACKET_IN | FILTER_NOTIFICATIONS
  | SET_WATCHPOINT | UNSET_WATCHPOINT | STATUS | RESET | KEEP_ALIVE | ATTACH | DETACH

definition MsgType :: "msg_type list" where
  "MsgType =
     [PACKET_IN, PACKET_OUT, FIELD_VALUE, CONTINUE, NEXT, GET_VALUE, GET_BACKTRACE, BACKTRACE,
      BREAK_PACKET_IN, REMOVE_PACKET_IN, STOP_PACKET_IN, RESUME_PACKET_IN, FILTER_NOTIFICATIONS,
      SET_WATCHPOINT, UNSET_WATCHPOINT, STATUS, RESET, KEEP_ALIVE, ATTACH, DETACH]"

text \<open>The number of a message type.\<close>

definition type_code :: "msg_type \<Rightarrow> int" where
  "type_code t = int (length (takeWhile (\<lambda>u. u \<noteq> t) MsgType))"

text \<open>The format of one field: a \<open>struct\<close> format, or a string of \<open>uf\<close> times as many bytes as the
  attribute \<open>src\<close> says.\<close>

datatype ufmt = Uf struct_fmt | Width nat string

type_synonym field_fmt = "string \<times> ufmt"

text \<open>The two base classes and one class per message type. \<open>own_fmt\<close> is the list given to
  \<open>decorate_msg\<close>.\<close>

datatype msg_cls = BasicMsg | EventMsg | MsgCls msg_type

definition basic_fmt :: "field_fmt list" where
  "basic_fmt = [(''type'', Uf Fmt_i), (''switch_id'', Uf Fmt_i), (''req_id'', Uf Fmt_Q)]"

definition event_fmt :: "field_fmt list" where
  "event_fmt = [(''packet_id'', Uf Fmt_Q), (''copy_id'', Uf Fmt_Q)]"

fun is_event :: "msg_type \<Rightarrow> bool" where
  "is_event PACKET_IN = True"
| "is_event PACKET_OUT = True"
| "is_event FIELD_VALUE = True"
| "is_event _ = False"

fun own_fmt :: "msg_type \<Rightarrow> field_fmt list" where
  "own_fmt PACKET_IN = [(''port'', Uf Fmt_i)]"
| "own_fmt PACKET_OUT = [(''port'', Uf Fmt_i)]"
| "own_fmt FIELD_VALUE = [(''fid'', Uf Fmt_Q), (''nbytes'', Uf Fmt_i), (''bytes'', Width 1 ''nbytes'')]"
| "own_fmt GET_VALUE = [(''packet_id'', Uf Fmt_Q), (''copy_id'', Uf Fmt_Q), (''fid'', Uf Fmt_Q)]"
| "own_fmt GET_BACKTRACE = [(''packet_id'', Uf Fmt_Q), (''copy_id'', Uf Fmt_Q)]"
| "own_fmt BACKTRACE =
     [(''packet_id'', Uf Fmt_Q), (''copy_id'', Uf Fmt_Q), (''nb'', Uf Fmt_i), (''ctrs'', Width 4 ''nb'')]"
| "own_fmt FILTER_NOTIFICATIONS = [(''nb'', Uf Fmt_i), (''ids'', Width 16 ''nb'')]"
| "own_fmt SET_WATCHPOINT = [(''fid'', Uf Fmt_Q)]"
| "own_fmt UNSET_WATCHPOINT = [(''fid'', Uf Fmt_Q)]"
| "own_fmt STATUS = [(''status'', Uf Fmt_i), (''aux'', Uf Fmt_Q)]"
| "own_fmt _ = []"

text \<open>The decorated classes from the root down: the type each sets and its fields.\<close>

fun class_chain :: "msg_cls \<Rightarrow> (fval \<times> field_fmt list) list" where
  "class_chain BasicMsg = [(FNone, basic_fmt)]"
| "class_chain EventMsg = [(FNone, basic_fmt), (FNone, event_fmt)]"
| "class_chain (MsgCls t) =
     (if is_event t then [(FNone, basic_fmt), (FNone, event_fmt)] else [(FNone, basic_fmt)]) @
     [(FInt (type_code t), own_fmt t)]"

definition full_fmt :: "msg_cls \<Rightarrow> field_fmt list" where
  "full_fmt c = concat (map snd (class_chain c))"

definition MsgTypeToCLS :: "int \<Rightarrow> msg_cls res" where
  "MsgTypeToCLS code = or_raise KeyError (map_of (map (\<lambda>t. (type_code t, MsgCls t)) MsgType) code)"

text \<open>\<open>isinstance(msg, CLS)\<close>\<close>

fun isinstance :: "msg_cls \<Rightarrow> msg_cls \<Rightarrow> bool" where
  "isinstance c BasicMsg = True"
| "isinstance EventMsg EventMsg = True"
| "isinstance (MsgCls t) EventMsg = is_event t"
| "isinstance (MsgCls t) (MsgCls u) = (t = u)"
| "isinstance _ _ = False"

section \<open>Message objects\<close>

type_synonym attrs = "(string \<times> fval) list"

record msg =
  cls :: msg_cls
  attrs :: attrs

definition getattr :: "attrs \<Rightarrow> string \<Rightarrow> fval res" where
  "getattr as n = or_raise AttributeError (map_of as n)"

definition setattr :: "string \<Rightarrow> fval \<Rightarrow> attrs \<Rightarrow> attrs" where
  "setattr n v as = AList.update n v as"

definition get_int :: "attrs \<Rightarrow> string \<Rightarrow> int res" where
  "get_int as n = res_bind (getattr as n) (\<lambda>v. case v of FInt i \<Rightarrow> Inr i | _ \<Rightarrow> Inl TypeError)"

text \<open>\<open>make_init_function\<close>: each class of the chain sets its type and then the keyword arguments that
  are fields of its own.\<close>

definition set_kwargs :: "field_fmt list \<Rightarrow> attrs \<Rightarrow> attrs \<Rightarrow> attrs" where
  "set_kwargs fmt kwargs as = fold (\<lambda>(k, v). if k \<in> fst ` set fmt then setattr k v else id) kwargs as"

definition init_msg :: "msg_cls \<Rightarrow> attrs \<Rightarrow> msg" where
  "init_msg c kwargs =
     \<lparr>cls = c,
      attrs = fold (\<lambda>(t, fmt) as. set_kwargs fmt kwargs (setattr ''type'' t as)) (class_chain c) [(''type'', FNone)]\<rparr>"

text \<open>\<open>make_extract_function\<close>. The width of a string field is the attribute, not the number of bytes
  read, and so is what the offset advances by.\<close>

definition hex_value :: "string \<Rightarrow> int" where
  "hex_value s = be_value (map of_char s)"

fun extract_fields :: "field_fmt list \<Rightarrow> string \<Rightarrow> nat \<Rightarrow> attrs \<Rightarrow> (attrs \<times> nat) res" where
  "extract_fields [] buf off as = Inr (as, off)"
| "extract_fields ((name, Uf f) # fs) buf off as =
     res_bind (unpack_from f buf off) (\<lambda>v.
     extract_fields fs buf (off + calcsize f) (setattr name v as))"
| "extract_fields ((name, Width uf src) # fs) buf off as =
     res_bind (get_int as src) (\<lambda>width.
     res_bind (unpack_from (Fmt_s (int uf * width)) buf off) (\<lambda>v.
     let s = (case v of FStr s \<Rightarrow> s | _ \<Rightarrow> []);
         v_str = (if width = 0 then FNone else FStr (printable_byte_str s));
         v_int = (if width = 0 then FNone else FInt (hex_value s))
     in extract_fields fs buf (off + nat width)
          (setattr (name @ ''_int'') v_int (setattr (name @ ''_str'') v_str (setattr name v as)))))"

definition extract_msg :: "string \<Rightarrow> msg \<Rightarrow> (msg \<times> nat) res" where
  "extract_msg buf m = res_bind (extract_fields (full_fmt (cls m)) buf 0 (attrs m)) (\<lambda>(as, off).
     Inr (m\<lparr>attrs := as\<rparr>, off))"

text \<open>\<open>make_generate_function\<close>\<close>

fun generate_fields :: "field_fmt list \<Rightarrow> attrs \<Rightarrow> string res" where
  "generate_fields [] as = Inr []"
| "generate_fields ((name, Uf f) # fs) as =
     res_bind (getattr as name) (\<lambda>v. res_bind (pack f v) (\<lambda>s.
     res_bind (generate_fields fs as) (\<lambda>t. Inr (s @ t))))"
| "generate_fields ((name, Width uf src) # fs) as =
     res_bind (getattr as name) (\<lambda>v. res_bind (get_int as src) (\<lambda>width.
     res_bind (pack (Fmt_s (int uf * width)) v) (\<lambda>s.
     res_bind (generate_fields fs as) (\<lambda>t. Inr (s @ t)))))"

definition generate :: "msg \<Rightarrow> string res" where
  "generate m = generate_fields (full_fmt (cls m)) (attrs m)"

text \<open>\<open>make_str_function\<close>; adding \<open>None\<close> to a string is a TypeError.\<close>

definition fval_str :: "fval \<Rightarrow> string" where
  "fval_str v = (case v of FInt i \<Rightarrow> show_int i | FStr s \<Rightarrow> s | FNone \<Rightarrow> ''None'')"

definition as_text :: "fval \<Rightarrow> string res" where
  "as_text v = (case v of FStr s \<Rightarrow> Inr s | _ \<Rightarrow> Inl TypeError)"

fun str_fields :: "field_fmt list \<Rightarrow> attrs \<Rightarrow> string res" where
  "str_fields [] as = Inr []"
| "str_fields ((name, Uf f) # fs) as =
     res_bind (getattr as name) (\<lambda>v. res_bind (str_fields fs as) (\<lambda>t.
     Inr (name @ '': '' @ fval_str v @ [CHR 0x09] @ t)))"
| "str_fields ((name, Width uf src) # fs) as =
     res_bind (getattr as (name @ ''_str'')) (\<lambda>v. res_bind (as_text v) (\<lambda>s.
     res_bind (getattr as (name @ ''_int'')) (\<lambda>i. res_bind (str_fields fs as) (\<lambda>t.
     Inr (name @ '': '' @ s @ '' ('' @ fval_str i @ '') '' @ [CHR 0x09] @ t)))))"

definition msg_str :: "msg \<Rightarrow> string res" where
  "msg_str m = str_fields (full_fmt (cls m)) (attrs m)"

text \<open>What \<open>wait_for_msg\<close> of the debugger does with the data it received: read the type as a
  \<open>BasicMsg\<close>, then the whole message as the class of that type.\<close>

definition decode_msg :: "string \<Rightarrow> msg res" where
  "decode_msg data =
     res_bind (extract_msg data (init_msg BasicMsg [])) (\<lambda>(b, _).
     res_bind (get_int (attrs b) ''type'') (\<lambda>msg_type.
     res_bind (MsgTypeToCLS msg_type) (\<lambda>c.
     res_bind (extract_msg data (init_msg c [])) (\<lambda>(m, _). Inr m))))"

section \<open>Generating and extracting\<close>

text \<open>What the formats of all classes have in common: fixed fields are integers, names are distinct, the attributes that
  \<open>extract\<close> adds beside a string field are no field, the width is an earlier field, and a string
  field comes last.\<close>

fun fmt_ok :: "string list \<Rightarrow> field_fmt list \<Rightarrow> bool" where
  "fmt_ok seen [] = True"
| "fmt_ok seen ((name, Uf f) # fs) \<longleftrightarrow>
     f \<in> {Fmt_i, Fmt_Q} \<and> name \<notin> set seen \<and> fmt_ok (name # seen) fs"
| "fmt_ok seen ((name, Width uf src) # fs) \<longleftrightarrow>
     name \<notin> set seen \<and> name @ ''_str'' \<notin> set (name # seen) \<and> name @ ''_int'' \<notin> set (name # seen) \<and>
     src \<in> set seen \<and> fs = []"

lemma fmt_ok_full_fmt: "fmt_ok [] (full_fmt c)"
proof (cases c)
  case (MsgCls t)
  then show ?thesis by (cases t) (simp_all add: full_fmt_def basic_fmt_def event_fmt_def)
qed (simp_all add: full_fmt_def basic_fmt_def event_fmt_def)

lemma getattr_setattr [simp]: "getattr (setattr n v as) m = (if m = n then Inr v else getattr as m)"
  by (simp add: getattr_def setattr_def update_conv')

lemma get_int_setattr:
  "get_int (setattr n v as) m = (if m = n then (case v of FInt i \<Rightarrow> Inr i | _ \<Rightarrow> Inl TypeError) else get_int as m)"
  by (simp add: get_int_def)

lemma get_int_cong: "getattr as n = getattr bs n \<Longrightarrow> get_int as n = get_int bs n"
  by (simp add: get_int_def)

lemma extract_fields_keeps:
  assumes "extract_fields fs buf off as = Inr (as', off')" "fmt_ok seen fs" "n \<in> set seen"
  shows "getattr as' n = getattr as n"
  using assms
proof (induction fs buf off as arbitrary: seen rule: extract_fields.induct)
  case (2 name f fs buf off as)
  then obtain v where v: "unpack_from f buf off = Inr v"
    "extract_fields fs buf (off + calcsize f) (setattr name v as) = Inr (as', off')"
    by (auto simp: res_bind_Inr_iff)
  have "getattr as' n = getattr (setattr name v as) n"
    using 2 v by (intro 2(1) [where seen = "name # seen"]) auto
  then show ?case using 2 by auto
next
  case (3 name uf src fs buf off as)
  have "fs = []" "n \<noteq> name" "n \<noteq> name @ ''_str''" "n \<noteq> name @ ''_int''" using 3(3,4) by auto
  then show ?case using 3(2) by (auto simp: res_bind_Inr_iff Let_def)
qed simp

lemma drop_split: "drop off buf = take k (drop off buf) @ drop (off + k) buf"
  by (metis add.commute append_take_drop_id drop_drop)

lemma generate_fields_extract:
  assumes "extract_fields fs buf off as = Inr (as', off')" "fmt_ok seen fs"
    "off \<le> length buf"
  shows "\<exists>s t. generate_fields fs as' = Inr s \<and> drop off buf = s @ t"
  using assms
proof (induction fs buf off as arbitrary: seen rule: extract_fields.induct)
  case (2 name f fs buf off as)
  then obtain v where v: "unpack_from f buf off = Inr v"
    "extract_fields fs buf (off + calcsize f) (setattr name v as) = Inr (as', off')"
    by (auto simp: res_bind_Inr_iff)
  have bound: "off + calcsize f \<le> length buf" using v(1) by (rule field.unpack_bound)
  have ok: "fmt_ok (name # seen) fs" using 2 by simp
  obtain s t where st: "generate_fields fs as' = Inr s" "drop (off + calcsize f) buf = s @ t"
    using 2(1) [OF v(2) ok bound] by blast
  have "getattr as' name = Inr v" using extract_fields_keeps [OF v(2) ok, of name] by simp
  moreover have "drop off buf = take (calcsize f) (drop off buf) @ s @ t"
    using drop_split [of off buf "calcsize f"] st(2) by simp
  ultimately show ?case using st(1) field.pack_unpack [OF v(1)] by auto
next
  case (3 name uf src fs buf off as)
  then obtain width v where v: "get_int as src = Inr width"
    "unpack_from (Fmt_s (int uf * width)) buf off = Inr v" "fs = []"
    by (auto simp: res_bind_Inr_iff)
  have src: "src \<in> set seen" "name \<notin> set seen" "name @ ''_str'' \<notin> set seen" "name @ ''_int'' \<notin> set seen"
    using 3 by auto
  then have keep: "get_int as' src = Inr width"
    using extract_fields_keeps [OF 3(2,3) src(1)] get_int_cong v(1) by metis
  have "getattr as' name = Inr v" using 3 v by (auto simp: Let_def)
  then have "generate_fields ((name, Width uf src) # fs) as' =
      Inr (take (nat (int uf * width)) (drop off buf))"
    using keep v field.pack_unpack [OF v(2)] by simp
  then show ?case using drop_split by blast
qed simp


text \<open>A string field of a message has the size its width attribute says.\<close>

fun widths_match :: "field_fmt list \<Rightarrow> attrs \<Rightarrow> bool" where
  "widths_match [] as = True"
| "widths_match ((name, Uf f) # fs) as = widths_match fs as"
| "widths_match ((name, Width uf src) # fs) as =
     ((case (getattr as name, get_int as src) of
         (Inr (FStr b), Inr w) \<Rightarrow> int (length b) = int uf * w | _ \<Rightarrow> False) \<and> widths_match fs as)"

definition same_on :: "string set \<Rightarrow> attrs \<Rightarrow> attrs \<Rightarrow> bool" where
  "same_on ns as bs \<longleftrightarrow> (\<forall>n \<in> ns. getattr as n = getattr bs n)"

lemma extract_fields_generate:
  assumes "generate_fields fs as = Inr s" "fmt_ok seen fs" "widths_match fs as" "same_on (set seen) bs as"
  shows "\<exists>bs' off. extract_fields fs (pre @ s @ post) (length pre) bs = Inr (bs', off) \<and>
    same_on (set seen \<union> fst ` set fs) bs' as"
  using assms
proof (induction fs as arbitrary: seen s pre bs rule: generate_fields.induct)
  case (2 name f fs as)
  then obtain v a b where v: "getattr as name = Inr v" "pack f v = Inr a" "generate_fields fs as = Inr b" "s = a @ b"
    by (auto simp: res_bind_Inr_iff)
  have "same_on (set (name # seen)) (setattr name v bs) as" using 2 v by (auto simp: same_on_def)
  moreover have "fmt_ok (name # seen) fs" "widths_match fs as" using 2 by auto
  ultimately obtain bs' off where
    "extract_fields fs ((pre @ a) @ b @ post) (length (pre @ a)) (setattr name v bs) = Inr (bs', off)"
    "same_on (set (name # seen) \<union> fst ` set fs) bs' as"
    using 2(1) [OF v(3)] by blast
  moreover have "canonical f v" using 2(3) by (auto simp: canonical_def)
  then have "unpack_from f (pre @ a @ b @ post) (length pre) = Inr v"
    using v(2) by (intro field.unpack_pack)
  ultimately show ?case using v(4) length_pack [OF v(2)] by auto
next
  case (3 name uf src fs as)
  from 3(4) obtain b w where bw: "getattr as name = Inr (FStr b)" "get_int as src = Inr w"
    "int (length b) = int uf * w"
    by (cases "getattr as name"; cases "get_int as src") (auto split: fval.splits)
  let ?f = "Fmt_s (int uf * w)"
  have fs: "fs = []" "src \<in> set seen" "name \<notin> set seen" "name @ ''_str'' \<notin> set seen" "name @ ''_int'' \<notin> set seen"
    using 3(3) by auto
  have s: "pack ?f (FStr b) = Inr s" using 3(2) bw fs by (auto simp: res_bind_Inr_iff)
  have "unpack_from ?f (pre @ s @ post) (length pre) = Inr (FStr b)"
    using s bw(3) by (intro field.unpack_pack) (auto simp: canonical_def)
  moreover have "get_int bs src = Inr w"
    using 3(5) fs(2) bw(2) get_int_cong by (metis same_on_def)
  ultimately show ?case using 3(5) fs bw(1) by (auto simp: same_on_def Let_def)
qed (auto simp: same_on_def)

lemma generate_fields_append:
  "generate_fields (fs @ gs) as = Inr s \<longleftrightarrow>
    (\<exists>a b. generate_fields fs as = Inr a \<and> generate_fields gs as = Inr b \<and> s = a @ b)"
  by (induction fs as arbitrary: s rule: generate_fields.induct) (fastforce simp: res_bind_Inr_iff)+

lemma full_fmt_basic: "\<exists>more. full_fmt c = basic_fmt @ more"
  by (cases c) (auto simp: full_fmt_def)

lemma MsgTypeToCLS_code: "MsgTypeToCLS (type_code t) = Inr (MsgCls t)"
  by (cases t) (simp_all add: MsgTypeToCLS_def MsgType_def type_code_def)


text \<open>The message of the function \<open>_test\<close>, and its bytes.\<close>

definition test_msg :: msg where
  "test_msg = init_msg (MsgCls FIELD_VALUE)
     [(''switch_id'', FInt 0), (''req_id'', FInt 99), (''packet_id'', FInt 1), (''copy_id'', FInt 2),
      (''fid'', FInt 55), (''nbytes'', FInt 3), (''bytes'', FStr [CHR 0x01, CHR 0x02, CHR 0x03])]"

definition test_req :: string where
  "test_req = le_chars 4 2 @ le_chars 4 0 @ le_chars 8 99 @ le_chars 8 1 @ le_chars 8 2 @ le_chars 8 55 @
     le_chars 4 3 @ [CHR 0x01, CHR 0x02, CHR 0x03]"



end
