(* ===== verification/P4dbg_Maps.thy ===== *)
theory P4dbg_Maps
  imports Cli_Config
begin

text \<open>
  The name tables of \<^verbatim>\<open>tools/p4dbg.py\<close>: \<open>FieldMap\<close> numbers the fields of the header
  instances, \<open>ObjectMap\<close> the parsers, parse states, pipelines, tables, conditions, actions and
  deparsers. A field id packs the id of the header and the offset of the field into 64 bits, a
  control point (\<open>ctr\<close>) the type and the id of an object into 31 bits; the last part shows that both
  are read back as the name they were made from.
\<close>

unbundle bit_operations_syntax

section \<open>FieldMap\<close>

text \<open>\<open>fm_fields\<close> has the name and the bit width by header id and offset; the width is whatever the
  JSON file has there.\<close>

record field_map =
  fm_fields :: "((int \<times> int) \<times> (string \<times> json)) list"
  fm_fields_rev :: "(string \<times> (int \<times> int)) list"

definition field_map_reset :: field_map where
  "field_map_reset = \<lparr>fm_fields = [], fm_fields_rev = []\<rparr>"

definition add_field :: "string \<Rightarrow> json \<Rightarrow> nat \<Rightarrow> json \<Rightarrow> (field_map, unit) io" where
  "add_field header h idx entry =
     io_bind (io_lift (res_bind (jiter entry) unpack2)) (\<lambda>(f_name, f_nbits).
     io_bind (io_lift (jstr f_name)) (\<lambda>f.
     let name = py_join ''.'' [header, f] in
     io_bind (io_lift (jget_int ''id'' h)) (\<lambda>ident.
     io_modify (\<lambda>m. m\<lparr>fm_fields := AList.update (ident, int idx) (name, f_nbits) (fm_fields m),
       fm_fields_rev := AList.update name (ident, int idx) (fm_fields_rev m)\<rparr>))))"

fun add_fields :: "string \<Rightarrow> json \<Rightarrow> nat \<Rightarrow> json list \<Rightarrow> (field_map, unit) io" where
  "add_fields header h idx [] = io_ret ()"
| "add_fields header h idx (e # es) = io_then (add_field header h idx e) (add_fields header h (Suc idx) es)"

definition add_header :: "(string \<times> json) list \<Rightarrow> json \<Rightarrow> (field_map, unit) io" where
  "add_header header_types_map h =
     io_bind (io_lift (jget_str ''name'' h)) (\<lambda>header.
     io_bind (io_lift (jget_str ''header_type'' h)) (\<lambda>ty.
     io_bind (io_lift (or_raise KeyError (map_of header_types_map ty))) (\<lambda>header_type.
     io_bind (io_lift (jget_list ''fields'' header_type)) (\<lambda>es.
     add_fields header h 0 es))))"

text \<open>The dictionary of the header types by name.\<close>

definition header_types_map :: "json list \<Rightarrow> (string \<times> json) list res" where
  "header_types_map hs =
     res_bind (res_map (jget_str ''name'') hs) (\<lambda>names.
     Inr (fold (\<lambda>(n, h) m. AList.update n h m) (zip names hs) []))"

definition FieldMap_load_names :: "json_lib \<Rightarrow> string \<Rightarrow> (field_map, unit) io" where
  "FieldMap_load_names loads json_cfg =
     io_then (io_modify (\<lambda>_. field_map_reset)) (
     io_bind (io_lift (or_raise ValueError (loads json_cfg))) (\<lambda>j.
     io_bind (io_lift (res_bind (jget_list ''header_types'' j) header_types_map)) (\<lambda>tys.
     io_bind (io_lift (jget_list ''headers'' j)) (\<lambda>hs.
     io_for hs (add_header tys)))))"

definition FieldMap_get_name :: "field_map \<Rightarrow> int \<Rightarrow> int \<Rightarrow> string res" where
  "FieldMap_get_name m header_id offset =
     res_bind (or_raise KeyError (map_of (fm_fields m) (header_id, offset))) (\<lambda>e. Inr (fst e))"

definition FieldMap_get_nbits :: "field_map \<Rightarrow> int \<Rightarrow> int \<Rightarrow> json res" where
  "FieldMap_get_nbits m header_id offset =
     res_bind (or_raise KeyError (map_of (fm_fields m) (header_id, offset))) (\<lambda>e. Inr (snd e))"

definition FieldMap_get_id_from_name :: "field_map \<Rightarrow> string \<Rightarrow> (int \<times> int) res" where
  "FieldMap_get_id_from_name m name = or_raise KeyError (map_of (fm_fields_rev m) name)"

definition get_all_fields :: "field_map \<Rightarrow> string list" where
  "get_all_fields m = map fst (fm_fields_rev m)"

definition get_field_id_from_name :: "field_map \<Rightarrow> string \<Rightarrow> int res" where
  "get_field_id_from_name m name =
     res_bind (FieldMap_get_id_from_name m name) (\<lambda>(header_id, offset).
     Inr (push_bit 32 header_id OR offset))"

definition get_name_from_field_id :: "field_map \<Rightarrow> int \<Rightarrow> string res" where
  "get_name_from_field_id m fid =
     (let header_id = drop_bit 32 fid; offset = fid AND 0xffffffff in FieldMap_get_name m header_id offset)"

section \<open>ObjectMap\<close>

record obj_names =
  pname :: "string option"
  names :: "(int \<times> string) list"
  names_rev :: "(string \<times> int) list"

text \<open>\<open>store\<close> is a \<open>defaultdict\<close>: looking up a missing type creates an empty \<open>_Map\<close>, which is
  what a later lookup finds, so \<open>store_at\<close> need not change the store.\<close>

type_synonym object_map = "(string \<times> obj_names) list"

definition new_names :: obj_names where
  "new_names = \<lparr>pname = None, names = [], names_rev = []\<rparr>"

definition add_one :: "int \<Rightarrow> string \<Rightarrow> obj_names \<Rightarrow> obj_names" where
  "add_one ident name m =
     m\<lparr>names := AList.update ident name (names m), names_rev := AList.update name ident (names_rev m)\<rparr>"

definition store_at :: "object_map \<Rightarrow> string \<Rightarrow> obj_names" where
  "store_at st ty = (case map_of st ty of None \<Rightarrow> new_names | Some m \<Rightarrow> m)"

definition upd_store :: "string \<Rightarrow> (obj_names \<Rightarrow> obj_names) \<Rightarrow> object_map \<Rightarrow> object_map" where
  "upd_store ty f st = AList.update ty (f (store_at st ty)) st"

definition object_ids :: "(int \<times> string) list" where
  "object_ids =
     [(1, ''parser''), (2, ''parse_state''), (3, ''pipeline''), (4, ''table''), (5, ''condition''),
      (6, ''action''), (7, ''deparser'')]"

definition ids_rev :: "(string \<times> int) list" where
  "ids_rev = map (\<lambda>(k, v). (v, k)) object_ids"

text \<open>The body that every part of \<open>load_names\<close> has: the objects of one list, under one type.\<close>

definition load_objects :: "string \<Rightarrow> json res \<Rightarrow> (object_map, unit) io" where
  "load_objects ty objs =
     io_then (io_modify (upd_store ty (\<lambda>m. m\<lparr>pname := Some ty\<rparr>))) (
     io_bind (io_lift (res_bind objs jiter)) (\<lambda>os. io_for os (\<lambda>obj.
       io_bind (io_lift (jget_int ''id'' obj)) (\<lambda>ident.
       io_bind (io_lift (jget_str ''name'' obj)) (\<lambda>name.
       io_modify (upd_store ty (add_one ident name)))))))"

text \<open>The order in which Python goes through a set of strings is not specified; it matters only for
  what has been loaded when an exception ends the function.\<close>

definition ObjectMap_load_names :: "json_lib \<Rightarrow> string \<Rightarrow> (object_map, unit) io" where
  "ObjectMap_load_names loads json_cfg =
     io_bind (io_lift (or_raise ValueError (loads json_cfg))) (\<lambda>j.
     io_then (io_for [''parser'', ''deparser'', ''action'', ''pipeline''] (\<lambda>ty.
       load_objects ty (jget (ty @ ''s'') j))) (
     io_then (io_modify (upd_store ''pipeline'' (\<lambda>m. m\<lparr>pname := Some ''pipeline''\<rparr>))) (
     io_bind (io_lift (jget_list ''pipelines'' j)) (\<lambda>pipelines.
     io_then (io_for pipelines (\<lambda>pipeline.
       io_then (load_objects ''table'' (jget ''tables'' pipeline)) (
       load_objects ''condition'' (jget ''conditionals'' pipeline)))) (
     io_bind (io_lift (jget_list ''parsers'' j)) (\<lambda>parsers.
     io_for parsers (\<lambda>parser. load_objects ''parse_state'' (jget ''parse_states'' parser))))))))"

definition resolve_ctr :: "object_map \<Rightarrow> int \<Rightarrow> (string option \<times> string) res" where
  "resolve_ctr st ctr =
     (let type_id = drop_bit 24 ctr AND 0x7f; obj_id = ctr AND 0xffffff in
      res_bind (or_raise AssertionError (map_of object_ids type_id)) (\<lambda>ty.
      let m = store_at st ty in
      res_bind (or_raise KeyError (map_of (names m) obj_id)) (\<lambda>name. Inr (pname m, name))))"

definition lookup_ctr :: "object_map \<Rightarrow> string \<Rightarrow> string \<Rightarrow> int res" where
  "lookup_ctr st type_name obj_name =
     res_bind (or_raise KeyError (map_of ids_rev type_name)) (\<lambda>type_id.
     let m = store_at st type_name in
     res_bind (or_raise KeyError (map_of (names_rev m) obj_name)) (\<lambda>obj_id.
     Inr (push_bit 24 type_id OR obj_id)))"

section \<open>Packed ids\<close>

lemma unpack_bits:
  fixes h off :: int
  assumes "0 \<le> off" "off < 2 ^ n"
  shows "drop_bit n (push_bit n h OR off) = h" "(push_bit n h OR off) AND mask n = off"
proof -
  have 1: "take_bit n off = off" using assms by (simp add: take_bit_int_eq_self)
  have "drop_bit n off = 0" using assms by (simp add: drop_bit_eq_div)
  then show "drop_bit n (push_bit n h OR off) = h" by (simp add: drop_bit_or drop_bit_push_bit)
  have "take_bit n (push_bit n h OR off) = off" using 1 by (simp add: take_bit_or take_bit_push_bit)
  then show "(push_bit n h OR off) AND mask n = off" by (simp add: take_bit_eq_mask)
qed

text \<open>The two directions of the map agree, on the keys in \<open>K\<close>.\<close>

definition field_map_ok :: "(int \<times> int) set \<Rightarrow> field_map \<Rightarrow> bool" where
  "field_map_ok K m \<longleftrightarrow> (\<forall>n k. map_of (fm_fields_rev m) n = Some k \<longrightarrow>
     k \<in> K \<and> 0 \<le> snd k \<and> (\<exists>b. map_of (fm_fields m) k = Some (n, b)))"

lemma field_map_ok_mono: "field_map_ok K m \<Longrightarrow> K \<subseteq> L \<Longrightarrow> field_map_ok L m"
  by (fastforce simp: field_map_ok_def)

lemma field_map_ok_add:
  assumes "field_map_ok K m" "(i, int idx) \<notin> K"
  shows "field_map_ok (insert (i, int idx) K)
    (m\<lparr>fm_fields := AList.update (i, int idx) (name, b) (fm_fields m),
       fm_fields_rev := AList.update name (i, int idx) (fm_fields_rev m)\<rparr>)"
  using assms by (auto simp: field_map_ok_def update_conv')

lemma add_fields_ok:
  assumes "jget_int ''id'' h = Inr i" "field_map_ok (K \<union> {i} \<times> {0..<int idx}) m" "i \<notin> fst ` K"
  shows "field_map_ok (K \<union> {i} \<times> UNIV) (snd (add_fields header h idx es m))"
  using assms(2)
proof (induction es arbitrary: idx m)
  case Nil
  then show ?case by (auto simp: io_simps elim!: field_map_ok_mono)
next
  case (Cons e es)
  have all: "field_map_ok (K \<union> {i} \<times> UNIV) m" using Cons(2) by (auto elim!: field_map_ok_mono)
  show ?case
  proof (cases "res_bind (res_bind (jiter e) unpack2) (\<lambda>(f, b). res_bind (jstr f) (\<lambda>f. Inr (f, b)))")
    case (Inl x)
    then have "snd (add_fields header h idx (e # es) m) = m"
      by (auto simp: add_field_def io_simps res_bind_Inl_iff split: sum.split prod.split)
    then show ?thesis using all by simp
  next
    case (Inr fb)
    then obtain f b where fb: "res_bind (jiter e) unpack2 = Inr (JStr f, b)"
      by (auto simp: res_bind_Inr_iff elim!: jstr.elims)
    let ?m = "m\<lparr>fm_fields := AList.update (i, int idx) (py_join ''.'' [header, f], b) (fm_fields m),
       fm_fields_rev := AList.update (py_join ''.'' [header, f]) (i, int idx) (fm_fields_rev m)\<rparr>"
    have "add_fields header h idx (e # es) m = add_fields header h (Suc idx) es ?m"
      using fb assms(1) by (simp add: add_field_def io_simps Let_def)
    moreover have "field_map_ok (insert (i, int idx) (K \<union> {i} \<times> {0..<int idx})) ?m"
      using Cons(2) assms(3) by (intro field_map_ok_add) force+
    then have "field_map_ok (K \<union> {i} \<times> {0..<int (Suc idx)}) ?m"
      by (rule field_map_ok_mono) auto
    ultimately show ?thesis using Cons(1) by simp
  qed
qed

lemma add_fields_no_id: "jget_int ''id'' h = Inl e \<Longrightarrow> snd (add_fields header h idx es m) = m"
  by (induction es arbitrary: idx)
     (auto simp: add_field_def io_simps Let_def split: sum.split prod.split)

lemma add_header_ok:
  assumes "field_map_ok K m" "\<And>i. jget_int ''id'' h = Inr i \<Longrightarrow> i \<notin> fst ` K"
  shows "field_map_ok (K \<union> {k. jget_int ''id'' h = Inr (fst k)}) (snd (add_header tys h m))"
proof -
  have "field_map_ok (K \<union> {k. jget_int ''id'' h = Inr (fst k)}) (snd (add_fields header h 0 es m))" for header es
  proof (cases "jget_int ''id'' h")
    case Inl
    then show ?thesis using assms(1) by (simp add: add_fields_no_id)
  next
    case (Inr i)
    have "K \<union> {k. jget_int ''id'' h = Inr (fst k)} = K \<union> {i} \<times> UNIV" using Inr by auto
    then show ?thesis using add_fields_ok [OF Inr, of K 0] assms Inr by simp
  qed
  moreover have "field_map_ok (K \<union> {k. jget_int ''id'' h = Inr (fst k)}) m"
    using assms(1) by (rule field_map_ok_mono) simp
  ultimately show ?thesis by (auto simp: add_header_def io_simps split: sum.split)
qed

lemma add_headers_ok:
  assumes "field_map_ok K m" "distinct (map (jget_int ''id'') hs)"
    "\<And>h i. h \<in> set hs \<Longrightarrow> jget_int ''id'' h = Inr i \<Longrightarrow> i \<notin> fst ` K"
  shows "field_map_ok UNIV (snd (io_for hs (add_header tys) m))"
  using assms
proof (induction hs arbitrary: K m)
  case Nil
  then show ?case by (auto simp: io_simps elim!: field_map_ok_mono)
next
  case (Cons h hs)
  let ?K = "K \<union> {k. jget_int ''id'' h = Inr (fst k)}"
  have h: "field_map_ok ?K (snd (add_header tys h m))"
    using Cons(2) Cons(4) [of h] by (intro add_header_ok) simp_all
  then have all: "field_map_ok UNIV (snd (add_header tys h m))" by (rule field_map_ok_mono) simp
  have new: "i \<notin> fst ` ?K" if "h' \<in> set hs" "jget_int ''id'' h' = Inr i" for h' i
    using Cons(3,4) that by (force simp: image_iff)
  have "field_map_ok UNIV (snd (io_for hs (add_header tys) (snd (add_header tys h m))))"
    using Cons.IH [OF h _ new] Cons(3) by simp
  then show ?case
    using all by (cases "add_header tys h m"; cases "fst (add_header tys h m)") (simp_all add: io_simps)
qed

lemma FieldMap_load_names_ok:
  assumes "loads s = Some j" "jget_list ''headers'' j = Inr hs" "distinct (map (jget_int ''id'') hs)"
  shows "field_map_ok UNIV (snd (FieldMap_load_names loads s m0))"
proof -
  have reset: "field_map_ok {} field_map_reset" by (simp add: field_map_ok_def field_map_reset_def)
  then have "field_map_ok UNIV field_map_reset" by (rule field_map_ok_mono) simp
  moreover have "field_map_ok UNIV (snd (io_for hs (add_header tys) field_map_reset))" for tys
    using add_headers_ok [OF reset assms(3)] by simp
  ultimately show ?thesis
    using assms(1,2) by (simp add: FieldMap_load_names_def io_simps split: sum.split)
qed

text \<open>
  After a configuration whose headers have distinct ids has been loaded, the 64 bit id of every
  known field is mapped back to the field's name, as long as the offset of the field takes no more
  than 32 bits.
\<close>

theorem field_id_roundtrip:
  assumes "loads s = Some j" "jget_list ''headers'' j = Inr hs" "distinct (map (jget_int ''id'') hs)"
    and "FieldMap_load_names loads s m0 = (r, m)"
    and "FieldMap_get_id_from_name m name = Inr (h, off)" "off < 2 ^ 32"
  shows "\<exists>fid. get_field_id_from_name m name = Inr fid \<and> get_name_from_field_id m fid = Inr name"
proof -
  obtain b where "0 \<le> off" "map_of (fm_fields m) (h, off) = Some (name, b)"
    using FieldMap_load_names_ok [of loads s j hs m0] assms(1-5)
    by (fastforce simp: field_map_ok_def FieldMap_get_id_from_name_def)
  moreover have "(0xffffffff :: int) = mask 32" by (simp add: mask_eq_exp_minus_1)
  ultimately show ?thesis
    using assms(5,6) unpack_bits [of off 32 h]
    by (simp add: get_field_id_from_name_def get_name_from_field_id_def FieldMap_get_name_def Let_def)
qed

section \<open>Control points\<close>

lemma resolve_packed:
  assumes "map_of object_ids (t AND 0x7f) = Some ty" "0 \<le> i" "i < 2 ^ 24"
    "map_of (names (store_at st ty)) i = Some obj"
  shows "resolve_ctr st (push_bit 24 t OR i) = Inr (pname (store_at st ty), obj)"
proof -
  have "(0xffffff :: int) = mask 24" by (simp add: mask_eq_exp_minus_1)
  then have "drop_bit 24 (push_bit 24 t OR i) = t" "(push_bit 24 t OR i) AND 0xffffff = i"
    using unpack_bits [of i 24 t] assms(2,3) by simp_all
  then show ?thesis using assms unfolding resolve_ctr_def Let_def by simp
qed

text \<open>
  A control point is resolved to the object it was looked up for, and so is the one with the bit
  set by which the switch marks that the object is left, as long as the ids of the type fit into 24
  bits and are not shared by two names.
\<close>

theorem ctr_roundtrip:
  assumes "lookup_ctr st ty obj = Inr ctr"
    and "\<And>n i. map_of (names_rev (store_at st ty)) n = Some i \<Longrightarrow>
      0 \<le> i \<and> i < 2 ^ 24 \<and> map_of (names (store_at st ty)) i = Some n"
  shows "resolve_ctr st ctr = Inr (pname (store_at st ty), obj) \<and>
    resolve_ctr st (push_bit 31 1 OR ctr) = Inr (pname (store_at st ty), obj)"
proof -
  obtain t i where t: "map_of ids_rev ty = Some t" and i: "map_of (names_rev (store_at st ty)) obj = Some i"
    and ctr: "ctr = push_bit 24 t OR i"
    using assms(1) by (auto simp: lookup_ctr_def res_bind_Inr_iff Let_def)
  have ok: "0 \<le> i" "i < 2 ^ 24" "map_of (names (store_at st ty)) i = Some obj" using assms(2) [OF i] by auto
  have ids: "map_of object_ids (t AND 0x7f) = Some ty" "map_of object_ids ((push_bit 7 1 OR t) AND 0x7f) = Some ty"
    using t by (auto simp: ids_rev_def object_ids_def split: if_splits)
  have "push_bit 31 1 OR ctr = push_bit 24 (push_bit 7 1 OR t) OR i"
    unfolding ctr by (simp add: push_bit_or push_bit_push_bit or.assoc)
  then show ?thesis unfolding ctr using ids ok by (simp only: resolve_packed)
qed

text \<open>A loading step only ever adds names to the object map.\<close>

definition names_kept :: "object_map \<Rightarrow> object_map \<Rightarrow> bool" where
  "names_kept st st' \<longleftrightarrow> (\<forall>ty. fst ` set (names_rev (store_at st ty)) \<subseteq> fst ` set (names_rev (store_at st' ty)))"

interpretation kept: io_frame names_kept
  by unfold_locales (simp_all add: names_kept_def, blast)

lemma store_at_upd: "store_at (upd_store ty f st) ty' = (if ty' = ty then f (store_at st ty) else store_at st ty')"
  by (simp add: store_at_def upd_store_def update_conv')

lemma keeps_names_upd:
  "(\<And>m. fst ` set (names_rev m) \<subseteq> fst ` set (names_rev (f m))) \<Longrightarrow> io_keeps names_kept (io_modify (upd_store ty f))"
  by (auto simp: io_keeps_def io_simps names_kept_def store_at_upd)

lemma keeps_load_objects: "io_keeps names_kept (load_objects ty objs)"
proof -
  have pn: "io_keeps names_kept (io_modify (upd_store ty (\<lambda>m. m\<lparr>pname := Some ty\<rparr>)))" for ty
    by (rule keeps_names_upd) simp
  have one: "io_keeps names_kept (io_modify (upd_store ty (add_one i n)))" for i n
    by (rule keeps_names_upd) (simp add: add_one_def dom_update subset_insertI)
  show ?thesis unfolding load_objects_def by (intro kept.keeps_intros pn one)
qed

lemma keeps_ObjectMap_load_names: "io_keeps names_kept (ObjectMap_load_names loads s)"
proof -
  have "io_keeps names_kept (io_modify (upd_store ''pipeline'' (\<lambda>m. m\<lparr>pname := Some ''pipeline''\<rparr>)))"
    by (rule keeps_names_upd) simp
  then show ?thesis
    unfolding ObjectMap_load_names_def by (intro kept.keeps_intros keeps_load_objects)
qed

text \<open>
  Loading a new configuration does not forget the objects of the old one: an object for which a
  breakpoint could be set before can be looked up afterwards, whether or not the new program has it.
\<close>

theorem load_names_keeps_old_objects:
  assumes "lookup_ctr st ty obj = Inr ctr"
  shows "\<exists>ctr'. lookup_ctr (snd (ObjectMap_load_names loads s st)) ty obj = Inr ctr'"
proof -
  have "obj \<in> fst ` set (names_rev (store_at st ty))"
    using assms by (auto simp: lookup_ctr_def res_bind_Inr_iff Let_def dest!: map_of_SomeD intro!: rev_image_eqI)
  moreover have "names_kept st (snd (ObjectMap_load_names loads s st))"
    by (rule io_keepsD [OF keeps_ObjectMap_load_names surjective_pairing])
  ultimately have "map_of (names_rev (store_at (snd (ObjectMap_load_names loads s st)) ty)) obj \<noteq> None"
    by (auto simp: names_kept_def map_of_eq_None_iff)
  then show ?thesis using assms by (auto simp: lookup_ctr_def res_bind_Inr_iff Let_def)
qed

section \<open>Examples\<close>

definition small_json :: json where
  "small_json = JObj
     [(''header_types'', JList [JObj [(''name'', JStr ''eth_t''),
        (''fields'', JList [JList [JStr ''dst'', JInt 48], JList [JStr ''src'', JInt 48]])]]),
      (''headers'', JList [JObj [(''name'', JStr ''eth''), (''header_type'', JStr ''eth_t''), (''id'', JInt 5)]]),
      (''parsers'', JList []), (''deparsers'', JList []), (''actions'', JList []),
      (''pipelines'', JList [JObj [(''name'', JStr ''ingress''), (''id'', JInt 0),
        (''tables'', JList [JObj [(''name'', JStr ''fdb''), (''id'', JInt 3)]]), (''conditionals'', JList [])]])]"

definition small_fields :: field_map where
  "small_fields = snd (FieldMap_load_names (\<lambda>_. Some small_json) [] field_map_reset)"

definition small_objects :: object_map where
  "small_objects = snd (ObjectMap_load_names (\<lambda>_. Some small_json) [] [])"

lemma small_fields_load:
  "FieldMap_load_names (\<lambda>_. Some small_json) [] field_map_reset = (Inr (), small_fields)"
  by code_simp

lemma small_objects_table:
  "store_at small_objects ''table'' = \<lparr>pname = Some ''table'', names = [(3, ''fdb'')], names_rev = [(''fdb'', 3)]\<rparr>"
  by code_simp

theorem field_id_roundtrip_witness:
  "\<exists>fid. get_field_id_from_name small_fields ''eth.src'' = Inr fid \<and>
     get_name_from_field_id small_fields fid = Inr ''eth.src''"
proof (rule field_id_roundtrip [OF _ _ _ small_fields_load])
  show "jget_list ''headers'' small_json =
    Inr [JObj [(''name'', JStr ''eth''), (''header_type'', JStr ''eth_t''), (''id'', JInt 5)]]" by code_simp
  show "FieldMap_get_id_from_name small_fields ''eth.src'' = Inr (5, 1)" by code_simp
qed simp_all

theorem ctr_roundtrip_witness:
  "resolve_ctr small_objects 0x04000003 = Inr (Some ''table'', ''fdb'') \<and>
   resolve_ctr small_objects (push_bit 31 1 OR 0x04000003) = Inr (Some ''table'', ''fdb'')"
proof -
  have "lookup_ctr small_objects ''table'' ''fdb'' = Inr 0x04000003" by code_simp
  moreover have "0 \<le> i \<and> i < 2 ^ 24 \<and> map_of (names (store_at small_objects ''table'')) i = Some n"
    if "map_of (names_rev (store_at small_objects ''table'')) n = Some i" for n i
    using that by (simp add: small_objects_table split: if_splits)
  ultimately have "resolve_ctr small_objects 0x04000003 = Inr (pname (store_at small_objects ''table''), ''fdb'') \<and>
      resolve_ctr small_objects (push_bit 31 1 OR 0x04000003) = Inr (pname (store_at small_objects ''table''), ''fdb'')"
    by (rule ctr_roundtrip)
  then show ?thesis by (simp add: small_objects_table)
qed

theorem load_names_keeps_old_objects_witness:
  "\<exists>ctr'. lookup_ctr (snd (ObjectMap_load_names (\<lambda>_. Some (JObj [])) [] small_objects)) ''table'' ''fdb'' = Inr ctr'"
proof (rule load_names_keeps_old_objects)
  show "lookup_ctr small_objects ''table'' ''fdb'' = Inr 0x04000003" by code_simp
qed

end
