(* ===== verification/P4dbg_Api.thy ===== *)
theory P4dbg_Api
  imports Cli_Shell P4dbg_Msg P4dbg_Maps
begin

text \<open>
  The debugger \<^verbatim>\<open>tools/p4dbg.py\<close>: the state of the class \<open>DebuggerAPI\<close>, the exchange of
  messages with the switch, and the start, the reset and the end of a session. The nanomsg socket is a
  parameter: what sending and receiving do to the switch and which exceptions they raise (the package
  \<^verbatim>\<open>nnpy\<close> reports a timeout by an AssertionError; a receive can be interrupted by the user).
\<close>

section \<open>State and environment\<close>

text \<open>The attributes of the class, the module's global \<open>field_map\<close> and \<open>obj_map\<close>, and the lines of
  the standard input that have not been read yet. \<open>break_packet_in\<close> and \<open>stop_packet_in\<close> do not exist
  before the command that sets them has run; the sets are lists without duplicates; \<open>cli_lastcmd\<close> is
  the state of the runtime CLI object.\<close>

record 's dbg = "'s world" +
  req_id :: int
  wps :: "int list"
  bps :: "int list"
  skips :: "(int \<times> int) list"
  skips_all :: "int list"
  current_packet_id :: "int option"
  current_copy_id :: "int option"
  get_me_a_prompt :: bool
  attached :: bool
  break_packet_in :: "bool option"
  stop_packet_in :: "bool option"
  json_cfg :: string
  cli_lastcmd :: string
  the_field_map :: field_map
  the_obj_map :: object_map
  stdin :: "string list"

type_synonym ('s, 'a) dbg_io = "('s dbg, 'a) io"

text \<open>\<open>set_order\<close> is the order in which Python goes through a set of integers, \<open>exn_str\<close> the text of
  an exception.\<close>

record 's dbg_env =
  d_api :: "'s api"
  have_client :: bool
  with_runtime_CLI :: bool
  sok_send :: "string \<Rightarrow> 's \<Rightarrow> unit res \<times> 's"
  sok_recv :: "'s \<Rightarrow> string res \<times> 's"
  set_order :: "int list \<Rightarrow> int list"
  d_help :: "string \<Rightarrow> string"
  exn_str :: "py_exn \<Rightarrow> string"

definition FIELD_ID_CTR :: int where
  "FIELD_ID_CTR = 0xffffffffffffffff"

definition FIELD_ID_COND :: int where
  "FIELD_ID_COND = 0xfffffffffffffffe"

definition FIELD_ID_ACTION :: int where
  "FIELD_ID_ACTION = 0xfffffffffffffffd"

section \<open>Helpers\<close>

text \<open>\<open>self.handle_bad_input\<close> of this module: both exception classes print the same way.\<close>

definition dbg_handle_bad_input :: "('s, unit) dbg_io \<Rightarrow> ('s, unit) dbg_io" where
  "dbg_handle_bad_input f = io_catch f (\<lambda>e. case e of
     UIn_Error info \<Rightarrow> pr [''Error:'', info]
   | UIn_Warning info \<Rightarrow> pr [''Error:'', info]
   | _ \<Rightarrow> io_raise e)"

text \<open>\<open>print a, b, c\<close> where the expression \<open>b\<close> may raise: what comes before it has been written then.\<close>

definition print_with :: "string list \<Rightarrow> string res \<Rightarrow> string list \<Rightarrow> ('s, unit) dbg_io" where
  "print_with before r after =
     (case r of
        Inl e \<Rightarrow> io_then (emit (OutPart (py_join '' '' before))) (io_raise e)
      | Inr s \<Rightarrow> pr (before @ [s] @ after))"

definition quoted :: "string \<Rightarrow> string" where
  "quoted s = [CHR 39] @ s @ [CHR 39]"

definition py_assert :: "bool \<Rightarrow> ('s, unit) dbg_io" where
  "py_assert b = (if b then io_ret () else io_raise AssertionError)"

definition py_lower :: "string \<Rightarrow> string" where
  "py_lower s = map (\<lambda>c. if 65 \<le> (of_char c :: nat) \<and> (of_char c :: nat) \<le> 90
     then char_of ((of_char c :: nat) + 32) else c) s"

definition attr :: "msg \<Rightarrow> string \<Rightarrow> ('s, fval) dbg_io" where
  "attr m n = io_lift (getattr (attrs m) n)"

definition int_attr :: "msg \<Rightarrow> string \<Rightarrow> ('s, int) dbg_io" where
  "int_attr m n = io_lift (get_int (attrs m) n)"

text \<open>\<open>"(%d)" % v\<close>\<close>

definition fmt_paren :: "fval \<Rightarrow> string res" where
  "fmt_paren v = (case v of FInt i \<Rightarrow> Inr (''('' @ show_int i @ '')'') | _ \<Rightarrow> Inl TypeError)"

text \<open>Code of another module, which works on its own state: it sees the part of the world it knows.\<close>

definition with_world :: "('s world, 'a) io \<Rightarrow> ('s, 'a) dbg_io" where
  "with_world m = (\<lambda>w. case m (world.truncate w) of
     (r, v) \<Rightarrow> (r, w\<lparr>cfg := cfg v, switch := switch v, events := events v\<rparr>))"

definition with_field_map :: "(field_map, 'a) io \<Rightarrow> ('s, 'a) dbg_io" where
  "with_field_map m = (\<lambda>w. case m (the_field_map w) of (r, f) \<Rightarrow> (r, w\<lparr>the_field_map := f\<rparr>))"

definition with_obj_map :: "(object_map, 'a) io \<Rightarrow> ('s, 'a) dbg_io" where
  "with_obj_map m = (\<lambda>w. case m (the_obj_map w) of (r, f) \<Rightarrow> (r, w\<lparr>the_obj_map := f\<rparr>))"

section \<open>Messages on the socket\<close>

definition send :: "'s dbg_env \<Rightarrow> string \<Rightarrow> ('s, unit) dbg_io" where
  "send env data = (\<lambda>w. case sok_send env data (switch w) of
     (r, s) \<Rightarrow> (r, w\<lparr>switch := s, events := events w @ [Sent data]\<rparr>))"

definition recv :: "'s dbg_env \<Rightarrow> ('s, string) dbg_io" where
  "recv env = (\<lambda>w. case sok_recv env (switch w) of (r, s) \<Rightarrow> (r, w\<lparr>switch := s\<rparr>))"

definition wait_for_msg :: "'s dbg_env \<Rightarrow> ('s, msg) dbg_io" where
  "wait_for_msg env = io_bind (recv env) (\<lambda>data. io_lift (decode_msg data))"

definition check_msg_CLS :: "msg \<Rightarrow> msg_cls \<Rightarrow> ('s, unit) dbg_io" where
  "check_msg_CLS m c = py_assert (isinstance (cls m) c)"

definition get_req_id :: "('s, int) dbg_io" where
  "get_req_id = io_bind (io_gets req_id) (\<lambda>i. io_then (io_modify (req_id_update (\<lambda>n. n + 1))) (io_ret i))"

text \<open>\<open>Msg_X(switch_id = 0, req_id = self.get_req_id(), ...)\<close>\<close>

definition new_req :: "msg_type \<Rightarrow> attrs \<Rightarrow> ('s, msg) dbg_io" where
  "new_req t kwargs = io_bind get_req_id (\<lambda>i.
     io_ret (init_msg (MsgCls t) ([(''switch_id'', FInt 0), (''req_id'', FInt i)] @ kwargs)))"

definition send_msg :: "'s dbg_env \<Rightarrow> msg \<Rightarrow> ('s, unit) dbg_io" where
  "send_msg env m = io_bind (io_lift (generate m)) (send env)"

text \<open>Sending a request and waiting for the answer, and the answer being a status 0.\<close>

definition request :: "'s dbg_env \<Rightarrow> msg_type \<Rightarrow> attrs \<Rightarrow> ('s, msg) dbg_io" where
  "request env t kwargs = io_bind (new_req t kwargs) (\<lambda>req. io_then (send_msg env req) (wait_for_msg env))"

definition request_ok :: "'s dbg_env \<Rightarrow> msg_type \<Rightarrow> attrs \<Rightarrow> ('s, unit) dbg_io" where
  "request_ok env t kwargs = io_bind (request env t kwargs) (\<lambda>m.
     io_then (check_msg_CLS m (MsgCls STATUS)) (
     io_bind (int_attr m ''status'') (\<lambda>st. py_assert (st = 0))))"

section \<open>Start, reset and end of a session\<close>

definition dbg_reset :: "('s, unit) dbg_io" where
  "dbg_reset = io_modify (\<lambda>w. w\<lparr>wps := [], bps := [], skips := [], skips_all := [],
     current_packet_id := None, current_copy_id := None, get_me_a_prompt := False, attached := False\<rparr>)"

definition init_runtime_CLI :: "'s dbg_env \<Rightarrow> ('s, unit) dbg_io" where
  "init_runtime_CLI env =
     io_bind (io_gets json_cfg) (\<lambda>s.
     io_then (with_cfg (load_json_str (json_loads (lib (d_api env))) s)) (
     io_modify (cli_lastcmd_update (\<lambda>_. []))))"

definition json_dependent_init :: "'s dbg_env \<Rightarrow> ('s, unit) dbg_io" where
  "json_dependent_init env =
     io_bind (with_world (get_json_config (d_api env) (have_client env) None)) (\<lambda>s.
     io_then (io_modify (json_cfg_update (\<lambda>_. s))) (
     io_then (with_field_map (FieldMap_load_names (json_loads (lib (d_api env))) s)) (
     io_then (with_obj_map (ObjectMap_load_names (json_loads (lib (d_api env))) s)) (
     if with_runtime_CLI env then init_runtime_CLI env else io_ret ()))))"

definition DebuggerAPI_init :: "'s dbg_env \<Rightarrow> bool \<Rightarrow> ('s, unit) dbg_io" where
  "DebuggerAPI_init env connects =
     (if \<not> connects then
        io_then (pr [''Impossible to connect to provided socket (bad format?)'']) (io_raise (SystemExit 1))
      else io_then (io_modify (req_id_update (\<lambda>_. 0))) (io_then dbg_reset (json_dependent_init env)))"

definition send_attach :: "'s dbg_env \<Rightarrow> ('s, unit) dbg_io" where
  "send_attach env =
     io_bind (new_req ATTACH []) (\<lambda>req.
     io_then (send_msg env req) (
     io_bind (io_catch (wait_for_msg env) (\<lambda>e.
       if e = AssertionError then
         io_then (pr [''Unable to attach to the switch,'', ''maybe you need to run p4dbg as root?'']) (
         io_raise (SystemExit 1))
       else io_raise e)) (\<lambda>m.
     check_msg_CLS m (MsgCls STATUS))))"

definition attach :: "'s dbg_env \<Rightarrow> ('s, unit) dbg_io" where
  "attach env =
     io_then (pr [''Connecting to the switch...'']) (
     io_then (send_attach env) (
     io_then (io_modify (attached_update (\<lambda>_. True))) (
     pr [''Connection established''])))"

definition say_bye :: "'s dbg_env \<Rightarrow> ('s, unit) dbg_io" where
  "say_bye env =
     io_bind (new_req DETACH []) (\<lambda>req.
     io_then (send_msg env req) (
     io_bind (io_catch (io_bind (wait_for_msg env) (\<lambda>m. io_ret (Some m))) (\<lambda>_. io_ret None)) (\<lambda>r.
     case r of
       None \<Rightarrow> io_ret ()
     | Some m \<Rightarrow> io_then (check_msg_CLS m (MsgCls STATUS)) (io_modify (wps_update (\<lambda>_. []))))))"

definition dbg_do_EOF :: "'s dbg_env \<Rightarrow> string \<Rightarrow> ('s, bool) dbg_io" where
  "dbg_do_EOF env line = io_then (pr [''Detaching from switch'']) (io_then (say_bye env) (io_ret True))"

definition send_reset :: "'s dbg_env \<Rightarrow> ('s, unit) dbg_io" where
  "send_reset env =
     io_bind (request env RESET []) (\<lambda>m. io_then (check_msg_CLS m (MsgCls STATUS)) dbg_reset)"

text \<open>The loop of \<open>prompt_yes_no\<close> over the lines of the standard input.\<close>

definition yes_no :: "(string \<times> bool) list" where
  "yes_no = [(''yes'', True), (''y'', True), (''no'', False), (''n'', False)]"

definition respond_line :: string where
  "respond_line = ''Please respond with '' @ quoted ''yes'' @ '' or '' @ quoted ''no'' @ '' (or '' @ quoted ''y'' @
     '' or '' @ quoted ''n'' @ '').''"

fun prompt_loop :: "string \<Rightarrow> string list \<Rightarrow> ('s, bool) dbg_io" where
  "prompt_loop question [] = io_then (emit (OutPart question)) (io_raise EOFError)"
| "prompt_loop question (line # lines) =
     io_then (emit (OutPart question)) (
     io_then (io_modify (stdin_update (\<lambda>_. lines))) (
     case map_of yes_no (py_lower line) of
       Some b \<Rightarrow> io_ret b
     | None \<Rightarrow> io_then (pr [respond_line]) (prompt_loop question lines)))"

definition prompt_yes_no :: "string \<Rightarrow> bool \<Rightarrow> ('s, bool) dbg_io" where
  "prompt_yes_no question yes_default =
     io_bind (io_gets stdin) (prompt_loop (py_join '' '' [question, if yes_default then ''[Y/n]'' else ''[y/N]'']))"

definition handle_config_change :: "'s dbg_env \<Rightarrow> ('s, unit) dbg_io" where
  "handle_config_change env =
     io_then dbg_reset (
     io_then (pr [''We have been notified that the JSON config has changed on the'',
                  ''switch. The debugger state has therefore been reset.'']) (
     io_then (pr [''You can request the new config and keep debugging,'', ''or we will exit.'']) (
     io_bind (prompt_yes_no ''Do you want to request the new config?'' True) (\<lambda>v.
     if v then json_dependent_init env else io_raise (SystemExit 0)))))"

end
