(* ===== verification/P4dbg_Cmds.thy ===== *)
theory P4dbg_Cmds
  imports P4dbg_Api
begin

text \<open>
  The commands of the debugger, the loop in which \<open>continue\<close> and \<open>next\<close> wait for an event, the
  command loop and \<open>main\<close> of \<^verbatim>\<open>tools/p4dbg.py\<close>. Both loops depend on what the switch and the
  user send and need not end: they take the number of rounds they may run, and their result tells
  when it is used up; a command that has not ended then is \<open>OutOfFuel\<close>. Of the completers, which
  change nothing, \<open>complete_CLI\<close> is not modelled.
\<close>

section \<open>Waiting for events\<close>

definition packet_id_str :: "int \<Rightarrow> int \<Rightarrow> string" where
  "packet_id_str packet_id copy_id = py_join ''.'' [show_int packet_id, show_int copy_id]"

text \<open>How waiting for an event ends: it has not ended within the given number of rounds, it has been
  given up (the code returns \<open>None\<close>), or a message has come.\<close>

datatype wait_result = Waiting | Gave_up | Event msg

text \<open>The inner loop of \<open>continue_or_next\<close>: an interrupt asks for the prompt and waits again; a timeout
  gives up.\<close>

fun recv_event :: "nat \<Rightarrow> 's dbg_env \<Rightarrow> ('s, wait_result) dbg_io" where
  "recv_event 0 env = io_ret Waiting"
| "recv_event (Suc n) env =
     io_catch (io_bind (wait_for_msg env) (\<lambda>m. io_ret (Event m))) (\<lambda>e.
       if e = KeyboardInterrupt then
         io_then (io_modify (get_me_a_prompt_update (\<lambda>_. True))) (recv_event n env)
       else if e = AssertionError then
         io_then (pr [''Connection to the switch lost,'', ''are you sure it is still running?'']) (io_ret Gave_up)
       else io_raise e)"

text \<open>Whether an event is not reported: its packet is skipped, or \<open>continue\<close> has come to a control point
  without a breakpoint. The value of an empty field is \<open>None\<close>, which is in no set of integers.\<close>

definition skip_event :: "bool \<Rightarrow> msg \<Rightarrow> int \<Rightarrow> int \<Rightarrow> ('s, bool) dbg_io" where
  "skip_event is_next m packet_id copy_id =
     io_bind (io_gets (\<lambda>w. packet_id \<in> set (skips_all w) \<or> (packet_id, copy_id) \<in> set (skips w))) (\<lambda>skip.
     if skip then io_ret True
     else if \<not> is_next \<and> cls m = MsgCls FIELD_VALUE then
       io_bind (int_attr m ''fid'') (\<lambda>fid.
       if fid = FIELD_ID_CTR then
         io_bind (attr m ''bytes_int'') (\<lambda>v. io_gets (\<lambda>w. v \<notin> FInt ` set (bps w)))
       else io_ret False)
     else io_ret False)"

text \<open>A message has the type of its class (\<open>decode_msg_type\<close>), so that comparing \<open>msg.type\<close> is
  comparing the class.\<close>

fun continue_or_next :: "nat \<Rightarrow> 's dbg_env \<Rightarrow> msg \<Rightarrow> bool \<Rightarrow> ('s, wait_result) dbg_io" where
  "continue_or_next 0 env req is_next = io_ret Waiting"
| "continue_or_next (Suc n) env req is_next =
     io_then (send_msg env req) (
     io_bind (recv_event (Suc n) env) (\<lambda>r.
     case r of
       Waiting \<Rightarrow> io_ret Waiting
     | Gave_up \<Rightarrow> io_ret Gave_up
     | Event m \<Rightarrow>
         if cls m = MsgCls KEEP_ALIVE then
           io_bind (io_gets get_me_a_prompt) (\<lambda>p.
           if p then io_then (io_modify (get_me_a_prompt_update (\<lambda>_. False))) (io_ret Gave_up)
           else continue_or_next n env req is_next)
         else if cls m = MsgCls STATUS then
           io_bind (int_attr m ''status'') (\<lambda>st.
           io_then (py_assert (st = 999)) (
           io_then (handle_config_change env) (io_ret Gave_up)))
         else
           io_then (check_msg_CLS m EventMsg) (
           io_bind (int_attr m ''packet_id'') (\<lambda>packet_id.
           io_bind (int_attr m ''copy_id'') (\<lambda>copy_id.
           io_bind (skip_event is_next m packet_id copy_id) (\<lambda>skip.
           if skip then continue_or_next n env req is_next
           else
             io_then (io_modify (\<lambda>w. w\<lparr>current_packet_id := Some packet_id, current_copy_id := Some copy_id\<rparr>)) (
             io_then (pr [''New event for packet'', packet_id_str packet_id copy_id]) (
             io_ret (Event m)))))))))"

definition special_update :: "int \<Rightarrow> fval \<Rightarrow> ('s, unit) dbg_io" where
  "special_update ident v =
     (if ident = FIELD_ID_CTR then
        case v of
          FInt ctr \<Rightarrow>
            io_bind (io_gets the_obj_map) (\<lambda>st.
            io_bind (io_lift (resolve_ctr st ctr)) (\<lambda>(type_name, obj_name).
            pr [if 0x80 AND drop_bit 24 ctr \<noteq> 0 then ''Exiting'' else ''Entering'',
                opt_str type_name, quoted obj_name]))
        | _ \<Rightarrow> io_raise TypeError
      else if ident = FIELD_ID_COND then
        pr [''Condition evaluated to'',
            if (case v of FInt i \<Rightarrow> i \<noteq> 0 | FStr s \<Rightarrow> s \<noteq> [] | FNone \<Rightarrow> False) then ''True'' else ''False'']
      else io_ret ())"

text \<open>What \<open>do_continue\<close> and \<open>do_next\<close> print for an event; they differ in the line for a field and in
  that \<open>continue\<close> wants a watchpoint for it.\<close>

definition print_new_value :: "msg \<Rightarrow> ('s, unit) dbg_io" where
  "print_new_value m =
     io_bind (attr m ''bytes_str'') (\<lambda>s. io_bind (attr m ''bytes_int'') (\<lambda>v.
     print_with [''New value is'', fval_str s] (fmt_paren v) []))"

definition print_event :: "bool \<Rightarrow> string \<Rightarrow> msg \<Rightarrow> ('s, unit) dbg_io" where
  "print_event watched what m =
     (if cls m = MsgCls FIELD_VALUE then
        io_bind (int_attr m ''fid'') (\<lambda>fid.
        if fid \<in> {FIELD_ID_CTR, FIELD_ID_COND, FIELD_ID_ACTION} then
          io_bind (attr m ''bytes_int'') (special_update fid)
        else
          io_bind (io_gets wps) (\<lambda>ws.
          io_then (py_assert (\<not> watched \<or> fid \<in> set ws)) (
          io_bind (io_gets the_field_map) (\<lambda>fm.
          io_then (print_with [what] (get_name_from_field_id fm fid) []) (
          print_new_value m)))))
      else if cls m = MsgCls PACKET_IN then pr [''Packet in!'']
      else io_raise AssertionError)"

definition do_continue :: "nat \<Rightarrow> 's dbg_env \<Rightarrow> string \<Rightarrow> ('s, unit) dbg_io" where
  "do_continue fuel env line = dbg_handle_bad_input (
     io_bind (new_req CONTINUE []) (\<lambda>req.
     io_bind (continue_or_next fuel env req False) (\<lambda>r.
     case r of
       Waiting \<Rightarrow> io_raise OutOfFuel
     | Gave_up \<Rightarrow> io_ret ()
     | Event m \<Rightarrow> print_event True ''Watchpoint hit for field'' m)))"

definition do_next :: "nat \<Rightarrow> 's dbg_env \<Rightarrow> string \<Rightarrow> ('s, unit) dbg_io" where
  "do_next fuel env line = dbg_handle_bad_input (
     io_bind (new_req NEXT []) (\<lambda>req.
     io_bind (continue_or_next fuel env req True) (\<lambda>r.
     case r of
       Waiting \<Rightarrow> io_raise OutOfFuel
     | Gave_up \<Rightarrow> io_ret ()
     | Event m \<Rightarrow> print_event False ''Update for field'' m)))"

definition do_reset :: "'s dbg_env \<Rightarrow> string \<Rightarrow> ('s, unit) dbg_io" where
  "do_reset env line = dbg_handle_bad_input (send_reset env)"

section \<open>Watchpoints and breakpoints\<close>

definition field_id_from_name :: "string \<Rightarrow> ('s, int) dbg_io" where
  "field_id_from_name field_name =
     (if field_name = ''$cond'' then io_ret FIELD_ID_COND
      else if field_name = ''$action'' then io_ret FIELD_ID_ACTION
      else io_bind (io_gets the_field_map) (\<lambda>fm.
           case get_field_id_from_name fm field_name of
             Inr field_id \<Rightarrow> io_ret field_id
           | Inl _ \<Rightarrow> io_raise (UIn_Error (''Unknow field name '' @ quoted field_name))))"

definition do_set_wp :: "'s dbg_env \<Rightarrow> string \<Rightarrow> ('s, unit) dbg_io" where
  "do_set_wp env line = dbg_handle_bad_input (
     let args = py_split line in
     io_then (exactly_n_args args 1) (
     io_bind (field_id_from_name (args ! 0)) (\<lambda>field_id.
     io_then (request_ok env SET_WATCHPOINT [(''fid'', FInt field_id)]) (
     io_modify (wps_update (List.insert field_id))))))"

definition do_unset_wp :: "'s dbg_env \<Rightarrow> string \<Rightarrow> ('s, unit) dbg_io" where
  "do_unset_wp env line = dbg_handle_bad_input (
     let args = py_split line in
     io_then (exactly_n_args args 1) (
     io_bind (field_id_from_name (args ! 0)) (\<lambda>field_id.
     io_bind (io_gets (\<lambda>w. field_id \<in> set (wps w))) (\<lambda>is_set.
     if \<not> is_set then io_raise (UIn_Warning ''No watchpoint previously set for this field'')
     else
       io_then (request_ok env UNSET_WATCHPOINT [(''fid'', FInt field_id)]) (
       io_modify (wps_update (removeAll field_id)))))))"

definition do_show_wps :: "'s dbg_env \<Rightarrow> string \<Rightarrow> ('s, unit) dbg_io" where
  "do_show_wps env line = dbg_handle_bad_input (
     io_bind (io_gets (\<lambda>w. res_map (get_name_from_field_id (the_field_map w)) (set_order env (wps w)))) (\<lambda>r.
     io_bind (io_lift r) (\<lambda>ns. io_for ns (\<lambda>n. pr [n]))))"

definition break_ctr :: "string list \<Rightarrow> ('s, int) dbg_io" where
  "break_ctr args =
     io_bind (io_gets the_obj_map) (\<lambda>st.
     case lookup_ctr st (args ! 0) (args ! 1) of
       Inr ctr \<Rightarrow> io_ret ctr
     | Inl _ \<Rightarrow> io_raise (UIn_Error ''Invalid object for breakpoint''))"

definition do_break :: "'s dbg_env \<Rightarrow> string \<Rightarrow> ('s, unit) dbg_io" where
  "do_break env line = dbg_handle_bad_input (
     let args = py_split line in
     io_then (exactly_n_args args 2) (
     io_bind (break_ctr args) (\<lambda>ctr.
     io_bind (io_gets (\<lambda>w. bps w = [])) (\<lambda>first.
     io_then (if first then request_ok env SET_WATCHPOINT [(''fid'', FInt FIELD_ID_CTR)] else io_ret ()) (
     io_modify (bps_update (List.insert ctr)))))))"

definition do_delete :: "'s dbg_env \<Rightarrow> string \<Rightarrow> ('s, unit) dbg_io" where
  "do_delete env line = dbg_handle_bad_input (
     let args = py_split line in
     io_then (exactly_n_args args 2) (
     io_bind (break_ctr args) (\<lambda>ctr.
     io_bind (io_gets (\<lambda>w. ctr \<in> set (bps w))) (\<lambda>is_set.
     if \<not> is_set then io_raise (UIn_Warning ''No breakpoint previously set for this object'')
     else io_modify (bps_update (removeAll ctr))))))"

definition do_show_bps :: "'s dbg_env \<Rightarrow> string \<Rightarrow> ('s, unit) dbg_io" where
  "do_show_bps env line = dbg_handle_bad_input (
     io_bind (io_gets (\<lambda>w. res_map (resolve_ctr (the_obj_map w)) (set_order env (bps w)))) (\<lambda>r.
     io_bind (io_lift r) (\<lambda>ps. io_for ps (\<lambda>(t, n). pr [opt_str t, quoted n]))))"

section \<open>Values and backtraces\<close>

definition opt_int_str :: "int option \<Rightarrow> string" where
  "opt_int_str i = (case i of None \<Rightarrow> ''None'' | Some v \<Rightarrow> show_int v)"

definition current_packet_id_str :: "'s dbg \<Rightarrow> string" where
  "current_packet_id_str w = py_join ''.'' [opt_int_str (current_packet_id w), opt_int_str (current_copy_id w)]"

definition packet_id_from_str :: "string \<Rightarrow> (int \<times> int) res" where
  "packet_id_from_str ident =
     (case res_bind (unpack2 (py_split_sep ''.'' ident)) (\<lambda>(p, c).
        res_bind (or_raise ValueError (py_int p)) (\<lambda>p'. res_bind (or_raise ValueError (py_int c)) (\<lambda>c'. Inr (p', c')))) of
        Inr pc \<Rightarrow> Inr pc
      | Inl _ \<Rightarrow> Inl (UIn_Error (''Bad packet id format '' @ quoted ident @ '', should be of the form <1>.<2>'')))"

text \<open>The packet a command is about: the current one, or the one given as its first argument.\<close>

definition current_packet :: "('s, fval \<times> fval) dbg_io" where
  "current_packet =
     io_bind (io_gets current_packet_id) (\<lambda>p.
     case p of
       None \<Rightarrow> io_raise (UIn_Error ''Cannot use this command because no packets have been observed yet'')
     | Some packet_id \<Rightarrow>
         io_bind (io_gets current_packet_id_str) (\<lambda>s.
         io_then (pr [''Packet id not specified, assuming current packet ('' @ s @ '')'']) (
         io_bind (io_gets current_copy_id) (\<lambda>c.
         io_ret (FInt packet_id, case c of None \<Rightarrow> FNone | Some i \<Rightarrow> FInt i)))))"

definition given_packet :: "string \<Rightarrow> ('s, fval \<times> fval) dbg_io" where
  "given_packet ident = io_bind (io_lift (packet_id_from_str ident)) (\<lambda>(p, c). io_ret (FInt p, FInt c))"

definition do_print :: "'s dbg_env \<Rightarrow> string \<Rightarrow> ('s, unit) dbg_io" where
  "do_print env line = dbg_handle_bad_input (
     let args = py_split line in
     io_then (at_least_n_args args 1) (
     io_bind (if length args = 1 then current_packet else given_packet (args ! 0)) (\<lambda>(packet_id, copy_id).
     let field_name = (if length args = 1 then args ! 0 else args ! 1) in
     io_bind (field_id_from_name field_name) (\<lambda>field_id.
     io_bind (request env GET_VALUE
       [(''packet_id'', packet_id), (''copy_id'', copy_id), (''fid'', FInt field_id)]) (\<lambda>m.
     if cls m = MsgCls STATUS then
       io_bind (int_attr m ''status'') (\<lambda>st.
       if st = 1 then pr [''Unknown packet id. Maybe it left the switch already'']
       else if st = 2 then
         pr [''We have not received a value for this field, maybe it is not valid (yet), or the value is 0'']
       else io_raise AssertionError)
     else
       io_then (check_msg_CLS m (MsgCls FIELD_VALUE)) (
       io_bind (attr m ''bytes_str'') (\<lambda>s. io_bind (attr m ''bytes_int'') (\<lambda>v.
       print_with [fval_str s] (fmt_paren v) []))))))))"

text \<open>\<open>struct.unpack("%di" % nb, ctrs)\<close> and the line made of the resolved control points.\<close>

definition backtrace_ctrs :: "int \<Rightarrow> fval \<Rightarrow> int list res" where
  "backtrace_ctrs nb ctrs =
     (case ctrs of
        FStr s \<Rightarrow> res_bind (unpack (replicate (nat nb) Fmt_i) s)
                    (res_map (\<lambda>v. case v of FInt i \<Rightarrow> Inr i | _ \<Rightarrow> Inl TypeError))
      | _ \<Rightarrow> Inl TypeError)"

definition do_backtrace :: "'s dbg_env \<Rightarrow> string \<Rightarrow> ('s, unit) dbg_io" where
  "do_backtrace env line = dbg_handle_bad_input (
     let args = py_split line in
     io_bind (if args = [] then current_packet else given_packet (args ! 0)) (\<lambda>(packet_id, copy_id).
     io_bind (request env GET_BACKTRACE [(''packet_id'', packet_id), (''copy_id'', copy_id)]) (\<lambda>m.
     if cls m = MsgCls STATUS then
       io_bind (int_attr m ''status'') (\<lambda>st.
       if st = 1 then pr [''Unknown packet id. Maybe it left the switch already''] else io_raise AssertionError)
     else
       io_then (check_msg_CLS m (MsgCls BACKTRACE)) (
       io_bind (int_attr m ''nb'') (\<lambda>nb.
       io_bind (attr m ''ctrs'') (\<lambda>c.
       io_bind (io_lift (backtrace_ctrs nb c)) (\<lambda>ctrs.
       io_bind (io_gets (\<lambda>w. res_map (resolve_ctr (the_obj_map w)) ctrs)) (\<lambda>r.
       io_bind (io_lift r) (\<lambda>ps.
       pr [py_join '' -> '' (map (\<lambda>(t, n). opt_str t @ '' '' @ quoted n) ps)])))))))))"

section \<open>Packets\<close>

definition do_break_packet_in :: "'s dbg_env \<Rightarrow> string \<Rightarrow> ('s, unit) dbg_io" where
  "do_break_packet_in env line = dbg_handle_bad_input (
     io_then (request_ok env BREAK_PACKET_IN []) (io_modify (break_packet_in_update (\<lambda>_. Some True))))"

definition do_remove_packet_in :: "'s dbg_env \<Rightarrow> string \<Rightarrow> ('s, unit) dbg_io" where
  "do_remove_packet_in env line = dbg_handle_bad_input (
     io_bind (io_gets break_packet_in) (\<lambda>a.
     io_bind (io_lift (or_raise AttributeError a)) (\<lambda>is_set.
     if \<not> is_set then pr [''Packet in breakpoint was not previously set'']
     else io_then (request_ok env REMOVE_PACKET_IN []) (io_modify (break_packet_in_update (\<lambda>_. Some False))))))"

definition do_stop_packet_in :: "'s dbg_env \<Rightarrow> string \<Rightarrow> ('s, unit) dbg_io" where
  "do_stop_packet_in env line = dbg_handle_bad_input (
     io_then (request_ok env STOP_PACKET_IN []) (io_modify (stop_packet_in_update (\<lambda>_. Some True))))"

definition do_resume_packet_in :: "'s dbg_env \<Rightarrow> string \<Rightarrow> ('s, unit) dbg_io" where
  "do_resume_packet_in env line = dbg_handle_bad_input (
     io_bind (io_gets stop_packet_in) (\<lambda>a.
     io_bind (io_lift (or_raise AttributeError a)) (\<lambda>is_set.
     if \<not> is_set then pr [''stop_packet_in was not being enforced'']
     else io_then (request_ok env RESUME_PACKET_IN []) (io_modify (stop_packet_in_update (\<lambda>_. Some False))))))"

text \<open>One iteration of the first loop of \<open>do_filter_notifications\<close>, which looks at \<open>pid\<close> but reads a
  dotted id from the first argument.\<close>

definition filter_pid :: "string list \<Rightarrow> string \<Rightarrow> (int \<times> int) res" where
  "filter_pid args pid =
     (if CHR ''.'' \<in> set pid then packet_id_from_str (args ! 0)
      else res_bind (or_raise (UIn_Error ''Bad format for packet id'') (py_int pid)) (\<lambda>i.
           Inr (i, 0xffffffffffffffff)))"

definition pack_pid :: "int \<times> int \<Rightarrow> string res" where
  "pack_pid pc = pack_fields [Fmt_Q, Fmt_Q] [FInt (fst pc), FInt (snd pc)]"

definition do_filter_notifications :: "'s dbg_env \<Rightarrow> string \<Rightarrow> ('s, unit) dbg_io" where
  "do_filter_notifications env line = dbg_handle_bad_input (
     let args = py_split line in
     io_bind (io_lift (res_map (filter_pid args) args)) (\<lambda>pids.
     io_bind (io_lift (res_map pack_pid pids)) (\<lambda>ss.
     request_ok env FILTER_NOTIFICATIONS [(''nb'', FInt (int (length pids))), (''ids'', FStr (concat ss))])))"

definition do_skip :: "string \<Rightarrow> ('s, unit) dbg_io" where
  "do_skip line = dbg_handle_bad_input (
     io_bind (io_gets current_packet_id) (\<lambda>p. io_bind (io_gets current_copy_id) (\<lambda>c.
     case p of
       None \<Rightarrow> io_ret ()
     | Some packet_id \<Rightarrow>
         (case c of
            None \<Rightarrow> io_raise AssertionError
          | Some copy_id \<Rightarrow> io_modify (skips_update (List.insert (packet_id, copy_id)))))))"

definition do_skip_all :: "string \<Rightarrow> ('s, unit) dbg_io" where
  "do_skip_all line = dbg_handle_bad_input (
     io_bind (io_gets current_packet_id) (\<lambda>p. io_bind (io_gets current_copy_id) (\<lambda>c.
     case p of
       None \<Rightarrow> io_ret ()
     | Some packet_id \<Rightarrow>
         io_then (py_assert (c \<noteq> None)) (io_modify (skips_all_update (List.insert packet_id))))))"

text \<open>\<open>do_CLI\<close> without a runtime CLI returns an exception object, which is true, so that the command loop
  stops; the result of the runtime CLI's \<open>onecmd\<close> is dropped. Its client has no multicast service.\<close>

definition do_CLI :: "'s dbg_env \<Rightarrow> string \<Rightarrow> ('s, bool) dbg_io" where
  "do_CLI env line =
     (if \<not> with_runtime_CLI env \<or> \<not> have_client env then io_ret True
      else
        io_bind (io_gets cli_lastcmd) (\<lambda>lastcmd.
        io_bind (with_world (onecmd ((d_api env)\<lparr>mc_client := None, api_pre_type := PreType_None\<rparr>) (d_help env) lastcmd line))
          (\<lambda>(_, lastcmd'). io_then (io_modify (cli_lastcmd_update (\<lambda>_. lastcmd'))) (io_ret False))))"

section \<open>Completion\<close>

definition complete_set_wp :: "'s dbg \<Rightarrow> string \<Rightarrow> string list" where
  "complete_set_wp w text = filter (starts_with text) (sort (get_all_fields (the_field_map w)))"

definition complete_unset_wp :: "'s dbg \<Rightarrow> string \<Rightarrow> string list res" where
  "complete_unset_wp w text =
     res_bind (res_map (get_name_from_field_id (the_field_map w)) (wps w)) (\<lambda>ns.
     Inr (filter (starts_with text) (sort ns)))"

definition complete_break :: "'s dbg \<Rightarrow> string \<Rightarrow> string \<Rightarrow> string list" where
  "complete_break w text line =
     (let args = py_split line; n = length args in
      if (n = 1 \<and> text = []) \<or> (n = 2 \<and> text \<noteq> []) then filter (starts_with text) (map snd object_ids)
      else if (n = 2 \<and> text = []) \<or> (n = 3 \<and> text \<noteq> [])
      then filter (starts_with text) (map snd (names (store_at (the_obj_map w) (args ! 1))))
      else [])"

definition complete_delete :: "'s dbg_env \<Rightarrow> 's dbg \<Rightarrow> string \<Rightarrow> string \<Rightarrow> string list res" where
  "complete_delete env w text line =
     (let args = py_split line; n = length args in
      if bps w = [] then Inr []
      else res_bind (res_map (resolve_ctr (the_obj_map w)) (set_order env (bps w))) (\<lambda>objs.
        if (n = 1 \<and> text = []) \<or> (n = 2 \<and> text \<noteq> [])
        then res_bind (res_map (\<lambda>(t, _). or_raise AttributeError t) objs) (\<lambda>ts.
             Inr (filter (starts_with text) ts))
        else if (n = 2 \<and> text = []) \<or> (n = 3 \<and> text \<noteq> [])
        then Inr (map snd (filter (\<lambda>(t, m). t = Some (args ! 1) \<and> starts_with text m) objs))
        else Inr []))"

definition complete_print :: "'s dbg \<Rightarrow> string \<Rightarrow> string list" where
  "complete_print w text = filter (starts_with text) (sort (get_all_fields (the_field_map w)))"

section \<open>Command loop and main\<close>

text \<open>The commands that return \<open>None\<close>, and the short names of some of them.\<close>

definition dbg_commands :: "nat \<Rightarrow> 's dbg_env \<Rightarrow> (string \<times> (string \<Rightarrow> ('s, unit) dbg_io)) list" where
  "dbg_commands fuel env =
    [(''continue'', do_continue fuel env), (''next'', do_next fuel env), (''reset'', do_reset env),
     (''set_wp'', do_set_wp env), (''unset_wp'', do_unset_wp env), (''show_wps'', do_show_wps env),
     (''break'', do_break env), (''delete'', do_delete env), (''show_bps'', do_show_bps env),
     (''print'', do_print env), (''backtrace'', do_backtrace env),
     (''break_packet_in'', do_break_packet_in env), (''remove_packet_in'', do_remove_packet_in env),
     (''stop_packet_in'', do_stop_packet_in env), (''resume_packet_in'', do_resume_packet_in env),
     (''filter_notifications'', do_filter_notifications env), (''skip'', do_skip), (''skip_all'', do_skip_all)]"

definition shortcuts :: "(string \<times> string) list" where
  "shortcuts = [(''c'', ''continue''), (''n'', ''next''), (''p'', ''print''), (''w'', ''set_wp''),
     (''bt'', ''backtrace''), (''b'', ''break''), (''d'', ''delete'')]"

definition long_name :: "string \<Rightarrow> string" where
  "long_name cmd = (case map_of shortcuts cmd of Some l \<Rightarrow> l | None \<Rightarrow> cmd)"

definition dbg_run_line :: "nat \<Rightarrow> 's dbg_env \<Rightarrow> string \<Rightarrow> ('s, bool) dbg_io" where
  "dbg_run_line fuel env line0 =
     (case parseline line0 of (cmd, arg, line) \<Rightarrow>
        if cmd = ''EOF'' then dbg_do_EOF env arg
        else if cmd = ''help'' then io_then (pr [d_help env arg]) (io_ret False)
        else if cmd = ''CLI'' then do_CLI env arg
        else case map_of (dbg_commands fuel env) (long_name cmd) of
               Some f \<Rightarrow> io_then (f arg) (io_ret False)
             | None \<Rightarrow> io_then (pr [''*** Unknown syntax: '' @ line]) (io_ret False))"

text \<open>This class has no \<open>do_shell\<close>: a line that starts with an exclamation mark is unknown, and does not
  become the last command.\<close>

definition dbg_onecmd :: "nat \<Rightarrow> 's dbg_env \<Rightarrow> string \<Rightarrow> string \<Rightarrow> ('s, bool \<times> string) dbg_io" where
  "dbg_onecmd fuel env lastcmd line =
     (if strip line \<noteq> [] \<and> hd (strip line) = CHR ''!''
      then io_then (pr [''*** Unknown syntax: '' @ strip line]) (io_ret (False, lastcmd))
      else onecmd_by (dbg_run_line fuel env) lastcmd line)"

definition read_line :: "('s, string) dbg_io" where
  "read_line = (\<lambda>w. case stdin w of [] \<Rightarrow> (Inr ''EOF'', w) | l # ls \<Rightarrow> (Inr l, w\<lparr>stdin := ls\<rparr>))"

text \<open>The first number bounds the lines that are read, the second the rounds of one wait for events.
  The result is whether the loop has come to its end within that many lines.\<close>

fun dbg_cmdloop :: "nat \<Rightarrow> nat \<Rightarrow> 's dbg_env \<Rightarrow> string \<Rightarrow> ('s, bool) dbg_io" where
  "dbg_cmdloop 0 fuel env lastcmd = io_ret False"
| "dbg_cmdloop (Suc n) fuel env lastcmd =
     io_bind read_line (\<lambda>line.
     io_bind (dbg_onecmd fuel env lastcmd line) (\<lambda>(stop, lastcmd').
     if stop then io_ret True else dbg_cmdloop n fuel env lastcmd'))"

text \<open>\<open>except Exception\<close> catches neither \<open>SystemExit\<close> nor \<open>KeyboardInterrupt\<close>, and a run that does not end
  raises nothing.\<close>

definition bye_if_attached :: "'s dbg_env \<Rightarrow> ('s, unit) dbg_io" where
  "bye_if_attached env = io_bind (io_gets attached) (\<lambda>a. if a then say_bye env else io_ret ())"

definition dbg_session :: "nat \<Rightarrow> nat \<Rightarrow> 's dbg_env \<Rightarrow> ('s, unit) dbg_io" where
  "dbg_session n fuel env =
     io_catch (io_then (attach env) (io_then (pr [''Prototype for Debugger UI'']) (
       io_bind (dbg_cmdloop n fuel env []) (\<lambda>ended. if ended then io_ret () else io_raise OutOfFuel)))) (\<lambda>e.
       case e of
         KeyboardInterrupt \<Rightarrow> bye_if_attached env
       | SystemExit _ \<Rightarrow> io_raise e
       | OutOfFuel \<Rightarrow> io_raise e
       | _ \<Rightarrow> io_then (pr [''Unknow error, detaching and exiting'']) (
              io_then (pr [exn_str env e]) (bye_if_attached env)))"

definition p4dbg_main ::
  "nat \<Rightarrow> nat \<Rightarrow> 's dbg_env \<Rightarrow> bool \<Rightarrow> int \<Rightarrow> bool \<Rightarrow> string option \<Rightarrow> string option \<Rightarrow> ('s, unit) dbg_io" where
  "p4dbg_main n fuel env transport_opens thrift_port connects json socket =
     io_then (if json \<noteq> None
              then pr [''Command line option '' @ quoted ''--json'' @ '' is deprecated'', ''and will be ignored'']
              else io_ret ()) (
     io_bind (thrift_connect_standard transport_opens thrift_port) (\<lambda>_.
     io_bind (expect as_info (std (d_api env) (Call ''bm_mgmt_get_info'' []))) (\<lambda>info.
     case map_of info ''debugger_socket'' of
       None \<Rightarrow>
         io_then (pr [''The debugger is not enabled on the switch'']) (io_raise (SystemExit 1))
     | Some addr \<Rightarrow>
         io_then (if socket \<noteq> None then io_ret ()
                  else pr [quoted ''--socket'' @ '' not provided, using'', addr, ''(obtained from switch)'']) (
         io_then (DebuggerAPI_init env connects) (dbg_session n fuel env)))))"

end
