(* ===== verification/P4dbg_Safety.thy ===== *)
theory P4dbg_Safety
  imports P4dbg_Cmds
begin

text \<open>
  What holds of the debugger: the type of a received message, the invariant of the session, that
  the command loop and the wait for events end, and which event is reported.
\<close>

section \<open>The type of a received message\<close>

lemma extract_msg_type:
  assumes "extract_msg data (init_msg c kwargs) = Inr (m, off)"
  shows "cls m = c" "4 \<le> length data" "getattr (attrs m) ''type'' = Inr (decode Fmt_i (take 4 data))"
proof -
  obtain more where fmt: "full_fmt c = basic_fmt @ more" using full_fmt_basic by blast
  then obtain as where as: "extract_fields (full_fmt c) data 0 (attrs (init_msg c kwargs)) = Inr (as, off)"
    "m = \<lparr>cls = c, attrs = as\<rparr>"
    using assms by (auto simp: extract_msg_def init_msg_def res_bind_Inr_iff)
  then obtain v where v: "unpack_from Fmt_i data 0 = Inr v"
    "extract_fields (tl (full_fmt c)) data 4 (setattr ''type'' v (attrs (init_msg c kwargs))) = Inr (as, off)"
    by (auto simp: fmt basic_fmt_def res_bind_Inr_iff)
  have "fmt_ok [''type''] (tl (full_fmt c))"
    using fmt_ok_full_fmt [of c] by (simp add: fmt basic_fmt_def)
  then have "getattr as ''type'' = Inr v" using extract_fields_keeps [OF v(2)] by simp
  then show "cls m = c" "4 \<le> length data" "getattr (attrs m) ''type'' = Inr (decode Fmt_i (take 4 data))"
    using v(1) as(2) by (auto simp: unpack_from_def split: if_splits)
qed

lemma MsgTypeToCLS_Inr: "MsgTypeToCLS code = Inr c \<Longrightarrow> \<exists>t. c = MsgCls t \<and> type_code t = code"
  by (auto simp: MsgTypeToCLS_def dest!: map_of_SomeD)

lemma decode_msg_type:
  assumes "decode_msg data = Inr m"
  shows "\<exists>t. cls m = MsgCls t \<and> getattr (attrs m) ''type'' = Inr (FInt (type_code t))"
proof -
  obtain b o1 ty c o2 where b: "extract_msg data (init_msg BasicMsg []) = Inr (b, o1)"
    and ty: "get_int (attrs b) ''type'' = Inr ty" and c: "MsgTypeToCLS ty = Inr c"
    and m: "extract_msg data (init_msg c []) = Inr (m, o2)"
    using assms by (auto simp: decode_msg_def res_bind_Inr_iff)
  obtain t where t: "c = MsgCls t" "type_code t = ty" using MsgTypeToCLS_Inr [OF c] by blast
  have "decode Fmt_i (take 4 data) = FInt ty"
    using ty extract_msg_type(3) [OF b] by (auto simp: get_int_def split: fval.splits)
  then show ?thesis using extract_msg_type(1,3) [OF m] t by simp
qed

section \<open>Invariant of a session\<close>

text \<open>There is a current packet exactly when there is a current copy, request ids count up from zero, and
  the sets have no duplicates.\<close>

definition dbg_inv :: "'s dbg \<Rightarrow> bool" where
  "dbg_inv w \<longleftrightarrow> (current_packet_id w = None \<longleftrightarrow> current_copy_id w = None) \<and> 0 \<le> req_id w \<and>
     distinct (wps w) \<and> distinct (bps w) \<and> distinct (skips w) \<and> distinct (skips_all w)"

definition dbg_frame :: "'s dbg \<Rightarrow> 's dbg \<Rightarrow> bool" where
  "dbg_frame w w' \<longleftrightarrow> (dbg_inv w \<longrightarrow> dbg_inv w') \<and> req_id w \<le> req_id w' \<and> length (stdin w') \<le> length (stdin w)"

interpretation dbg: io_frame dbg_frame
  by unfold_locales (auto simp: dbg_frame_def)

lemma keeps_modify: "(\<And>w. dbg_frame w (f w)) \<Longrightarrow> io_keeps dbg_frame (io_modify f)"
  by (simp add: io_keeps_def io_simps)

lemma keeps_if: "io_keeps R m \<Longrightarrow> io_keeps R n \<Longrightarrow> io_keeps R (if b then m else n)"
  by simp

lemma keeps_assign:
  "io_keeps dbg_frame (io_modify (get_me_a_prompt_update (\<lambda>_. b)))"
  "io_keeps dbg_frame (io_modify (attached_update (\<lambda>_. b)))"
  "io_keeps dbg_frame (io_modify (break_packet_in_update (\<lambda>_. o1)))"
  "io_keeps dbg_frame (io_modify (stop_packet_in_update (\<lambda>_. o1)))"
  "io_keeps dbg_frame (io_modify (json_cfg_update (\<lambda>_. s)))"
  "io_keeps dbg_frame (io_modify (cli_lastcmd_update (\<lambda>_. s)))"
  "io_keeps dbg_frame (io_modify (wps_update (\<lambda>_. [])))"
  "io_keeps dbg_frame (io_modify (wps_update (List.insert i)))"
  "io_keeps dbg_frame (io_modify (wps_update (removeAll i)))"
  "io_keeps dbg_frame (io_modify (bps_update (List.insert i)))"
  "io_keeps dbg_frame (io_modify (bps_update (removeAll i)))"
  "io_keeps dbg_frame (io_modify (skips_update (List.insert pc)))"
  "io_keeps dbg_frame (io_modify (skips_all_update (List.insert i)))"
  "io_keeps dbg_frame (io_modify (\<lambda>w. w\<lparr>current_packet_id := Some p, current_copy_id := Some c\<rparr>))"
  "io_keeps dbg_frame dbg_reset"
  by (auto intro!: keeps_modify simp: dbg_reset_def dbg_frame_def dbg_inv_def distinct_removeAll)

lemma keeps_more:
  "io_keeps dbg_frame (with_world m)"
  "io_keeps dbg_frame (with_cfg n)"
  "io_keeps dbg_frame (with_field_map f)"
  "io_keeps dbg_frame (with_obj_map g)"
  "io_keeps dbg_frame (send env data)"
  "io_keeps dbg_frame (recv env)"
  "io_keeps dbg_frame (emit e)"
  "io_keeps dbg_frame (pr parts)"
  "io_keeps dbg_frame (std api call)"
  by (auto simp: io_keeps_def with_world_def with_cfg_def with_field_map_def with_obj_map_def send_def recv_def
      io_simps dbg_frame_def dbg_inv_def split: prod.split)

lemma keeps_get_req_id: "io_keeps dbg_frame get_req_id"
  by (auto simp: io_keeps_def get_req_id_def io_simps dbg_frame_def dbg_inv_def)

lemma keeps_args:
  "io_keeps dbg_frame (exactly_n_args as n)" "io_keeps dbg_frame (at_least_n_args as n)"
  by (simp_all add: io_keeps_def io_simps dbg.frame_refl)

lemmas keeps_dbg = dbg.keeps_intros keeps_if keeps_assign keeps_more keeps_get_req_id keeps_args

lemma prompt_loop_frame: "length ls \<le> length (stdin w) \<Longrightarrow> dbg_frame w (snd (prompt_loop q ls w))"
proof (induction ls arbitrary: w)
  case Nil
  then show ?case by (simp add: io_simps dbg_frame_def dbg_inv_def)
next
  case (Cons l ls)
  let ?v = "w\<lparr>events := events w @ [OutPart q], stdin := ls\<rparr>"
  let ?u = "?v\<lparr>events := events ?v @ [Out (py_join '' '' [respond_line])]\<rparr>"
  have "dbg_frame w ?v" using Cons(2) by (auto simp: dbg_frame_def dbg_inv_def)
  moreover have "dbg_frame ?v ?u" by (auto simp: dbg_frame_def dbg_inv_def)
  moreover have "dbg_frame ?u (snd (prompt_loop q ls ?u))" by (rule Cons(1)) simp
  ultimately show ?case
    by (auto simp: io_simps split: option.split intro: dbg.frame_trans)
qed

lemma keeps_prompt_yes_no: "io_keeps dbg_frame (prompt_yes_no q d)"
  by (rule io_keepsI) (simp add: prompt_yes_no_def io_simps prompt_loop_frame)

lemma keeps_wait: "io_keeps dbg_frame (wait_for_msg env)"
  unfolding wait_for_msg_def by (intro keeps_dbg)

lemma keeps_option:
  "io_keeps R m \<Longrightarrow> (\<And>a. io_keeps R (f a)) \<Longrightarrow> io_keeps R (case x of None \<Rightarrow> m | Some a \<Rightarrow> f a)"
  by (cases x) auto

lemma keeps_sum:
  "(\<And>e. io_keeps R (g e)) \<Longrightarrow> (\<And>a. io_keeps R (f a)) \<Longrightarrow> io_keeps R (case x of Inl e \<Rightarrow> g e | Inr a \<Rightarrow> f a)"
  by (cases x) auto

lemma keeps_prod: "(\<And>a b. io_keeps R (f a b)) \<Longrightarrow> io_keeps R (case x of (a, b) \<Rightarrow> f a b)"
  by (cases x) auto

lemma keeps_fval:
  "(\<And>i. io_keeps R (f i)) \<Longrightarrow> (\<And>s. io_keeps R (g s)) \<Longrightarrow> io_keeps R h \<Longrightarrow>
   io_keeps R (case x of FInt i \<Rightarrow> f i | FStr s \<Rightarrow> g s | FNone \<Rightarrow> h)"
  by (cases x) auto

lemma keeps_wait_result:
  "io_keeps R a \<Longrightarrow> io_keeps R b \<Longrightarrow> (\<And>m. io_keeps R (f m)) \<Longrightarrow>
   io_keeps R (case x of Waiting \<Rightarrow> a | Gave_up \<Rightarrow> b | Event m \<Rightarrow> f m)"
  by (cases x) auto

lemmas keeps_cases = keeps_option keeps_sum keeps_prod keeps_fval keeps_wait_result

lemma keeps_small:
  "io_keeps dbg_frame (py_assert b)"
  "io_keeps dbg_frame (attr m n)"
  "io_keeps dbg_frame (int_attr m n)"
  "io_keeps dbg_frame (check_msg_CLS m c)"
  "io_keeps dbg_frame (print_with xs r ys)"
  unfolding py_assert_def attr_def int_attr_def check_msg_CLS_def print_with_def
  by (intro keeps_cases keeps_dbg)+

lemma keeps_requests:
  "io_keeps dbg_frame (new_req t kwargs)"
  "io_keeps dbg_frame (send_msg env m)"
  "io_keeps dbg_frame (request env t kwargs)"
  "io_keeps dbg_frame (request_ok env t kwargs)"
  unfolding new_req_def send_msg_def request_def request_ok_def
  by (intro keeps_dbg keeps_small keeps_wait)+

lemma keeps_session_parts:
  "io_keeps dbg_frame (json_dependent_init env)"
  "io_keeps dbg_frame (send_attach env)"
  "io_keeps dbg_frame (attach env)"
  "io_keeps dbg_frame (send_reset env)"
  unfolding json_dependent_init_def init_runtime_CLI_def send_attach_def attach_def send_reset_def
  by (intro keeps_dbg keeps_small keeps_wait keeps_requests)+

lemma keeps_handle_config_change: "io_keeps dbg_frame (handle_config_change env)"
  unfolding handle_config_change_def by (intro keeps_dbg keeps_prompt_yes_no keeps_session_parts)

lemma keeps_say_bye: "io_keeps dbg_frame (say_bye env)"
  unfolding say_bye_def by (intro keeps_cases keeps_dbg keeps_small keeps_wait keeps_requests)

lemma keeps_recv_event: "io_keeps dbg_frame (recv_event n env)"
  by (induction n) (simp_all, (intro keeps_dbg keeps_wait | assumption)+)

lemma keeps_skip_event: "io_keeps dbg_frame (skip_event is_next m p c)"
  unfolding skip_event_def by (intro keeps_dbg keeps_small)

lemma keeps_continue_or_next: "io_keeps dbg_frame (continue_or_next n env req is_next)"
  by (induction n)
     (simp_all del: recv_event.simps,
      (intro keeps_cases keeps_dbg keeps_requests keeps_recv_event keeps_small keeps_skip_event
         keeps_handle_config_change | assumption)+)

lemma keeps_handle: "io_keeps dbg_frame f \<Longrightarrow> io_keeps dbg_frame (dbg_handle_bad_input f)"
  unfolding dbg_handle_bad_input_def
  by (rule dbg.keeps_catch) (auto split: py_exn.split intro!: keeps_dbg)

lemma keeps_special_update: "io_keeps dbg_frame (special_update i v)"
  unfolding special_update_def by (intro keeps_cases keeps_dbg)

lemma keeps_print_event: "io_keeps dbg_frame (print_event watched what m)"
  unfolding print_event_def print_new_value_def
  by (intro keeps_cases keeps_dbg keeps_small keeps_special_update)

lemma keeps_lookups:
  "io_keeps dbg_frame (field_id_from_name n)"
  "io_keeps dbg_frame (break_ctr as)"
  "io_keeps dbg_frame current_packet"
  "io_keeps dbg_frame (given_packet s)"
  unfolding field_id_from_name_def break_ctr_def current_packet_def given_packet_def
  by (intro keeps_cases keeps_dbg)+

lemmas keeps_cmd = keeps_handle keeps_cases keeps_dbg keeps_small keeps_requests keeps_continue_or_next
  keeps_print_event keeps_session_parts keeps_lookups keeps_say_bye

lemma keeps_event_commands:
  "io_keeps dbg_frame (do_continue fuel env line)"
  "io_keeps dbg_frame (do_next fuel env line)"
  "io_keeps dbg_frame (do_reset env line)"
  "io_keeps dbg_frame (dbg_do_EOF env line)"
  "io_keeps dbg_frame (do_CLI env line)"
  unfolding do_continue_def do_next_def do_reset_def dbg_do_EOF_def do_CLI_def
  by (intro keeps_cmd)+

lemma keeps_point_commands:
  "io_keeps dbg_frame (do_set_wp env line)"
  "io_keeps dbg_frame (do_unset_wp env line)"
  "io_keeps dbg_frame (do_show_wps env line)"
  "io_keeps dbg_frame (do_break env line)"
  "io_keeps dbg_frame (do_delete env line)"
  "io_keeps dbg_frame (do_show_bps env line)"
  unfolding do_set_wp_def do_unset_wp_def do_show_wps_def do_break_def do_delete_def do_show_bps_def Let_def
  by (intro keeps_cmd)+

lemma keeps_packet_commands:
  "io_keeps dbg_frame (do_print env line)"
  "io_keeps dbg_frame (do_backtrace env line)"
  "io_keeps dbg_frame (do_break_packet_in env line)"
  "io_keeps dbg_frame (do_remove_packet_in env line)"
  "io_keeps dbg_frame (do_stop_packet_in env line)"
  "io_keeps dbg_frame (do_resume_packet_in env line)"
  "io_keeps dbg_frame (do_filter_notifications env line)"
  "io_keeps dbg_frame (do_skip line)"
  "io_keeps dbg_frame (do_skip_all line)"
  unfolding do_print_def do_backtrace_def do_break_packet_in_def do_remove_packet_in_def do_stop_packet_in_def
    do_resume_packet_in_def do_filter_notifications_def do_skip_def do_skip_all_def Let_def
  by (intro keeps_cmd)+

lemmas keeps_commands = keeps_event_commands keeps_point_commands keeps_packet_commands

lemma keeps_dbg_commands: "(name, f) \<in> set (dbg_commands fuel env) \<Longrightarrow> io_keeps dbg_frame (f arg)"
  unfolding dbg_commands_def by (auto intro!: keeps_commands)

lemma keeps_dbg_run_line: "io_keeps dbg_frame (dbg_run_line fuel env line)"
proof -
  obtain cmd arg l where p: "parseline line = (cmd, arg, l)" by (cases "parseline line")
  show ?thesis
    unfolding dbg_run_line_def p
    by (auto intro!: keeps_dbg keeps_commands dest!: map_of_SomeD split: option.split
        intro: keeps_dbg_commands)
qed

lemma keeps_dbg_onecmd: "io_keeps dbg_frame (dbg_onecmd fuel env lastcmd line)"
  unfolding dbg_onecmd_def onecmd_by_def by (intro keeps_dbg keeps_dbg_run_line)

text \<open>The states of a session: the one after the constructor, and those after any line.\<close>

inductive dbg_reach :: "nat \<Rightarrow> 's dbg_env \<Rightarrow> 's dbg \<Rightarrow> bool" for fuel env where
  start: "DebuggerAPI_init env True w = (r, w') \<Longrightarrow> dbg_reach fuel env w'"
| attach: "dbg_reach fuel env w \<Longrightarrow> attach env w = (r, w') \<Longrightarrow> dbg_reach fuel env w'"
| line: "dbg_reach fuel env w \<Longrightarrow> dbg_onecmd fuel env lastcmd line w = (r, w') \<Longrightarrow> dbg_reach fuel env w'"

lemma DebuggerAPI_init_inv:
  assumes "DebuggerAPI_init env True w = (r, w')"
  shows "dbg_inv w'"
proof -
  define v where "v = snd (dbg_reset (w\<lparr>req_id := 0\<rparr>))"
  have "dbg_inv v" by (simp add: v_def dbg_reset_def io_simps dbg_inv_def)
  moreover have "DebuggerAPI_init env True w = json_dependent_init env v"
    by (simp add: DebuggerAPI_init_def v_def dbg_reset_def io_simps)
  then have "dbg_frame v w'" using assms io_keepsD [OF keeps_session_parts(1)] by metis
  ultimately show ?thesis by (simp add: dbg_frame_def)
qed

text \<open>
  C27. In every state of a debugging session, whatever the user types and whatever the switch and the
  socket answer, there is a current packet id exactly when there is a current copy id, so the
  assertion of the commands \<open>skip\<close> and \<open>skip_all\<close> cannot fail; the request counter is not negative and
  no set holds an element twice.
\<close>

theorem dbg_reach_inv:
  assumes "dbg_reach fuel env w"
  shows "dbg_inv w \<and> fst (do_skip line w) \<noteq> Inl AssertionError \<and> fst (do_skip_all line w) \<noteq> Inl AssertionError"
proof -
  have inv: "dbg_inv w"
    using assms
  proof induction
    case (start w r w')
    then show ?case by (rule DebuggerAPI_init_inv)
  next
    case (attach w r w')
    then show ?case using io_keepsD [OF keeps_session_parts(3)] by (metis dbg_frame_def)
  next
    case (line w lastcmd line r w')
    then show ?case using io_keepsD [OF keeps_dbg_onecmd] by (metis dbg_frame_def)
  qed
  then have "fst (do_skip line w) \<noteq> Inl AssertionError" "fst (do_skip_all line w) \<noteq> Inl AssertionError"
    by (auto simp: dbg_inv_def do_skip_def do_skip_all_def dbg_handle_bad_input_def py_assert_def io_simps
        split: option.split)
  then show ?thesis using inv by simp
qed

section \<open>The session ends\<close>

lemma dbg_onecmd_eof:
  assumes "dbg_onecmd fuel env lastcmd ''EOF'' w = (Inr (stop, last'), w')"
  shows "stop"
proof -
  have p: "parseline ''EOF'' = (''EOF'', [], ''EOF'')" by code_simp
  have "strip ''EOF'' = ''EOF''" by code_simp
  then show ?thesis
    using assms by (auto simp: dbg_onecmd_def onecmd_by_def dbg_run_line_def p dbg_do_EOF_def io_simps
        split: prod.splits sum.splits)
qed


section \<open>Waiting for an event ends\<close>

text \<open>A measure of what the switch still has to say: every receive that is not a timeout lowers it, and
  sending does not raise it.\<close>

definition runs_dry :: "('s \<Rightarrow> nat) \<Rightarrow> 's dbg_env \<Rightarrow> bool" where
  "runs_dry \<mu> env \<longleftrightarrow>
     (\<forall>s. fst (sok_recv env s) = Inl AssertionError \<or> \<mu> (snd (sok_recv env s)) < \<mu> s) \<and>
     (\<forall>data s. \<mu> (snd (sok_send env data s)) \<le> \<mu> s)"

lemma wait_for_msg_apply:
  "wait_for_msg env w =
    (res_bind (fst (sok_recv env (switch w))) decode_msg, w\<lparr>switch := snd (sok_recv env (switch w))\<rparr>)"
  by (simp add: wait_for_msg_def recv_def io_simps res_bind_def split: prod.split sum.split)

lemma recv_event_ends:
  assumes "runs_dry \<mu> env" "\<mu> (switch w) < n" "recv_event n env w = (r, w')"
  shows "r \<noteq> Inr Waiting" "r = Inr (Event m) \<Longrightarrow> \<mu> (switch w') < \<mu> (switch w)"
proof -
  have "r \<noteq> Inr Waiting \<and> (\<forall>m. r = Inr (Event m) \<longrightarrow> \<mu> (switch w') < \<mu> (switch w))"
    using assms(2,3)
  proof (induction n arbitrary: w)
    case (Suc n)
    obtain a s where rcv: "sok_recv env (switch w) = (a, s)" by fastforce
    let ?v = "w\<lparr>switch := s, get_me_a_prompt := True\<rparr>"
    have dry: "a = Inl AssertionError \<or> \<mu> s < \<mu> (switch w)"
      using assms(1) rcv by (auto simp: runs_dry_def dest: spec [of _ "switch w"])
    show ?case
    proof (cases "res_bind a decode_msg = Inl KeyboardInterrupt")
      case True
      then have "\<mu> s < \<mu> (switch w)" using dry by auto
      moreover have "recv_event n env ?v = (r, w')" using Suc(3) rcv True
        by (simp add: io_simps wait_for_msg_apply)
      ultimately show ?thesis using Suc(1) [of ?v] Suc(2) by force
    next
      case False
      then show ?thesis using Suc(3) rcv dry
        by (auto simp: io_simps wait_for_msg_apply res_bind_Inr_iff split: sum.splits if_splits)
    qed
  qed simp
  then show "r \<noteq> Inr Waiting" "r = Inr (Event m) \<Longrightarrow> \<mu> (switch w') < \<mu> (switch w)" by auto
qed

lemma send_msg_switch:
  assumes "runs_dry \<mu> env" "send_msg env req w = (r, w')"
  shows "\<mu> (switch w') \<le> \<mu> (switch w)"
  using assms by (auto simp: send_msg_def send_def io_simps runs_dry_def split: sum.splits prod.splits)
     (metis snd_conv)

text \<open>
  C25. \<open>continue_or_next\<close> returns if the switch falls silent: with a measure that every message
  received lowers, one round more than the measure is enough, whatever the messages are, for the wait
  to end with an event, by being given up, or by an exception.
\<close>

theorem continue_or_next_ends:
  assumes "runs_dry \<mu> env" "\<mu> (switch w) < n"
  shows "fst (continue_or_next n env req is_next w) \<noteq> Inr Waiting"
  using assms(2)
proof (induction n arbitrary: w)
  case (Suc n)
  obtain r1 w1 where sent: "send_msg env req w = (r1, w1)" by fastforce
  obtain r2 w2 where got: "recv_event (Suc n) env w1 = (r2, w2)" by fastforce
  have small: "\<mu> (switch w1) < Suc n" using send_msg_switch [OF assms(1) sent] Suc(2) by simp
  note rcv = recv_event_ends [OF assms(1) small got]
  have again: "fst (continue_or_next n env req is_next w3) \<noteq> Inr Waiting"
    if "r2 = Inr (Event m)" "switch w3 = switch w2" for m w3
    using Suc(1) [of w3] rcv(2) [OF that(1)] that(2) small by simp
  have skip: "switch w3 = switch w2" if "skip_event b m p c w2 = (x, w3)" for b m p c x w3
    using that by (auto simp: skip_event_def io_simps int_attr_def attr_def split: if_splits sum.splits)
  show ?case
  proof (cases r1)
    case Inl
    then show ?thesis using sent by (simp add: io_simps)
  next
    case (Inr a)
    then show ?thesis
      using sent got rcv(1) again [OF _ refl] again [OF _ skip]
      by (auto simp: io_simps int_attr_def check_msg_CLS_def py_assert_def simp del: recv_event.simps
          split: sum.splits wait_result.splits prod.splits)
  qed
qed simp

section \<open>Which event is reported\<close>

text \<open>The attributes of an extracted message: fixed fields are integers, and string fields have a
  value.\<close>

lemma extract_fields_values:
  assumes "extract_fields fs buf off as = Inr (as', off')" "fmt_ok seen fs" "(name, u) \<in> set fs"
  shows "case u of Uf f \<Rightarrow> \<exists>i. getattr as' name = Inr (FInt i)
    | Width uf src \<Rightarrow> \<exists>v. getattr as' (name @ ''_int'') = Inr v"
  using assms
proof (induction fs buf off as arbitrary: seen rule: extract_fields.induct)
  case (2 n f fs buf off as)
  then obtain v where v: "unpack_from f buf off = Inr v"
    "extract_fields fs buf (off + calcsize f) (setattr n v as) = Inr (as', off')"
    by (auto simp: res_bind_Inr_iff)
  have ok: "fmt_ok (n # seen) fs" "f \<in> {Fmt_i, Fmt_Q}" using 2 by auto
  have "getattr as' n = Inr v" using extract_fields_keeps [OF v(2) ok(1), of n] by simp
  moreover have "\<exists>i. v = FInt i" using v(1) ok(2) by (auto simp: unpack_from_def split: if_splits)
  ultimately show ?case using 2(1) [OF v(2) ok(1)] 2(4) by auto
next
  case (3 n uf src fs buf off as)
  then have fs: "fs = []" "name = n" "u = Width uf src" by auto
  show ?case using 3(2) unfolding fs by (auto simp: res_bind_Inr_iff Let_def)
qed simp

definition packet_of :: "msg \<Rightarrow> int" where
  "packet_of m = projr (get_int (attrs m) ''packet_id'')"

definition copy_of :: "msg \<Rightarrow> int" where
  "copy_of m = projr (get_int (attrs m) ''copy_id'')"

text \<open>The abstract view of the wait: which events are dropped, how many requests are sent, and the event
  that is reported, if there is one.\<close>

definition unwanted :: "'s dbg \<Rightarrow> bool \<Rightarrow> msg \<Rightarrow> bool" where
  "unwanted w is_next m \<longleftrightarrow>
     packet_of m \<in> set (skips_all w) \<or> (packet_of m, copy_of m) \<in> set (skips w) \<or>
     (\<not> is_next \<and> cls m = MsgCls FIELD_VALUE \<and> get_int (attrs m) ''fid'' = Inr FIELD_ID_CTR \<and>
      (\<forall>i \<in> set (bps w). getattr (attrs m) ''bytes_int'' \<noteq> Inr (FInt i)))"

fun first_wanted :: "(msg \<Rightarrow> bool) \<Rightarrow> msg list \<Rightarrow> nat \<times> msg option" where
  "first_wanted bad [] = (1, None)"
| "first_wanted bad (m # ms) =
     (if bad m then case first_wanted bad ms of (k, r) \<Rightarrow> (Suc k, r) else (1, Some m))"

text \<open>A switch that sends a list of messages, each on its own, and then nothing more.\<close>

definition scripted :: "string list dbg_env \<Rightarrow> bool" where
  "scripted env \<longleftrightarrow> (\<forall>data s. sok_send env data s = (Inr (), s)) \<and>
     (\<forall>s. sok_recv env s = (case s of [] \<Rightarrow> (Inl AssertionError, []) | x # xs \<Rightarrow> (Inr x, xs)))"

definition event_msg :: "msg \<Rightarrow> bool" where
  "event_msg m \<longleftrightarrow> (case cls m of MsgCls t \<Rightarrow> is_event t | _ \<Rightarrow> False)"

lemma event_attrs:
  assumes "decode_msg data = Inr m" "event_msg m"
  shows "get_int (attrs m) ''packet_id'' = Inr (packet_of m)" "get_int (attrs m) ''copy_id'' = Inr (copy_of m)"
    "cls m = MsgCls FIELD_VALUE \<Longrightarrow> \<exists>i v. get_int (attrs m) ''fid'' = Inr i \<and> getattr (attrs m) ''bytes_int'' = Inr v"
proof -
  obtain c o2 where m: "extract_msg data (init_msg c []) = Inr (m, o2)"
    using assms(1) by (auto simp: decode_msg_def res_bind_Inr_iff)
  then have c: "cls m = c" by (rule extract_msg_type)
  then obtain t where t: "c = MsgCls t" "is_event t" using assms(2) by (auto simp: event_msg_def split: msg_cls.splits)
  obtain as where as: "extract_fields (full_fmt c) data 0 (attrs (init_msg c [])) = Inr (as, o2)" "attrs m = as"
    using m by (auto simp: extract_msg_def init_msg_def res_bind_Inr_iff)
  note vals = extract_fields_values [OF as(1) fmt_ok_full_fmt]
  have "(''packet_id'', Uf Fmt_Q) \<in> set (full_fmt c)" "(''copy_id'', Uf Fmt_Q) \<in> set (full_fmt c)"
    using t by (auto simp: full_fmt_def event_fmt_def)
  then have "\<exists>i. get_int as ''packet_id'' = Inr i" "\<exists>i. get_int as ''copy_id'' = Inr i"
    using vals by (fastforce simp: get_int_def)+
  then show "get_int (attrs m) ''packet_id'' = Inr (packet_of m)" "get_int (attrs m) ''copy_id'' = Inr (copy_of m)"
    using as(2) by (auto simp: packet_of_def copy_of_def)
  assume "cls m = MsgCls FIELD_VALUE"
  then have "(''fid'', Uf Fmt_Q) \<in> set (full_fmt c)" "(''bytes'', Width 1 ''nbytes'') \<in> set (full_fmt c)"
    using c by (auto simp: full_fmt_def)
  then show "\<exists>i v. get_int (attrs m) ''fid'' = Inr i \<and> getattr (attrs m) ''bytes_int'' = Inr v"
    using vals as(2) by (fastforce simp: get_int_def)
qed

lemma skip_event_unwanted:
  assumes "decode_msg data = Inr m" "event_msg m"
  shows "skip_event is_next m (packet_of m) (copy_of m) w = (Inr (unwanted w is_next m), w)"
  using event_attrs [OF assms]
  by (cases "cls m = MsgCls FIELD_VALUE")
     (auto simp: skip_event_def unwanted_def io_simps int_attr_def attr_def)

lemma unwanted_world [simp]:
  "unwanted (w\<lparr>switch := s\<rparr>) = unwanted w"
  "unwanted (w\<lparr>events := es\<rparr>) = unwanted w"
  by (simp_all add: unwanted_def fun_eq_iff)

lemma send_scripted:
  assumes "scripted env" "generate req = Inr bytes"
  shows "send_msg env req w = (Inr (), w\<lparr>events := events w @ [Sent bytes]\<rparr>)"
  using assms by (simp add: send_msg_def send_def io_simps scripted_def)

lemma recv_event_scripted:
  assumes "scripted env"
  shows "switch w = d # ds \<Longrightarrow> decode_msg d = Inr m \<Longrightarrow>
      recv_event (Suc n) env w = (Inr (Event m), w\<lparr>switch := ds\<rparr>)"
    and "switch w = [] \<Longrightarrow> recv_event (Suc n) env w =
      (Inr Gave_up, w\<lparr>events := events w @
         [Out ''Connection to the switch lost, are you sure it is still running?'']\<rparr>)"
  using assms by (auto simp: io_simps wait_for_msg_apply scripted_def)

definition reported :: "msg \<Rightarrow> 's dbg \<Rightarrow> 's dbg" where
  "reported m w = w\<lparr>events := events w @ [Out (''New event for packet '' @ packet_id_str (packet_of m) (copy_of m))],
     current_packet_id := Some (packet_of m), current_copy_id := Some (copy_of m)\<rparr>"

lemma continue_or_next_step:
  assumes "scripted env" "generate req = Inr bytes" "switch w = d # ds" "decode_msg d = Inr m" "event_msg m"
  shows "continue_or_next (Suc n) env req is_next w =
    (let v = w\<lparr>events := events w @ [Sent bytes], switch := ds\<rparr> in
     if unwanted w is_next m then continue_or_next n env req is_next v else (Inr (Event m), reported m v))"
proof -
  have "isinstance (cls m) EventMsg" "cls m \<noteq> MsgCls KEEP_ALIVE" "cls m \<noteq> MsgCls STATUS"
    using assms(5) by (auto simp: event_msg_def split: msg_cls.splits)
  then show ?thesis
    using assms event_attrs(1,2) [OF assms(4,5)]
    by (simp add: io_simps send_scripted recv_event_scripted check_msg_CLS_def py_assert_def int_attr_def
        skip_event_unwanted [OF assms(4,5)] reported_def Let_def del: recv_event.simps)
qed

text \<open>
  C24. With a switch that sends a list of event messages, the loop of \<open>continue\<close> and \<open>next\<close> implements
  the search for the first event that is neither skipped nor, for \<open>continue\<close>, a control point without
  a breakpoint: it sends its request once for every message it looks at, leaves the later messages to
  the next command, and reports that event and makes its packet the current one, or reports that the
  connection is lost when there is none.
\<close>

theorem continue_or_next_refines:
  assumes "scripted env" "generate req = Inr bytes" "switch w = data" "res_map decode_msg data = Inr ms"
    "list_all event_msg ms" "length data < n"
  shows "continue_or_next n env req is_next w =
    (case first_wanted (unwanted w is_next) ms of
       (k, r) \<Rightarrow>
         let v = w\<lparr>switch := drop k data, events := events w @ replicate k (Sent bytes)\<rparr> in
         case r of
           Some m \<Rightarrow> (Inr (Event m), reported m v)
         | None \<Rightarrow> (Inr Gave_up, v\<lparr>events := events v @
             [Out ''Connection to the switch lost, are you sure it is still running?'']\<rparr>))"
  using assms(3-6)
proof (induction data arbitrary: ms n w)
  case Nil
  then obtain n' where "n = Suc n'" by (cases n) auto
  then show ?case using Nil assms(1,2)
    by (simp add: io_simps send_scripted recv_event_scripted del: recv_event.simps)
next
  case (Cons d ds)
  obtain n' where n: "n = Suc n'" "length ds < n'" using Cons(5) by (cases n) auto
  obtain m ms' where ms: "ms = m # ms'" "decode_msg d = Inr m" "res_map decode_msg ds = Inr ms'"
    using Cons(3) by (auto simp: res_bind_Inr_iff)
  have ev: "event_msg m" "list_all event_msg ms'" using Cons(4) ms(1) by auto
  let ?v = "w\<lparr>events := events w @ [Sent bytes], switch := ds\<rparr>"
  note step = continue_or_next_step [OF assms(1,2) Cons(2) ms(2) ev(1)]
  show ?case
  proof (cases "unwanted w is_next m")
    case True
    have "switch ?v = ds" by simp
    from Cons(1) [OF this ms(3) ev(2) n(2)] show ?thesis
      unfolding n(1) step ms(1)
      by (simp add: True Let_def reported_def split: prod.split option.split)
  next
    case False
    then show ?thesis unfolding n(1) step ms(1) by (simp add: Let_def reported_def)
  qed
qed

end
