(* ===== verification/P4dbg_Spec.thy ===== *)
theory P4dbg_Spec
  imports P4dbg_Safety
begin

text \<open>
  The behaviour of single commands of the debugger, down to the bytes they send, and concrete runs of
  the properties of its loops.
\<close>

section \<open>Setting a watchpoint\<close>

lemma generate_set_wp:
  assumes "0 \<le> i" "i < 2 ^ 64" "0 \<le> f" "f < 2 ^ 64"
  shows "generate (init_msg (MsgCls SET_WATCHPOINT)
      [(''switch_id'', FInt 0), (''req_id'', FInt i), (''fid'', FInt f)]) =
    Inr (le_chars 4 13 @ le_chars 4 0 @ le_chars 8 i @ le_chars 8 f)"
  using assms
  by (simp add: generate_def init_msg_def set_kwargs_def full_fmt_def basic_fmt_def type_code_def MsgType_def
      del: le_chars.simps)

lemma request_apply:
  assumes "generate (init_msg (MsgCls t) ([(''switch_id'', FInt 0), (''req_id'', FInt (req_id w))] @ kwargs)) = Inr bytes"
    "sok_send env bytes (switch w) = (Inr (), s1)" "sok_recv env s1 = (Inr ans, s2)" "decode_msg ans = Inr m"
  shows "request env t kwargs w =
    (Inr m, w\<lparr>req_id := req_id w + 1, switch := s2, events := events w @ [Sent bytes]\<rparr>)"
  using assms
  by (simp add: request_def new_req_def get_req_id_def send_msg_def send_def wait_for_msg_apply io_simps)

lemma request_ok_apply:
  assumes "request env t kwargs w = (Inr m, w')" "cls m = MsgCls STATUS" "get_int (attrs m) ''status'' = Inr st"
  shows "request_ok env t kwargs w = (if st = 0 then Inr () else Inl AssertionError, w')"
  using assms by (simp add: request_ok_def check_msg_CLS_def py_assert_def int_attr_def io_simps)

text \<open>
  C30. \<open>set_wp\<close> with the name of a field sends one message of 24 bytes, with the type, the switch, the
  next request id and the id of the field in this order. The field is watched from then on if the
  switch answers with the status 0; any other status is a failed assertion and watches nothing.
\<close>

theorem do_set_wp_message:
  assumes "get_field_id_from_name (the_field_map w) name = Inr f" "no_space name" "name \<notin> {[], ''$cond'', ''$action''}"
    and "0 \<le> req_id w" "req_id w < 2 ^ 64" "0 \<le> f" "f < 2 ^ 64"
    and "bytes = le_chars 4 13 @ le_chars 4 0 @ le_chars 8 (req_id w) @ le_chars 8 f"
    and "sok_send env bytes (switch w) = (Inr (), s1)" "sok_recv env s1 = (Inr ans, s2)"
    and "decode_msg ans = Inr m" "cls m = MsgCls STATUS" "get_int (attrs m) ''status'' = Inr st"
  shows "do_set_wp env name w =
    (let w' = w\<lparr>req_id := req_id w + 1, switch := s2, events := events w @ [Sent bytes]\<rparr> in
     if st = 0 then (Inr (), w'\<lparr>wps := List.insert f (wps w)\<rparr>) else (Inl AssertionError, w'))"
proof -
  let ?w = "w\<lparr>req_id := req_id w + 1, switch := s2, events := events w @ [Sent bytes]\<rparr>"
  have "request env SET_WATCHPOINT [(''fid'', FInt f)] w = (Inr m, ?w)"
    using generate_set_wp [OF assms(4-7)] assms(8-11) by (intro request_apply) simp_all
  then have "request_ok env SET_WATCHPOINT [(''fid'', FInt f)] w = (if st = 0 then Inr () else Inl AssertionError, ?w)"
    using assms(12,13) by (rule request_ok_apply)
  then show ?thesis
    using assms(1-3)
    by (simp add: do_set_wp_def dbg_handle_bad_input_def field_id_from_name_def io_simps Let_def)
qed

section \<open>Errors\<close>

text \<open>
  A watchpoint on the pseudo field \<open>$cond\<close>, which \<open>set_wp\<close> accepts, makes \<open>show_wps\<close> raise a
  KeyError, which no handler of the command catches, since the pseudo field has no entry in the map of
  the fields; the command prints nothing.
\<close>

theorem show_wps_pseudo_field:
  assumes "FIELD_ID_COND \<in> set (set_order env (wps w))"
    and "\<And>off. map_of (fm_fields (the_field_map w)) (0xffffffff, off) = None"
  shows "do_show_wps env line w = (Inl KeyError, w)"
proof -
  let ?name = "get_name_from_field_id (the_field_map w)"
  have "drop_bit 32 FIELD_ID_COND = 0xffffffff" by (simp add: FIELD_ID_COND_def drop_bit_eq_div)
  then have cond: "?name FIELD_ID_COND = Inl KeyError"
    using assms(2) by (simp add: get_name_from_field_id_def FieldMap_get_name_def Let_def)
  have key: "e = KeyError" if "?name i = Inl e" for i e
    using that by (auto simp: get_name_from_field_id_def FieldMap_get_name_def Let_def res_bind_Inl_iff)
  have "res_map ?name (set_order env (wps w)) = Inl KeyError"
  proof (cases "res_map ?name (set_order env (wps w))")
    case (Inl e)
    then show ?thesis using key res_map_Inl_ex by metis
  next
    case (Inr ns)
    then have "\<exists>n. ?name FIELD_ID_COND = Inr n"
      using assms(1) by (auto simp: res_map_Inr_iff list_all2_conv_all_nth in_set_conv_nth)
    then show ?thesis using cond by simp
  qed
  then show ?thesis by (simp add: do_show_wps_def dbg_handle_bad_input_def io_simps)
qed

lemma no_dot_show_int: "CHR ''.'' \<notin> set (show_int i)"
  using show_int_chars by blast

lemma packet_id_from_str_shown: "packet_id_from_str (packet_id_str p c) = Inr (p, c)"
proof -
  have "py_split_sep ''.'' (packet_id_str p c) = [show_int p, show_int c]"
    using py_split_sep_join [of "[show_int p, show_int c]" "CHR ''.''"] no_dot_show_int
    by (simp add: packet_id_str_def)
  then show ?thesis by (simp add: packet_id_from_str_def unpack2_def)
qed

lemma packet_id_str_word: "no_space (packet_id_str p c)" "packet_id_str p c \<noteq> []" "CHR ''.'' \<in> set (packet_id_str p c)"
  using show_int_no_space [of p] show_int_no_space [of c]
  by (auto simp: packet_id_str_def no_space_def is_space_def list_all_iff)

lemma filter_pids:
  assumes "args = map (\<lambda>(p, c). packet_id_str p c) ((p, c) # ps)"
  shows "res_map (filter_pid args) args = Inr (replicate (Suc (length ps)) (p, c))"
proof -
  have "filter_pid args x = Inr (p, c)" if "x \<in> set args" for x
    using that assms packet_id_str_word(3) by (auto simp: filter_pid_def packet_id_from_str_shown)
  then have "res_map (filter_pid args) args = Inr (map (\<lambda>_. (p, c)) args)" by (rule res_map_Inr_map)
  then show ?thesis using assms by (simp add: map_replicate_const)
qed

lemma generate_filter:
  assumes "0 \<le> i" "i < 2 ^ 64" "n < 2 ^ 31" "length s = 16 * n"
  shows "generate (init_msg (MsgCls FILTER_NOTIFICATIONS)
      [(''switch_id'', FInt 0), (''req_id'', FInt i), (''nb'', FInt (int n)), (''ids'', FStr s)]) =
    Inr (le_chars 4 12 @ le_chars 4 0 @ le_chars 8 i @ le_chars 4 (int n) @ s)"
  using assms
  by (simp add: generate_def init_msg_def set_kwargs_def full_fmt_def basic_fmt_def type_code_def MsgType_def
      get_int_def nat_mult_distrib del: le_chars.simps)

lemma pack_pids:
  assumes "0 \<le> p" "p < 2 ^ 64" "0 \<le> c" "c < 2 ^ 64"
  shows "res_map pack_pid (replicate n (p, c)) = Inr (replicate n (le_chars 8 p @ le_chars 8 c))"
proof -
  have "pack_pid (p, c) = Inr (le_chars 8 p @ le_chars 8 c)"
    using assms by (simp add: pack_pid_def del: le_chars.simps)
  then show ?thesis by (induction n) simp_all
qed

text \<open>
  \<open>filter_notifications\<close> with several packet ids of the form \<open>packet.copy\<close> asks the switch for the
  first of them only, as often as there are ids: the loop reads the first argument in every iteration,
  and the other packets are filtered out.
\<close>

theorem filter_notifications_first_only:
  assumes "line = py_join '' '' (map (\<lambda>(p, c). packet_id_str p c) ((p, c) # ps))"
    and "0 \<le> p" "p < 2 ^ 64" "0 \<le> c" "c < 2 ^ 64" "0 \<le> req_id w" "req_id w < 2 ^ 64" "Suc (length ps) < 2 ^ 31"
    and "bytes = le_chars 4 12 @ le_chars 4 0 @ le_chars 8 (req_id w) @ le_chars 4 (int (Suc (length ps))) @
      concat (replicate (Suc (length ps)) (le_chars 8 p @ le_chars 8 c))"
    and "sok_send env bytes (switch w) = (Inr (), s1)" "sok_recv env s1 = (Inr ans, s2)"
    and "decode_msg ans = Inr m" "cls m = MsgCls STATUS" "get_int (attrs m) ''status'' = Inr 0"
  shows "do_filter_notifications env line w =
    (Inr (), w\<lparr>req_id := req_id w + 1, switch := s2, events := events w @ [Sent bytes]\<rparr>)"
proof -
  let ?args = "map (\<lambda>(p, c). packet_id_str p c) ((p, c) # ps)"
  let ?n = "Suc (length ps)"
  let ?ids = "concat (replicate ?n (le_chars 8 p @ le_chars 8 c))"
  let ?w = "w\<lparr>req_id := req_id w + 1, switch := s2, events := events w @ [Sent bytes]\<rparr>"
  have args: "py_split line = ?args"
    unfolding assms(1) by (rule py_split_join) (auto simp: packet_id_str_word)
  have "length ?ids = 16 * ?n" by (simp add: length_concat sum_list_replicate)
  then have "generate (init_msg (MsgCls FILTER_NOTIFICATIONS)
      [(''switch_id'', FInt 0), (''req_id'', FInt (req_id w)), (''nb'', FInt (int ?n)), (''ids'', FStr ?ids)]) = Inr bytes"
    unfolding assms(9) by (intro generate_filter assms)
  then have "request env FILTER_NOTIFICATIONS [(''nb'', FInt (int ?n)), (''ids'', FStr ?ids)] w = (Inr m, ?w)"
    using assms(10-12) by (intro request_apply) simp_all
  then have ok: "request_ok env FILTER_NOTIFICATIONS [(''nb'', FInt (int ?n)), (''ids'', FStr ?ids)] w = (Inr (), ?w)"
    using request_ok_apply [OF _ assms(13,14)] by simp
  show ?thesis
    using filter_pids [of ?args p c ps] ok pack_pids [OF assms(2-5), of ?n]
    by (simp add: do_filter_notifications_def dbg_handle_bad_input_def args io_simps Let_def
        del: replicate_Suc res_map.simps list.map)
qed

section \<open>Examples\<close>

text \<open>A socket that delivers a list of messages, and a debugger on it.\<close>

definition script_env :: "string list dbg_env" where
  "script_env =
     \<lparr>d_api = \<lparr>client = (\<lambda>_ s. (Inr VUnit, s)), mc_client = None, api_pre_type = PreType_None, lib = no_lib\<rparr>,
      have_client = True, with_runtime_CLI = False, sok_send = (\<lambda>_ s. (Inr (), s)),
      sok_recv = (\<lambda>s. case s of [] \<Rightarrow> (Inl AssertionError, []) | x # xs \<Rightarrow> (Inr x, xs)),
      set_order = (\<lambda>xs. xs), d_help = (\<lambda>_. []), exn_str = (\<lambda>_. [])\<rparr>"

definition dbg_world :: "string list \<Rightarrow> string list \<Rightarrow> string list dbg" where
  "dbg_world msgs lines =
     \<lparr>cfg = empty_config, switch = msgs, events = [], req_id = 3, wps = [], bps = [], skips = [], skips_all = [7],
      current_packet_id = None, current_copy_id = None, get_me_a_prompt = False, attached = True,
      break_packet_in = None, stop_packet_in = None, json_cfg = [], cli_lastcmd = [],
      the_field_map = small_fields, the_obj_map = small_objects, stdin = lines\<rparr>"

definition status_0 :: string where
  "status_0 = le_chars 4 15 @ le_chars 4 0 @ le_chars 8 0 @ le_chars 4 0 @ le_chars 8 0"

definition packet_in :: "int \<Rightarrow> string" where
  "packet_in p = le_chars 4 0 @ le_chars 4 0 @ le_chars 8 0 @ le_chars 8 p @ le_chars 8 0 @ le_chars 4 1"

definition packet_in_msg :: "int \<Rightarrow> msg" where
  "packet_in_msg p = projr (decode_msg (packet_in p))"

definition next_req :: msg where
  "next_req = init_msg (MsgCls NEXT) [(''switch_id'', FInt 0), (''req_id'', FInt 3)]"

lemma script_env_scripted: "scripted script_env"
  by (simp add: scripted_def script_env_def)

lemma script_env_runs_dry: "runs_dry length script_env"
  by (auto simp: runs_dry_def script_env_def split: list.split)

theorem dbg_reach_inv_witness:
  "let w = snd (DebuggerAPI_init script_env True (dbg_world [] [])) in
   dbg_inv w \<and> fst (do_skip [] w) \<noteq> Inl AssertionError \<and> fst (do_skip_all [] w) \<noteq> Inl AssertionError"
  unfolding Let_def by (rule dbg_reach_inv [OF dbg_reach.start [OF surjective_pairing]])


theorem continue_or_next_ends_witness:
  "fst (continue_or_next 3 script_env next_req True (dbg_world [packet_in 7, packet_in 7] [])) \<noteq> Inr Waiting"
  by (rule continue_or_next_ends [OF script_env_runs_dry]) (simp add: dbg_world_def)

theorem continue_or_next_refines_witness:
  "fst (continue_or_next 3 script_env next_req True (dbg_world [packet_in 7, packet_in 8] [])) =
     Inr (Event (packet_in_msg 8))"
proof -
  let ?w = "dbg_world [packet_in 7, packet_in 8] []"
  let ?ms = "[packet_in_msg 7, packet_in_msg 8]"
  have "continue_or_next 3 script_env next_req True ?w =
    (case first_wanted (unwanted ?w True) ?ms of
       (k, r) \<Rightarrow>
         let v = ?w\<lparr>switch := drop k [packet_in 7, packet_in 8],
           events := events ?w @ replicate k (Sent (le_chars 4 4 @ le_chars 4 0 @ le_chars 8 3))\<rparr> in
         case r of
           Some m \<Rightarrow> (Inr (Event m), reported m v)
         | None \<Rightarrow> (Inr Gave_up, v\<lparr>events := events v @
             [Out ''Connection to the switch lost, are you sure it is still running?'']\<rparr>))"
  proof (rule continue_or_next_refines [OF script_env_scripted])
    show "generate next_req = Inr (le_chars 4 4 @ le_chars 4 0 @ le_chars 8 3)" by code_simp
    show "switch ?w = [packet_in 7, packet_in 8]" by (simp add: dbg_world_def)
    show "res_map decode_msg [packet_in 7, packet_in 8] = Inr ?ms" by code_simp
    show "list_all event_msg ?ms" by code_simp
  qed simp
  moreover have "first_wanted (unwanted ?w True) ?ms = (2, Some (packet_in_msg 8))" by code_simp
  ultimately show ?thesis by simp
qed

lemma decode_status_0:
  "decode_msg status_0 = Inr (projr (decode_msg status_0))"
  "cls (projr (decode_msg status_0)) = MsgCls STATUS"
  "get_int (attrs (projr (decode_msg status_0))) ''status'' = Inr 0"
  by code_simp+

theorem do_set_wp_message_witness:
  "wps (snd (do_set_wp script_env ''eth.src'' (dbg_world [status_0] []))) = [0x500000001]"
proof -
  have "do_set_wp script_env ''eth.src'' (dbg_world [status_0] []) =
    (let w' = (dbg_world [status_0] [])\<lparr>req_id := req_id (dbg_world [status_0] []) + 1, switch := [],
       events := events (dbg_world [status_0] []) @
         [Sent (le_chars 4 13 @ le_chars 4 0 @ le_chars 8 (req_id (dbg_world [status_0] [])) @ le_chars 8 0x500000001)]\<rparr> in
     if (0 :: int) = 0 then (Inr (), w'\<lparr>wps := List.insert 0x500000001 (wps (dbg_world [status_0] []))\<rparr>)
     else (Inl AssertionError, w'))"
  proof (rule do_set_wp_message [OF _ _ _ _ _ _ _ refl _ _ decode_status_0])
    show "get_field_id_from_name (the_field_map (dbg_world [status_0] [])) ''eth.src'' = Inr 0x500000001"
      by code_simp
    show "no_space ''eth.src''" by code_simp
    show "sok_recv script_env [status_0] = (Inr status_0, [])" by (simp add: script_env_def)
  qed (simp_all add: dbg_world_def script_env_def)
  then show ?thesis by (simp add: dbg_world_def)
qed

theorem show_wps_pseudo_field_witness:
  "do_show_wps script_env [] ((dbg_world [] [])\<lparr>wps := [FIELD_ID_COND]\<rparr>) =
    (Inl KeyError, (dbg_world [] [])\<lparr>wps := [FIELD_ID_COND]\<rparr>)"
proof (rule show_wps_pseudo_field)
  have "fm_fields small_fields = [((5, 0), (''eth.dst'', JInt 48)), ((5, 1), (''eth.src'', JInt 48))]" by code_simp
  then show "map_of (fm_fields (the_field_map ((dbg_world [] [])\<lparr>wps := [FIELD_ID_COND]\<rparr>))) (0xffffffff, off) = None" for off
    by (simp add: dbg_world_def)
qed (simp add: script_env_def)

theorem filter_notifications_first_only_witness:
  "events (snd (do_filter_notifications script_env ''7.0 8.0'' (dbg_world [status_0] []))) =
    [Sent (le_chars 4 12 @ le_chars 4 0 @ le_chars 8 3 @ le_chars 4 2 @
       le_chars 8 7 @ le_chars 8 0 @ le_chars 8 7 @ le_chars 8 0)]"
proof -
  let ?w = "dbg_world [status_0] []"
  let ?bytes = "le_chars 4 12 @ le_chars 4 0 @ le_chars 8 (req_id ?w) @ le_chars 4 (int (Suc (length [(8::int, 0::int)]))) @
    concat (replicate (Suc (length [(8::int, 0::int)])) (le_chars 8 7 @ le_chars 8 0))"
  have "do_filter_notifications script_env ''7.0 8.0'' ?w =
    (Inr (), ?w\<lparr>req_id := req_id ?w + 1, switch := [], events := events ?w @ [Sent ?bytes]\<rparr>)"
  proof (rule filter_notifications_first_only [OF _ _ _ _ _ _ _ _ refl _ _ decode_status_0])
    show "''7.0 8.0'' = py_join '' '' (map (\<lambda>(p, c). packet_id_str p c) [(7, 0), (8, 0)])" by code_simp
    show "sok_recv script_env [status_0] = (Inr status_0, [])" by (simp add: script_env_def)
  qed (simp_all add: dbg_world_def script_env_def)
  then show ?thesis by (simp add: dbg_world_def del: le_chars.simps)
qed

end
