(* ===== verification/Nanomsg_Client.thy ===== *)
theory Nanomsg_Client
  imports Struct_Codec Bmpy_Utils
begin

text \<open>
  The event logger client \<^verbatim>\<open>tools/nanomsg_client.py\<close>: the names of the objects of the P4
  program, the message classes with their formats and printed forms, and the loop that prints the
  messages the switch publishes. The subscription is a parameter: the list of the messages received so
  far, which is all the loop, which never ends by itself, depends on.
\<close>

section \<open>Names\<close>

type_synonym name_map = "((string \<times> int) \<times> string) list"

definition add_names :: "string \<Rightarrow> json res \<Rightarrow> (name_map, unit) io" where
  "add_names ty objs =
     io_bind (io_lift (res_bind objs jiter)) (\<lambda>os. io_for os (\<lambda>obj.
       io_bind (io_lift (jget_str ''name'' obj)) (\<lambda>name.
       io_bind (io_lift (jget_int ''id'' obj)) (\<lambda>ident.
       io_modify (AList.update (ty, ident) name)))))"

text \<open>The order in which Python goes through a set of strings is not specified; it matters only for
  what has been loaded when an exception ends the function.\<close>

definition NameMap_load_names :: "json_lib \<Rightarrow> string \<Rightarrow> (name_map, unit) io" where
  "NameMap_load_names loads json_cfg =
     io_then (io_modify (\<lambda>_. [])) (
     io_bind (io_lift (or_raise ValueError (loads json_cfg))) (\<lambda>j.
     io_then (io_for [''header_type'', ''header'', ''parser'', ''deparser'', ''action'', ''pipeline'', ''checksum'']
       (\<lambda>ty. add_names ty (jget (ty @ ''s'') j))) (
     io_bind (io_lift (jget_list ''pipelines'' j)) (\<lambda>pipelines.
     io_for pipelines (\<lambda>pipeline.
       io_then (add_names ''table'' (jget ''tables'' pipeline)) (
       add_names ''condition'' (jget ''conditionals'' pipeline)))))))"

definition name_lookup :: "name_map \<Rightarrow> string \<Rightarrow> int \<Rightarrow> string option" where
  "name_lookup nm ty ident = map_of nm (ty, ident)"

section \<open>Messages\<close>

datatype elog_type =
    E_PACKET_IN
  | E_PACKET_OUT
  | E_PARSER_START
  | E_PARSER_DONE
  | E_PARSER_EXTRACT
  | E_DEPARSER_START
  | E_DEPARSER_DONE
  | E_DEPARSER_EMIT
  | E_CHECKSUM_UPDATE
  | E_PIPELINE_START
  | E_PIPELINE_DONE
  | E_CONDITION_EVAL
  | E_TABLE_HIT
  | E_TABLE_MISS
  | E_ACTION_EXECUTE
  | E_CONFIG_CHANGE

definition MSG_TYPES :: "(int \<times> elog_type) list" where
  "MSG_TYPES =
     [(0, E_PACKET_IN), (1, E_PACKET_OUT), (2, E_PARSER_START),
      (3, E_PARSER_DONE), (4, E_PARSER_EXTRACT), (5, E_DEPARSER_START),
      (6, E_DEPARSER_DONE), (7, E_DEPARSER_EMIT), (8, E_CHECKSUM_UPDATE),
      (9, E_PIPELINE_START), (10, E_PIPELINE_DONE), (11, E_CONDITION_EVAL),
      (12, E_TABLE_HIT), (13, E_TABLE_MISS), (14, E_ACTION_EXECUTE),
      (999, E_CONFIG_CHANGE)]"

definition get_msg_class :: "int \<Rightarrow> elog_type res" where
  "get_msg_class code = or_raise KeyError (map_of MSG_TYPES code)"

fun get_str :: "elog_type \<Rightarrow> string" where
  "get_str E_PACKET_IN = ''PACKET_IN''"
| "get_str E_PACKET_OUT = ''PACKET_OUT''"
| "get_str E_PARSER_START = ''PARSER_START''"
| "get_str E_PARSER_DONE = ''PARSER_DONE''"
| "get_str E_PARSER_EXTRACT = ''PARSER_EXTRACT''"
| "get_str E_DEPARSER_START = ''DEPARSER_START''"
| "get_str E_DEPARSER_DONE = ''DEPARSER_DONE''"
| "get_str E_DEPARSER_EMIT = ''DEPARSER_EMIT''"
| "get_str E_CHECKSUM_UPDATE = ''CHECKSUM_UPDATE''"
| "get_str E_PIPELINE_START = ''PIPELINE_START''"
| "get_str E_PIPELINE_DONE = ''PIPELINE_DONE''"
| "get_str E_CONDITION_EVAL = ''CONDITION_EVAL''"
| "get_str E_TABLE_HIT = ''TABLE_HIT''"
| "get_str E_TABLE_MISS = ''TABLE_MISS''"
| "get_str E_ACTION_EXECUTE = ''ACTION_EXECUTE''"
| "get_str E_CONFIG_CHANGE = ''CONFIG_CHANGE''"

record elog_hdr =
  h_switch_id :: int
  h_cxt_id :: int
  h_sig :: int
  h_id :: int
  h_copy_id :: int

text \<open>\<open>struct.Struct("<iiiQQQ")\<close> and the formats of the classes.\<close>

definition hdr_fmt :: "struct_fmt list" where
  "hdr_fmt = [Fmt_i, Fmt_i, Fmt_i, Fmt_Q, Fmt_Q, Fmt_Q]"

fun struct_of :: "elog_type \<Rightarrow> struct_fmt list" where
  "struct_of E_CONDITION_EVAL = [Fmt_i, Fmt_i]"
| "struct_of E_TABLE_HIT = [Fmt_i, Fmt_i]"
| "struct_of E_CONFIG_CHANGE = []"
| "struct_of _ = [Fmt_i]"

definition fval_int :: "fval \<Rightarrow> int" where
  "fval_int v = (case v of FInt i \<Rightarrow> i | _ \<Rightarrow> 0)"

definition extract_hdr :: "string \<Rightarrow> (elog_hdr \<times> nat) res" where
  "extract_hdr msg = res_bind (unpack_fields hdr_fmt msg 0) (\<lambda>vs.
     Inr (\<lparr>h_switch_id = fval_int (vs ! 1), h_cxt_id = fval_int (vs ! 2), h_sig = fval_int (vs ! 3),
           h_id = fval_int (vs ! 4), h_copy_id = fval_int (vs ! 5)\<rparr>, fmt_size hdr_fmt))"

definition Msg_extract :: "elog_type \<Rightarrow> string \<Rightarrow> (elog_hdr \<times> int list) res" where
  "Msg_extract t msg =
     res_bind (extract_hdr msg) (\<lambda>(hdr, bytes_extracted).
     res_bind (unpack (struct_of t) (drop bytes_extracted msg)) (\<lambda>vs. Inr (hdr, map fval_int vs)))"

definition Msg_str :: "elog_type \<Rightarrow> elog_hdr \<Rightarrow> string" where
  "Msg_str t h =
     ''type: '' @ get_str t @ '', switch_id: '' @ show_int (h_switch_id h) @ '', cxt_id: '' @ show_int (h_cxt_id h) @
     '', sig: '' @ show_int (h_sig h) @ '', id: '' @ show_int (h_id h) @ '', copy_id: '' @ show_int (h_copy_id h)"

text \<open>\<open>str(id)\<close> and the name in parentheses, if there is one that is not empty.\<close>

definition with_name :: "name_map \<Rightarrow> string \<Rightarrow> int \<Rightarrow> string" where
  "with_name nm ty ident = show_int ident @
     (case name_lookup nm ty ident of Some (c # cs) \<Rightarrow> '' ('' @ (c # cs) @ '')'' | _ \<Rightarrow> [])"

text \<open>The methods \<open>__str__\<close> of the classes, on the header and the values of the body.\<close>

definition PacketIn_str :: "elog_hdr \<Rightarrow> int \<Rightarrow> string" where
  "PacketIn_str h port = Msg_str E_PACKET_IN h @ '', port_in: '' @ show_int port"

definition PacketOut_str :: "elog_hdr \<Rightarrow> int \<Rightarrow> string" where
  "PacketOut_str h port = Msg_str E_PACKET_OUT h @ '', port_out: '' @ show_int port"

definition ParserStart_str :: "name_map \<Rightarrow> elog_hdr \<Rightarrow> int \<Rightarrow> string" where
  "ParserStart_str nm h parser_id = Msg_str E_PARSER_START h @ '', parser_id: '' @ with_name nm ''parser'' parser_id"

definition ParserDone_str :: "name_map \<Rightarrow> elog_hdr \<Rightarrow> int \<Rightarrow> string" where
  "ParserDone_str nm h parser_id = Msg_str E_PARSER_DONE h @ '', parser_id: '' @ with_name nm ''parser'' parser_id"

definition ParserExtract_str :: "name_map \<Rightarrow> elog_hdr \<Rightarrow> int \<Rightarrow> string" where
  "ParserExtract_str nm h header_id = Msg_str E_PARSER_EXTRACT h @ '', header_id: '' @ with_name nm ''header'' header_id"

definition DeparserStart_str :: "name_map \<Rightarrow> elog_hdr \<Rightarrow> int \<Rightarrow> string" where
  "DeparserStart_str nm h deparser_id = Msg_str E_DEPARSER_START h @ '', deparser_id: '' @ with_name nm ''deparser'' deparser_id"

definition DeparserDone_str :: "name_map \<Rightarrow> elog_hdr \<Rightarrow> int \<Rightarrow> string" where
  "DeparserDone_str nm h deparser_id = Msg_str E_DEPARSER_DONE h @ '', deparser_id: '' @ with_name nm ''deparser'' deparser_id"

definition DeparserEmit_str :: "name_map \<Rightarrow> elog_hdr \<Rightarrow> int \<Rightarrow> string" where
  "DeparserEmit_str nm h header_id = Msg_str E_DEPARSER_EMIT h @ '', header_id: '' @ with_name nm ''header'' header_id"

definition ChecksumUpdate_str :: "name_map \<Rightarrow> elog_hdr \<Rightarrow> int \<Rightarrow> string" where
  "ChecksumUpdate_str nm h cksum_id = Msg_str E_CHECKSUM_UPDATE h @ '', cksum_id: '' @ with_name nm ''checksum'' cksum_id"

definition PipelineStart_str :: "name_map \<Rightarrow> elog_hdr \<Rightarrow> int \<Rightarrow> string" where
  "PipelineStart_str nm h pipeline_id = Msg_str E_PIPELINE_START h @ '', pipeline_id: '' @ with_name nm ''pipeline'' pipeline_id"

definition PipelineDone_str :: "name_map \<Rightarrow> elog_hdr \<Rightarrow> int \<Rightarrow> string" where
  "PipelineDone_str nm h pipeline_id = Msg_str E_PIPELINE_DONE h @ '', pipeline_id: '' @ with_name nm ''pipeline'' pipeline_id"

definition ConditionEval_str :: "name_map \<Rightarrow> elog_hdr \<Rightarrow> int \<Rightarrow> int \<Rightarrow> string" where
  "ConditionEval_str nm h condition_id r =
     Msg_str E_CONDITION_EVAL h @ '', condition_id: '' @ with_name nm ''condition'' condition_id @
     '', result: '' @ (if r \<noteq> 0 then ''True'' else ''False'')"

definition TableHit_str :: "name_map \<Rightarrow> elog_hdr \<Rightarrow> int \<Rightarrow> int \<Rightarrow> string" where
  "TableHit_str nm h table_id entry_hdl =
     Msg_str E_TABLE_HIT h @ '', table_id: '' @ with_name nm ''table'' table_id @
     '', entry_hdl: '' @ show_int entry_hdl"

definition TableMiss_str :: "name_map \<Rightarrow> elog_hdr \<Rightarrow> int \<Rightarrow> string" where
  "TableMiss_str nm h table_id = Msg_str E_TABLE_MISS h @ '', table_id: '' @ with_name nm ''table'' table_id"

definition ActionExecute_str :: "name_map \<Rightarrow> elog_hdr \<Rightarrow> int \<Rightarrow> string" where
  "ActionExecute_str nm h action_id = Msg_str E_ACTION_EXECUTE h @ '', action_id: '' @ with_name nm ''action'' action_id"

definition ConfigChange_str :: "elog_hdr \<Rightarrow> string" where
  "ConfigChange_str h = ''type: '' @ get_str E_CONFIG_CHANGE @ '', switch_id: '' @ show_int (h_switch_id h)"

fun elog_str :: "name_map \<Rightarrow> elog_type \<Rightarrow> elog_hdr \<Rightarrow> int list \<Rightarrow> string" where
  "elog_str nm E_PACKET_IN h vs = PacketIn_str h (vs ! 0)"
| "elog_str nm E_PACKET_OUT h vs = PacketOut_str h (vs ! 0)"
| "elog_str nm E_PARSER_START h vs = ParserStart_str nm h (vs ! 0)"
| "elog_str nm E_PARSER_DONE h vs = ParserDone_str nm h (vs ! 0)"
| "elog_str nm E_PARSER_EXTRACT h vs = ParserExtract_str nm h (vs ! 0)"
| "elog_str nm E_DEPARSER_START h vs = DeparserStart_str nm h (vs ! 0)"
| "elog_str nm E_DEPARSER_DONE h vs = DeparserDone_str nm h (vs ! 0)"
| "elog_str nm E_DEPARSER_EMIT h vs = DeparserEmit_str nm h (vs ! 0)"
| "elog_str nm E_CHECKSUM_UPDATE h vs = ChecksumUpdate_str nm h (vs ! 0)"
| "elog_str nm E_PIPELINE_START h vs = PipelineStart_str nm h (vs ! 0)"
| "elog_str nm E_PIPELINE_DONE h vs = PipelineDone_str nm h (vs ! 0)"
| "elog_str nm E_CONDITION_EVAL h vs = ConditionEval_str nm h (vs ! 0) (vs ! 1)"
| "elog_str nm E_TABLE_HIT h vs = TableHit_str nm h (vs ! 0) (vs ! 1)"
| "elog_str nm E_TABLE_MISS h vs = TableMiss_str nm h (vs ! 0)"
| "elog_str nm E_ACTION_EXECUTE h vs = ActionExecute_str nm h (vs ! 0)"
| "elog_str nm E_CONFIG_CHANGE h vs = ConfigChange_str h"

section \<open>The loop\<close>

record 's elog = "'s world" +
  the_names :: name_map

type_synonym ('s, 'a) elog_io = "('s elog, 'a) io"

definition with_names :: "(name_map, 'a) io \<Rightarrow> ('s, 'a) elog_io" where
  "with_names m = (\<lambda>w. case m (the_names w) of (r, nm) \<Rightarrow> (r, w\<lparr>the_names := nm\<rparr>))"

definition json_init :: "'s api \<Rightarrow> ('s, unit) elog_io" where
  "json_init api =
     io_bind (get_json_config api True None) (\<lambda>json_cfg.
     with_names (NameMap_load_names (json_loads (lib api)) json_cfg))"

text \<open>\<open>struct.unpack('i', msg[:4])\<close>\<close>

definition get_msg_type :: "string \<Rightarrow> int res" where
  "get_msg_type msg = res_bind (unpack [Fmt_i] (take 4 msg)) (\<lambda>vs. Inr (fval_int (vs ! 0)))"

text \<open>One round of the loop. The constructor of a message class cannot fail.\<close>

definition handle_msg :: "'s api \<Rightarrow> string \<Rightarrow> ('s, unit) elog_io" where
  "handle_msg api msg =
     io_bind (io_lift (get_msg_type msg)) (\<lambda>msg_type.
     case get_msg_class msg_type of
       Inl _ \<Rightarrow> pr [''Unknown msg type'', show_int msg_type]
     | Inr t \<Rightarrow>
         io_bind (io_lift (Msg_extract t msg)) (\<lambda>(hdr, vs).
         io_bind (io_gets the_names) (\<lambda>nm.
         io_then (pr [elog_str nm t hdr vs]) (
         if t = E_CONFIG_CHANGE then
           io_then (pr [''The JSON config has changed'']) (
           io_then (pr [''Requesting new config from switch,'', ''which may cause some log messages to be dropped'']) (
           json_init api))
         else io_ret ()))))"

definition recv_msgs :: "'s api \<Rightarrow> string list \<Rightarrow> ('s, unit) elog_io" where
  "recv_msgs api msgs = io_then (json_init api) (io_for msgs (handle_msg api))"

definition nanomsg_main ::
  "'s api \<Rightarrow> bool \<Rightarrow> int \<Rightarrow> string option \<Rightarrow> string option \<Rightarrow> string list \<Rightarrow> ('s, unit) elog_io" where
  "nanomsg_main api transport_opens thrift_port json socket msgs =
     io_then (if json \<noteq> None
              then pr [''Command line option '' @ [CHR 39] @ ''--json'' @ [CHR 39] @ '' is deprecated'', ''and will be ignored'']
              else io_ret ()) (
     io_bind (thrift_connect_standard transport_opens thrift_port) (\<lambda>_.
     io_bind (expect as_info (std api (Call ''bm_mgmt_get_info'' []))) (\<lambda>info.
     case map_of info ''elogger_socket'' of
       None \<Rightarrow>
         io_then (pr [''The event logger is not enabled on the switch,'',
                      ''run with '' @ [CHR 39] @ ''--nanolog <ip addr>'' @ [CHR 39]]) (io_raise (SystemExit 1))
     | Some addr \<Rightarrow>
         io_then (if socket \<noteq> None then io_ret ()
                  else pr [[CHR 39] @ ''--socket'' @ [CHR 39] @ '' not provided, using'', addr, ''(obtained from switch)'']) (
         recv_msgs api msgs))))"

section \<open>What is printed\<close>

text \<open>The number of a message type, and the bytes of a message as the switch lays them out: the header,
  then the values of the class.\<close>

definition elog_code :: "elog_type \<Rightarrow> int" where
  "elog_code t = fst (hd (filter (\<lambda>p. snd p = t) MSG_TYPES))"

definition hdr_vals :: "elog_type \<Rightarrow> elog_hdr \<Rightarrow> fval list" where
  "hdr_vals t h = [FInt (elog_code t), FInt (h_switch_id h), FInt (h_cxt_id h), FInt (h_sig h), FInt (h_id h),
     FInt (h_copy_id h)]"

definition elog_encode :: "elog_type \<times> elog_hdr \<times> int list \<Rightarrow> string res" where
  "elog_encode = (\<lambda>(t, h, vs).
     res_bind (pack_fields hdr_fmt (hdr_vals t h)) (\<lambda>a.
     res_bind (pack_fields (struct_of t) (map FInt vs)) (\<lambda>b. Inr (a @ b))))"

lemma get_msg_class_code: "get_msg_class (elog_code t) = Inr t"
  by (cases t) (simp_all add: get_msg_class_def elog_code_def MSG_TYPES_def)

lemma canonical_ints: "list_all2 canonical fs (map FInt vs) \<longleftrightarrow> length fs = length vs"
  by (auto simp: list_all2_conv_all_nth canonical_def split: struct_fmt.split)

lemma pack_fields_length: "pack_fields fs vs = Inr s \<Longrightarrow> length fs = length vs"
  by (induction fs vs arbitrary: s rule: pack_fields.induct) (auto simp: res_bind_Inr_iff)

lemma unpack_ints:
  assumes "pack_fields fs (map FInt vs) = Inr s"
  shows "unpack_fields fs (s @ rest) 0 = Inr (map FInt vs)" "length s = fmt_size fs"
  using unpack_fields_pack_fields [OF assms, of "[]" rest] pack_fields_length [OF assms] canonical_ints [of fs vs]
  by simp_all

lemma map_fval_int [simp]: "map (fval_int \<circ> FInt) vs = vs"
  by (simp add: fval_int_def comp_def)

lemma hdr_vals_FInt: "\<exists>ns. hdr_vals t h = map FInt ns"
  by (rule exI [of _ "[elog_code t, h_switch_id h, h_cxt_id h, h_sig h, h_id h, h_copy_id h]"])
     (simp add: hdr_vals_def)

lemma elog_decode:
  assumes "elog_encode (t, h, vs) = Inr msg"
  shows "get_msg_type msg = Inr (elog_code t) \<and> Msg_extract t msg = Inr (h, vs)"
proof -
  obtain a b where ab: "pack_fields hdr_fmt (hdr_vals t h) = Inr a" "pack_fields (struct_of t) (map FInt vs) = Inr b"
    "msg = a @ b"
    using assms by (auto simp: elog_encode_def res_bind_Inr_iff)
  obtain ns where ns: "hdr_vals t h = map FInt ns" using hdr_vals_FInt by blast
  have a: "unpack_fields hdr_fmt (a @ b) 0 = Inr (hdr_vals t h)" "length a = fmt_size hdr_fmt"
    using unpack_ints(1) [of hdr_fmt ns a b] unpack_ints(2) [of hdr_fmt ns a] ab(1) ns by simp_all
  have b: "unpack_fields (struct_of t) b 0 = Inr (map FInt vs)" "length b = fmt_size (struct_of t)"
    using unpack_ints(1) [OF ab(2), of "[]"] unpack_ints(2) [OF ab(2)] by simp_all
  obtain a0 a1 where a0: "pack Fmt_i (FInt (elog_code t)) = Inr a0" "a = a0 @ a1"
    using ab(1) by (auto simp: hdr_fmt_def hdr_vals_def res_bind_Inr_iff)
  have "unpack_fields [Fmt_i] (a0 @ []) 0 = Inr [FInt (elog_code t)] \<and> length a0 = 4"
    using unpack_ints(1) [of "[Fmt_i]" "[elog_code t]" a0 "[]"] length_pack [OF a0(1)] a0(1) by simp
  then have "get_msg_type (a0 @ a1 @ b) = Inr (elog_code t)"
    by (simp add: get_msg_type_def unpack_def fmt_size_def fval_int_def)
  moreover have "Msg_extract t (a @ b) = Inr (h, vs)"
    using a b by (simp add: Msg_extract_def extract_hdr_def unpack_def) (simp add: hdr_vals_def fval_int_def)
  ultimately show ?thesis using ab(3) a0(2) by simp
qed

text \<open>
  A message of any class, laid out as a header of 36 bytes and the values of the class, is
  recognised as a message of that class and read back with the same header and the same values.
\<close>

theorem elog_roundtrip:
  assumes "elog_encode (t, h, vs) = Inr msg"
  shows "get_msg_type msg = Inr (elog_code t) \<and> get_msg_class (elog_code t) = Inr t \<and>
    Msg_extract t msg = Inr (h, vs)"
  using elog_decode [OF assms] get_msg_class_code by simp

lemma handle_msg_prints:
  assumes "elog_encode (t, h, vs) = Inr msg" "t \<noteq> E_CONFIG_CHANGE"
  shows "handle_msg api msg w = (Inr (), w\<lparr>events := events w @ [Out (elog_str (the_names w) t h vs)]\<rparr>)"
  using elog_decode [OF assms(1)] assms(2) by (simp add: handle_msg_def io_simps get_msg_class_code)


definition a_hit :: "elog_type \<times> elog_hdr \<times> int list" where
  "a_hit = (E_TABLE_HIT, \<lparr>h_switch_id = 0, h_cxt_id = 0, h_sig = 5, h_id = 9, h_copy_id = 0\<rparr>, [3, 17])"

theorem elog_roundtrip_witness:
  "let msg = projr (elog_encode a_hit); (t, h, vs) = a_hit in
   get_msg_type msg = Inr (elog_code t) \<and> get_msg_class (elog_code t) = Inr t \<and> Msg_extract t msg = Inr (h, vs)"
proof -
  have "elog_encode a_hit = Inr (projr (elog_encode a_hit))" by code_simp
  then show ?thesis using elog_roundtrip unfolding a_hit_def Let_def by fast
qed


end
